(* ===== verification/Lavc_Prelude.thy ===== *)
theory Lavc_Prelude
  imports Complex_Main "HOL-Library.Word" "HOL-Library.Char_ord" "HOL-Library.List_Lexorder"
begin

text \<open>
  Shared vocabulary of the libavcodec encoder model: the C string primitives the
  option parser and the encoder-family dispatch use (\<open>strstr\<close>, \<open>strncasecmp\<close>,
  \<open>strtok_r\<close>, \<open>strchr\<close>, \<open>atoi\<close>, \<open>stoi\<close>, \<open>toupper\<close>), the C \<open>double\<close> with its
  NaN, the ordered map that stands for \<open>std::map<string,string>\<close>, and the lemmas
  the component theories share.  The string primitives belong to the C and C++
  libraries, not to the repository; they are written out here so that the model of
  the repository's code is executable.
\<close>

named_theorems lavc_str "evaluation rules of the string primitives"

section \<open>Characters and C string predicates\<close>

definition lower_ascii :: "char \<Rightarrow> char" where
  "lower_ascii c =
     (if CHR ''A'' \<le> c \<and> c \<le> CHR ''Z'' then char_of (of_char c + (32::nat)) else c)"

definition upper_ascii :: "char \<Rightarrow> char" where
  "upper_ascii c =
     (if CHR ''a'' \<le> c \<and> c \<le> CHR ''z'' then char_of (of_char c - (32::nat)) else c)"

text \<open>\<open>strstr(s, p) == s\<close>: the first occurrence of \<open>p\<close> is at the start.\<close>

definition starts_with :: "string \<Rightarrow> string \<Rightarrow> bool" where
  "starts_with p s \<longleftrightarrow> take (length p) s = p"

text \<open>\<open>strstr(s, p) != NULL\<close>.\<close>

fun contains :: "string \<Rightarrow> string \<Rightarrow> bool" where
  "contains p [] \<longleftrightarrow> p = []"
| "contains p (c # cs) \<longleftrightarrow> starts_with p (c # cs) \<or> contains p cs"

text \<open>\<open>regex_match(s, regex(".*p"))\<close>: the whole string matches, so it ends with \<open>p\<close>.\<close>

definition ends_with :: "string \<Rightarrow> string \<Rightarrow> bool" where
  "ends_with p s \<longleftrightarrow> starts_with (rev p) (rev s)"

text \<open>\<open>strncasecmp(p, s, strlen(p)) == 0\<close> and \<open>strcasecmp(s, p) == 0\<close>.\<close>

definition ci_prefix :: "string \<Rightarrow> string \<Rightarrow> bool" where
  "ci_prefix p s \<longleftrightarrow> map lower_ascii (take (length p) s) = map lower_ascii p"

definition ci_eq :: "string \<Rightarrow> string \<Rightarrow> bool" where
  "ci_eq p s \<longleftrightarrow> map lower_ascii s = map lower_ascii p"

text \<open>\<open>strchr(s, c) + 1\<close> and \<open>string(s, strchr(s, c))\<close>: what follows and what
  precedes the first occurrence of \<open>c\<close>.\<close>

definition after_char :: "char \<Rightarrow> string \<Rightarrow> string" where
  "after_char c s = drop 1 (dropWhile (\<lambda>x. x \<noteq> c) s)"

definition before_char :: "char \<Rightarrow> string \<Rightarrow> string" where
  "before_char c s = takeWhile (\<lambda>x. x \<noteq> c) s"

lemmas [lavc_str] = starts_with_def ends_with_def ci_prefix_def ci_eq_def
  lower_ascii_def upper_ascii_def after_char_def before_char_def

lemma starts_with_Nil [simp]: "starts_with [] s"
  by (simp add: starts_with_def)

lemma starts_with_Cons:
  "starts_with (a # p) s \<longleftrightarrow> (\<exists>c cs. s = c # cs \<and> c = a \<and> starts_with p cs)"
  by (cases s) (auto simp: starts_with_def)

lemma starts_with_append [simp]: "starts_with p (p @ s)"
  by (simp add: starts_with_def)

lemma starts_with_iff: "starts_with p s \<longleftrightarrow> (\<exists>v. s = p @ v)"
  by (auto simp: starts_with_def) (metis append_take_drop_id)

lemma contains_starts_with: "starts_with p s \<Longrightarrow> contains p s"
  by (cases s) (auto simp: starts_with_def)

lemma contains_iff: "contains p s \<longleftrightarrow> (\<exists>u v. s = u @ p @ v)"
proof (induction s)
  case Nil
  then show ?case by simp
next
  case (Cons c cs)
  have "starts_with p (c # cs) \<longleftrightarrow> (\<exists>v. c # cs = p @ v)"
    by (rule starts_with_iff)
  moreover have "(\<exists>u v. c # cs = u @ p @ v) \<longleftrightarrow> (\<exists>v. c # cs = p @ v) \<or> (\<exists>u v. cs = u @ p @ v)"
    by (auto simp: Cons_eq_append_conv)
  ultimately show ?case using Cons.IH by simp
qed

lemma contains_append_left: "contains p s \<Longrightarrow> contains p (u @ s)"
  by (auto simp: contains_iff) (metis append.assoc)

section \<open>Tokenising: \<open>strtok_r\<close>\<close>

text \<open>
  \<open>strtok_r(s, ":", &save)\<close> called until it returns NULL yields the maximal runs of
  non-delimiter characters: a run of delimiters yields no empty token.  \<open>split_on\<close>
  cuts at every delimiter; \<open>strtok_tokens\<close> drops the empty pieces as \<open>strtok_r\<close>
  does.
\<close>

fun split_on :: "char \<Rightarrow> string \<Rightarrow> string list" where
  "split_on d [] = [[]]"
| "split_on d (c # cs) =
     (let r = split_on d cs in if c = d then [] # r else (c # hd r) # tl r)"

definition strtok_tokens :: "char \<Rightarrow> string \<Rightarrow> string list" where
  "strtok_tokens d s = filter (\<lambda>w. w \<noteq> []) (split_on d s)"

fun join_on :: "char \<Rightarrow> string list \<Rightarrow> string" where
  "join_on d [] = []"
| "join_on d [w] = w"
| "join_on d (w # ws) = w @ d # join_on d ws"

lemma split_on_nonempty [simp]: "split_on d s \<noteq> []"
  by (induction s) (auto simp: Let_def)

lemma split_on_append_free:
  "d \<notin> set w \<Longrightarrow> split_on d (w @ d # s) = w # split_on d s"
  by (induction w) (auto simp: Let_def)

lemma split_on_free: "d \<notin> set w \<Longrightarrow> split_on d w = [w]"
  by (induction w) (auto simp: Let_def)

lemma split_on_join_on:
  "ws \<noteq> [] \<Longrightarrow> \<forall>w \<in> set ws. d \<notin> set w \<Longrightarrow> split_on d (join_on d ws) = ws"
  by (induction d ws rule: join_on.induct) (auto simp: split_on_free split_on_append_free)

lemma strtok_tokens_join_on:
  assumes "\<forall>w \<in> set ws. w \<noteq> [] \<and> d \<notin> set w"
  shows "strtok_tokens d (join_on d ws) = ws"
proof (cases ws)
  case Nil
  then show ?thesis by (simp add: strtok_tokens_def)
next
  case (Cons w ws')
  with assms have "split_on d (join_on d ws) = ws"
    by (simp add: split_on_join_on)
  with assms show ?thesis
    by (simp add: strtok_tokens_def filter_id_conv)
qed

section \<open>\<open>replace_all\<close> of \<open>utils/string.c\<close>\<close>

text \<open>
  \<open>replace_all(in, from, to)\<close> overwrites, from left to right and without overlap,
  every occurrence of \<open>from\<close> by \<open>to\<close> (of the same length) in place.
\<close>

fun replace_all :: "string \<Rightarrow> string \<Rightarrow> string \<Rightarrow> string" where
  "replace_all pat rep [] = []"
| "replace_all pat rep (c # cs) =
     (if pat \<noteq> [] \<and> starts_with pat (c # cs)
      then rep @ replace_all pat rep (drop (length pat) (c # cs))
      else c # replace_all pat rep cs)"

lemma replace_all_free: "\<not> contains pat s \<Longrightarrow> replace_all pat rep s = s"
  by (induction pat rep s rule: replace_all.induct) (auto simp: contains_starts_with)

section \<open>C numeric conversions: \<open>atoi\<close> and \<open>std::stoi\<close>\<close>

definition c_isspace :: "char \<Rightarrow> bool" where
  "c_isspace c \<longleftrightarrow> of_char c = (32::nat) \<or> (9 \<le> (of_char c::nat) \<and> (of_char c::nat) \<le> 13)"

definition c_isdigit :: "char \<Rightarrow> bool" where
  "c_isdigit c \<longleftrightarrow> CHR ''0'' \<le> c \<and> c \<le> CHR ''9''"

definition digit_val :: "char \<Rightarrow> int" where
  "digit_val c = int (of_char c) - 48"

text \<open>The digits at the front of a string: their value (after \<open>acc\<close>) and their count.\<close>

fun scan_digits :: "int \<Rightarrow> string \<Rightarrow> int \<times> nat" where
  "scan_digits acc [] = (acc, 0)"
| "scan_digits acc (c # cs) =
     (if c_isdigit c then (let (v, n) = scan_digits (10 * acc + digit_val c) cs in (v, Suc n))
      else (acc, 0))"

definition sign_prefix :: "string \<Rightarrow> int \<times> nat" where
  "sign_prefix r = (case r of
       c # _ \<Rightarrow> if c = CHR ''-'' then (-1, 1) else if c = CHR ''+'' then (1, 1) else (1, 0)
     | [] \<Rightarrow> (1, 0))"

text \<open>
  The common grammar of \<open>atoi\<close>, \<open>strtol\<close> and \<open>stoi\<close>: white space, an optional sign,
  decimal digits.  The result is the value and the index just past the last digit
  (\<open>stoi\<close>'s \<open>idx\<close>), or None when no digit follows.
\<close>

definition scan_int :: "string \<Rightarrow> (int \<times> nat) option" where
  "scan_int s =
     (let ws = length (takeWhile c_isspace s); r = drop ws s; sp = sign_prefix r;
          dv = scan_digits 0 (drop (snd sp) r)
      in if snd dv = 0 then None else Some (fst sp * fst dv, ws + snd sp + snd dv))"

text \<open>\<open>atoi\<close>: 0 where no number starts the string.  Overflow is undefined in C and is
  not modelled: the value is the mathematical one.\<close>

definition c_atoi :: "string \<Rightarrow> int" where
  "c_atoi s = (case scan_int s of None \<Rightarrow> 0 | Some (v, _) \<Rightarrow> v)"

text \<open>\<open>std::stoi\<close> throws \<open>invalid_argument\<close> without digits and \<open>out_of_range\<close>
  beyond a 32-bit \<open>int\<close>.\<close>

datatype stoi_result = Stoi_Ok int nat | Stoi_Invalid | Stoi_Range

definition c_stoi :: "string \<Rightarrow> stoi_result" where
  "c_stoi s = (case scan_int s of
       None \<Rightarrow> Stoi_Invalid
     | Some (v, n) \<Rightarrow> if - (2 ^ 31) \<le> v \<and> v < 2 ^ 31 then Stoi_Ok v n else Stoi_Range)"

lemmas [lavc_str] = c_isspace_def c_isdigit_def digit_val_def sign_prefix_def scan_int_def c_atoi_def c_stoi_def

lemma scan_digits_bound: "snd (scan_digits acc s) \<le> length s"
  by (induction acc s rule: scan_digits.induct) (auto simp: Let_def split: prod.splits)

lemma sign_prefix_bound: "snd (sign_prefix r) \<le> length r"
  by (auto simp: sign_prefix_def split: list.splits)

lemma scan_int_endpos: "scan_int s = Some (v, n) \<Longrightarrow> 0 < n \<and> n \<le> length s"
proof -
  assume a: "scan_int s = Some (v, n)"
  let ?ws = "length (takeWhile c_isspace s)"
  let ?r = "drop ?ws s"
  let ?k = "snd (scan_digits 0 (drop (snd (sign_prefix ?r)) ?r))"
  have n: "n = ?ws + snd (sign_prefix ?r) + ?k" and k: "?k \<noteq> 0"
    using a by (auto simp: scan_int_def Let_def split: if_splits)
  have "?k \<le> length ?r - snd (sign_prefix ?r)"
    using scan_digits_bound [of 0 "drop (snd (sign_prefix ?r)) ?r"] by simp
  moreover have "snd (sign_prefix ?r) \<le> length ?r" by (rule sign_prefix_bound)
  moreover have "?ws \<le> length s" by (rule length_takeWhile_le)
  ultimately show ?thesis using n k by auto
qed

text \<open>C integer division truncates towards zero (HOL's \<open>div\<close> rounds down).\<close>

definition c_div :: "int \<Rightarrow> int \<Rightarrow> int" where
  "c_div a b = sgn a * sgn b * (\<bar>a\<bar> div \<bar>b\<bar>)"

lemma c_div_nonneg [simp]: "0 \<le> a \<Longrightarrow> 0 < b \<Longrightarrow> c_div a b = a div b"
  by (cases "a = 0") (auto simp: c_div_def sgn_if)

text \<open>Conversion of a \<open>double\<close> to an integer type truncates towards zero.\<close>

definition c_trunc :: "real \<Rightarrow> int" where
  "c_trunc x = (if 0 \<le> x then \<lfloor>x\<rfloor> else - \<lfloor>- x\<rfloor>)"

lemma c_trunc_nonneg [simp]: "0 \<le> x \<Longrightarrow> c_trunc x = \<lfloor>x\<rfloor>"
  by (simp add: c_trunc_def)

lemma c_trunc_of_int [simp]: "c_trunc (of_int i) = i"
  by (simp add: c_trunc_def)

text \<open>\<open>std::to_string\<close> of an integer: its decimal digits, with a leading minus.\<close>

fun nat_to_digits :: "nat \<Rightarrow> string" where
  "nat_to_digits n =
     (if n < 10 then [char_of (48 + n)] else nat_to_digits (n div 10) @ [char_of (48 + n mod 10)])"

declare nat_to_digits.simps [simp del]

definition int_to_string :: "int \<Rightarrow> string" where
  "int_to_string i = (if i < 0 then CHR ''-'' # nat_to_digits (nat (- i)) else nat_to_digits (nat i))"

lemmas [lavc_str] = nat_to_digits.simps int_to_string_def

section \<open>C \<open>double\<close>: comparisons with NaN are false\<close>

text \<open>
  \<open>atof\<close> and \<open>unit_evaluate_dbl\<close> may yield NaN, and the code compares the stored
  value with \<open>>\<close>, \<open>>=\<close> and \<open>==\<close>; every such comparison with NaN is false.
  Infinities are not modelled.
\<close>

datatype c_double = Fin real | NaN

fun dbl_less :: "c_double \<Rightarrow> c_double \<Rightarrow> bool" where
  "dbl_less (Fin a) (Fin b) \<longleftrightarrow> a < b"
| "dbl_less _ _ \<longleftrightarrow> False"

fun dbl_le :: "c_double \<Rightarrow> c_double \<Rightarrow> bool" where
  "dbl_le (Fin a) (Fin b) \<longleftrightarrow> a \<le> b"
| "dbl_le _ _ \<longleftrightarrow> False"

fun dbl_eq :: "c_double \<Rightarrow> c_double \<Rightarrow> bool" where
  "dbl_eq (Fin a) (Fin b) \<longleftrightarrow> a = b"
| "dbl_eq _ _ \<longleftrightarrow> False"

lemma dbl_NaN_compare [simp]:
  "\<not> dbl_less NaN x" "\<not> dbl_less x NaN" "\<not> dbl_le NaN x" "\<not> dbl_le x NaN"
  "\<not> dbl_eq NaN x" "\<not> dbl_eq x NaN"
  by (cases x; simp)+

section \<open>\<open>std::map\<close>: a sorted association list\<close>

text \<open>
  \<open>std::map<string, string>\<close> keeps its keys sorted and unique, and a range-for visits
  them in ascending order; \<open>m[k] = v\<close> inserts or overwrites.  It is modelled as an
  association list sorted by strictly ascending keys (\<open>om_wf\<close>); \<open>string\<close> is
  ordered lexicographically by unsigned character, as \<open>std::string::compare\<close> does.
\<close>

type_synonym ('k, 'v) omap = "('k \<times> 'v) list"

definition om_wf :: "('k::linorder, 'v) omap \<Rightarrow> bool" where
  "om_wf m \<longleftrightarrow> sorted_wrt (<) (map fst m)"

fun om_update :: "'k::linorder \<Rightarrow> 'v \<Rightarrow> ('k, 'v) omap \<Rightarrow> ('k, 'v) omap" where
  "om_update k v [] = [(k, v)]"
| "om_update k v ((k', v') # m) =
     (if k < k' then (k, v) # (k', v') # m
      else if k = k' then (k, v) # m
      else (k', v') # om_update k v m)"

abbreviation om_lookup :: "('k, 'v) omap \<Rightarrow> 'k \<Rightarrow> 'v option" where
  "om_lookup m \<equiv> map_of m"

lemma om_lookup_update [simp]: "om_lookup (om_update k v m) = (om_lookup m)(k \<mapsto> v)"
  by (induction k v m rule: om_update.induct) (auto simp: fun_eq_iff)

lemma om_keys_update [simp]: "set (map fst (om_update k v m)) = insert k (set (map fst m))"
  by (induction k v m rule: om_update.induct) auto

lemma om_keys_update_mem: "(a, b) \<in> set (om_update k v m) \<Longrightarrow> a = k \<or> a \<in> fst ` set m"
  using om_keys_update [of k v m] by force

lemma om_wf_update [simp]: "om_wf m \<Longrightarrow> om_wf (om_update k v m)"
proof (induction k v m rule: om_update.induct)
  case (1 k v)
  then show ?case by (simp add: om_wf_def)
next
  case (2 k v k' v' m)
  consider "k < k'" | "k = k'" | "k' < k" by fastforce
  then show ?case
  proof cases
    case 3
    from "2.prems" have m: "om_wf m" and lt: "\<forall>x \<in> set m. k' < fst x"
      by (simp_all add: om_wf_def)
    from 3 m have wf: "om_wf (om_update k v m)"
      by (intro "2.IH") auto
    have "\<forall>x \<in> set (om_update k v m). k' < fst x"
      using lt 3 by (fastforce dest: om_keys_update_mem)
    moreover have "\<not> k < k'" "k \<noteq> k'" using 3 by auto
    ultimately show ?thesis using wf by (simp add: om_wf_def)
  qed (use "2.prems" in \<open>auto simp: om_wf_def\<close>)
qed

lemma om_wf_distinct: "om_wf m \<Longrightarrow> distinct (map fst m)"
  by (simp add: om_wf_def strict_sorted_iff)


end
