(* ===== verification/Lavc_Common.thy ===== *)
theory Lavc_Common
  imports Lavc_Prelude
begin

text \<open>
  The data both sides of the encoder share, and \<open>src/libavcodec/lavc_common.c\<close>:
  UltraGrid's codec identifiers (\<open>codec_t\<close>) and FFmpeg's (\<open>AVCodecID\<close>), the
  translation table between them (\<open>av_to_uv_map\<close>, \<open>get_av_to_ug_codec\<close>,
  \<open>get_ug_to_av_codec\<close>), the codecs that carry extradata, the translation of log
  levels (\<open>av_to_uv_log\<close>, \<open>uv_to_av_log\<close>, \<open>ug_set_av_logging\<close>), the message
  filter, and the subsampling queries on pixel-format descriptors.  It also fixes the
  interface of the collaborators the encoder calls and does not implement: FFmpeg's
  encoder registry, option setter and open call, the conversion stage and the
  command-line parameter store (\<open>lavc_env\<close>).
\<close>

section \<open>Codec identifiers\<close>

text \<open>\<open>codec_t\<close> of \<open>types.h\<close>: the compressed codecs the encoder produces and the
  uncompressed formats frames arrive in (a representative subset).\<close>

datatype codec_t =
    VIDEO_CODEC_NONE | H264 | H265 | MJPG | J2K | VP8 | VP9 | HFYU | FFV1 | AV1 | PRORES
  | UYVY | YUYV | V210 | RGB | RGBA | R10k | R12L | I420

datatype av_codec_id =
    AV_CODEC_ID_NONE | AV_CODEC_ID_H264 | AV_CODEC_ID_HEVC | AV_CODEC_ID_MJPEG
  | AV_CODEC_ID_JPEG2000 | AV_CODEC_ID_VP8 | AV_CODEC_ID_VP9 | AV_CODEC_ID_HUFFYUV
  | AV_CODEC_ID_FFV1 | AV_CODEC_ID_AV1 | AV_CODEC_ID_PRORES
  | AV_CODEC_ID_OTHER nat \<comment> \<open>any codec UltraGrid has no name for\<close>

definition av_to_uv_map :: "(av_codec_id \<times> codec_t) list" where
  "av_to_uv_map =
     [(AV_CODEC_ID_H264, H264), (AV_CODEC_ID_HEVC, H265), (AV_CODEC_ID_MJPEG, MJPG),
      (AV_CODEC_ID_JPEG2000, J2K), (AV_CODEC_ID_VP8, VP8), (AV_CODEC_ID_VP9, VP9),
      (AV_CODEC_ID_HUFFYUV, HFYU), (AV_CODEC_ID_FFV1, FFV1), (AV_CODEC_ID_AV1, AV1),
      (AV_CODEC_ID_PRORES, PRORES)]"

text \<open>The two loops over the table: the first entry whose column matches.\<close>

fun av_to_ug_scan :: "(av_codec_id \<times> codec_t) list \<Rightarrow> av_codec_id \<Rightarrow> codec_t" where
  "av_to_ug_scan [] a = VIDEO_CODEC_NONE"
| "av_to_ug_scan ((a', u) # m) a = (if a' = a then u else av_to_ug_scan m a)"

fun ug_to_av_scan :: "(av_codec_id \<times> codec_t) list \<Rightarrow> codec_t \<Rightarrow> av_codec_id" where
  "ug_to_av_scan [] u = AV_CODEC_ID_NONE"
| "ug_to_av_scan ((a, u') # m) u = (if u' = u then a else ug_to_av_scan m u)"

definition get_av_to_ug_codec :: "av_codec_id \<Rightarrow> codec_t" where
  "get_av_to_ug_codec a = av_to_ug_scan av_to_uv_map a"

definition get_ug_to_av_codec :: "codec_t \<Rightarrow> av_codec_id" where
  "get_ug_to_av_codec u = ug_to_av_scan av_to_uv_map u"

definition libav_codec_has_extradata :: "codec_t \<Rightarrow> bool" where
  "libav_codec_has_extradata c \<longleftrightarrow> c = HFYU \<or> c = FFV1"

section \<open>Log levels\<close>

text \<open>UltraGrid's levels (\<open>debug.h\<close>) and FFmpeg's (\<open>libavutil/log.h\<close>).\<close>

definition LOG_LEVEL_QUIET :: int where "LOG_LEVEL_QUIET = 0"
definition LOG_LEVEL_NOTICE :: int where "LOG_LEVEL_NOTICE = 4"
definition LOG_LEVEL_INFO :: int where "LOG_LEVEL_INFO = 5"
definition AV_LOG_QUIET :: int where "AV_LOG_QUIET = -8"
definition AV_LOG_INFO :: int where "AV_LOG_INFO = 32"

definition av_to_uv_log :: "int \<Rightarrow> int" where
  "av_to_uv_log level0 =
     (let level = c_div level0 8
      in if level \<le> 0 then level + 1 else if level \<le> 3 then level else level + 1)"

definition uv_to_av_log :: "int \<Rightarrow> int" where
  "uv_to_av_log level0 =
     (let level = level0 * 8
      in if level = 8 * LOG_LEVEL_QUIET then level - 8
         else if level \<le> 8 * LOG_LEVEL_NOTICE then level else level - 8)"

text \<open>\<open>av_log_filter\<close>: 1 (filtered) for the MJPEG decoder's complaints on APP markers.\<close>

definition av_log_filter :: "string option \<Rightarrow> string \<Rightarrow> bool" where
  "av_log_filter ff_module_name fmt \<longleftrightarrow>
     ff_module_name = Some ''mjpeg'' \<and> contains ''APP'' fmt"

text \<open>
  \<open>ug_set_av_logging\<close>: the FFmpeg log level and whether FFmpeg's default handler
  replaces UltraGrid's, from the global log level and the optional
  \<open>lavcd-log-level=<num>[U][D]\<close> parameter.
\<close>

definition ug_set_av_logging :: "int \<Rightarrow> string option \<Rightarrow> int \<times> bool" where
  "ug_set_av_logging log_level param =
     (case param of
        None \<Rightarrow> (uv_to_av_log log_level, False)
      | Some p \<Rightarrow>
          (let (lvl, endptr) =
                 (case scan_int p of
                    None \<Rightarrow> (uv_to_av_log log_level, p)
                  | Some (v, n) \<Rightarrow>
                      (if CHR ''U'' \<in> set (drop n p) then uv_to_av_log v else v, drop n p))
           in (lvl, CHR ''D'' \<in> set endptr)))"

section \<open>Pixel formats and their descriptors\<close>

datatype av_pixfmt =
    AV_PIX_FMT_YUV420P | AV_PIX_FMT_YUV422P | AV_PIX_FMT_YUV444P
  | AV_PIX_FMT_YUV420P10LE | AV_PIX_FMT_YUV422P10LE | AV_PIX_FMT_YUV444P10LE
  | AV_PIX_FMT_YUVJ420P | AV_PIX_FMT_YUVJ422P | AV_PIX_FMT_YUVJ444P
  | AV_PIX_FMT_NV12 | AV_PIX_FMT_P010LE | AV_PIX_FMT_UYVY422 | AV_PIX_FMT_YUYV422
  | AV_PIX_FMT_GBRP | AV_PIX_FMT_GBRP10LE | AV_PIX_FMT_GBRP16LE | AV_PIX_FMT_X2RGB10LE
  | AV_PIX_FMT_RGB24 | AV_PIX_FMT_VAAPI | AV_PIX_FMT_CUDA

text \<open>The fields of \<open>AVPixFmtDescriptor\<close> the encoder reads.\<close>

record av_pix_desc =
  log2_chroma_w :: nat
  log2_chroma_h :: nat
  comp0_depth :: nat
  flag_rgb :: bool
  flag_hwaccel :: bool

definition mk_pix_desc :: "nat \<Rightarrow> nat \<Rightarrow> nat \<Rightarrow> bool \<Rightarrow> bool \<Rightarrow> av_pix_desc" where
  "mk_pix_desc w h d r hw =
     \<lparr>log2_chroma_w = w, log2_chroma_h = h, comp0_depth = d, flag_rgb = r, flag_hwaccel = hw\<rparr>"

text \<open>\<open>av_pix_fmt_desc_get\<close>: FFmpeg's descriptor table for the formats above.\<close>

fun av_pix_fmt_desc_get :: "av_pixfmt \<Rightarrow> av_pix_desc option" where
  "av_pix_fmt_desc_get AV_PIX_FMT_YUV420P = Some (mk_pix_desc 1 1 8 False False)"
| "av_pix_fmt_desc_get AV_PIX_FMT_YUV422P = Some (mk_pix_desc 1 0 8 False False)"
| "av_pix_fmt_desc_get AV_PIX_FMT_YUV444P = Some (mk_pix_desc 0 0 8 False False)"
| "av_pix_fmt_desc_get AV_PIX_FMT_YUV420P10LE = Some (mk_pix_desc 1 1 10 False False)"
| "av_pix_fmt_desc_get AV_PIX_FMT_YUV422P10LE = Some (mk_pix_desc 1 0 10 False False)"
| "av_pix_fmt_desc_get AV_PIX_FMT_YUV444P10LE = Some (mk_pix_desc 0 0 10 False False)"
| "av_pix_fmt_desc_get AV_PIX_FMT_YUVJ420P = Some (mk_pix_desc 1 1 8 False False)"
| "av_pix_fmt_desc_get AV_PIX_FMT_YUVJ422P = Some (mk_pix_desc 1 0 8 False False)"
| "av_pix_fmt_desc_get AV_PIX_FMT_YUVJ444P = Some (mk_pix_desc 0 0 8 False False)"
| "av_pix_fmt_desc_get AV_PIX_FMT_NV12 = Some (mk_pix_desc 1 1 8 False False)"
| "av_pix_fmt_desc_get AV_PIX_FMT_P010LE = Some (mk_pix_desc 1 1 10 False False)"
| "av_pix_fmt_desc_get AV_PIX_FMT_UYVY422 = Some (mk_pix_desc 1 0 8 False False)"
| "av_pix_fmt_desc_get AV_PIX_FMT_YUYV422 = Some (mk_pix_desc 1 0 8 False False)"
| "av_pix_fmt_desc_get AV_PIX_FMT_GBRP = Some (mk_pix_desc 0 0 8 True False)"
| "av_pix_fmt_desc_get AV_PIX_FMT_GBRP10LE = Some (mk_pix_desc 0 0 10 True False)"
| "av_pix_fmt_desc_get AV_PIX_FMT_GBRP16LE = Some (mk_pix_desc 0 0 16 True False)"
| "av_pix_fmt_desc_get AV_PIX_FMT_X2RGB10LE = Some (mk_pix_desc 0 0 10 True False)"
| "av_pix_fmt_desc_get AV_PIX_FMT_RGB24 = Some (mk_pix_desc 0 0 8 True False)"
| "av_pix_fmt_desc_get AV_PIX_FMT_VAAPI = Some (mk_pix_desc 0 0 0 False True)"
| "av_pix_fmt_desc_get AV_PIX_FMT_CUDA = Some (mk_pix_desc 0 0 0 False True)"

text \<open>\<open>av_pixfmt_get_subsampling\<close>: the subsampling in \<open>JabA\<close> form, 0 for other ones.
  The source dereferences the descriptor unchecked; every format here has one.\<close>

definition av_pixfmt_get_subsampling :: "av_pixfmt \<Rightarrow> int" where
  "av_pixfmt_get_subsampling fmt =
     (case av_pix_fmt_desc_get fmt of
        None \<Rightarrow> 0
      | Some pd \<Rightarrow>
          if log2_chroma_w pd = 0 \<and> log2_chroma_h pd = 0 then 4440
          else if log2_chroma_w pd = 1 \<and> log2_chroma_h pd = 0 then 4220
          else if log2_chroma_w pd = 1 \<and> log2_chroma_h pd = 1 then 4200
          else 0)"

definition pixfmt_has_420_subsampling :: "av_pixfmt \<Rightarrow> bool" where
  "pixfmt_has_420_subsampling fmt \<longleftrightarrow>
     (case av_pix_fmt_desc_get fmt of
        None \<Rightarrow> False
      | Some d \<Rightarrow> log2_chroma_w d = 1 \<and> log2_chroma_h d = 1)"

text \<open>\<open>pixfmt_list_has_420_subsampling\<close>: every format is 4:2:0 or hardware.\<close>

fun pixfmt_list_has_420_subsampling :: "av_pixfmt list \<Rightarrow> bool" where
  "pixfmt_list_has_420_subsampling [] \<longleftrightarrow> True"
| "pixfmt_list_has_420_subsampling (f # fs) \<longleftrightarrow>
     (if \<not> pixfmt_has_420_subsampling f \<and>
         \<not> (case av_pix_fmt_desc_get f of Some d \<Rightarrow> flag_hwaccel d | None \<Rightarrow> False)
      then False else pixfmt_list_has_420_subsampling fs)"

section \<open>Stream descriptions\<close>

datatype interlacing_t =
  PROGRESSIVE | UPPER_FIELD_FIRST | LOWER_FIELD_FIRST | INTERLACED_MERGED | SEGMENTED_FRAME

text \<open>\<open>struct video_desc\<close> of \<open>types.h\<close>.\<close>

record video_desc =
  width :: nat
  height :: nat
  color_spec :: codec_t
  interlacing :: interlacing_t
  fps :: real
  tile_count :: nat

text \<open>The all-zero description \<open>memset\<close> produces: it equals no real stream's.\<close>

definition zero_desc :: video_desc where
  "zero_desc = \<lparr>width = 0, height = 0, color_spec = VIDEO_CODEC_NONE,
                interlacing = PROGRESSIVE, fps = 0, tile_count = 0\<rparr>"

text \<open>\<open>video_desc_eq_excl_param(a, b, PARAM_TILE_COUNT)\<close>.\<close>

definition video_desc_eq_excl_tiles :: "video_desc \<Rightarrow> video_desc \<Rightarrow> bool" where
  "video_desc_eq_excl_tiles a b \<longleftrightarrow>
     width a = width b \<and> height a = height b \<and> color_spec a = color_spec b \<and>
     interlacing a = interlacing b \<and> fps a = fps b"

section \<open>FFmpeg encoders and the collaborators of the encoder\<close>

text \<open>The fields of \<open>AVCodec\<close> the encoder reads.  \<open>pix_fmts\<close> is None for NULL.\<close>

record avcodec =
  codec_name :: string
  codec_id :: av_codec_id
  pix_fmts :: "av_pixfmt list option"
  cap_slice_threads :: bool
  cap_frame_threads :: bool
  cap_other_threads :: bool

text \<open>A value given to \<open>av_opt_set\<close>, \<open>av_opt_set_int\<close> or \<open>av_opt_set_double\<close>.\<close>

datatype opt_val = OInt int | ODbl real | OStr string

text \<open>\<open>struct to_lavc_req_prop\<close>: the conversion properties the user forces.\<close>

record to_lavc_req_prop =
  subsampling :: int
  depth :: int
  rgb :: int
  force_conv_to :: codec_t

text \<open>
  The fields of \<open>AVCodecContext\<close> the encoder writes or reads.  \<open>priv_opts\<close> are the
  private options set successfully through \<open>av_opt_set*\<close> (\<open>priv_data\<close>).
  \<open>thread_type\<close> holds the bits \<open>FF_THREAD_FRAME\<close> (1) and \<open>FF_THREAD_SLICE\<close> (2).
\<close>

record codec_ctx =
  ctx_codec :: avcodec
  bit_rate :: int
  bit_rate_tolerance :: int
  flag_qscale :: bool
  flag_interlaced_dct :: bool
  qmin :: int
  qmax :: int
  global_quality :: int
  max_qdiff :: int
  qcompress :: real
  refs :: int
  rc_max_rate :: int
  rc_buffer_size :: int
  strict_std_compliance :: int
  ctx_width :: nat
  ctx_height :: nat
  time_base_den :: int
  gop_size :: int
  max_b_frames :: int
  pix_fmt :: av_pixfmt
  bits_per_raw_sample :: int
  thread_type :: int
  thread_count :: int
  ctx_slices :: int
  priv_opts :: "(string, opt_val) omap"

text \<open>
  The collaborators: the command-line parameter store (\<open>get_commandline_param\<close>), the
  codec-name lookup, the unit-aware number parsers, FFmpeg's encoder lookup, whether
  an option assignment on an encoder's private data succeeds, whether
  \<open>avcodec_open2\<close> succeeds for a pixel format, the conversion stage's list of
  formats it can produce, facts about UltraGrid codecs, \<open>std::stof\<close> (None where it
  throws), the CUDA device of \<open>--cuda-device\<close>, whether the VA-API device and frame
  pool can be created (\<open>vaapi_init\<close>), and \<open>avcodec_alloc_context3\<close> with the
  encoder's defaults (None where allocation fails).
\<close>

record lavc_env =
  get_commandline_param :: "string \<Rightarrow> string option"
  get_codec_from_name :: "string \<Rightarrow> codec_t"
  unit_evaluate :: "string \<Rightarrow> int"
  unit_evaluate_dbl :: "string \<Rightarrow> c_double"
  c_atof :: "string \<Rightarrow> c_double"
  avcodec_find_encoder_by_name :: "string \<Rightarrow> avcodec option"
  avcodec_find_encoder :: "av_codec_id \<Rightarrow> avcodec option"
  opt_set_ok :: "string \<Rightarrow> string \<Rightarrow> opt_val \<Rightarrow> bool"
  open_ok :: "string \<Rightarrow> av_pixfmt \<Rightarrow> bool"
  get_available_pix_fmts :: "codec_t \<Rightarrow> to_lavc_req_prop \<Rightarrow> av_pixfmt list"
  av_get_pix_fmt :: "string \<Rightarrow> av_pixfmt option"
  conv_init_ok :: "codec_t \<Rightarrow> av_pixfmt \<Rightarrow> bool"
  codec_is_a_rgb :: "codec_t \<Rightarrow> bool"
  get_bits_per_component :: "codec_t \<Rightarrow> nat"
  hardware_concurrency :: nat
  c_stof :: "string \<Rightarrow> real option"
  cuda_device :: int
  vaapi_init_ok :: bool
  avcodec_alloc_context3 :: "avcodec \<Rightarrow> codec_ctx option"

section \<open>Properties of the translations\<close>

lemma av_to_ug_scan_in:
  "av_to_ug_scan m a \<noteq> VIDEO_CODEC_NONE \<Longrightarrow> (a, av_to_ug_scan m a) \<in> set m"
  by (induction m a rule: av_to_ug_scan.induct) auto

lemma ug_to_av_scan_in:
  "ug_to_av_scan m u \<noteq> AV_CODEC_ID_NONE \<Longrightarrow> (ug_to_av_scan m u, u) \<in> set m"
  by (induction m u rule: ug_to_av_scan.induct) auto

lemma av_to_uv_map_cases:
  "(a, u) \<in> set av_to_uv_map \<longleftrightarrow>
     (a, u) \<in> {(AV_CODEC_ID_H264, H264), (AV_CODEC_ID_HEVC, H265), (AV_CODEC_ID_MJPEG, MJPG),
      (AV_CODEC_ID_JPEG2000, J2K), (AV_CODEC_ID_VP8, VP8), (AV_CODEC_ID_VP9, VP9),
      (AV_CODEC_ID_HUFFYUV, HFYU), (AV_CODEC_ID_FFV1, FFV1), (AV_CODEC_ID_AV1, AV1),
      (AV_CODEC_ID_PRORES, PRORES)}"
  by (auto simp: av_to_uv_map_def)

section \<open>A concrete collaborator set\<close>

text \<open>
  A fixed, small instance of the collaborators, used to run the model on concrete
  inputs: codec names as UltraGrid spells them, numbers parsed as \<open>atoi\<close> does,
  two software encoders (\<open>libx264\<close>, \<open>mjpeg\<close>) and one hardware encoder
  (\<open>h264_nvenc\<close>), every option accepted, and a conversion stage that produces planar
  YUV.
\<close>

definition demo_codec_from_name :: "string \<Rightarrow> codec_t" where
  "demo_codec_from_name n =
     (if n = ''H.264'' \<or> n = ''H264'' then H264 else if n = ''H.265'' \<or> n = ''H265'' then H265
      else if n = ''MJPEG'' \<or> n = ''MJPG'' then MJPG else if n = ''AV1'' then AV1
      else if n = ''VP9'' then VP9 else VIDEO_CODEC_NONE)"

definition demo_encoder :: "string \<Rightarrow> avcodec option" where
  "demo_encoder n =
     (if n = ''libx264'' then Some \<lparr>codec_name = ''libx264'', codec_id = AV_CODEC_ID_H264,
          pix_fmts = Some [AV_PIX_FMT_YUV420P, AV_PIX_FMT_YUV422P, AV_PIX_FMT_YUV444P, AV_PIX_FMT_NV12],
          cap_slice_threads = False, cap_frame_threads = False, cap_other_threads = True\<rparr>
      else if n = ''mjpeg'' then Some \<lparr>codec_name = ''mjpeg'', codec_id = AV_CODEC_ID_MJPEG,
          pix_fmts = Some [AV_PIX_FMT_YUVJ420P, AV_PIX_FMT_YUVJ422P, AV_PIX_FMT_YUVJ444P],
          cap_slice_threads = True, cap_frame_threads = True, cap_other_threads = False\<rparr>
      else if n = ''h264_nvenc'' then Some \<lparr>codec_name = ''h264_nvenc'', codec_id = AV_CODEC_ID_H264,
          pix_fmts = Some [AV_PIX_FMT_YUV420P, AV_PIX_FMT_NV12, AV_PIX_FMT_YUV444P, AV_PIX_FMT_X2RGB10LE,
                           AV_PIX_FMT_GBRP, AV_PIX_FMT_CUDA],
          cap_slice_threads = False, cap_frame_threads = False, cap_other_threads = False\<rparr>
      else None)"

text \<open>FFmpeg's generic context defaults, and libx264/libx265's own ones.\<close>

definition demo_alloc :: "avcodec \<Rightarrow> codec_ctx option" where
  "demo_alloc c = Some \<lparr>ctx_codec = c,
     bit_rate = (if starts_with ''libx26'' (codec_name c) then 0 else 200000),
     bit_rate_tolerance = 4000000, flag_qscale = False, flag_interlaced_dct = False,
     qmin = (if starts_with ''libx26'' (codec_name c) then -1 else 2),
     qmax = (if starts_with ''libx26'' (codec_name c) then -1 else 31),
     global_quality = 0, max_qdiff = 3, qcompress = 1 / 2, refs = 1, rc_max_rate = 0,
     rc_buffer_size = 0, strict_std_compliance = 0, ctx_width = 0, ctx_height = 0,
     time_base_den = 0, gop_size = 12, max_b_frames = 0, pix_fmt = AV_PIX_FMT_YUV420P,
     bits_per_raw_sample = 0, thread_type = 3, thread_count = 1, ctx_slices = 0, priv_opts = []\<rparr>"

definition demo_env :: lavc_env where
  "demo_env = \<lparr>get_commandline_param = (\<lambda>_. None),
     get_codec_from_name = demo_codec_from_name,
     unit_evaluate = c_atoi, unit_evaluate_dbl = (\<lambda>v. Fin (of_int (c_atoi v))),
     c_atof = (\<lambda>v. Fin (of_int (c_atoi v))),
     avcodec_find_encoder_by_name = demo_encoder,
     avcodec_find_encoder = (\<lambda>a. if a = AV_CODEC_ID_MJPEG then demo_encoder ''mjpeg''
                                 else if a = AV_CODEC_ID_H264 then demo_encoder ''libx264'' else None),
     opt_set_ok = (\<lambda>_ _ _. True), open_ok = (\<lambda>_ _. True),
     get_available_pix_fmts = (\<lambda>_ _. [AV_PIX_FMT_YUV444P, AV_PIX_FMT_YUV422P, AV_PIX_FMT_YUV420P]),
     av_get_pix_fmt = (\<lambda>_. None), conv_init_ok = (\<lambda>_ _. True),
     codec_is_a_rgb = (\<lambda>c. c = RGB \<or> c = RGBA \<or> c = R10k \<or> c = R12L),
     get_bits_per_component = (\<lambda>c. if c = V210 \<or> c = R10k then 10 else if c = R12L then 12 else 8),
     hardware_concurrency = 4, c_stof = (\<lambda>v. Some (of_int (c_atoi v))), cuda_device = 0,
     vaapi_init_ok = True, avcodec_alloc_context3 = demo_alloc\<rparr>"

text \<open>Its fields, so that evaluation never unfolds the whole record.\<close>

lemma demo_env_sel [simp]:
  "get_commandline_param demo_env = (\<lambda>_. None)"
  "get_codec_from_name demo_env = demo_codec_from_name"
  "unit_evaluate demo_env = c_atoi"
  "unit_evaluate_dbl demo_env = (\<lambda>v. Fin (of_int (c_atoi v)))"
  "c_atof demo_env = (\<lambda>v. Fin (of_int (c_atoi v)))"
  "avcodec_find_encoder_by_name demo_env = demo_encoder"
  "avcodec_find_encoder demo_env = (\<lambda>a. if a = AV_CODEC_ID_MJPEG then demo_encoder ''mjpeg''
                                 else if a = AV_CODEC_ID_H264 then demo_encoder ''libx264'' else None)"
  "opt_set_ok demo_env = (\<lambda>_ _ _. True)"
  "open_ok demo_env = (\<lambda>_ _. True)"
  "get_available_pix_fmts demo_env = (\<lambda>_ _. [AV_PIX_FMT_YUV444P, AV_PIX_FMT_YUV422P, AV_PIX_FMT_YUV420P])"
  "av_get_pix_fmt demo_env = (\<lambda>_. None)"
  "conv_init_ok demo_env = (\<lambda>_ _. True)"
  "codec_is_a_rgb demo_env = (\<lambda>c. c = RGB \<or> c = RGBA \<or> c = R10k \<or> c = R12L)"
  "get_bits_per_component demo_env = (\<lambda>c. if c = V210 \<or> c = R10k then 10 else if c = R12L then 12 else 8)"
  "hardware_concurrency demo_env = 4"
  "c_stof demo_env = (\<lambda>v. Some (of_int (c_atoi v)))"
  "cuda_device demo_env = 0"
  "vaapi_init_ok demo_env = True"
  "avcodec_alloc_context3 demo_env = demo_alloc"
  by (simp_all add: demo_env_def)

end
