(* ===== verification/Lavc_Options.thy ===== *)
theory Lavc_Options
  imports Lavc_Common
begin

text \<open>
  The Option Parser: the configuration the encoder keeps
  (the request fields of \<open>struct state_video_compress_libav\<close> and
  \<open>struct setparam_param\<close> in \<open>src/video_compress/libavcodec.cpp\<close>) and
  \<open>parse_fmt\<close>, which turns a colon-separated configuration string into it.  The
  record \<open>lavc_cfg\<close> is extended by the pipeline's state, and \<open>parse_fmt\<close> is
  polymorphic in the extension: the parser touches nothing else.  A failing item
  returns -1 with every assignment made before it, and by it, kept, as the C code
  does; an assertion or an uncaught \<open>std::stoi\<close> exception ends the process
  (\<open>Parse_Abort\<close>).
\<close>

section \<open>Configuration\<close>

record setparam_param =
  sp_desc :: video_desc
  have_preset :: bool
  periodic_intra :: int  \<comment> \<open>-1 default; 0 disable; 1 enable\<close>
  interlaced_dct :: int  \<comment> \<open>-1 default; 0 disable; 1 enable\<close>
  thread_mode :: string
  slices :: int

record lavc_cfg =
  requested_codec_id :: codec_t
  requested_bitrate :: int
  requested_bpp :: c_double
  requested_crf :: c_double
  requested_cqp :: int
  req_conv_prop :: to_lavc_req_prop
  params :: setparam_param
  backend :: string
  requested_gop :: int
  lavc_opts :: "(string, string) omap"
  blacklist_opts :: "string set"
  store_orig_format :: bool
  conv_thread_count :: int

definition DEFAULT_GOP_SIZE :: int where "DEFAULT_GOP_SIZE = 20"

text \<open>The member initialisers of the constructor.\<close>

definition default_params :: setparam_param where
  "default_params = \<lparr>sp_desc = zero_desc, have_preset = False, periodic_intra = -1,
     interlaced_dct = -1, thread_mode = [], slices = -1\<rparr>"

definition default_cfg :: "lavc_env \<Rightarrow> lavc_cfg" where
  "default_cfg env = \<lparr>requested_codec_id = VIDEO_CODEC_NONE, requested_bitrate = 0,
     requested_bpp = Fin 0, requested_crf = Fin (-1), requested_cqp = -1,
     req_conv_prop = \<lparr>subsampling = 0, depth = 0, rgb = -1, force_conv_to = VIDEO_CODEC_NONE\<rparr>,
     params = default_params, backend = [], requested_gop = DEFAULT_GOP_SIZE,
     lavc_opts = [], blacklist_opts = {}, store_orig_format = False,
     conv_thread_count = max 1 (int (hardware_concurrency env))\<rparr>"

section \<open>Parsing one item\<close>

text \<open>\<open>ESCAPED_COLON\<close> and \<open>DELDEL\<close>: an escaped colon is hidden as two DEL characters
  while the string is cut at colons.\<close>

definition ESCAPED_COLON :: string where "ESCAPED_COLON = [CHR 0x5C, CHR '':'']"
definition DELDEL :: string where "DELDEL = [CHR 0x7F, CHR 0x7F]"

datatype 'a item_res = Item_Ok 'a bool | Item_Err 'a | Item_Abort

text \<open>One pass of the \<open>while (strtok_r ...)\<close> body: the branches in the source's order.
  \<open>Item_Ok s h\<close> carries the new state and whether the item asked for help.\<close>

definition parse_item :: "lavc_env \<Rightarrow> 'a lavc_cfg_scheme \<Rightarrow> string \<Rightarrow> 'a lavc_cfg_scheme item_res" where
  "parse_item env s item =
    (if ci_prefix ''help'' item then Item_Ok s True
     else if ci_prefix ''codec='' item then
       (let c = get_codec_from_name env (drop 6 item); s' = s\<lparr>requested_codec_id := c\<rparr>
        in if c = VIDEO_CODEC_NONE then Item_Err s' else Item_Ok s' False)
     else if ci_prefix ''bitrate='' item then
       (let b = unit_evaluate env (drop 8 item)
        in if b < 0 then Item_Abort else Item_Ok (s\<lparr>requested_bitrate := b\<rparr>) False)
     else if ci_prefix ''bpp='' item then
       (let v = unit_evaluate_dbl env (drop 4 item); s' = s\<lparr>requested_bpp := v\<rparr>
        in if v = NaN then Item_Err s' else Item_Ok s' False)
     else if ci_prefix ''crf='' item then
       Item_Ok (s\<lparr>requested_crf := c_atof env (drop 4 item)\<rparr>) False
     else if starts_with ''cqp='' item \<or> starts_with ''q='' item then
       Item_Ok (s\<lparr>requested_cqp := c_atoi (after_char CHR ''='' item)\<rparr>) False
     else if ci_prefix ''subsampling='' item then
       (let v0 = c_atoi (drop 12 item); v = (if v0 < 1000 then v0 * 10 else v0);
            s' = s\<lparr>req_conv_prop := (req_conv_prop s)\<lparr>subsampling := v\<rparr>\<rparr>
        in if v \<noteq> 4440 \<and> v \<noteq> 4220 \<and> v \<noteq> 4200 then Item_Err s' else Item_Ok s' False)
     else if starts_with ''depth='' item then
       Item_Ok (s\<lparr>req_conv_prop := (req_conv_prop s)\<lparr>depth := c_atoi (after_char CHR ''='' item)\<rparr>\<rparr>) False
     else if ci_eq ''rgb'' item \<or> ci_eq ''yuv'' item then
       Item_Ok (s\<lparr>req_conv_prop := (req_conv_prop s)\<lparr>rgb := (if ci_eq ''rgb'' item then 1 else 0)\<rparr>\<rparr>) False
     else if contains ''intra_refresh'' item then
       Item_Ok (s\<lparr>params := (params s)\<lparr>periodic_intra :=
         (if starts_with ''disable_'' item then 0 else 1)\<rparr>\<rparr>) False
     else if contains ''interlaced_dct'' item then
       Item_Ok (s\<lparr>params := (params s)\<lparr>interlaced_dct :=
         (if starts_with ''disable_'' item then 0 else 1)\<rparr>\<rparr>) False
     else if ci_prefix ''threads='' item then
       (let t = drop 8 item in
        if CHR '','' \<in> set t then
          (case c_stoi (after_char CHR '','' t) of
             Stoi_Ok n _ \<Rightarrow> Item_Ok (s\<lparr>conv_thread_count := n,
                              params := (params s)\<lparr>thread_mode := before_char CHR '','' t\<rparr>\<rparr>) False
           | _ \<Rightarrow> Item_Abort)
        else Item_Ok (s\<lparr>params := (params s)\<lparr>thread_mode := t\<rparr>\<rparr>) False)
     else if ci_prefix ''slices='' item then
       (case c_stoi (after_char CHR ''='' item) of
          Stoi_Ok n _ \<Rightarrow> Item_Ok (s\<lparr>params := (params s)\<lparr>slices := n\<rparr>\<rparr>) False
        | _ \<Rightarrow> Item_Abort)
     else if ci_prefix ''encoder='' item then Item_Ok (s\<lparr>backend := drop 8 item\<rparr>) False
     else if ci_prefix ''gop='' item then Item_Ok (s\<lparr>requested_gop := c_atoi (drop 4 item)\<rparr>) False
     else if CHR ''='' \<in> set item then
       Item_Ok (s\<lparr>lavc_opts := om_update (before_char CHR ''='' item)
                   (replace_all DELDEL '':'' (after_char CHR ''='' item)) (lavc_opts s)\<rparr>) False
     else Item_Err s)"

section \<open>The whole string\<close>

fun parse_items :: "lavc_env \<Rightarrow> 'a lavc_cfg_scheme \<Rightarrow> bool \<Rightarrow> string list \<Rightarrow> 'a lavc_cfg_scheme item_res" where
  "parse_items env s h [] = Item_Ok s h"
| "parse_items env s h (it # its) =
     (case parse_item env s it of
        Item_Ok s' h' \<Rightarrow> parse_items env s' (h \<or> h') its
      | Item_Err s' \<Rightarrow> Item_Err s'
      | Item_Abort \<Rightarrow> Item_Abort)"

datatype 'a parse_result = Parse_Ret int 'a | Parse_Abort

text \<open>
  \<open>parse_fmt\<close>: -1 on a wrong item, 1 when help was shown (the item \<open>help\<close> or
  \<open>--param lavc-use-codec=help\<close>), 0 otherwise.  Printing the help is not modelled;
  \<open>--param keep-pixfmt\<close> sets \<open>store_orig_format\<close>.
\<close>

definition parse_fmt :: "lavc_env \<Rightarrow> 'a lavc_cfg_scheme \<Rightarrow> string \<Rightarrow> 'a lavc_cfg_scheme parse_result" where
  "parse_fmt env s fmt =
     (case parse_items env s False (strtok_tokens CHR '':'' (replace_all ESCAPED_COLON DELDEL fmt)) of
        Item_Abort \<Rightarrow> Parse_Abort
      | Item_Err s' \<Rightarrow> Parse_Ret (-1) s'
      | Item_Ok s' show_help \<Rightarrow>
          (let s'' = (if get_commandline_param env ''keep-pixfmt'' \<noteq> None
                      then s'\<lparr>store_orig_format := True\<rparr> else s')
           in Parse_Ret (if show_help \<or> get_commandline_param env ''lavc-use-codec'' = Some ''help''
                         then 1 else 0) s''))"

section \<open>Well-formed configurations\<close>

text \<open>
  What the rest of the encoder relies on: the pass-through options form a
  \<open>std::map\<close> (sorted, unique keys), and a forced subsampling is one of the three
  the conversion stage knows, or 0 for none.
\<close>

definition cfg_wf :: "'a lavc_cfg_scheme \<Rightarrow> bool" where
  "cfg_wf s \<longleftrightarrow> om_wf (lavc_opts s) \<and> subsampling (req_conv_prop s) \<in> {0, 4440, 4220, 4200}"

lemma default_cfg_wf: "cfg_wf (default_cfg env)"
  by (simp add: cfg_wf_def default_cfg_def om_wf_def)

text \<open>A property of the state an item leaves behind, on success and on error.\<close>

definition item_holds :: "('a \<Rightarrow> bool) \<Rightarrow> ('a \<Rightarrow> bool) \<Rightarrow> 'a item_res \<Rightarrow> bool" where
  "item_holds P Q r = (case r of Item_Ok s' _ \<Rightarrow> P s' | Item_Err s' \<Rightarrow> Q s' | Item_Abort \<Rightarrow> True)"

lemma item_holds_simps [simp]:
  "item_holds P Q (Item_Ok s h) = P s" "item_holds P Q (Item_Err s) = Q s"
  "item_holds P Q Item_Abort = True"
  by (simp_all add: item_holds_def)

lemma item_holds_if [simp]:
  "item_holds P Q (if b then x else y) = (if b then item_holds P Q x else item_holds P Q y)"
  by simp

lemma item_holds_stoi [simp]:
  "item_holds P Q (case r of Stoi_Ok n k \<Rightarrow> f n k | Stoi_Invalid \<Rightarrow> Item_Abort | Stoi_Range \<Rightarrow> Item_Abort)
     = (case r of Stoi_Ok n k \<Rightarrow> item_holds P Q (f n k) | _ \<Rightarrow> True)"
  by (cases r) simp_all

lemma cfg_wf_store_orig [simp]: "cfg_wf (s\<lparr>store_orig_format := b\<rparr>) = cfg_wf s"
  by (simp add: cfg_wf_def)

lemma parse_item_frame:
  "item_holds (\<lambda>s'. (cfg_wf s \<longrightarrow> cfg_wf s') \<and> blacklist_opts s' = blacklist_opts s)
              (\<lambda>s'. blacklist_opts s' = blacklist_opts s) (parse_item env s it)"
  unfolding parse_item_def Let_def by (simp add: cfg_wf_def split: stoi_result.split)

lemma parse_items_frame:
  "item_holds (\<lambda>s'. (cfg_wf s \<longrightarrow> cfg_wf s') \<and> blacklist_opts s' = blacklist_opts s)
              (\<lambda>s'. blacklist_opts s' = blacklist_opts s) (parse_items env s h its)"
proof (induction its arbitrary: s h)
  case Nil
  then show ?case by simp
next
  case (Cons it its)
  have f: "item_holds (\<lambda>s'. (cfg_wf s \<longrightarrow> cfg_wf s') \<and> blacklist_opts s' = blacklist_opts s)
              (\<lambda>s'. blacklist_opts s' = blacklist_opts s) (parse_item env s it)"
    by (rule parse_item_frame)
  show ?case
  proof (cases "parse_item env s it")
    case (Item_Ok s1 h1)
    with f Cons.IH [of s1 "h \<or> h1"] show ?thesis
      by (simp add: item_holds_def split: item_res.splits)
  next
    case (Item_Err s1)
    with f show ?thesis by simp
  qed simp
qed

lemma parse_fmt_ok_cases:
  "parse_fmt env s fmt = Parse_Ret r s' \<Longrightarrow> r \<noteq> -1 \<Longrightarrow>
     \<exists>s0 h. parse_items env s False (strtok_tokens CHR '':'' (replace_all ESCAPED_COLON DELDEL fmt))
              = Item_Ok s0 h \<and> (s' = s0 \<or> s' = s0\<lparr>store_orig_format := True\<rparr>)"
  by (simp add: parse_fmt_def Let_def split: item_res.splits if_splits)

text \<open>a wrong item ends the loop with the state it left, whatever follows it\<close>

lemma parse_items_err_split:
  "parse_items env s h its1 = Item_Ok s1 h1 \<Longrightarrow> parse_item env s1 bad = Item_Err s2 \<Longrightarrow>
     parse_items env s h (its1 @ bad # its2) = Item_Err s2"
  by (induction its1 arbitrary: s h) (auto split: item_res.splits)

section \<open>Properties of the parser\<close>

text \<open>
  Claim C1: the configuration \<open>codec=H264:bitrate=2000000\<close> sets exactly the
  requested codec to H.264 and the requested bitrate to 2000000 and returns 0,
  whatever the prior configuration.
\<close>

theorem parse_fmt_codec_bitrate:
  assumes "get_codec_from_name env ''H264'' = H264"
    and "unit_evaluate env ''2000000'' = 2000000"
    and "get_commandline_param env ''keep-pixfmt'' = None"
    and "get_commandline_param env ''lavc-use-codec'' = None"
  shows "parse_fmt env s ''codec=H264:bitrate=2000000'' =
           Parse_Ret 0 (s\<lparr>requested_codec_id := H264, requested_bitrate := 2000000\<rparr>)"
  using assms
  by (simp add: parse_fmt_def parse_item_def lavc_str ESCAPED_COLON_def strtok_tokens_def)

theorem parse_fmt_codec_bitrate_witness:
  "parse_fmt demo_env (default_cfg demo_env) ''codec=H264:bitrate=2000000'' =
     Parse_Ret 0 ((default_cfg demo_env)\<lparr>requested_codec_id := H264, requested_bitrate := 2000000\<rparr>)"
  by (rule parse_fmt_codec_bitrate) (simp_all add: demo_codec_from_name_def lavc_str)

text \<open>
  Claim C2: \<open>parse_fmt\<close> stops at the first wrong item of any configuration string
  and returns -1 with the configuration as the items before it and the wrong item's
  own assignment left it: their writes are not undone, and the items after the
  wrong one are not parsed.
\<close>

theorem parse_fmt_error_keeps_writes:
  assumes "strtok_tokens CHR '':'' (replace_all ESCAPED_COLON DELDEL fmt) = its1 @ bad # its2"
    and "parse_items env s False its1 = Item_Ok s1 h1"
    and "parse_item env s1 bad = Item_Err s2"
  shows "parse_fmt env s fmt = Parse_Ret (-1) s2"
  using parse_items_err_split [OF assms(2,3)] assms(1) by (simp add: parse_fmt_def)

theorem parse_fmt_error_keeps_writes_witness:
  "strtok_tokens CHR '':'' (replace_all ESCAPED_COLON DELDEL ''bitrate=1000:codec=XYZ:gop=5'') =
     [''bitrate=1000''] @ ''codec=XYZ'' # [''gop=5''] \<and>
   parse_items demo_env (default_cfg demo_env) False [''bitrate=1000''] =
     Item_Ok ((default_cfg demo_env)\<lparr>requested_bitrate := 1000\<rparr>) False \<and>
   parse_item demo_env ((default_cfg demo_env)\<lparr>requested_bitrate := 1000\<rparr>) ''codec=XYZ'' =
     Item_Err ((default_cfg demo_env)\<lparr>requested_bitrate := 1000, requested_codec_id := VIDEO_CODEC_NONE\<rparr>) \<and>
   parse_fmt demo_env (default_cfg demo_env) ''bitrate=1000:codec=XYZ:gop=5'' =
     Parse_Ret (-1) ((default_cfg demo_env)\<lparr>requested_bitrate := 1000,
                                             requested_codec_id := VIDEO_CODEC_NONE\<rparr>)"
proof -
  have t: "strtok_tokens CHR '':'' (replace_all ESCAPED_COLON DELDEL ''bitrate=1000:codec=XYZ:gop=5'') =
     [''bitrate=1000''] @ ''codec=XYZ'' # [''gop=5'']"
    by (simp add: lavc_str ESCAPED_COLON_def strtok_tokens_def)
  have p: "parse_items demo_env (default_cfg demo_env) False [''bitrate=1000''] =
     Item_Ok ((default_cfg demo_env)\<lparr>requested_bitrate := 1000\<rparr>) False"
    by (simp add: parse_item_def lavc_str)
  have b: "parse_item demo_env ((default_cfg demo_env)\<lparr>requested_bitrate := 1000\<rparr>) ''codec=XYZ'' =
     Item_Err ((default_cfg demo_env)\<lparr>requested_bitrate := 1000, requested_codec_id := VIDEO_CODEC_NONE\<rparr>)"
    by (simp add: parse_item_def lavc_str demo_codec_from_name_def)
  show ?thesis using parse_fmt_error_keeps_writes [OF t p b] t p b by simp
qed

text \<open>
  Claim C3: a successful parse (return value 0 or 1) keeps the configuration
  well-formed: the pass-through options stay a sorted map with unique keys and a
  forced subsampling stays one of 4:4:4, 4:2:2, 4:2:0 or none.  The blacklist of
  consumed options is never touched by the parser.
\<close>

theorem parse_fmt_cfg_wf:
  assumes "cfg_wf s" and "parse_fmt env s fmt = Parse_Ret r s'" and "r \<noteq> -1"
  shows "cfg_wf s' \<and> blacklist_opts s' = blacklist_opts s"
proof -
  from parse_fmt_ok_cases [OF assms(2,3)] obtain s0 h where
    p: "parse_items env s False (strtok_tokens CHR '':'' (replace_all ESCAPED_COLON DELDEL fmt))
          = Item_Ok s0 h" and s': "s' = s0 \<or> s' = s0\<lparr>store_orig_format := True\<rparr>"
    by blast
  have "cfg_wf s0 \<and> blacklist_opts s0 = blacklist_opts s"
    using parse_items_frame [of s env False "strtok_tokens CHR '':'' (replace_all ESCAPED_COLON DELDEL fmt)"]
      p assms(1) by simp
  with s' show ?thesis by (elim disjE) simp_all
qed

theorem parse_fmt_cfg_wf_witness:
  "cfg_wf (default_cfg demo_env) \<and>
   parse_fmt demo_env (default_cfg demo_env) ''subsampling=422:x=1'' =
     Parse_Ret 0 ((default_cfg demo_env)\<lparr>
        req_conv_prop := (req_conv_prop (default_cfg demo_env))\<lparr>subsampling := 4220\<rparr>,
        lavc_opts := om_update ''x'' ''1'' (lavc_opts (default_cfg demo_env))\<rparr>) \<and>
   cfg_wf ((default_cfg demo_env)\<lparr>
        req_conv_prop := (req_conv_prop (default_cfg demo_env))\<lparr>subsampling := 4220\<rparr>,
        lavc_opts := om_update ''x'' ''1'' (lavc_opts (default_cfg demo_env))\<rparr>)"
proof -
  have p: "parse_fmt demo_env (default_cfg demo_env) ''subsampling=422:x=1'' =
     Parse_Ret 0 ((default_cfg demo_env)\<lparr>
        req_conv_prop := (req_conv_prop (default_cfg demo_env))\<lparr>subsampling := 4220\<rparr>,
        lavc_opts := om_update ''x'' ''1'' (lavc_opts (default_cfg demo_env))\<rparr>)"
    by (simp add: parse_fmt_def parse_item_def lavc_str ESCAPED_COLON_def DELDEL_def strtok_tokens_def)
  show ?thesis
    using default_cfg_wf p parse_fmt_cfg_wf [OF default_cfg_wf p] by simp
qed

end
