(* ===== verification/Lavc_Registry.thy ===== *)
theory Lavc_Registry
  imports Lavc_Options
begin

text \<open>
  The Encoder Capability Registry and the Encoder Selector of
  \<open>src/video_compress/libavcodec.cpp\<close>.  The registry is the static map
  \<open>codec_params\<close> from an UltraGrid codec to its preferred-encoder resolver, its
  default bits per pixel, its preset resolver, its parameter setter and its listing
  priority; the resolvers and setters are function pointers in C and are named here
  by a datatype of the functions they point to.  The selector is \<open>get_av_codec\<close>:
  the encoder the user named, else the codec's preferred encoder, else any encoder
  FFmpeg has for the codec; each \<open>return nullptr\<close> is an \<open>Inl\<close> of its own.
\<close>

section \<open>The registry\<close>

datatype set_param_fn = Setparam_default | Setparam_h264_h265_av1 | Setparam_jpeg | Setparam_vp8_vp9

datatype preset_fn = Get_h264_h265_preset | Get_av1_preset

record codec_params_t =
  get_prefered_encoder :: "(bool \<Rightarrow> string) option"
  avg_bpp :: real
  get_preset :: "preset_fn option"
  set_param :: set_param_fn
  capabilities_priority :: int

definition codec_params :: "codec_t \<Rightarrow> codec_params_t option" where
  "codec_params c =
    (case c of
       H264 \<Rightarrow> Some \<lparr>get_prefered_encoder = Some (\<lambda>is_rgb. if is_rgb then ''libx264rgb'' else ''libx264''),
                     avg_bpp = 7 / 100 * 2 * 2, get_preset = Some Get_h264_h265_preset,
                     set_param = Setparam_h264_h265_av1, capabilities_priority = 100\<rparr>
     | H265 \<Rightarrow> Some \<lparr>get_prefered_encoder = Some (\<lambda>_. ''libx265''), avg_bpp = 4 / 100 * 2 * 2,
                     get_preset = Some Get_h264_h265_preset, set_param = Setparam_h264_h265_av1,
                     capabilities_priority = 101\<rparr>
     | MJPG \<Rightarrow> Some \<lparr>get_prefered_encoder = None, avg_bpp = 12 / 10, get_preset = None,
                     set_param = Setparam_jpeg, capabilities_priority = 102\<rparr>
     | J2K \<Rightarrow> Some \<lparr>get_prefered_encoder = None, avg_bpp = 1, get_preset = None,
                     set_param = Setparam_default, capabilities_priority = 500\<rparr>
     | VP8 \<Rightarrow> Some \<lparr>get_prefered_encoder = None, avg_bpp = 4 / 10, get_preset = None,
                     set_param = Setparam_vp8_vp9, capabilities_priority = 103\<rparr>
     | VP9 \<Rightarrow> Some \<lparr>get_prefered_encoder = None, avg_bpp = 4 / 10, get_preset = None,
                     set_param = Setparam_vp8_vp9, capabilities_priority = 104\<rparr>
     | HFYU \<Rightarrow> Some \<lparr>get_prefered_encoder = None, avg_bpp = 0, get_preset = None,
                     set_param = Setparam_default, capabilities_priority = 501\<rparr>
     | FFV1 \<Rightarrow> Some \<lparr>get_prefered_encoder = None, avg_bpp = 0, get_preset = None,
                     set_param = Setparam_default, capabilities_priority = 502\<rparr>
     | AV1 \<Rightarrow> Some \<lparr>get_prefered_encoder = Some (\<lambda>_. ''libsvtav1''), avg_bpp = 1 / 10,
                     get_preset = Some Get_av1_preset, set_param = Setparam_h264_h265_av1,
                     capabilities_priority = 600\<rparr>
     | PRORES \<Rightarrow> Some \<lparr>get_prefered_encoder = None, avg_bpp = 5 / 10, get_preset = None,
                     set_param = Setparam_default, capabilities_priority = 300\<rparr>
     | _ \<Rightarrow> None)"

definition DONT_SET_PRESET :: string where "DONT_SET_PRESET = ''dont_set_preset''"
definition DEFAULT_QSV_PRESET :: string where "DEFAULT_QSV_PRESET = ''medium''"

definition get_h264_h265_preset :: "string \<Rightarrow> nat \<Rightarrow> nat \<Rightarrow> real \<Rightarrow> string" where
  "get_h264_h265_preset enc_name w h frame_rate =
     (if enc_name = ''libx264'' \<or> enc_name = ''libx264rgb'' then
        (if w \<le> 1920 \<and> h \<le> 1080 \<and> frame_rate \<le> 30 then ''veryfast'' else ''ultrafast'')
      else if enc_name = ''libx265'' then ''ultrafast''
      else if ends_with ''_amf'' enc_name then DONT_SET_PRESET
      else if contains ''nvenc'' enc_name then DONT_SET_PRESET
      else if ends_with ''_qsv'' enc_name then DEFAULT_QSV_PRESET
      else if ends_with ''_vaapi'' enc_name then DONT_SET_PRESET
      else [])"

definition get_av1_preset :: "string \<Rightarrow> nat \<Rightarrow> nat \<Rightarrow> real \<Rightarrow> string" where
  "get_av1_preset enc_name w h frame_rate =
     (if enc_name = ''libsvtav1'' then
        (if w \<le> 1920 \<and> h \<le> 1080 \<and> frame_rate \<le> 30 then ''9'' else ''11'')
      else [])"

primrec run_preset :: "preset_fn \<Rightarrow> string \<Rightarrow> nat \<Rightarrow> nat \<Rightarrow> real \<Rightarrow> string" where
  "run_preset Get_h264_h265_preset = get_h264_h265_preset"
| "run_preset Get_av1_preset = get_av1_preset"

section \<open>The selector\<close>

definition DEFAULT_CODEC :: codec_t where "DEFAULT_CODEC = MJPG"

datatype sel_error =
    Encoder_Not_Found      \<comment> \<open>the named encoder does not exist\<close>
  | Encoder_Codec_Mismatch \<comment> \<open>it does not encode the requested codec\<close>
  | Encoder_Unsupported    \<comment> \<open>UltraGrid has no codec for what it encodes\<close>
  | Prefered_Not_Found     \<comment> \<open>the codec's preferred encoder does not exist\<close>
  | No_Encoder             \<comment> \<open>FFmpeg has no encoder for the codec\<close>

text \<open>
  \<open>get_av_codec(s, &ug_codec, src_rgb)\<close>: the encoder and the codec \<open>ug_codec\<close>
  holds afterwards.
\<close>

definition get_av_codec :: "lavc_env \<Rightarrow> 'a lavc_cfg_scheme \<Rightarrow> codec_t \<Rightarrow> bool \<Rightarrow>
    sel_error + (avcodec \<times> codec_t)" where
  "get_av_codec env s ug_codec src_rgb =
    (if backend s \<noteq> [] then
       (case avcodec_find_encoder_by_name env (backend s) of
          None \<Rightarrow> Inl Encoder_Not_Found
        | Some codec \<Rightarrow>
            if requested_codec_id s \<noteq> VIDEO_CODEC_NONE \<and>
               requested_codec_id s \<noteq> get_av_to_ug_codec (codec_id codec)
            then Inl Encoder_Codec_Mismatch
            else if get_av_to_ug_codec (codec_id codec) = VIDEO_CODEC_NONE then Inl Encoder_Unsupported
            else Inr (codec, get_av_to_ug_codec (codec_id codec)))
     else
       (case codec_params ug_codec of
          Some p \<Rightarrow> (case get_prefered_encoder p of
              Some pref \<Rightarrow> (case avcodec_find_encoder_by_name env (pref src_rgb) of
                  None \<Rightarrow> Inl Prefered_Not_Found
                | Some codec \<Rightarrow> Inr (codec, ug_codec))
            | None \<Rightarrow> (case avcodec_find_encoder env (get_ug_to_av_codec ug_codec) of
                  None \<Rightarrow> Inl No_Encoder | Some codec \<Rightarrow> Inr (codec, ug_codec)))
        | None \<Rightarrow> (case avcodec_find_encoder env (get_ug_to_av_codec ug_codec) of
              None \<Rightarrow> Inl No_Encoder | Some codec \<Rightarrow> Inr (codec, ug_codec))))"

text \<open>The codec \<open>configure_with\<close> starts from: the requested one, else MJPEG.\<close>

definition initial_ug_codec :: "'a lavc_cfg_scheme \<Rightarrow> codec_t" where
  "initial_ug_codec s =
     (if requested_codec_id s = VIDEO_CODEC_NONE then DEFAULT_CODEC else requested_codec_id s)"

text \<open>The demonstration collaborators without \<open>libx264\<close>: H.264 is still available
  through the NVENC encoder.\<close>

definition no_x264_env :: lavc_env where
  "no_x264_env = demo_env\<lparr>avcodec_find_encoder_by_name :=
      (\<lambda>n. if n = ''libx264'' then None else demo_encoder n)\<rparr>"

section \<open>Lemmas\<close>

lemma codec_params_dom: "codec_params c \<noteq> None \<longleftrightarrow> c \<in> snd ` set av_to_uv_map"
  by (cases c) (simp_all add: codec_params_def av_to_uv_map_def)

lemma av_to_ug_table:
  "get_av_to_ug_codec a \<noteq> VIDEO_CODEC_NONE \<Longrightarrow> get_av_to_ug_codec a \<in> snd ` set av_to_uv_map"
  unfolding get_av_to_ug_codec_def
  by (drule av_to_ug_scan_in) force

lemma ug_to_av_table:
  "get_ug_to_av_codec u \<noteq> AV_CODEC_ID_NONE \<Longrightarrow> u \<in> snd ` set av_to_uv_map"
  unfolding get_ug_to_av_codec_def
  by (drule ug_to_av_scan_in) force

section \<open>Properties of the selector\<close>

text \<open>
  Claim C4: when no encoder is named and the codec's preferred encoder (for H.264 from
  YUV, \<open>libx264\<close>) does not exist, selection fails, even when FFmpeg has another
  encoder for the codec: the code logs "Trying default encoder" but returns NULL.
\<close>

theorem get_av_codec_prefered_missing:
  assumes "backend s = []" and "avcodec_find_encoder_by_name env ''libx264'' = None"
  shows "get_av_codec env s H264 False = Inl Prefered_Not_Found"
  using assms by (simp add: get_av_codec_def codec_params_def)

theorem get_av_codec_prefered_missing_witness:
  "avcodec_find_encoder no_x264_env AV_CODEC_ID_H264 \<noteq> None \<and>
   get_av_codec no_x264_env (default_cfg no_x264_env) H264 False = Inl Prefered_Not_Found"
proof
  show "avcodec_find_encoder no_x264_env AV_CODEC_ID_H264 \<noteq> None"
    by (simp add: no_x264_env_def demo_encoder_def)
  show "get_av_codec no_x264_env (default_cfg no_x264_env) H264 False = Inl Prefered_Not_Found"
    by (rule get_av_codec_prefered_missing) (simp_all add: no_x264_env_def default_cfg_def)
qed

text \<open>
  Claim C5: a successful selection yields a codec that has an entry in the registry
  (so the later \<open>codec_params[ug_codec]\<close> lookups never default-construct one), and
  it is the requested codec whenever a codec was requested.
\<close>

theorem get_av_codec_registered:
  assumes "avcodec_find_encoder env AV_CODEC_ID_NONE = None"
    and "get_av_codec env s (initial_ug_codec s) src_rgb = Inr (codec, u)"
  shows "codec_params u \<noteq> None \<and> (requested_codec_id s \<noteq> VIDEO_CODEC_NONE \<longrightarrow> u = requested_codec_id s)"
proof (cases "backend s = []")
  case False
  with assms(2) have u: "u = get_av_to_ug_codec (codec_id codec)" "u \<noteq> VIDEO_CODEC_NONE"
    and r: "requested_codec_id s \<noteq> VIDEO_CODEC_NONE \<longrightarrow> requested_codec_id s = u"
    by (auto simp: get_av_codec_def split: option.splits if_splits)
  have "codec_params u \<noteq> None"
    using u av_to_ug_table [of "codec_id codec"] codec_params_dom by metis
  with r show ?thesis by auto
next
  case True
  then have u: "u = initial_ug_codec s"
    using assms(2) by (auto simp: get_av_codec_def split: option.splits)
  have "codec_params u \<noteq> None"
  proof (rule ccontr)
    assume n: "\<not> codec_params u \<noteq> None"
    with True assms(2) u have "avcodec_find_encoder env (get_ug_to_av_codec u) \<noteq> None"
      by (auto simp: get_av_codec_def split: option.splits)
    with assms(1) have "get_ug_to_av_codec u \<noteq> AV_CODEC_ID_NONE" by auto
    with n show False using ug_to_av_table codec_params_dom by metis
  qed
  with u show ?thesis by (simp add: initial_ug_codec_def)
qed

theorem get_av_codec_registered_witness:
  "avcodec_find_encoder demo_env AV_CODEC_ID_NONE = None \<and>
   get_av_codec demo_env (default_cfg demo_env) (initial_ug_codec (default_cfg demo_env)) False
     = Inr (the (demo_encoder ''mjpeg''), MJPG) \<and>
   codec_params MJPG \<noteq> None"
proof -
  have a: "avcodec_find_encoder demo_env AV_CODEC_ID_NONE = None" by simp
  have g: "get_av_codec demo_env (default_cfg demo_env) (initial_ug_codec (default_cfg demo_env)) False
     = Inr (the (demo_encoder ''mjpeg''), MJPG)"
    by (simp add: get_av_codec_def default_cfg_def initial_ug_codec_def DEFAULT_CODEC_def
        codec_params_def get_ug_to_av_codec_def av_to_uv_map_def demo_encoder_def)
  show ?thesis using get_av_codec_registered [OF a g] a g by simp
qed

end
