(* ===== verification/Lavc_Negotiate.thy ===== *)
theory Lavc_Negotiate
  imports Lavc_Registry
begin

text \<open>
  The PixelFormat Negotiator of \<open>src/video_compress/libavcodec.cpp\<close>: the candidate
  list (\<open>get_requested_pix_fmts\<close>), the NVENC blacklist (\<open>apply_blacklist\<close>), the
  iterator step \<open>get_first_matching_pix_fmt\<close>, and the two retry-by-opening loops of
  \<open>configure_with\<close>: over the candidates, then over the encoder's own list (the
  swscale fallback).  The trial open is a parameter \<open>topen\<close> of type
  \<open>'s \<Rightarrow> av_pixfmt \<Rightarrow> 's \<times> av_pixfmt option\<close>: it may change the state whether it
  succeeds or not (as \<open>try_open_codec\<close> does), and on success it returns the pixel
  format the frames must be converted to (VA-API replaces its hardware format by
  NV12).  The Pipeline theory instantiates it with its model of \<open>try_open_codec\<close>.
\<close>

section \<open>The candidate list\<close>

text \<open>
  \<open>get_requested_pix_fmts\<close>: a pixel format named by \<open>--param lavc-use-codec\<close> is
  the only candidate; a codec named there forces the conversion target; an unknown
  name calls \<open>exit_uv(1)\<close> (which only requests the exit) and yields no candidate.
  The Boolean is whether \<open>exit_uv\<close> was called.
\<close>

definition get_requested_pix_fmts :: "lavc_env \<Rightarrow> codec_t \<Rightarrow> to_lavc_req_prop \<Rightarrow> av_pixfmt list \<times> bool" where
  "get_requested_pix_fmts env in_codec prop =
     (case get_commandline_param env ''lavc-use-codec'' of
        None \<Rightarrow> (get_available_pix_fmts env in_codec prop, False)
      | Some val \<Rightarrow>
          (case av_get_pix_fmt env val of
             Some fmt \<Rightarrow> ([fmt], False)
           | None \<Rightarrow>
               (let c = get_codec_from_name env val in
                if c = VIDEO_CODEC_NONE then ([], True)
                else (get_available_pix_fmts env in_codec (prop\<lparr>force_conv_to := c\<rparr>), False))))"

text \<open>\<open>apply_blacklist\<close> (built with \<open>X2RGB10LE_PRESENT\<close>): for an NVENC encoder the
  first \<open>x2rgb10le\<close> is erased, unless it is the only candidate left.\<close>

definition apply_blacklist :: "av_pixfmt list \<Rightarrow> string \<Rightarrow> av_pixfmt list" where
  "apply_blacklist formats encoder_name =
     (if contains ''nvenc'' encoder_name then
        (if length formats = 1 then formats else remove1 AV_PIX_FMT_X2RGB10LE formats)
      else formats)"

section \<open>The iterator step\<close>

text \<open>
  \<open>get_first_matching_pix_fmt(it, end, codec_pix_fmts)\<close>: the first candidate from
  \<open>it\<close> on that the encoder lists, and the iterator just past it; the encoder's own
  list is only searched for membership.  A NULL list yields \<open>AV_PIX_FMT_NONE\<close>
  (None) and leaves the iterator where it was.
\<close>

fun first_match :: "av_pixfmt list \<Rightarrow> av_pixfmt list \<Rightarrow> av_pixfmt option \<times> av_pixfmt list" where
  "first_match [] cs = (None, [])"
| "first_match (r # rs) cs = (if r \<in> set cs then (Some r, rs) else first_match rs cs)"

definition get_first_matching_pix_fmt ::
    "av_pixfmt list \<Rightarrow> av_pixfmt list option \<Rightarrow> av_pixfmt option \<times> av_pixfmt list" where
  "get_first_matching_pix_fmt it codec_pix_fmts =
     (case codec_pix_fmts of None \<Rightarrow> (None, it) | Some cs \<Rightarrow> first_match it cs)"

lemma first_match_shorter: "first_match it cs = (Some f, it') \<Longrightarrow> length it' < length it"
  by (induction it cs rule: first_match.induct) (auto split: if_splits)

lemma get_first_matching_shorter:
  "get_first_matching_pix_fmt it cf = (Some f, it') \<Longrightarrow> length it' < length it"
  by (auto simp: get_first_matching_pix_fmt_def split: option.splits dest: first_match_shorter)

section \<open>The two loops\<close>

text \<open>
  \<open>while ((pix_fmt = get_first_matching_pix_fmt(...)) != AV_PIX_FMT_NONE)
  { if (try_open_codec(...)) break; }\<close>: each round moves the iterator past the
  candidate it tries, so the loop ends (the measure is the length of what is left).
\<close>

function negotiate_loop :: "('s \<Rightarrow> av_pixfmt \<Rightarrow> 's \<times> av_pixfmt option) \<Rightarrow> av_pixfmt list option \<Rightarrow>
    's \<Rightarrow> av_pixfmt list \<Rightarrow> 's \<times> av_pixfmt option" where
  "negotiate_loop topen cf s it =
     (case get_first_matching_pix_fmt it cf of
        (None, _) \<Rightarrow> (s, None)
      | (Some f, it') \<Rightarrow>
          (case topen s f of
             (s', Some f') \<Rightarrow> (s', Some f')
           | (s', None) \<Rightarrow> negotiate_loop topen cf s' it'))"
  by pat_completeness auto
termination
  by (relation "measure (\<lambda>(_, _, _, it). length it)")
     (auto dest: get_first_matching_shorter [OF sym])

declare negotiate_loop.simps [simp del]

text \<open>The swscale fallback: every non-hardware format the encoder lists, in its order.\<close>

definition not_hwaccel :: "av_pixfmt \<Rightarrow> bool" where
  "not_hwaccel p \<longleftrightarrow> (case av_pix_fmt_desc_get p of Some d \<Rightarrow> \<not> flag_hwaccel d | None \<Rightarrow> False)"

fun fallback_loop :: "('s \<Rightarrow> av_pixfmt \<Rightarrow> 's \<times> av_pixfmt option) \<Rightarrow> 's \<Rightarrow> av_pixfmt list \<Rightarrow>
    's \<times> av_pixfmt option" where
  "fallback_loop topen s [] = (s, None)"
| "fallback_loop topen s (p # ps) =
     (if not_hwaccel p then
        (case topen s p of
           (s', Some _) \<Rightarrow> (s', Some p)
         | (s', None) \<Rightarrow> fallback_loop topen s' ps)
      else fallback_loop topen s ps)"

text \<open>
  The negotiation part of \<open>configure_with\<close> (built with swscale): the chosen format
  and whether it came from the fallback, which then needs the swscale stage.  The
  fallback reads \<open>codec->pix_fmts\<close> without a NULL check: an encoder without a list
  there is a crash (\<open>Neg_Crash\<close>).
\<close>

datatype 's neg_result =
    Neg_Ok 's av_pixfmt bool   \<comment> \<open>state, format, found by the fallback\<close>
  | Neg_Fail 's bool           \<comment> \<open>state, whether \<open>exit_uv\<close> was requested\<close>
  | Neg_Crash

definition negotiate_pix_fmt :: "lavc_env \<Rightarrow> ('s \<Rightarrow> av_pixfmt \<Rightarrow> 's \<times> av_pixfmt option) \<Rightarrow>
    to_lavc_req_prop \<Rightarrow> avcodec \<Rightarrow> video_desc \<Rightarrow> 's \<Rightarrow> 's neg_result" where
  "negotiate_pix_fmt env topen prop codec desc s =
     (let (req, ex) = get_requested_pix_fmts env (color_spec desc) prop;
          cands = apply_blacklist req (codec_name codec)
      in case negotiate_loop topen (pix_fmts codec) s cands of
           (s1, Some f) \<Rightarrow> Neg_Ok s1 f False
         | (s1, None) \<Rightarrow>
             if get_commandline_param env ''lavc-use-codec'' = None then
               (case pix_fmts codec of
                  None \<Rightarrow> Neg_Crash
                | Some l \<Rightarrow> (case fallback_loop topen s1 l of
                     (s2, Some f) \<Rightarrow> Neg_Ok s2 f True
                   | (s2, None) \<Rightarrow> Neg_Fail s2 ex))
             else Neg_Fail s1 ex)"

section \<open>Reference specification\<close>

text \<open>
  The design the spec asks for (section 9): a pure function over the candidate
  sequence and a "can this format open" predicate.  With a trial open that does not
  touch the state, the first loop is exactly \<open>find\<close>, and the fallback is
  \<open>find\<close> over the encoder's list.
\<close>

definition pure_open :: "(av_pixfmt \<Rightarrow> bool) \<Rightarrow> 's \<Rightarrow> av_pixfmt \<Rightarrow> 's \<times> av_pixfmt option" where
  "pure_open ok s f = (s, if ok f then Some f else None)"

text \<open>A trial open that also counts how often it is called.\<close>

definition count_open :: "('s \<Rightarrow> av_pixfmt \<Rightarrow> 's \<times> av_pixfmt option) \<Rightarrow>
    nat \<times> 's \<Rightarrow> av_pixfmt \<Rightarrow> (nat \<times> 's) \<times> av_pixfmt option" where
  "count_open topen ks f = (case topen (snd ks) f of (s', r) \<Rightarrow> ((Suc (fst ks), s'), r))"

lemma negotiate_loop_skip:
  "r \<notin> set cs \<Longrightarrow> negotiate_loop topen (Some cs) s (r # rs) = negotiate_loop topen (Some cs) s rs"
  by (simp add: negotiate_loop.simps [of _ _ _ "r # rs"] negotiate_loop.simps [of _ _ _ rs]
                get_first_matching_pix_fmt_def)

lemma negotiate_loop_pure:
  "negotiate_loop (pure_open ok) (Some cs) s it = (s, find (\<lambda>f. f \<in> set cs \<and> ok f) it)"
proof (induction it)
  case Nil
  then show ?case
    by (simp add: negotiate_loop.simps get_first_matching_pix_fmt_def)
next
  case (Cons r rs)
  show ?case
  proof (cases "r \<in> set cs")
    case True
    then show ?thesis
      using Cons.IH
      by (simp add: negotiate_loop.simps [of _ _ _ "r # rs"] get_first_matching_pix_fmt_def pure_open_def)
  next
    case False
    then show ?thesis using Cons.IH by (simp add: negotiate_loop_skip)
  qed
qed

lemma fallback_loop_pure:
  "fallback_loop (pure_open ok) s l = (s, find (\<lambda>f. not_hwaccel f \<and> ok f) l)"
  by (induction l) (auto simp: pure_open_def)

lemma negotiate_loop_no_list: "negotiate_loop topen None s it = (s, None)"
  by (simp add: negotiate_loop.simps get_first_matching_pix_fmt_def)

text \<open>The whole negotiation with a stateless trial open, in terms of \<open>find\<close>.\<close>

lemma negotiate_pix_fmt_pure:
  "negotiate_pix_fmt env (pure_open ok) prop codec desc s =
    (let cands = apply_blacklist (fst (get_requested_pix_fmts env (color_spec desc) prop)) (codec_name codec)
     in case (case pix_fmts codec of None \<Rightarrow> None | Some cs \<Rightarrow> find (\<lambda>f. f \<in> set cs \<and> ok f) cands) of
          Some f \<Rightarrow> Neg_Ok s f False
        | None \<Rightarrow>
            if get_commandline_param env ''lavc-use-codec'' = None then
              (case pix_fmts codec of
                 None \<Rightarrow> Neg_Crash
               | Some l \<Rightarrow> (case find (\<lambda>f. not_hwaccel f \<and> ok f) l of
                    Some f \<Rightarrow> Neg_Ok s f True
                  | None \<Rightarrow> Neg_Fail s (snd (get_requested_pix_fmts env (color_spec desc) prop))))
            else Neg_Fail s (snd (get_requested_pix_fmts env (color_spec desc) prop)))"
  by (cases "pix_fmts codec")
     (simp_all add: negotiate_pix_fmt_def negotiate_loop_pure fallback_loop_pure negotiate_loop_no_list
        Let_def split: prod.split option.split)

section \<open>Properties of the negotiator\<close>

text \<open>
  Claim C6: with a trial open that does not touch the state, and without
  \<open>lavc-use-codec\<close>, negotiation is the reference specification: the first candidate
  (after the NVENC blacklist) that the encoder lists and that opens; failing that, the
  first non-hardware format of the encoder's own list that opens, marked as needing
  the swscale stage; failing that, failure.
\<close>

theorem negotiate_pix_fmt_refines:
  assumes "get_commandline_param env ''lavc-use-codec'' = None" and "pix_fmts codec = Some cs"
  shows "negotiate_pix_fmt env (pure_open ok) prop codec desc s =
    (case find (\<lambda>f. f \<in> set cs \<and> ok f)
                (apply_blacklist (get_available_pix_fmts env (color_spec desc) prop) (codec_name codec)) of
       Some f \<Rightarrow> Neg_Ok s f False
     | None \<Rightarrow> (case find (\<lambda>f. not_hwaccel f \<and> ok f) cs of
                  Some f \<Rightarrow> Neg_Ok s f True
                | None \<Rightarrow> Neg_Fail s False))"
  using assms by (simp add: negotiate_pix_fmt_pure get_requested_pix_fmts_def split: option.split)

theorem negotiate_pix_fmt_refines_witness:
  "negotiate_pix_fmt demo_env (pure_open (\<lambda>_. True)) (req_conv_prop (default_cfg demo_env))
     (the (demo_encoder ''libx264'')) (zero_desc\<lparr>color_spec := UYVY\<rparr>) (0::nat)
   = Neg_Ok 0 AV_PIX_FMT_YUV444P False"
proof -
  have a: "get_commandline_param demo_env ''lavc-use-codec'' = None" by simp
  have b: "pix_fmts (the (demo_encoder ''libx264'')) =
             Some [AV_PIX_FMT_YUV420P, AV_PIX_FMT_YUV422P, AV_PIX_FMT_YUV444P, AV_PIX_FMT_NV12]"
    by (simp add: demo_encoder_def)
  show ?thesis
    unfolding negotiate_pix_fmt_refines [OF a b]
    by (simp add: apply_blacklist_def demo_encoder_def lavc_str)
qed

text \<open>
  Claim C7: the NVENC blacklist never empties a candidate list and never adds a
  candidate, and for an NVENC encoder with more than one (distinct) candidate it
  removes \<open>x2rgb10le\<close>; a single forced format is kept.
\<close>

theorem apply_blacklist_keeps_candidates:
  "(apply_blacklist fs n = [] \<longleftrightarrow> fs = []) \<and> set (apply_blacklist fs n) \<subseteq> set fs \<and>
   (contains ''nvenc'' n \<and> length fs \<noteq> 1 \<and> distinct fs \<longrightarrow>
      AV_PIX_FMT_X2RGB10LE \<notin> set (apply_blacklist fs n))"
proof (intro conjI)
  show "apply_blacklist fs n = [] \<longleftrightarrow> fs = []"
  proof (cases "contains ''nvenc'' n \<and> length fs \<noteq> 1")
    case True
    then have "length (remove1 AV_PIX_FMT_X2RGB10LE fs) = 0 \<longleftrightarrow> length fs = 0"
      by (cases fs) (auto simp: length_remove1)
    with True show ?thesis by (auto simp: apply_blacklist_def)
  qed (auto simp: apply_blacklist_def)
  show "set (apply_blacklist fs n) \<subseteq> set fs"
    by (auto simp: apply_blacklist_def dest: in_set_remove1 [THEN iffD1, rotated])
      (meson notin_set_remove1)
  show "contains ''nvenc'' n \<and> length fs \<noteq> 1 \<and> distinct fs \<longrightarrow>
      AV_PIX_FMT_X2RGB10LE \<notin> set (apply_blacklist fs n)"
    by (simp add: apply_blacklist_def)
qed

theorem apply_blacklist_keeps_candidates_witness:
  "apply_blacklist [AV_PIX_FMT_X2RGB10LE, AV_PIX_FMT_GBRP] ''h264_nvenc'' = [AV_PIX_FMT_GBRP] \<and>
   AV_PIX_FMT_X2RGB10LE \<notin> set (apply_blacklist [AV_PIX_FMT_X2RGB10LE, AV_PIX_FMT_GBRP] ''h264_nvenc'') \<and>
   apply_blacklist [AV_PIX_FMT_X2RGB10LE] ''h264_nvenc'' = [AV_PIX_FMT_X2RGB10LE]"
proof -
  have c: "contains ''nvenc'' ''h264_nvenc''" by (simp add: lavc_str)
  have "contains ''nvenc'' ''h264_nvenc'' \<and> length [AV_PIX_FMT_X2RGB10LE, AV_PIX_FMT_GBRP] \<noteq> 1 \<and>
        distinct [AV_PIX_FMT_X2RGB10LE, AV_PIX_FMT_GBRP]" using c by simp
  with apply_blacklist_keeps_candidates [of "[AV_PIX_FMT_X2RGB10LE, AV_PIX_FMT_GBRP]" "''h264_nvenc''"]
  show ?thesis using c by (simp add: apply_blacklist_def)
qed

section \<open>Termination of the trial loops\<close>

lemma negotiate_loop_trials:
  "fst (fst (negotiate_loop (count_open topen) cf ks it)) \<le> fst ks + length it"
proof (induction "count_open topen" cf ks it rule: negotiate_loop.induct)
  case (1 cf ks it)
  show ?case
  proof (cases "get_first_matching_pix_fmt it cf")
    case g: (Pair fo it')
    show ?thesis
    proof (cases fo)
      case None
      with g show ?thesis by (simp add: negotiate_loop.simps [of _ _ ks it])
    next
      case (Some f)
      have l: "length it' < length it" using g Some get_first_matching_shorter by blast
      show ?thesis
      proof (cases "count_open topen ks f")
        case c: (Pair ks' r)
        have k: "fst ks' = Suc (fst ks)"
          using c by (auto simp: count_open_def split: prod.splits)
        show ?thesis
        proof (cases r)
          case None
          have "fst (fst (negotiate_loop (count_open topen) cf ks' it')) \<le> fst ks' + length it'"
            by (rule "1" [OF g [symmetric] \<open>fo = Some f\<close> c [symmetric] None])
          then show ?thesis
            using g \<open>fo = Some f\<close> c None k l
            by (simp add: negotiate_loop.simps [of _ _ ks it])
        next
          case (Some f')
          then show ?thesis
            using g \<open>fo = Some f\<close> c k l
            by (simp add: negotiate_loop.simps [of _ _ ks it])
        qed
      qed
    qed
  qed
qed

lemma fallback_loop_trials:
  "fst (fst (fallback_loop (count_open topen) ks l)) \<le> fst ks + length l"
  by (induction "count_open topen" ks l rule: fallback_loop.induct)
     (auto simp: count_open_def split: prod.splits option.splits intro: le_SucI
           dest: le_trans)

lemma fallback_loop_bound:
  "fallback_loop (count_open topen) ks l = (ks', r) \<Longrightarrow> fst ks \<le> m \<Longrightarrow> fst ks' \<le> m + length l"
  using fallback_loop_trials [of topen ks l] by simp

lemma apply_blacklist_length: "length (apply_blacklist fs n) \<le> length fs"
  by (simp add: apply_blacklist_def length_remove1)

text \<open>
  Claim C29: the two trial-open loops of \<open>configure_with\<close> terminate after at most one
  \<open>try_open_codec\<close> per candidate and per format of the encoder's list: counting the
  trial opens, a negotiation makes at most as many as the requested formats plus the
  encoder's formats.
\<close>

theorem negotiate_pix_fmt_trials:
  "(case negotiate_pix_fmt env (count_open topen) prop codec desc (0, s) of
      Neg_Ok ks _ _ \<Rightarrow> fst ks | Neg_Fail ks _ \<Rightarrow> fst ks | Neg_Crash \<Rightarrow> 0)
   \<le> length (fst (get_requested_pix_fmts env (color_spec desc) prop)) +
     (case pix_fmts codec of None \<Rightarrow> 0 | Some l \<Rightarrow> length l)"
proof -
  let ?c = "apply_blacklist (fst (get_requested_pix_fmts env (color_spec desc) prop)) (codec_name codec)"
  obtain ks1 r1 where n: "negotiate_loop (count_open topen) (pix_fmts codec) (0, s) ?c = (ks1, r1)"
    by fastforce
  have b1: "fst ks1 \<le> length ?c"
    using negotiate_loop_trials [of topen "pix_fmts codec" "(0, s)" ?c] n by simp
  have b: "length ?c \<le> length (fst (get_requested_pix_fmts env (color_spec desc) prop))"
    by (rule apply_blacklist_length)
  have a: "fst ks1 \<le> length (fst (get_requested_pix_fmts env (color_spec desc) prop))"
    using b1 b by simp
  show ?thesis
    using n a
    by (auto simp: negotiate_pix_fmt_def Let_def split: prod.splits option.splits neg_result.splits
             dest!: fallback_loop_bound)
qed

end
