(* ===== verification/Lavc_Tuner.thy ===== *)
theory Lavc_Tuner
  imports Lavc_Registry
begin

text \<open>
  The parameter tuner of \<open>video_compress/libavcodec.cpp\<close>: how
  \<open>set_codec_ctx_params\<close> fills an \<open>AVCodecContext\<close> from the configuration before
  \<open>avcodec_open2\<close>.  It holds \<open>check_av_opt_set\<close>, \<open>set_cqp\<close>, the rate-control policy
  (the quality section of \<open>set_codec_ctx_params\<close>, as \<open>set_quality\<close>),
  \<open>set_codec_thread_mode\<close>, the encoder-family tuners reached through the registry's
  \<open>set_param\<close> (\<open>setparam_*\<close>, \<open>configure_*\<close>, \<open>set_forced_idr\<close>) and
  \<open>set_codec_ctx_params\<close> itself, with the user's pass-through options.

  A tuner returns its possibly updated configuration (the tuners write
  \<open>params.thread_mode\<close> and the blacklist through \<open>setparam_param\<close>'s references),
  the context, and an exit request (\<open>exit_uv(n)\<close> only requests the program to stop;
  the tuner goes on).  None is an abort: a failing \<open>assert\<close> or an exception
  (\<open>std::stof\<close>, \<open>std::stoi\<close> out of range) that nothing catches.
\<close>

unbundle bit_operations_syntax

section \<open>Constants\<close>

definition DEFAULT_X264_X265_CRF :: real where "DEFAULT_X264_X265_CRF = 22"
definition DEFAULT_CQP :: int where "DEFAULT_CQP = 21"
definition DEFAULT_CQP_MJPEG_QSV :: int where "DEFAULT_CQP_MJPEG_QSV = 80"
definition DEFAULT_CQP_QSV :: int where "DEFAULT_CQP_QSV = 5000"
definition DEFAULT_SLICE_COUNT :: int where "DEFAULT_SLICE_COUNT = 32"
definition DEFAULT_X26X_RC_BUF_SIZE_FACTOR :: real where "DEFAULT_X26X_RC_BUF_SIZE_FACTOR = 5 / 2"
definition DEFAULT_AMF_USAGE :: string where "DEFAULT_AMF_USAGE = ''lowlatency''"
definition DEFAULT_NVENC_PRESET :: string where "DEFAULT_NVENC_PRESET = ''p4''"
definition DEFAULT_NVENC_RC :: string where "DEFAULT_NVENC_RC = ''cbr''"
definition DEFAULT_NVENC_TUNE :: string where "DEFAULT_NVENC_TUNE = ''ull''"
definition FALLBACK_NVENC_PRESET :: string where "FALLBACK_NVENC_PRESET = ''llhq''"
definition DEFAULT_QSV_RC :: string where "DEFAULT_QSV_RC = ''vbr''"
definition FF_THREAD_FRAME :: int where "FF_THREAD_FRAME = 1"
definition FF_THREAD_SLICE :: int where "FF_THREAD_SLICE = 2"

lemmas tuner_consts = DEFAULT_X264_X265_CRF_def DEFAULT_CQP_def DEFAULT_CQP_MJPEG_QSV_def
  DEFAULT_CQP_QSV_def DEFAULT_SLICE_COUNT_def DEFAULT_X26X_RC_BUF_SIZE_FACTOR_def
  DEFAULT_AMF_USAGE_def DEFAULT_NVENC_PRESET_def DEFAULT_NVENC_RC_def DEFAULT_NVENC_TUNE_def
  FALLBACK_NVENC_PRESET_def DEFAULT_QSV_RC_def FF_THREAD_FRAME_def FF_THREAD_SLICE_def

type_synonym 'a tune_out = "('a lavc_cfg_scheme \<times> codec_ctx \<times> int option) option"

section \<open>Setting an option: \<open>check_av_opt_set\<close>\<close>

text \<open>An assignment to the encoder's private data: recorded in \<open>priv_opts\<close> when
  FFmpeg accepts it; the result says whether it did (the message is not modelled).
  \<open>av_opt_set\<close> called directly behaves the same.\<close>

definition check_av_opt_set :: "lavc_env \<Rightarrow> codec_ctx \<Rightarrow> string \<Rightarrow> opt_val \<Rightarrow> codec_ctx \<times> bool" where
  "check_av_opt_set env ctx key v =
     (if opt_set_ok env (codec_name (ctx_codec ctx)) key v
      then (ctx\<lparr>priv_opts := om_update key v (priv_opts ctx)\<rparr>, True) else (ctx, False))"

abbreviation opt_set :: "lavc_env \<Rightarrow> codec_ctx \<Rightarrow> string \<Rightarrow> opt_val \<Rightarrow> codec_ctx" where
  "opt_set env ctx key v \<equiv> fst (check_av_opt_set env ctx key v)"

text \<open>A sequence of assignments whose results are ignored.\<close>

definition set_opts :: "lavc_env \<Rightarrow> codec_ctx \<Rightarrow> (string \<times> opt_val) list \<Rightarrow> codec_ctx" where
  "set_opts env ctx kvs = fold (\<lambda>(k, v) c. opt_set env c k v) kvs ctx"

section \<open>Constant quantiser: \<open>set_cqp\<close>\<close>

definition set_cqp :: "lavc_env \<Rightarrow> codec_ctx \<Rightarrow> int \<Rightarrow> codec_ctx" where
  "set_cqp env ctx req_cqp =
     (let name = codec_name (ctx_codec ctx);
          cqp = (if req_cqp = -1
                 then (if contains ''_qsv'' name
                       then (if name = ''mjpeg_qsv'' then DEFAULT_CQP_MJPEG_QSV else DEFAULT_CQP_QSV)
                       else DEFAULT_CQP)
                 else req_cqp);
          ctx1 = ctx\<lparr>flag_qscale := True\<rparr>
      in if name = ''mjpeg'' then ctx1\<lparr>qmin := cqp, qmax := cqp\<rparr>
         else if contains ''_qsv'' name then ctx1\<lparr>global_quality := cqp\<rparr>
         else opt_set env ctx1 ''qp'' (OInt cqp))"

section \<open>Rate control: the quality section of \<open>set_codec_ctx_params\<close>\<close>

text \<open>\<open>avg_bpp\<close>: the requested bits per pixel when positive, else the registry's
  (\<open>codec_params[ug_codec]\<close> value-initialises a missing entry, whose \<open>avg_bpp\<close> is 0).\<close>

definition avg_bpp_of :: "'a lavc_cfg_scheme \<Rightarrow> codec_t \<Rightarrow> real" where
  "avg_bpp_of s ug =
     (case requested_bpp s of
        Fin b \<Rightarrow> if 0 < b then b else (case codec_params ug of Some p \<Rightarrow> avg_bpp p | None \<Rightarrow> 0)
      | NaN \<Rightarrow> (case codec_params ug of Some p \<Rightarrow> avg_bpp p | None \<Rightarrow> 0))"

text \<open>The bit rate: the requested one, else \<open>desc.width * desc.height * avg_bpp * desc.fps\<close>,
  where the product of the two \<open>unsigned\<close> dimensions wraps modulo \<open>2^32\<close> before it
  is converted to \<open>double\<close>, and the result is truncated to \<open>int_fast64_t\<close>.\<close>

definition target_bitrate :: "'a lavc_cfg_scheme \<Rightarrow> video_desc \<Rightarrow> codec_t \<Rightarrow> int" where
  "target_bitrate s desc ug =
     (if 0 < requested_bitrate s then requested_bitrate s
      else c_trunc (real ((width desc * height desc) mod 2 ^ 32) * avg_bpp_of s ug * fps desc))"

definition crf_value :: "c_double \<Rightarrow> real" where
  "crf_value crf = (case crf of Fin c \<Rightarrow> if 0 \<le> c then c else DEFAULT_X264_X265_CRF
                              | NaN \<Rightarrow> DEFAULT_X264_X265_CRF)"

definition set_quality :: "lavc_env \<Rightarrow> 'a lavc_cfg_scheme \<Rightarrow> codec_ctx \<Rightarrow> video_desc \<Rightarrow> codec_t \<Rightarrow> codec_ctx" where
  "set_quality env s ctx desc ug =
     (let name = codec_name (ctx_codec ctx);
          is_x264_x265 = starts_with ''libx26'' name;
          is_vaapi = ends_with ''_vaapi'' name;
          is_mjpeg = contains ''mjpeg'' name;
          bitrate = target_bitrate s desc ug;
          no_hint = (requested_bitrate s = 0 \<and> dbl_eq (requested_bpp s) (Fin 0));
          (ctx1, set_bitrate) =
            (if 0 \<le> requested_cqp s \<or> ((is_vaapi \<or> is_mjpeg) \<and> dbl_eq (requested_crf s) (Fin (-1)) \<and> no_hint)
             then (set_cqp env ctx (requested_cqp s), False)
             else if dbl_le (Fin 0) (requested_crf s) \<or> (is_x264_x265 \<and> no_hint)
             then (opt_set env ctx ''crf'' (ODbl (crf_value (requested_crf s))), False)
             else (ctx, True))
      in if set_bitrate \<or> 0 < requested_bitrate s
         then ctx1\<lparr>bit_rate := bitrate, bit_rate_tolerance := c_trunc (real_of_int bitrate / fps desc * 6)\<rparr>
         else ctx1)"

section \<open>Threading: \<open>set_codec_thread_mode\<close>\<close>

text \<open>The letters after the thread count.  The switch compares \<open>toupper(c)\<close> with
  \<open>'n'\<close>, \<open>'F'\<close> and \<open>'S'\<close>; an unknown letter is only reported.\<close>

fun thread_mode_chars :: "string \<Rightarrow> int \<Rightarrow> int" where
  "thread_mode_chars [] t = t"
| "thread_mode_chars (c # cs) t =
     thread_mode_chars cs
       (let u = upper_ascii c in
        if u = CHR ''n'' then -1
        else if u = CHR ''F'' then t OR FF_THREAD_FRAME
        else if u = CHR ''S'' then t OR FF_THREAD_SLICE
        else t)"

text \<open>The requested type after the letters: none requested means slice threads when
  the codec has them; -1 (\<open>'n'\<close>) means none.\<close>

definition resolve_thread_type :: "avcodec \<Rightarrow> int \<Rightarrow> int" where
  "resolve_thread_type c t0 =
     (if t0 = 0 then (if cap_slice_threads c then FF_THREAD_SLICE else 0)
      else if t0 = -1 then 0 else t0)"

text \<open>The type is assigned only when the codec supports every requested kind.\<close>

definition apply_thread_type :: "int \<Rightarrow> codec_ctx \<Rightarrow> codec_ctx" where
  "apply_thread_type t ctx =
     (let c = ctx_codec ctx in
      if (t AND FF_THREAD_SLICE \<noteq> 0 \<and> \<not> cap_slice_threads c) \<or>
         (t AND FF_THREAD_FRAME \<noteq> 0 \<and> \<not> cap_frame_threads c)
      then ctx else ctx\<lparr>thread_type := t\<rparr>)"

text \<open>The count: the requested one; else 0 (automatic) for libvpx among the codecs with
  their own threading; else the number of cores when some threading is on.\<close>

definition apply_thread_count :: "lavc_env \<Rightarrow> int \<Rightarrow> codec_ctx \<Rightarrow> codec_ctx" where
  "apply_thread_count env req_count ctx =
     (let c = ctx_codec ctx in
      if req_count \<noteq> -1 then ctx\<lparr>thread_count := req_count\<rparr>
      else if cap_other_threads c
      then (if starts_with ''libvpx'' (codec_name c) then ctx\<lparr>thread_count := 0\<rparr> else ctx)
      else if thread_type ctx \<noteq> 0 then ctx\<lparr>thread_count := int (hardware_concurrency env)\<rparr>
      else ctx)"

text \<open>\<open>stoi\<close> of the mode: its \<open>invalid_argument\<close> is caught (no count, letters from
  position 0), its \<open>out_of_range\<close> is not (None).\<close>

definition set_codec_thread_mode :: "lavc_env \<Rightarrow> setparam_param \<Rightarrow> codec_ctx \<Rightarrow> codec_ctx option" where
  "set_codec_thread_mode env param ctx =
     (if thread_mode param = ''no'' then Some (ctx\<lparr>thread_type := 0, thread_count := 1\<rparr>)
      else
        let tm = thread_mode param;
            parsed = (case c_stoi tm of Stoi_Ok n e \<Rightarrow> Some (n, e)
                                      | Stoi_Invalid \<Rightarrow> Some (-1, 0) | Stoi_Range \<Rightarrow> None)
        in case parsed of
             None \<Rightarrow> None
           | Some (req_count, endpos) \<Rightarrow>
               let t1 = resolve_thread_type (ctx_codec ctx) (thread_mode_chars (drop endpos tm) 0)
               in Some (apply_thread_count env req_count (apply_thread_type t1 ctx)))"

section \<open>Encoder-family tuners\<close>

definition setparam_default :: "lavc_env \<Rightarrow> 'a lavc_cfg_scheme \<Rightarrow> codec_ctx \<Rightarrow> 'a tune_out" where
  "setparam_default env s ctx = Some (s, ctx, None)"

definition setparam_jpeg :: "lavc_env \<Rightarrow> 'a lavc_cfg_scheme \<Rightarrow> codec_ctx \<Rightarrow> 'a tune_out" where
  "setparam_jpeg env s ctx =
     (let name = codec_name (ctx_codec ctx);
          ctx1 = (if name = ''mjpeg'' then opt_set env ctx ''huffman'' (OStr ''default'') else ctx);
          ctx2 = (if name = ''mjpeg_qsv'' then opt_set env ctx1 ''async_depth'' (OInt 1) else ctx1)
      in Some (s, ctx2, None))"

definition setparam_vp8_vp9 :: "lavc_env \<Rightarrow> 'a lavc_cfg_scheme \<Rightarrow> codec_ctx \<Rightarrow> 'a tune_out" where
  "setparam_vp8_vp9 env s ctx =
     (let ctx1 = ctx\<lparr>rc_buffer_size := c_trunc (real_of_int (bit_rate ctx) / fps (sp_desc (params s)))\<rparr>
      in Some (s, set_opts env ctx1 [(''deadline'', OStr ''realtime''), (''cpu-used'', OInt 8),
                                     (''rc_lookahead'', OInt 0)], None))"

definition configure_amf :: "lavc_env \<Rightarrow> 'a lavc_cfg_scheme \<Rightarrow> codec_ctx \<Rightarrow> 'a tune_out" where
  "configure_amf env s ctx =
     (let name = codec_name (ctx_codec ctx);
          ctx1 = opt_set env ctx ''usage'' (OStr DEFAULT_AMF_USAGE)
      in Some (s, if name = ''hevc_amf'' then opt_set env ctx1 ''header_insertion_mode'' (OStr ''gop'')
                  else if name = ''h264_amf'' then opt_set env ctx1 ''header_spacing'' (OInt 1)
                  else ctx1, None))"

text \<open>The interlaced-DCT flag for merged interlaced input, as the x264/x265 and QSV
  tuners set it (NVENC asks for \<open>interlaced_dct == 1\<close> instead).\<close>

definition set_interlaced_dct :: "'a lavc_cfg_scheme \<Rightarrow> codec_ctx \<Rightarrow> codec_ctx" where
  "set_interlaced_dct s ctx =
     (if interlacing (sp_desc (params s)) = INTERLACED_MERGED \<and> interlaced_dct (params s) \<noteq> 0
      then ctx\<lparr>flag_interlaced_dct := True\<rparr> else ctx)"

text \<open>The lambda \<open>x265_params_append\<close>: a key is appended unless the string already
  contains it, anywhere, as a substring (\<open>std::string::find\<close>).\<close>

definition x265_params_append :: "string \<Rightarrow> string \<Rightarrow> string \<Rightarrow> string" where
  "x265_params_append key val p =
     (if contains key p then p else p @ (if p = [] then [] else '':'') @ key @ ''='' @ val)"

text \<open>A user option the tuner consumes itself: its value, and the option blacklisted so
  that the pass-through loop does not set it again.\<close>

definition take_user_opt :: "'a lavc_cfg_scheme \<Rightarrow> string \<Rightarrow> (string option \<times> 'a lavc_cfg_scheme)" where
  "take_user_opt s key =
     (case om_lookup (lavc_opts s) key of
        Some v \<Rightarrow> (Some v, s\<lparr>blacklist_opts := insert key (blacklist_opts s)\<rparr>)
      | None \<Rightarrow> (None, s))"

text \<open>The rate-control block of \<open>configure_x264_x265\<close>: a buffer of \<open>factor\<close> frames at
  the maximum rate, the quantiser range defaults, and interlaced DCT.\<close>

definition x26x_rate_control :: "'a lavc_cfg_scheme \<Rightarrow> real \<Rightarrow> codec_ctx \<Rightarrow> codec_ctx" where
  "x26x_rate_control s factor ctx =
     set_interlaced_dct s (ctx\<lparr>
       rc_buffer_size := c_trunc (real_of_int (rc_max_rate ctx) / fps (sp_desc (params s)) * factor),
       qcompress := (if codec_id (ctx_codec ctx) = AV_CODEC_ID_HEVC then 1 / 2 else 0),
       qmin := (if qmin ctx \<noteq> -1 then qmin ctx else 0),
       qmax := (if qmax ctx \<noteq> -1 then qmax ctx else 69),
       max_qdiff := 69\<rparr>)"

text \<open>Periodic intra refresh unless disabled: one reference frame, and the refresh
  option of libx264, or three keys of the x265 parameter string.\<close>

definition x26x_intra_refresh :: "lavc_env \<Rightarrow> 'a lavc_cfg_scheme \<Rightarrow> codec_ctx \<Rightarrow> string \<Rightarrow> codec_ctx \<times> string" where
  "x26x_intra_refresh env s ctx p =
     (let name = codec_name (ctx_codec ctx) in
      if periodic_intra (params s) \<noteq> 0 then
        (let c = ctx\<lparr>refs := 1\<rparr> in
         if name = ''libx264'' \<or> name = ''libx264rgb'' then (opt_set env c ''intra-refresh'' (OStr ''1''), p)
         else if name = ''libx265''
         then (c, x265_params_append ''no-open-gop'' ''1''
                    (x265_params_append ''constrained-intra'' ''1''
                      (x265_params_append ''intra-refresh'' ''1'' p)))
         else (c, p))
      else (ctx, p))"

definition configure_x264_x265 :: "lavc_env \<Rightarrow> 'a lavc_cfg_scheme \<Rightarrow> codec_ctx \<Rightarrow> 'a tune_out" where
  "configure_x264_x265 env s ctx =
     (let name = codec_name (ctx_codec ctx);
          tune = (if codec_id (ctx_codec ctx) = AV_CODEC_ID_H264 then ''zerolatency,fastdecode'' else ''zerolatency'');
          ctx1 = opt_set env ctx ''tune'' (OStr tune);
          ctx2 = ctx1\<lparr>rc_max_rate := bit_rate ctx1\<rparr>;
          factor = (case get_commandline_param env ''lavc-rc-buffer-size-factor'' of
                      None \<Rightarrow> Some DEFAULT_X26X_RC_BUF_SIZE_FACTOR | Some v \<Rightarrow> c_stof env v)
      in case factor of
           None \<Rightarrow> None
         | Some f \<Rightarrow>
             let ctx3 = x26x_rate_control s f ctx2 in
             case take_user_opt s ''x265-params'' of
               (user, s1) \<Rightarrow>
                 let p1 = x265_params_append ''keyint'' (int_to_string (gop_size ctx3))
                            (case user of Some v \<Rightarrow> v | None \<Rightarrow> [])
                 in case x26x_intra_refresh env s ctx3 p1 of
                      (ctx4, p2) \<Rightarrow>
                        Some (s1, if name = ''libx265'' then opt_set env ctx4 ''x265-params'' (OStr p2) else ctx4, None))"

text \<open>QSV rate control: \<open>rc=help\<close> requests exit 0, an unknown mode exit 1; both go on.
  \<open>qvbr\<close> asserts a positive bit rate (None).\<close>

definition qsv_rate_control :: "string \<Rightarrow> codec_ctx \<Rightarrow> (codec_ctx \<times> int option) option" where
  "qsv_rate_control rc ctx =
     (if rc = ''help'' then Some (ctx, Some 0)
      else if ci_eq rc ''cbr'' then Some (ctx\<lparr>rc_max_rate := bit_rate ctx\<rparr>, None)
      else if ci_eq rc ''cqp'' then Some (ctx\<lparr>flag_qscale := True\<rparr>, None)
      else if ci_eq rc ''icq'' \<or> ci_eq rc ''qvbr'' then
        (let ctx1 = ctx\<lparr>global_quality := (if global_quality ctx \<le> 0 then DEFAULT_CQP else global_quality ctx),
                        flag_qscale := False\<rparr>
         in if ci_eq rc ''qvbr''
            then (if 0 < bit_rate ctx1 then Some (ctx1\<lparr>rc_max_rate := 23 * bit_rate ctx1 div 20\<rparr>, None) else None)
            else Some (ctx1, None))
      else if ci_eq rc ''vbr'' then Some (ctx, None)
      else Some (ctx, Some 1))"

definition configure_qsv_h264_hevc :: "lavc_env \<Rightarrow> 'a lavc_cfg_scheme \<Rightarrow> codec_ctx \<Rightarrow> 'a tune_out" where
  "configure_qsv_h264_hevc env s ctx =
     (let ctx1 = set_opts env ctx [(''scenario'', OStr ''livestreaming''), (''async_depth'', OInt 1)];
          ctx2 = (if periodic_intra (params s) \<noteq> 0
                  then set_opts env ctx1 [(''int_ref_type'', OStr ''vertical''), (''int_ref_cycle_size'', OInt 20)]
                  else ctx1);
          ctx3 = set_interlaced_dct s ctx2
      in case take_user_opt s ''rc'' of
           (user, s1) \<Rightarrow>
             (case qsv_rate_control (case user of Some v \<Rightarrow> v | None \<Rightarrow> DEFAULT_QSV_RC) ctx3 of
                None \<Rightarrow> None
              | Some (c, ex) \<Rightarrow> Some (s1, c, ex)))"

text \<open>VA-API: threading is switched off in the shared parameters, which outlive this
  encoder (\<open>params\<close> belongs to the module state).\<close>

definition configure_vaapi :: "lavc_env \<Rightarrow> 'a lavc_cfg_scheme \<Rightarrow> codec_ctx \<Rightarrow> 'a tune_out" where
  "configure_vaapi env s ctx = Some (s\<lparr>params := (params s)\<lparr>thread_mode := ''no''\<rparr>\<rparr>, ctx, None)"

definition set_forced_idr :: "lavc_env \<Rightarrow> codec_ctx \<Rightarrow> nat \<Rightarrow> codec_ctx option" where
  "set_forced_idr env ctx value =
     (if value \<le> 9 then Some (opt_set env ctx ''forced-idr'' (OStr [char_of (48 + value)])) else None)"

text \<open>NVENC, for an FFmpeg without the \<open>PATCHED_FF_NVENC_NO_INFINITE_GOP\<close> patch.
  The tune decides the preset: where \<open>ull\<close> is refused, the old \<open>llhq\<close> preset.\<close>

definition nvenc_preset :: "lavc_env \<Rightarrow> 'a lavc_cfg_scheme \<Rightarrow> codec_ctx \<Rightarrow> codec_ctx" where
  "nvenc_preset env s ctx =
     (case check_av_opt_set env ctx ''tune'' (OStr DEFAULT_NVENC_TUNE) of
        (ctx1, tune_ok) \<Rightarrow>
          if \<not> have_preset (params s)
          then opt_set env ctx1 ''preset'' (OStr (if tune_ok then DEFAULT_NVENC_PRESET else FALLBACK_NVENC_PRESET))
          else ctx1)"

definition nvenc_opts :: "lavc_env \<Rightarrow> 'a lavc_cfg_scheme \<Rightarrow> codec_ctx \<Rightarrow> codec_ctx" where
  "nvenc_opts env s ctx =
     set_opts env (if periodic_intra (params s) = 1 then opt_set env ctx ''intra-refresh'' (OInt 1) else ctx)
       [(''rc'', OStr DEFAULT_NVENC_RC), (''spatial_aq'', OInt 0), (''gpu'', OInt (cuda_device env)),
        (''delay'', OInt 0), (''zerolatency'', OInt 1), (''b_ref_mode'', OStr ''disabled'')]"

text \<open>A buffer of one frame at the bit rate, times the command-line factor when given
  (None where \<open>stof\<close> throws).\<close>

definition nvenc_rc_buffer :: "lavc_env \<Rightarrow> 'a lavc_cfg_scheme \<Rightarrow> codec_ctx \<Rightarrow> codec_ctx option" where
  "nvenc_rc_buffer env s ctx =
     (let c = ctx\<lparr>rc_max_rate := bit_rate ctx,
                  rc_buffer_size := c_trunc (real_of_int (bit_rate ctx) / fps (sp_desc (params s)))\<rparr>
      in case get_commandline_param env ''lavc-rc-buffer-size-factor'' of
           None \<Rightarrow> Some c
         | Some v \<Rightarrow> (case c_stof env v of
                        None \<Rightarrow> None
                      | Some f \<Rightarrow> Some (c\<lparr>rc_buffer_size := c_trunc (real_of_int (rc_buffer_size c) * f)\<rparr>)))"

definition configure_nvenc :: "lavc_env \<Rightarrow> 'a lavc_cfg_scheme \<Rightarrow> codec_ctx \<Rightarrow> 'a tune_out" where
  "configure_nvenc env s ctx =
     (case set_forced_idr env (nvenc_preset env s ctx) 1 of
        None \<Rightarrow> None
      | Some ctx3 \<Rightarrow>
          (case nvenc_rc_buffer env s (nvenc_opts env s ctx3) of
             None \<Rightarrow> None
           | Some c \<Rightarrow>
               Some (s, if interlacing (sp_desc (params s)) = INTERLACED_MERGED \<and> interlaced_dct (params s) = 1
                        then c\<lparr>flag_interlaced_dct := True\<rparr> else c, None)))"

text \<open>SVT, for libavcodec newer than 59.21.100 (\<open>svtav1-params\<close>).  SVT-HEVC gets
  tiles by the resolution.\<close>

definition svt_tiles :: "nat \<Rightarrow> nat \<Rightarrow> int \<times> int" where
  "svt_tiles w h = ((if 1024 \<le> w then 4 else if 512 \<le> w then 2 else 1),
                    (if 256 \<le> h then 4 else if 128 \<le> h then 2 else 1))"

definition svt_hevc_opts :: "lavc_env \<Rightarrow> 'a lavc_cfg_scheme \<Rightarrow> codec_ctx \<Rightarrow> codec_ctx" where
  "svt_hevc_opts env s ctx =
     (let ctx1 = set_opts env ctx [(''la_depth'', OInt 0), (''pred_struct'', OInt 0)];
          w = width (sp_desc (params s)); h = height (sp_desc (params s))
      in case svt_tiles w h of
           (col, row) \<Rightarrow>
             if 1 < col * row \<and> 256 \<le> w \<and> 64 \<le> h
             then set_opts env ctx1 [(''tile_row_cnt'', OInt row), (''tile_col_cnt'', OInt col),
                                     (''tile_slice_mode'', OInt 1), (''umv'', OInt 0)]
             else ctx1)"

definition configure_svt :: "lavc_env \<Rightarrow> 'a lavc_cfg_scheme \<Rightarrow> codec_ctx \<Rightarrow> 'a tune_out" where
  "configure_svt env s ctx =
     (let name = codec_name (ctx_codec ctx)
      in case set_forced_idr env ctx (if name = ''libsvt_hevc'' then 0 else 1) of
           None \<Rightarrow> None
         | Some ctx1 \<Rightarrow>
             if name = ''libsvt_hevc'' then Some (s, svt_hevc_opts env s ctx1, None)
             else if name = ''libsvtav1''
             then Some (s, opt_set env ctx1 ''svtav1-params'' (OStr ''pred-struct=1:tile-columns=2:tile-rows=2''), None)
             else Some (s, ctx1, None))"

datatype enc_family = Fam_AMF | Fam_VAAPI | Fam_X264_X265 | Fam_NVENC | Fam_QSV | Fam_SVT | Fam_Unknown

text \<open>The dispatch of \<open>setparam_h264_h265_av1\<close>, in the order of its tests.\<close>

definition encoder_family :: "string \<Rightarrow> enc_family" where
  "encoder_family name =
     (if ends_with ''_amf'' name then Fam_AMF
      else if ends_with ''_vaapi'' name then Fam_VAAPI
      else if starts_with ''libx264'' name \<or> name = ''libx265'' then Fam_X264_X265
      else if contains ''nvenc'' name then Fam_NVENC
      else if name = ''h264_qsv'' \<or> name = ''hevc_qsv'' then Fam_QSV
      else if starts_with ''libsvt'' name then Fam_SVT
      else Fam_Unknown)"

definition setparam_h264_h265_av1 :: "lavc_env \<Rightarrow> 'a lavc_cfg_scheme \<Rightarrow> codec_ctx \<Rightarrow> 'a tune_out" where
  "setparam_h264_h265_av1 env s ctx =
     (case encoder_family (codec_name (ctx_codec ctx)) of
        Fam_AMF \<Rightarrow> configure_amf env s ctx
      | Fam_VAAPI \<Rightarrow> configure_vaapi env s ctx
      | Fam_X264_X265 \<Rightarrow> configure_x264_x265 env s ctx
      | Fam_NVENC \<Rightarrow> configure_nvenc env s ctx
      | Fam_QSV \<Rightarrow> configure_qsv_h264_hevc env s ctx
      | Fam_SVT \<Rightarrow> configure_svt env s ctx
      | Fam_Unknown \<Rightarrow> Some (s, ctx, None))"

primrec run_set_param :: "set_param_fn \<Rightarrow> lavc_env \<Rightarrow> 'a lavc_cfg_scheme \<Rightarrow> codec_ctx \<Rightarrow> 'a tune_out" where
  "run_set_param Setparam_default = setparam_default"
| "run_set_param Setparam_h264_h265_av1 = setparam_h264_h265_av1"
| "run_set_param Setparam_jpeg = setparam_jpeg"
| "run_set_param Setparam_vp8_vp9 = setparam_vp8_vp9"

section \<open>\<open>set_codec_ctx_params\<close>\<close>

text \<open>The preset of the registry's \<open>get_preset\<close>, set unless it is empty or
  \<open>DONT_SET_PRESET\<close>.\<close>

definition apply_preset :: "lavc_env \<Rightarrow> codec_t \<Rightarrow> video_desc \<Rightarrow> codec_ctx \<Rightarrow> codec_ctx" where
  "apply_preset env ug desc ctx =
     (case codec_params ug of
        None \<Rightarrow> ctx
      | Some p \<Rightarrow> (case get_preset p of
          None \<Rightarrow> ctx
        | Some pf \<Rightarrow>
            let preset = run_preset pf (codec_name (ctx_codec ctx)) (width desc) (height desc) (fps desc)
            in if preset \<noteq> [] \<and> preset \<noteq> DONT_SET_PRESET then opt_set env ctx ''preset'' (OStr preset) else ctx))"

text \<open>The user's options, in key order, skipping the blacklisted ones; the first one
  FFmpeg refuses ends the loop with failure.\<close>

fun set_user_opts :: "lavc_env \<Rightarrow> string set \<Rightarrow> (string, string) omap \<Rightarrow> codec_ctx \<Rightarrow> codec_ctx \<times> bool" where
  "set_user_opts env bl [] ctx = (ctx, True)"
| "set_user_opts env bl ((k, v) # kvs) ctx =
     (if k \<in> bl then set_user_opts env bl kvs ctx
      else (case check_av_opt_set env ctx k (OStr v) of
              (ctx', True) \<Rightarrow> set_user_opts env bl kvs ctx'
            | (ctx', False) \<Rightarrow> (ctx', False)))"

text \<open>The fields \<open>set_codec_ctx_params\<close> assigns after the quality section:
  resolution, time base, GOP, no B-frames, pixel format and raw sample depth.\<close>

definition set_base_params :: "lavc_env \<Rightarrow> 'a lavc_cfg_scheme \<Rightarrow> av_pix_desc \<Rightarrow> av_pixfmt \<Rightarrow> video_desc \<Rightarrow> codec_t \<Rightarrow> codec_ctx \<Rightarrow> codec_ctx" where
  "set_base_params env s pd pix desc ug ctx =
     ctx\<lparr>ctx_width := width desc, ctx_height := height desc,
         time_base_den := c_trunc (fps desc), gop_size := requested_gop s,
         max_b_frames := 0, pix_fmt := pix,
         bits_per_raw_sample := min (int (get_bits_per_component env ug)) (int (comp0_depth pd))\<rparr>"

text \<open>Slices (16 for FFV1 unless requested) and the preset unless the user gave one.\<close>

definition set_slices_preset :: "lavc_env \<Rightarrow> 'a lavc_cfg_scheme \<Rightarrow> codec_t \<Rightarrow> video_desc \<Rightarrow> codec_ctx \<Rightarrow> codec_ctx" where
  "set_slices_preset env s ug desc ctx =
     (let ctx1 = ctx\<lparr>ctx_slices := (if slices (params s) \<noteq> -1 then slices (params s)
                                   else if codec_id (ctx_codec ctx) = AV_CODEC_ID_FFV1 then 16
                                   else DEFAULT_SLICE_COUNT)\<rparr>
      in if \<not> have_preset (params s) then apply_preset env ug desc ctx1 else ctx1)"

text \<open>The whole function: the configuration it leaves behind (\<open>have_preset\<close>, and what
  the tuners wrote), the context, whether the user's options were all accepted
  (its \<open>bool\<close> result), and an exit request of a tuner.  The registry entry of the
  codec is dereferenced for \<open>set_param\<close>, so a codec without one crashes (None), as
  does a pixel format without descriptor.\<close>

type_synonym 'a ctx_params_out = "('a lavc_cfg_scheme \<times> codec_ctx \<times> bool \<times> int option) option"

definition set_codec_ctx_params :: "lavc_env \<Rightarrow> 'a lavc_cfg_scheme \<Rightarrow> codec_ctx \<Rightarrow> av_pixfmt \<Rightarrow> video_desc \<Rightarrow> codec_t \<Rightarrow> 'a ctx_params_out" where
  "set_codec_ctx_params env s0 ctx0 pix desc ug =
     (let s = s0\<lparr>params := (params s0)\<lparr>have_preset := (om_lookup (lavc_opts s0) ''preset'' \<noteq> None)\<rparr>\<rparr>;
          ctx1 = set_quality env s (ctx0\<lparr>strict_std_compliance := -2\<rparr>) desc ug
      in case (av_pix_fmt_desc_get pix, codec_params ug) of
           (Some pd, Some cp) \<Rightarrow>
             (case run_set_param (set_param cp) env s (set_base_params env s pd pix desc ug ctx1) of
                None \<Rightarrow> None
              | Some (s1, ctx3, ex) \<Rightarrow>
                  (case set_codec_thread_mode env (params s1) ctx3 of
                     None \<Rightarrow> None
                   | Some ctx4 \<Rightarrow>
                       (case set_user_opts env (blacklist_opts s1) (lavc_opts s1)
                               (set_slices_preset env s1 ug desc ctx4) of
                          (ctx7, ok) \<Rightarrow> Some (s1, ctx7, ok, ex))))
         | _ \<Rightarrow> None)"

end
