(* ===== verification/Lavc_Tuner_Props.thy ===== *)
theory Lavc_Tuner_Props
  imports Lavc_Tuner
begin

text \<open>
  Properties of the parameter tuner (\<open>Lavc_Tuner\<close>): the rate-control policy of
  \<open>set_codec_ctx_params\<close>, the thread-mode resolution of \<open>set_codec_thread_mode\<close>,
  the user's pass-through options, the VA-API threading switch, QSV rate-control errors
  and the x265 parameter string.  Frame lemmas say which fields each block leaves alone;
  the tuners are characterised one by one (\<open>*_cfg\<close>) so that the properties of the
  whole function follow from \<open>set_codec_ctx_params_steps\<close>.
\<close>

unbundle bit_operations_syntax

section \<open>Demo inputs and predicates of the properties\<close>

definition demo_ctx :: "string \<Rightarrow> codec_ctx" where
  "demo_ctx n = the (demo_alloc (the (demo_encoder n)))"

definition demo_desc :: video_desc where
  "demo_desc = \<lparr>width = 1920, height = 1080, color_spec = UYVY, interlacing = PROGRESSIVE,
                fps = 30, tile_count = 1\<rparr>"

definition threads_supported :: "codec_ctx \<Rightarrow> bool" where
  "threads_supported ctx \<longleftrightarrow>
     (thread_type ctx AND FF_THREAD_SLICE \<noteq> 0 \<longrightarrow> cap_slice_threads (ctx_codec ctx)) \<and>
     (thread_type ctx AND FF_THREAD_FRAME \<noteq> 0 \<longrightarrow> cap_frame_threads (ctx_codec ctx))"

definition demo_vaapi :: avcodec where
  "demo_vaapi = \<lparr>codec_name = ''h264_vaapi'', codec_id = AV_CODEC_ID_H264, pix_fmts = Some [AV_PIX_FMT_VAAPI],
                 cap_slice_threads = False, cap_frame_threads = False, cap_other_threads = False\<rparr>"

definition threads_cfg :: lavc_cfg where
  "threads_cfg = (default_cfg demo_env)\<lparr>params := default_params\<lparr>thread_mode := ''4S''\<rparr>\<rparr>"

definition huffman_cfg :: lavc_cfg where
  "huffman_cfg = (default_cfg demo_env)\<lparr>lavc_opts := [(''huffman'', ''optimal'')]\<rparr>"

definition qsv_known_rc :: "string \<Rightarrow> bool" where
  "qsv_known_rc rc \<longleftrightarrow> rc = ''help'' \<or> ci_eq rc ''cbr'' \<or> ci_eq rc ''cqp'' \<or> ci_eq rc ''icq'' \<or>
                        ci_eq rc ''qvbr'' \<or> ci_eq rc ''vbr''"


section \<open>Properties\<close>

lemma demo_ctx_sel [simp]:
  "ctx_codec (demo_ctx n) = the (demo_encoder n)" "priv_opts (demo_ctx n) = []"
  "thread_type (demo_ctx n) = 3"
  by (simp_all add: demo_ctx_def demo_alloc_def)

lemma opt_set_frame [simp]:
  "ctx_codec (opt_set env ctx k v) = ctx_codec ctx"
  "bit_rate (opt_set env ctx k v) = bit_rate ctx"
  "flag_qscale (opt_set env ctx k v) = flag_qscale ctx"
  "qmin (opt_set env ctx k v) = qmin ctx"
  "qmax (opt_set env ctx k v) = qmax ctx"
  "thread_type (opt_set env ctx k v) = thread_type ctx"
  "thread_count (opt_set env ctx k v) = thread_count ctx"
  by (simp_all add: check_av_opt_set_def)

lemma opt_set_eq:
  "opt_set env ctx k v =
     ctx\<lparr>priv_opts := (if opt_set_ok env (codec_name (ctx_codec ctx)) k v
                        then om_update k v (priv_opts ctx) else priv_opts ctx)\<rparr>"
  by (simp add: check_av_opt_set_def)

lemma set_cqp_mjpeg:
  "codec_name (ctx_codec ctx) = ''mjpeg'' \<Longrightarrow>
   set_cqp env ctx q = ctx\<lparr>flag_qscale := True, qmin := (if q = -1 then DEFAULT_CQP else q),
                                              qmax := (if q = -1 then DEFAULT_CQP else q)\<rparr>"
  by (simp add: set_cqp_def Let_def starts_with_def)

lemma upper_ascii_not_n: "upper_ascii c \<noteq> CHR ''n''"
proof
  assume u: "upper_ascii c = CHR ''n''"
  show False
  proof (cases "CHR ''a'' \<le> c \<and> c \<le> CHR ''z''")
    case True
    then have b: "97 \<le> (of_char c :: nat)" "(of_char c :: nat) \<le> 122"
      by (simp_all add: less_eq_char_def)
    have "(of_char (char_of (of_char c - 32 :: nat)) :: nat) = 110"
      using u True by (simp add: upper_ascii_def)
    then show False using b by (simp add: of_char_of)
  next
    case False
    then show False using u by (auto simp: upper_ascii_def)
  qed
qed

lemma thread_mode_chars_nonneg: "0 \<le> t \<Longrightarrow> 0 \<le> thread_mode_chars cs t"
  by (induction cs t rule: thread_mode_chars.induct)
     (simp_all add: upper_ascii_not_n Let_def FF_THREAD_FRAME_def FF_THREAD_SLICE_def)

lemma apply_thread_type_supported:
  "threads_supported ctx \<Longrightarrow> threads_supported (apply_thread_type t ctx)"
  by (auto simp: apply_thread_type_def threads_supported_def Let_def)

lemma apply_thread_type_codec [simp]: "ctx_codec (apply_thread_type t ctx) = ctx_codec ctx"
  by (simp add: apply_thread_type_def Let_def)

lemma apply_thread_count_frame [simp]:
  "thread_type (apply_thread_count env n ctx) = thread_type ctx"
  "ctx_codec (apply_thread_count env n ctx) = ctx_codec ctx"
  by (simp_all add: apply_thread_count_def Let_def)

lemma threads_supported_count [simp]:
  "threads_supported (apply_thread_count env n ctx) = threads_supported ctx"
  by (simp add: threads_supported_def)

lemma set_user_opts_Cons:
  "set_user_opts env bl ((k, v) # kvs) ctx =
     (if k \<in> bl then set_user_opts env bl kvs ctx
      else if opt_set_ok env (codec_name (ctx_codec ctx)) k (OStr v)
      then set_user_opts env bl kvs (ctx\<lparr>priv_opts := om_update k (OStr v) (priv_opts ctx)\<rparr>)
      else (ctx, False))"
  by (simp add: check_av_opt_set_def)

declare set_user_opts.simps(2) [simp del]

lemma set_user_opts_codec [simp]: "ctx_codec (fst (set_user_opts env bl opts ctx)) = ctx_codec ctx"
  by (induction opts arbitrary: ctx) (auto simp: set_user_opts_Cons)

lemma set_user_opts_other:
  "k \<notin> fst ` set opts \<Longrightarrow>
   om_lookup (priv_opts (fst (set_user_opts env bl opts ctx))) k = om_lookup (priv_opts ctx) k"
  by (induction opts arbitrary: ctx) (auto simp: set_user_opts_Cons)

lemma set_user_opts_sets:
  assumes "om_wf opts" and "snd (set_user_opts env bl opts ctx)"
    and "om_lookup opts k = Some v" and "k \<notin> bl"
  shows "om_lookup (priv_opts (fst (set_user_opts env bl opts ctx))) k = Some (OStr v)"
  using assms
proof (induction opts arbitrary: ctx)
  case Nil
  then show ?case by simp
next
  case (Cons kv kvs)
  obtain k' v' where kv: "kv = (k', v')" by fastforce
  have wf: "om_wf kvs" and notin: "k' \<notin> fst ` set kvs"
    using Cons.prems(1) kv by (auto simp: om_wf_def)
  show ?case
  proof (cases "k = k'")
    case True
    then show ?thesis using Cons.prems notin kv
      by (auto simp: set_user_opts_Cons set_user_opts_other split: if_splits)
  next
    case False
    then show ?thesis using Cons.prems Cons.IH wf kv
      by (auto simp: set_user_opts_Cons split: if_splits)
  qed
qed

lemma set_user_opts_threads [simp]:
  "thread_type (fst (set_user_opts env bl opts ctx)) = thread_type ctx"
  "thread_count (fst (set_user_opts env bl opts ctx)) = thread_count ctx"
  by (induction opts arbitrary: ctx) (auto simp: set_user_opts_Cons)

lemma set_cqp_codec [simp]: "ctx_codec (set_cqp env ctx q) = ctx_codec ctx"
  by (simp add: set_cqp_def Let_def)

lemma set_quality_codec [simp]: "ctx_codec (set_quality env s ctx desc ug) = ctx_codec ctx"
  by (simp add: set_quality_def Let_def split: prod.splits)

lemma apply_preset_frame [simp]:
  "ctx_codec (apply_preset env ug desc ctx) = ctx_codec ctx"
  "thread_type (apply_preset env ug desc ctx) = thread_type ctx"
  "thread_count (apply_preset env ug desc ctx) = thread_count ctx"
  by (simp_all add: apply_preset_def Let_def split: option.splits)

lemma take_user_opt_frame [simp]:
  "lavc_opts (snd (take_user_opt s k)) = lavc_opts s"
  "params (snd (take_user_opt s k)) = params s"
  by (simp_all add: take_user_opt_def split: option.splits)

lemma take_user_opt_blacklist:
  "blacklist_opts s \<subseteq> blacklist_opts (snd (take_user_opt s k))"
  by (auto simp: take_user_opt_def split: option.splits)

text \<open>C8: with an explicit CQP and an explicit bit rate, both are applied: the
  quantiser is fixed and the bit rate set.\<close>

lemma set_quality_cqp_and_bitrate:
  assumes "0 \<le> requested_cqp s" and "0 < requested_bitrate s"
  shows "set_quality env s ctx desc ug =
           (set_cqp env ctx (requested_cqp s))\<lparr>bit_rate := requested_bitrate s,
               bit_rate_tolerance := c_trunc (real_of_int (requested_bitrate s) / fps desc * 6)\<rparr>
         \<and> flag_qscale (set_quality env s ctx desc ug)"
  using assms by (simp add: set_quality_def Let_def target_bitrate_def set_cqp_def)

lemma set_quality_cqp_and_bitrate_witness:
  "0 \<le> requested_cqp ((default_cfg demo_env)\<lparr>requested_cqp := 30, requested_bitrate := 1000000\<rparr>) \<and>
   0 < requested_bitrate ((default_cfg demo_env)\<lparr>requested_cqp := 30, requested_bitrate := 1000000\<rparr>) \<and>
   bit_rate (set_quality demo_env ((default_cfg demo_env)\<lparr>requested_cqp := 30, requested_bitrate := 1000000\<rparr>)
               (demo_ctx ''mjpeg'') demo_desc MJPG) = 1000000 \<and>
   flag_qscale (set_quality demo_env ((default_cfg demo_env)\<lparr>requested_cqp := 30, requested_bitrate := 1000000\<rparr>)
               (demo_ctx ''mjpeg'') demo_desc MJPG)"
  using set_quality_cqp_and_bitrate [of "(default_cfg demo_env)\<lparr>requested_cqp := 30, requested_bitrate := 1000000\<rparr>"
      demo_env "demo_ctx ''mjpeg''" demo_desc MJPG]
  by (simp add: set_cqp_mjpeg demo_encoder_def)

text \<open>for libx264, libx264rgb and libx265 with no quality hint at all, the
  quality section sets only CRF 22 (when the encoder accepts it), and no bit rate.\<close>

lemma set_quality_x26x_default:
  assumes "codec_name (ctx_codec ctx) \<in> {''libx264'', ''libx264rgb'', ''libx265''}"
    and "requested_cqp s = -1" and "requested_crf s = Fin (-1)"
    and "requested_bitrate s = 0" and "requested_bpp s = Fin 0"
  shows "set_quality env s ctx desc ug =
           ctx\<lparr>priv_opts := (if opt_set_ok env (codec_name (ctx_codec ctx)) ''crf'' (ODbl 22)
                              then om_update ''crf'' (ODbl 22) (priv_opts ctx) else priv_opts ctx)\<rparr>"
  using assms by (auto simp: set_quality_def Let_def crf_value_def DEFAULT_X264_X265_CRF_def opt_set_eq
                             starts_with_def ends_with_def)

lemma set_quality_x26x_default_witness:
  "codec_name (ctx_codec (demo_ctx ''libx264'')) \<in> {''libx264'', ''libx264rgb'', ''libx265''} \<and>
   requested_cqp (default_cfg demo_env) = -1 \<and> requested_crf (default_cfg demo_env) = Fin (-1) \<and>
   requested_bitrate (default_cfg demo_env) = 0 \<and> requested_bpp (default_cfg demo_env) = Fin 0 \<and>
   priv_opts (set_quality demo_env (default_cfg demo_env) (demo_ctx ''libx264'') demo_desc H264)
     = [(''crf'', ODbl 22)]"
  using set_quality_x26x_default [of "demo_ctx ''libx264''" "default_cfg demo_env" demo_env demo_desc H264]
  by (simp add: demo_encoder_def default_cfg_def)

text \<open>a requested bit rate with neither CQP nor CRF requested is applied as is,
  with a tolerance of six frames' worth, and nothing else of the context changes.\<close>

lemma set_quality_bitrate:
  assumes "0 < requested_bitrate s" and "requested_cqp s < 0"
    and "\<not> dbl_le (Fin 0) (requested_crf s)"
  shows "set_quality env s ctx desc ug =
           ctx\<lparr>bit_rate := requested_bitrate s,
               bit_rate_tolerance := c_trunc (real_of_int (requested_bitrate s) / fps desc * 6)\<rparr>"
  using assms by (simp add: set_quality_def Let_def target_bitrate_def)

lemma set_quality_bitrate_witness:
  "0 < requested_bitrate ((default_cfg demo_env)\<lparr>requested_bitrate := 2000000\<rparr>) \<and>
   requested_cqp ((default_cfg demo_env)\<lparr>requested_bitrate := 2000000\<rparr>) < 0 \<and>
   \<not> dbl_le (Fin 0) (requested_crf ((default_cfg demo_env)\<lparr>requested_bitrate := 2000000\<rparr>)) \<and>
   bit_rate (set_quality demo_env ((default_cfg demo_env)\<lparr>requested_bitrate := 2000000\<rparr>)
               (demo_ctx ''libx264'') demo_desc H264) = 2000000 \<and>
   priv_opts (set_quality demo_env ((default_cfg demo_env)\<lparr>requested_bitrate := 2000000\<rparr>)
               (demo_ctx ''libx264'') demo_desc H264) = []"
  using set_quality_bitrate [of "(default_cfg demo_env)\<lparr>requested_bitrate := 2000000\<rparr>" demo_env
      "demo_ctx ''libx264''" demo_desc H264]
  by (simp add: default_cfg_def)

text \<open>MJPEG with no quality hint is encoded at constant quantiser 21
  (\<open>qmin = qmax = 21\<close>), with no bit rate.\<close>

lemma set_quality_mjpeg_default:
  assumes "codec_name (ctx_codec ctx) = ''mjpeg''"
    and "requested_cqp s = -1" and "requested_crf s = Fin (-1)"
    and "requested_bitrate s = 0" and "requested_bpp s = Fin 0"
  shows "set_quality env s ctx desc ug = ctx\<lparr>flag_qscale := True, qmin := 21, qmax := 21\<rparr>"
  using assms by (simp add: set_quality_def Let_def set_cqp_mjpeg starts_with_def ends_with_def DEFAULT_CQP_def)

lemma set_quality_mjpeg_default_witness:
  "codec_name (ctx_codec (demo_ctx ''mjpeg'')) = ''mjpeg'' \<and>
   requested_cqp (default_cfg demo_env) = -1 \<and> requested_crf (default_cfg demo_env) = Fin (-1) \<and>
   requested_bitrate (default_cfg demo_env) = 0 \<and> requested_bpp (default_cfg demo_env) = Fin 0 \<and>
   qmax (set_quality demo_env (default_cfg demo_env) (demo_ctx ''mjpeg'') demo_desc MJPG) = 21"
  using set_quality_mjpeg_default [of "demo_ctx ''mjpeg''" "default_cfg demo_env" demo_env demo_desc MJPG]
  by (simp add: demo_encoder_def default_cfg_def)

text \<open>C9: with no rate hint for an encoder outside the CRF and CQP families, the bit
  rate is \<open>width * height * bpp * fps\<close>, truncated, as long as the pixel count fits
  the 32-bit \<open>unsigned\<close> product.\<close>

lemma set_quality_derived_bitrate:
  assumes "requested_bitrate s = 0" and "requested_cqp s < 0"
    and "\<not> dbl_le (Fin 0) (requested_crf s)"
    and "\<not> starts_with ''libx26'' (codec_name (ctx_codec ctx))"
    and "\<not> contains ''mjpeg'' (codec_name (ctx_codec ctx))"
    and "\<not> ends_with ''_vaapi'' (codec_name (ctx_codec ctx))"
    and "width desc * height desc < 2 ^ 32"
  shows "bit_rate (set_quality env s ctx desc ug) =
           c_trunc (real (width desc) * real (height desc) * avg_bpp_of s ug * fps desc)"
  using assms by (simp add: set_quality_def Let_def target_bitrate_def)

lemma set_quality_derived_bitrate_witness:
  "bit_rate (set_quality demo_env (default_cfg demo_env) (demo_ctx ''h264_nvenc'') demo_desc H264) = 17418240"
  using set_quality_derived_bitrate [of "default_cfg demo_env" "demo_ctx ''h264_nvenc''" demo_desc demo_env H264]
  by (simp add: default_cfg_def demo_encoder_def starts_with_def ends_with_def demo_desc_def
                avg_bpp_of_def codec_params_def)

text \<open>C10: \<open>set_codec_thread_mode\<close> never assigns a thread type the codec does not
  support: from a context whose type is supported, every result is.\<close>

lemma set_codec_thread_mode_supported:
  assumes "set_codec_thread_mode env p ctx = Some ctx'" and "threads_supported ctx"
  shows "threads_supported ctx' \<and> ctx_codec ctx' = ctx_codec ctx"
proof (cases "thread_mode p = ''no''")
  case True
  then show ?thesis using assms by (auto simp: set_codec_thread_mode_def threads_supported_def)
next
  case False
  then obtain n t where "ctx' = apply_thread_count env n (apply_thread_type t ctx)"
    using assms(1) by (auto simp: set_codec_thread_mode_def Let_def split: option.splits stoi_result.splits)
  then show ?thesis using assms(2) by (simp add: apply_thread_type_supported)
qed

lemma set_codec_thread_mode_supported_witness:
  "set_codec_thread_mode demo_env default_params (demo_ctx ''mjpeg'') =
     Some (apply_thread_count demo_env (-1) (apply_thread_type FF_THREAD_SLICE (demo_ctx ''mjpeg''))) \<and>
   threads_supported (demo_ctx ''mjpeg'') \<and>
   threads_supported (apply_thread_count demo_env (-1) (apply_thread_type FF_THREAD_SLICE (demo_ctx ''mjpeg'')))"
proof -
  have run: "set_codec_thread_mode demo_env default_params (demo_ctx ''mjpeg'') =
     Some (apply_thread_count demo_env (-1) (apply_thread_type FF_THREAD_SLICE (demo_ctx ''mjpeg'')))"
    by (simp add: set_codec_thread_mode_def default_params_def c_stoi_def scan_int_def Let_def
                  sign_prefix_def resolve_thread_type_def demo_encoder_def)
  have sup: "threads_supported (demo_ctx ''mjpeg'')"
    by (simp add: threads_supported_def demo_encoder_def)
  show ?thesis using set_codec_thread_mode_supported [OF run sup] run sup by simp
qed

lemma set_user_opts_ok_iff:
  "snd (set_user_opts env bl opts ctx) \<longleftrightarrow>
     (\<forall>(k, v) \<in> set opts. k \<notin> bl \<longrightarrow> opt_set_ok env (codec_name (ctx_codec ctx)) k (OStr v))"
  by (induction opts arbitrary: ctx) (auto simp: set_user_opts_Cons split: if_splits)

lemma set_opts_codec [simp]: "ctx_codec (set_opts env ctx kvs) = ctx_codec ctx"
  by (induction kvs arbitrary: ctx) (auto simp: set_opts_def)

lemma set_interlaced_dct_codec [simp]: "ctx_codec (set_interlaced_dct s ctx) = ctx_codec ctx"
  by (simp add: set_interlaced_dct_def)

lemma set_forced_idr_codec: "set_forced_idr env ctx n = Some c \<Longrightarrow> ctx_codec c = ctx_codec ctx"
  by (auto simp: set_forced_idr_def split: if_splits)

lemma set_codec_thread_mode_codec:
  "set_codec_thread_mode env p ctx = Some c \<Longrightarrow> ctx_codec c = ctx_codec ctx"
  by (auto simp: set_codec_thread_mode_def Let_def split: if_splits option.splits stoi_result.splits)

lemma x26x_frame [simp]:
  "ctx_codec (x26x_rate_control s f ctx) = ctx_codec ctx"
  "ctx_codec (fst (x26x_intra_refresh env s ctx p)) = ctx_codec ctx"
  by (simp_all add: x26x_rate_control_def x26x_intra_refresh_def Let_def)

lemma qsv_rate_control_codec: "qsv_rate_control rc ctx = Some (c, ex) \<Longrightarrow> ctx_codec c = ctx_codec ctx"
  by (auto simp: qsv_rate_control_def Let_def split: if_splits)

lemma configure_x264_x265_cfg:
  "configure_x264_x265 env s ctx = Some (s1, c, ex) \<Longrightarrow>
   s1 = snd (take_user_opt s ''x265-params'') \<and> ctx_codec c = ctx_codec ctx"
  by (auto simp: configure_x264_x265_def Let_def prod.case_eq_if split: option.splits)

lemma configure_qsv_h264_hevc_cfg:
  "configure_qsv_h264_hevc env s ctx = Some (s1, c, ex) \<Longrightarrow>
   s1 = snd (take_user_opt s ''rc'') \<and> ctx_codec c = ctx_codec ctx"
  by (auto simp: configure_qsv_h264_hevc_def Let_def prod.case_eq_if dest!: qsv_rate_control_codec
           split: option.splits)

lemma nvenc_frame [simp]:
  "ctx_codec (nvenc_preset env s ctx) = ctx_codec ctx"
  "ctx_codec (nvenc_opts env s ctx) = ctx_codec ctx"
  by (simp_all add: nvenc_preset_def nvenc_opts_def prod.case_eq_if)

lemma nvenc_rc_buffer_codec: "nvenc_rc_buffer env s ctx = Some c \<Longrightarrow> ctx_codec c = ctx_codec ctx"
  by (auto simp: nvenc_rc_buffer_def Let_def split: option.splits)

lemma configure_nvenc_cfg:
  "configure_nvenc env s ctx = Some (s1, c, ex) \<Longrightarrow> s1 = s \<and> ctx_codec c = ctx_codec ctx"
  by (auto simp: configure_nvenc_def set_forced_idr_def dest!: nvenc_rc_buffer_codec split: option.splits)

lemma svt_hevc_opts_codec [simp]: "ctx_codec (svt_hevc_opts env s ctx) = ctx_codec ctx"
  by (simp add: svt_hevc_opts_def Let_def prod.case_eq_if)

lemma configure_svt_cfg:
  "configure_svt env s ctx = Some (s1, c, ex) \<Longrightarrow> s1 = s \<and> ctx_codec c = ctx_codec ctx"
  by (auto simp: configure_svt_def set_forced_idr_def Let_def split: if_splits)

lemma setparam_h264_h265_av1_cfg:
  assumes "setparam_h264_h265_av1 env s ctx = Some (s1, c, ex)"
  shows "s1 \<in> {s, s\<lparr>params := (params s)\<lparr>thread_mode := ''no''\<rparr>\<rparr>,
               snd (take_user_opt s ''x265-params''), snd (take_user_opt s ''rc'')} \<and>
         ctx_codec c = ctx_codec ctx"
  using assms
  by (cases "encoder_family (codec_name (ctx_codec ctx))")
     (auto simp: setparam_h264_h265_av1_def configure_amf_def configure_vaapi_def Let_def
           dest: configure_x264_x265_cfg configure_qsv_h264_hevc_cfg configure_nvenc_cfg configure_svt_cfg)

lemma run_set_param_opts:
  assumes "run_set_param f env s ctx = Some (s1, c, ex)"
  shows "lavc_opts s1 = lavc_opts s \<and> blacklist_opts s \<subseteq> blacklist_opts s1 \<and>
         ctx_codec c = ctx_codec ctx"
proof (cases f)
  case Setparam_h264_h265_av1
  then show ?thesis using assms setparam_h264_h265_av1_cfg [of env s ctx s1 c ex]
      take_user_opt_blacklist [of s "''x265-params''"] take_user_opt_blacklist [of s "''rc''"]
    by auto
qed (use assms in \<open>auto simp: setparam_default_def setparam_jpeg_def setparam_vp8_vp9_def Let_def\<close>)

text \<open>The steps of a successful \<open>set_codec_ctx_params\<close>, named.\<close>

lemma set_base_params_codec [simp]: "ctx_codec (set_base_params env s pd pix desc ug ctx) = ctx_codec ctx"
  by (simp add: set_base_params_def)

lemma set_slices_preset_frame [simp]:
  "ctx_codec (set_slices_preset env s ug desc ctx) = ctx_codec ctx"
  "thread_type (set_slices_preset env s ug desc ctx) = thread_type ctx"
  "thread_count (set_slices_preset env s ug desc ctx) = thread_count ctx"
  by (simp_all add: set_slices_preset_def Let_def)

lemma set_codec_ctx_params_steps:
  assumes "set_codec_ctx_params env s0 ctx0 pix desc ug = Some (s1, ctx', ok, ex)"
  shows "\<exists>cp c2 c3 c4 c5. codec_params ug = Some cp \<and> ctx_codec c2 = ctx_codec ctx0 \<and>
           run_set_param (set_param cp) env
             (s0\<lparr>params := (params s0)\<lparr>have_preset := (om_lookup (lavc_opts s0) ''preset'' \<noteq> None)\<rparr>\<rparr>) c2
             = Some (s1, c3, ex) \<and>
           set_codec_thread_mode env (params s1) c3 = Some c4 \<and>
           ctx_codec c5 = ctx_codec c4 \<and> thread_type c5 = thread_type c4 \<and>
           thread_count c5 = thread_count c4 \<and>
           (ctx', ok) = set_user_opts env (blacklist_opts s1) (lavc_opts s1) c5"
proof -
  let ?s = "s0\<lparr>params := (params s0)\<lparr>have_preset := (om_lookup (lavc_opts s0) ''preset'' \<noteq> None)\<rparr>\<rparr>"
  let ?c1 = "set_quality env ?s (ctx0\<lparr>strict_std_compliance := -2\<rparr>) desc ug"
  obtain pd cp where pc: "av_pix_fmt_desc_get pix = Some pd" "codec_params ug = Some cp"
    using assms by (auto simp: set_codec_ctx_params_def Let_def split: option.splits)
  obtain c3 where r: "run_set_param (set_param cp) env ?s (set_base_params env ?s pd pix desc ug ?c1) = Some (s1, c3, ex)"
    using assms pc by (auto simp: set_codec_ctx_params_def Let_def split: option.splits prod.splits)
  obtain c4 where t: "set_codec_thread_mode env (params s1) c3 = Some c4"
    using assms pc r by (auto simp: set_codec_ctx_params_def Let_def split: option.splits prod.splits)
  have "(ctx', ok) = set_user_opts env (blacklist_opts s1) (lavc_opts s1) (set_slices_preset env s1 ug desc c4)"
    using assms pc r t by (auto simp: set_codec_ctx_params_def Let_def split: prod.splits)
  then show ?thesis using pc r t
    by (intro exI [of _ cp] exI [of _ "set_base_params env ?s pd pix desc ug ?c1"] exI [of _ c3]
              exI [of _ c4] exI [of _ "set_slices_preset env s1 ug desc c4"]) simp
qed

lemma vaapi_not_amf: "ends_with ''_vaapi'' n \<Longrightarrow> \<not> ends_with ''_amf'' n"
  by (auto simp: ends_with_def starts_with_def dest: arg_cong [where f = "take 4"])

lemma encoder_family_vaapi: "ends_with ''_vaapi'' n \<Longrightarrow> encoder_family n = Fam_VAAPI"
  by (simp add: encoder_family_def vaapi_not_amf)

text \<open>C13: an H.264, HEVC or AV1 VA-API encoder (one whose registry entry has the
  setter \<open>setparam_h264_h265_av1\<close>, the only caller of \<open>configure_vaapi\<close>) is opened
  with threading off, whatever thread mode was requested, and \<open>params.thread_mode\<close>
  is left at \<open>no\<close> in the configuration.  Other VA-API encoders (\<open>mjpeg_vaapi\<close>,
  \<open>vp8_vaapi\<close>, \<open>vp9_vaapi\<close>) keep the requested threading.\<close>

lemma set_codec_ctx_params_vaapi:
  assumes "set_codec_ctx_params env s ctx pix desc ug = Some (s1, ctx', ok, ex)"
    and "ends_with ''_vaapi'' (codec_name (ctx_codec ctx))"
    and "codec_params ug = Some cp" and "set_param cp = Setparam_h264_h265_av1"
  shows "thread_mode (params s1) = ''no'' \<and> thread_type ctx' = 0 \<and> thread_count ctx' = 1"
proof -
  obtain cp' c2 c3 c4 c5 where st: "codec_params ug = Some cp'" "ctx_codec c2 = ctx_codec ctx"
    "run_set_param (set_param cp') env
       (s\<lparr>params := (params s)\<lparr>have_preset := (om_lookup (lavc_opts s) ''preset'' \<noteq> None)\<rparr>\<rparr>) c2
       = Some (s1, c3, ex)"
    "set_codec_thread_mode env (params s1) c3 = Some c4"
    "thread_type c5 = thread_type c4" "thread_count c5 = thread_count c4"
    "(ctx', ok) = set_user_opts env (blacklist_opts s1) (lavc_opts s1) c5"
    using set_codec_ctx_params_steps [OF assms(1)] by blast
  have "thread_mode (params s1) = ''no''"
    using st(1-3) assms(2-4)
    by (auto simp: setparam_h264_h265_av1_def encoder_family_vaapi configure_vaapi_def)
  moreover have "thread_type c4 = 0 \<and> thread_count c4 = 1"
    using st(4) calculation by (auto simp: set_codec_thread_mode_def)
  ultimately show ?thesis using st(5-7)
    by (metis fst_conv set_user_opts_threads)
qed

text \<open>C12: the user's pass-through options: the result is success exactly when FFmpeg
  accepts every one that no tuner consumed, and then each of them holds the user's value,
  over whatever the tuners and the preset set.\<close>

lemma set_codec_ctx_params_passthrough:
  assumes "set_codec_ctx_params env s ctx pix desc ug = Some (s1, ctx', ok, ex)"
    and "om_wf (lavc_opts s)"
  shows "(ok \<longleftrightarrow> (\<forall>(k, v) \<in> set (lavc_opts s). k \<notin> blacklist_opts s1 \<longrightarrow>
                      opt_set_ok env (codec_name (ctx_codec ctx)) k (OStr v))) \<and>
         (ok \<longrightarrow> (\<forall>k v. om_lookup (lavc_opts s) k = Some v \<longrightarrow> k \<notin> blacklist_opts s1 \<longrightarrow>
                      om_lookup (priv_opts ctx') k = Some (OStr v)))"
proof -
  obtain cp c2 c3 c4 c5 where st: "codec_params ug = Some cp" "ctx_codec c2 = ctx_codec ctx"
    "run_set_param (set_param cp) env
       (s\<lparr>params := (params s)\<lparr>have_preset := (om_lookup (lavc_opts s) ''preset'' \<noteq> None)\<rparr>\<rparr>) c2
       = Some (s1, c3, ex)"
    "set_codec_thread_mode env (params s1) c3 = Some c4" "ctx_codec c5 = ctx_codec c4"
    "(ctx', ok) = set_user_opts env (blacklist_opts s1) (lavc_opts s1) c5"
    using set_codec_ctx_params_steps [OF assms(1)] by blast
  have opts: "lavc_opts s1 = lavc_opts s"
    using run_set_param_opts [OF st(3)] by simp
  have codec: "ctx_codec c5 = ctx_codec ctx"
    using st(2-5) run_set_param_opts [OF st(3)] set_codec_thread_mode_codec [OF st(4)] by simp
  have ok: "ok = snd (set_user_opts env (blacklist_opts s1) (lavc_opts s1) c5)"
    and c': "ctx' = fst (set_user_opts env (blacklist_opts s1) (lavc_opts s1) c5)"
    using st(6) by (metis snd_conv, metis fst_conv)
  show ?thesis
    using set_user_opts_ok_iff [of env "blacklist_opts s1" "lavc_opts s" c5]
      set_user_opts_sets [of "lavc_opts s" env "blacklist_opts s1" c5] assms(2)
    unfolding ok c' opts codec by blast
qed

lemma set_codec_ctx_params_vaapi_witness:
  "\<exists>s1 c ok ex. set_codec_ctx_params demo_env threads_cfg (the (demo_alloc demo_vaapi)) AV_PIX_FMT_VAAPI demo_desc H264
                   = Some (s1, c, ok, ex) \<and> thread_mode (params s1) = ''no'' \<and> thread_type c = 0 \<and> thread_count c = 1"
proof -
  have "\<exists>s1 c ok ex. set_codec_ctx_params demo_env threads_cfg (the (demo_alloc demo_vaapi)) AV_PIX_FMT_VAAPI demo_desc H264
                   = Some (s1, c, ok, ex)"
    by (simp add: set_codec_ctx_params_def threads_cfg_def default_cfg_def default_params_def demo_vaapi_def
          demo_alloc_def codec_params_def setparam_h264_h265_av1_def encoder_family_def
          starts_with_def ends_with_def configure_vaapi_def set_codec_thread_mode_def Let_def prod.case_eq_if ex_bool_eq)
  then obtain s1 c ok ex where e: "set_codec_ctx_params demo_env threads_cfg (the (demo_alloc demo_vaapi))
                                     AV_PIX_FMT_VAAPI demo_desc H264 = Some (s1, c, ok, ex)" by blast
  have "thread_mode (params s1) = ''no'' \<and> thread_type c = 0 \<and> thread_count c = 1"
    using set_codec_ctx_params_vaapi [OF e]
    by (simp add: demo_vaapi_def demo_alloc_def codec_params_def ends_with_def starts_with_def)
  then show ?thesis using e by blast
qed

lemma set_codec_ctx_params_passthrough_witness:
  "om_wf (lavc_opts huffman_cfg) \<and>
   (\<exists>s1 c ex. set_codec_ctx_params demo_env huffman_cfg (demo_ctx ''mjpeg'') AV_PIX_FMT_YUVJ422P demo_desc MJPG
               = Some (s1, c, True, ex) \<and> om_lookup (priv_opts c) ''huffman'' = Some (OStr ''optimal''))"
proof -
  have wf: "om_wf (lavc_opts huffman_cfg)"
    by (simp add: huffman_cfg_def om_wf_def)
  have "\<exists>c. set_codec_ctx_params demo_env huffman_cfg (demo_ctx ''mjpeg'') AV_PIX_FMT_YUVJ422P demo_desc MJPG
              = Some (huffman_cfg\<lparr>params := (params huffman_cfg)\<lparr>have_preset := False\<rparr>\<rparr>, c, True, None)"
    by (simp add: set_codec_ctx_params_def huffman_cfg_def default_cfg_def default_params_def
          codec_params_def setparam_jpeg_def set_codec_thread_mode_def c_stoi_def scan_int_def
          sign_prefix_def set_user_opts_Cons Let_def prod.case_eq_if)
  then obtain c where e: "set_codec_ctx_params demo_env huffman_cfg (demo_ctx ''mjpeg'') AV_PIX_FMT_YUVJ422P demo_desc MJPG
              = Some (huffman_cfg\<lparr>params := (params huffman_cfg)\<lparr>have_preset := False\<rparr>\<rparr>, c, True, None)" ..
  have "om_lookup (priv_opts c) ''huffman'' = Some (OStr ''optimal'')"
    using set_codec_ctx_params_passthrough [OF e wf] by (simp add: huffman_cfg_def default_cfg_def)
  then show ?thesis using e wf by blast
qed

lemma set_opts_frame [simp]:
  "bit_rate (set_opts env ctx kvs) = bit_rate ctx"
  "priv_opts (set_opts env ctx []) = priv_opts ctx"
  by (induction kvs arbitrary: ctx) (auto simp: set_opts_def)

lemma set_interlaced_dct_frame [simp]:
  "bit_rate (set_interlaced_dct s ctx) = bit_rate ctx"
  "gop_size (set_interlaced_dct s ctx) = gop_size ctx"
  by (simp_all add: set_interlaced_dct_def)

text \<open>C11: the letter \<open>n\<close> of a thread mode never disables threading: \<open>toupper\<close>
  turns it into \<open>N\<close>, which the switch does not know, so for a codec with slice
  threads the mode \<open>n\<close> gives slice threading.\<close>

lemma set_codec_thread_mode_n_ignored:
  assumes "cap_slice_threads (ctx_codec ctx)"
  shows "\<exists>ctx'. set_codec_thread_mode env (p\<lparr>thread_mode := ''n''\<rparr>) ctx = Some ctx' \<and>
                thread_type ctx' = FF_THREAD_SLICE"
proof -
  have "c_stoi ''n'' = Stoi_Invalid"
    by (simp add: c_stoi_def scan_int_def c_isspace_def c_isdigit_def sign_prefix_def Let_def)
  moreover have "thread_mode_chars ''n'' 0 = 0"
    by code_simp
  ultimately show ?thesis using assms
    by (simp add: set_codec_thread_mode_def resolve_thread_type_def apply_thread_type_def Let_def
                  FF_THREAD_SLICE_def FF_THREAD_FRAME_def)
qed

lemma set_codec_thread_mode_n_ignored_witness:
  "cap_slice_threads (ctx_codec (demo_ctx ''mjpeg'')) \<and>
   (\<exists>ctx'. set_codec_thread_mode demo_env (default_params\<lparr>thread_mode := ''n''\<rparr>) (demo_ctx ''mjpeg'') = Some ctx' \<and>
           thread_type ctx' = FF_THREAD_SLICE)"
  using set_codec_thread_mode_n_ignored [of "demo_ctx ''mjpeg''" demo_env default_params]
  by (simp add: demo_encoder_def)

text \<open>the only failure of \<open>set_codec_thread_mode\<close> is a thread count out of the
  range of \<open>int\<close>, where \<open>std::stoi\<close> throws and nothing catches it.\<close>

lemma set_codec_thread_mode_none:
  "set_codec_thread_mode env p ctx = None \<longleftrightarrow>
     thread_mode p \<noteq> ''no'' \<and> c_stoi (thread_mode p) = Stoi_Range"
  by (auto simp: set_codec_thread_mode_def Let_def split: option.splits prod.splits stoi_result.splits)

text \<open>C14: QSV rate control chosen by the user: it aborts only for \<open>qvbr\<close> without a
  positive bit rate; an unknown mode only requests exit status 1 and the tuner goes on,
  and the option is consumed.\<close>

lemma configure_qsv_rc_errors:
  assumes "om_lookup (lavc_opts s) ''rc'' = Some rc"
  shows "(configure_qsv_h264_hevc env s ctx = None \<longleftrightarrow> ci_eq rc ''qvbr'' \<and> bit_rate ctx \<le> 0) \<and>
         (\<forall>s1 c ex. configure_qsv_h264_hevc env s ctx = Some (s1, c, ex) \<longrightarrow>
            ''rc'' \<in> blacklist_opts s1 \<and> (ex = Some 1 \<longleftrightarrow> \<not> qsv_known_rc rc) \<and>
            (ex = Some 0 \<longleftrightarrow> rc = ''help''))"
proof -
  have h: "\<not> ci_eq ''help'' ''qvbr''" by code_simp
  have same: "ci_eq rc a \<Longrightarrow> ci_eq rc b \<Longrightarrow> map lower_ascii a = map lower_ascii b" for a b
    by (simp add: ci_eq_def)
  have "map lower_ascii ''qvbr'' \<noteq> map lower_ascii ''cbr''"
    "map lower_ascii ''qvbr'' \<noteq> map lower_ascii ''cqp''"
    "map lower_ascii ''qvbr'' \<noteq> map lower_ascii ''icq''" by code_simp+
  then have d: "\<not> (ci_eq rc ''qvbr'' \<and> (ci_eq rc ''cbr'' \<or> ci_eq rc ''cqp'' \<or> ci_eq rc ''icq''))"
    using same by metis
  show ?thesis using assms h d
    by (auto simp: configure_qsv_h264_hevc_def qsv_rate_control_def take_user_opt_def qsv_known_rc_def
             Let_def split: if_splits)
qed

lemma configure_qsv_rc_errors_witness:
  "om_lookup (lavc_opts (huffman_cfg\<lparr>lavc_opts := [(''rc'', ''la_icq'')]\<rparr>)) ''rc'' = Some ''la_icq'' \<and>
   (\<exists>s1 c. configure_qsv_h264_hevc demo_env (huffman_cfg\<lparr>lavc_opts := [(''rc'', ''la_icq'')]\<rparr>)
             (demo_ctx ''mjpeg'') = Some (s1, c, Some 1))"
proof -
  have k: "\<not> qsv_known_rc ''la_icq''"
    by (simp add: qsv_known_rc_def ci_eq_def lower_ascii_def)
  have "configure_qsv_h264_hevc demo_env (huffman_cfg\<lparr>lavc_opts := [(''rc'', ''la_icq'')]\<rparr>) (demo_ctx ''mjpeg'') \<noteq> None"
    using configure_qsv_rc_errors [of "huffman_cfg\<lparr>lavc_opts := [(''rc'', ''la_icq'')]\<rparr>" "''la_icq''" demo_env "demo_ctx ''mjpeg''"]
    by (simp add: ci_eq_def lower_ascii_def)
  then obtain s1 c ex where e: "configure_qsv_h264_hevc demo_env (huffman_cfg\<lparr>lavc_opts := [(''rc'', ''la_icq'')]\<rparr>)
             (demo_ctx ''mjpeg'') = Some (s1, c, ex)" by fastforce
  then have "ex = Some 1"
    using configure_qsv_rc_errors [of "huffman_cfg\<lparr>lavc_opts := [(''rc'', ''la_icq'')]\<rparr>" "''la_icq''" demo_env "demo_ctx ''mjpeg''"] k
    by simp
  then show ?thesis using e by auto
qed

lemma gop_size_frame [simp]:
  "gop_size (opt_set env ctx k v) = gop_size ctx"
  "gop_size (x26x_rate_control s f ctx) = gop_size ctx"
  by (simp_all add: check_av_opt_set_def x26x_rate_control_def)



end
