(* ===== verification/Lavc_Pipeline.thy ===== *)
theory Lavc_Pipeline
  imports Lavc_Negotiate Lavc_Tuner
begin

text \<open>
  The encode pipeline of \<open>video_compress/libavcodec.cpp\<close>: the module state
  (\<open>struct state_video_compress_libav\<close>), \<open>try_open_codec\<close>, \<open>configure_swscale\<close>,
  \<open>configure_with\<close>, \<open>cleanup\<close>, the performance monitor \<open>check_duration\<close>,
  \<open>write_orig_format\<close>, the reconfiguration controller \<open>libavcodec_check_messages\<close>,
  \<open>libavcodec_compress_tile\<close>, \<open>libavcodec_compress_init\<close> and
  \<open>libavcodec_compress_done\<close>.

  The state extends the request (\<open>lavc_cfg\<close>) with what the pipeline owns.  Pointers
  are options: \<open>enc_ctx\<close> is \<open>codec_ctx\<close> (None for NULL), \<open>conv_fmt\<close> the pixel format
  the \<open>to_lavc_vid_conv\<close> stage produces (None for NULL), \<open>sws_fmt\<close> the output format
  of the swscale context.  What the module prints for the user is kept as logs: the
  monitor's reports and the responses to reconfiguration messages.  An abort (failed
  \<open>assert\<close>, uncaught exception, NULL dereference) is a separate outcome.
\<close>

unbundle bit_operations_syntax

section \<open>State\<close>

text \<open>\<open>struct pixfmt_desc\<close> of \<open>pixfmt_conv.h\<close>: depth, subsampling as four digits
  (4220 for 4:2:2) and whether the format is RGB.\<close>

record pixfmt_desc =
  pd_depth :: int
  pd_subsampling :: int
  pd_rgb :: bool

datatype perf_hint = Hint_None | Hint_NVENC_delay | Hint_threads_FS | Hint_threads

text \<open>What \<open>check_duration\<close> prints when the encoder is too slow: the family hint and
  whether the conversion hint was added.\<close>

record monitor_report =
  rep_hint :: perf_hint
  rep_conv_hint :: bool

record lavc_state = lavc_cfg +
  saved_desc :: video_desc
  enc_ctx :: "codec_ctx option"
  conv_fmt :: "av_pixfmt option"
  sws_fmt :: "av_pixfmt option"
  hwenc :: bool
  hwframe :: bool
  compressed_desc :: video_desc
  mov_avg_comp_duration :: real
  mov_avg_frames :: int
  exit_req :: "int option"
  mon_reports :: "monitor_report list"
  responses :: "bool list"

text \<open>The collaborators only the pipeline uses: whether the swscale context and its
  frame can be set up, the encoder's extradata, \<open>get_pixfmt_desc\<close>, and the SEI NAL
  prefix \<open>write_orig_format\<close> emits for H.264 and HEVC (start code, NAL type and the
  UltraGrid GUID, defined outside this module).\<close>

record pipe_io =
  sws_init_ok :: "av_pixfmt \<Rightarrow> av_pixfmt \<Rightarrow> bool"
  extradata :: "codec_ctx \<Rightarrow> 8 word list"
  get_pixfmt_desc :: "codec_t \<Rightarrow> pixfmt_desc"
  sei_prefix :: "codec_t \<Rightarrow> 8 word list"

definition LONG_MAX :: int where "LONG_MAX = 2 ^ 63 - 1"

text \<open>The constructor: the request's defaults and nothing allocated.\<close>

definition init_state :: "lavc_env \<Rightarrow> lavc_state" where
  "init_state env = \<lparr>requested_codec_id = VIDEO_CODEC_NONE, requested_bitrate = 0,
     requested_bpp = Fin 0, requested_crf = Fin (-1), requested_cqp = -1,
     req_conv_prop = \<lparr>subsampling = 0, depth = 0, rgb = -1, force_conv_to = VIDEO_CODEC_NONE\<rparr>,
     params = default_params, backend = [], requested_gop = DEFAULT_GOP_SIZE,
     lavc_opts = [], blacklist_opts = {}, store_orig_format = False,
     conv_thread_count = max 1 (int (hardware_concurrency env)),
     saved_desc = zero_desc, enc_ctx = None, conv_fmt = None, sws_fmt = None, hwenc = False,
     hwframe = False, compressed_desc = zero_desc, mov_avg_comp_duration = 0, mov_avg_frames = 0,
     exit_req = None, mon_reports = [], responses = []\<rparr>"

section \<open>Opening the encoder: \<open>try_open_codec\<close>\<close>

text \<open>
  The trial open the negotiation calls.  The state is None once the program has
  aborted (\<open>set_codec_ctx_params\<close> failing an assertion); every later trial then does
  nothing.  For VA-API the hardware frame context is created and the format becomes
  NV12 (through the reference argument); \<open>avcodec_open2\<close> still opens the context's own
  format.  Every failure frees the context; \<open>hwenc\<close> once set stays set.
\<close>

definition try_open_codec :: "lavc_env \<Rightarrow> codec_t \<Rightarrow> video_desc \<Rightarrow> avcodec \<Rightarrow>
    lavc_state option \<Rightarrow> av_pixfmt \<Rightarrow> lavc_state option \<times> av_pixfmt option" where
  "try_open_codec env ug desc codec so pix =
     (case so of
        None \<Rightarrow> (None, None)
      | Some s \<Rightarrow>
          (case avcodec_alloc_context3 env codec of
             None \<Rightarrow> (Some (s\<lparr>enc_ctx := None\<rparr>), None)
           | Some c0 \<Rightarrow>
               (case set_codec_ctx_params env s c0 pix desc ug of
                  None \<Rightarrow> (None, None)
                | Some (s1, c1, ok, ex) \<Rightarrow>
                    let s1 = s1\<lparr>exit_req := (case ex of None \<Rightarrow> exit_req s1 | Some e \<Rightarrow> Some e)\<rparr>
                    in if \<not> ok then (Some (s1\<lparr>enc_ctx := None\<rparr>), None)
                       else if pix = AV_PIX_FMT_VAAPI \<and> \<not> vaapi_init_ok env then (Some (s1\<lparr>enc_ctx := None\<rparr>), None)
                       else
                         let s2 = (if pix = AV_PIX_FMT_VAAPI then s1\<lparr>hwenc := True, hwframe := True\<rparr> else s1);
                             pix' = (if pix = AV_PIX_FMT_VAAPI then AV_PIX_FMT_NV12 else pix)
                         in if open_ok env (codec_name codec) (pix_fmt c1)
                            then (Some (s2\<lparr>enc_ctx := Some c1\<rparr>), Some pix')
                            else (Some (s2\<lparr>enc_ctx := None\<rparr>), None))))"

section \<open>\<open>configure_swscale\<close> and \<open>configure_with\<close>\<close>

text \<open>The swscale fallback: a conversion to the first format the conversion stage can
  produce (UYVY when none), then swscale to the encoder's format.\<close>

definition configure_swscale :: "lavc_env \<Rightarrow> pipe_io \<Rightarrow> lavc_state \<Rightarrow> video_desc \<Rightarrow> av_pixfmt \<Rightarrow> lavc_state \<times> bool" where
  "configure_swscale env io s desc out =
     (let sws_in = (case get_available_pix_fmts env (color_spec desc) (req_conv_prop s) of
                      [] \<Rightarrow> AV_PIX_FMT_UYVY422 | f # _ \<Rightarrow> f)
      in if \<not> conv_init_ok env (color_spec desc) sws_in then (s\<lparr>conv_fmt := None\<rparr>, False)
         else if \<not> sws_init_ok io sws_in out then (s\<lparr>conv_fmt := Some sws_in\<rparr>, False)
         else (s\<lparr>conv_fmt := Some sws_in, sws_fmt := Some out\<rparr>, True))"

text \<open>
  \<open>configure_with\<close>: select the encoder, negotiate the format with \<open>try_open_codec\<close> as
  the trial open, then set up the conversion.  The result is None when the program
  aborted, else the state and whether the configuration succeeded.  Only success
  records the description in \<open>saved_desc\<close>.
\<close>

definition configure_with :: "lavc_env \<Rightarrow> pipe_io \<Rightarrow> lavc_state \<Rightarrow> video_desc \<Rightarrow> (lavc_state \<times> bool) option" where
  "configure_with env io s0 desc =
     (let s = s0\<lparr>sws_fmt := None, params := (params s0)\<lparr>sp_desc := desc\<rparr>\<rparr>
      in case get_av_codec env s (initial_ug_codec s) (codec_is_a_rgb env (color_spec desc)) of
           Inl _ \<Rightarrow> Some (s, False)
         | Inr (codec, ug) \<Rightarrow>
             (case negotiate_pix_fmt env (try_open_codec env ug desc codec) (req_conv_prop s) codec desc (Some s) of
                Neg_Crash \<Rightarrow> None
              | Neg_Fail None _ \<Rightarrow> None
              | Neg_Fail (Some s1) ex \<Rightarrow> Some (if ex then s1\<lparr>exit_req := Some 1\<rparr> else s1, False)
              | Neg_Ok None _ _ \<Rightarrow> None
              | Neg_Ok (Some s1) pix _ \<Rightarrow>
                  let s2 = s1\<lparr>compressed_desc := desc\<lparr>color_spec := ug, tile_count := 1\<rparr>,
                              mov_avg_frames := 0, mov_avg_comp_duration := 0\<rparr>
                  in if conv_init_ok env (color_spec desc) pix
                     then Some (s2\<lparr>conv_fmt := Some pix, saved_desc := desc\<rparr>, True)
                     else (case configure_swscale env io s2 desc pix of
                             (s3, True) \<Rightarrow> Some (s3\<lparr>saved_desc := desc\<rparr>, True)
                           | (s3, False) \<Rightarrow> Some (s3, False))))"

text \<open>\<open>cleanup\<close>: the context is flushed (the drained packets are dropped, not
  modelled) and freed, the hardware frame and the swscale context are freed.  The
  conversion stage, \<open>hwenc\<close> and \<open>saved_desc\<close> are left as they are.\<close>

definition cleanup :: "lavc_state \<Rightarrow> lavc_state" where
  "cleanup s = s\<lparr>enc_ctx := None, hwframe := False, sws_fmt := None\<rparr>"

section \<open>Performance monitor: \<open>check_duration\<close>\<close>

definition mov_window :: int where "mov_window = 100"

text \<open>The budget test \<open>mov_avg_comp_duration < 1 / fps\<close>: with \<open>fps = 0\<close> the budget is
  infinite in IEEE arithmetic and never exceeded.\<close>

definition over_budget :: "real \<Rightarrow> real \<Rightarrow> bool" where
  "over_budget avg frame_rate \<longleftrightarrow> 0 < frame_rate \<and> \<not> avg < 1 / frame_rate"

definition perf_hint_for :: "'a lavc_state_scheme \<Rightarrow> codec_ctx \<Rightarrow> perf_hint" where
  "perf_hint_for s c =
     (let codec = ctx_codec c in
      if contains ''nvenc'' (codec_name codec) then
        (if om_lookup (lavc_opts s) ''delay'' = None then Hint_NVENC_delay else Hint_None)
      else if thread_type c AND FF_THREAD_SLICE = 0 \<and> cap_frame_threads codec then Hint_threads_FS
      else if thread_count c = 1 \<and> cap_other_threads codec then Hint_threads
      else Hint_None)"

text \<open>
  One frame's durations (conversion and total, in seconds) enter the moving average
  of window 100.  From frame 200 on, an average over the frame budget prints one
  report, and \<open>mov_avg_frames := LONG_MAX\<close> stops the monitor; it also stops by
  itself after 1000 frames.  None: the context's pixel format has no descriptor
  (the NULL is dereferenced).
\<close>

definition check_duration :: "lavc_env \<Rightarrow> lavc_state \<Rightarrow> codec_ctx \<Rightarrow> real \<Rightarrow> real \<Rightarrow> lavc_state option" where
  "check_duration env s c dur_conv dur_total =
     (if 10 * mov_window \<le> mov_avg_frames s then Some s
      else
        let avg = (mov_avg_comp_duration s * of_int (mov_window - 1) + dur_total) / of_int mov_window;
            s1 = s\<lparr>mov_avg_comp_duration := avg, mov_avg_frames := mov_avg_frames s + 1\<rparr>
        in if mov_avg_frames s1 < 2 * mov_window \<or> \<not> over_budget avg (fps (compressed_desc s1)) then Some s1
           else case av_pix_fmt_desc_get (pix_fmt c) of
                  None \<Rightarrow> None
                | Some pd \<Rightarrow>
                    let conv = (codec_is_a_rgb env (color_spec (saved_desc s1)) \<noteq> flag_rgb pd \<and>
                                avg / 4 < dur_conv)
                    in Some (s1\<lparr>mov_avg_frames := LONG_MAX,
                               mon_reports := mon_reports s1 @ [\<lparr>rep_hint = perf_hint_for s1 c, rep_conv_hint = conv\<rparr>]\<rparr>))"

section \<open>The original-format byte: \<open>write_orig_format\<close>\<close>

text \<open>
  \<open>((desc.depth - 8) / 2) << 4 | subs_v << 2 | subs_h << 1 | rgb\<close> stored in a
  \<open>uint8_t\<close>: \<open>subs_a\<close> and \<open>subs_b\<close> are the first two digits of the subsampling,
  \<open>subs_v = subs_a - 1\<close> in \<open>unsigned\<close> arithmetic, \<open>subs_h = !!subs_b\<close>.  The
  computation is done in 32 bits and truncated to 8.
\<close>

definition orig_format_byte :: "pixfmt_desc \<Rightarrow> 8 word" where
  "orig_format_byte d =
     (let subs_a = (word_of_int (c_div (pd_subsampling d) 100 mod 10) :: 32 word);
          subs_b = (word_of_int (c_div (pd_subsampling d) 10 mod 10) :: 32 word);
          subs_v = subs_a - 1;
          subs_h = (if subs_b \<noteq> 0 then 1 else 0 :: 32 word);
          rgb = (if pd_rgb d then 1 else 0 :: 32 word);
          depth_code = (word_of_int (c_div (pd_depth d - 8) 2) :: 32 word)
      in ucast (push_bit 4 depth_code OR push_bit 2 subs_v OR push_bit 1 subs_h OR rgb))"

text \<open>The tile's data with the SEI NAL prefix, the format byte and the end-of-bytestream
  byte 0x80 appended; for codecs other than H.264 and HEVC nothing is appended (the
  error is logged once).\<close>

definition write_orig_format :: "pipe_io \<Rightarrow> codec_t \<Rightarrow> codec_t \<Rightarrow> 8 word list \<Rightarrow> 8 word list" where
  "write_orig_format io out_codec orig data =
     (if out_codec \<noteq> H264 \<and> out_codec \<noteq> H265 then data
      else data @ sei_prefix io out_codec @ [orig_format_byte (get_pixfmt_desc io orig), 0x80])"

section \<open>Reconfiguration: \<open>libavcodec_check_messages\<close>\<close>

text \<open>Every pending message is parsed straight into the live state; the response is OK
  when \<open>parse_fmt\<close> returns 0.  \<open>saved_desc\<close> is zeroed after every message, failed or
  not, so the next frame reconfigures.  None: \<open>parse_fmt\<close> aborted.\<close>

fun libavcodec_check_messages :: "lavc_env \<Rightarrow> lavc_state \<Rightarrow> string list \<Rightarrow> lavc_state option" where
  "libavcodec_check_messages env s [] = Some s"
| "libavcodec_check_messages env s (m # ms) =
     (case parse_fmt env s m of
        Parse_Abort \<Rightarrow> None
      | Parse_Ret r s' \<Rightarrow>
          libavcodec_check_messages env (s'\<lparr>saved_desc := zero_desc, responses := responses s' @ [r = 0]\<rparr>) ms)"

section \<open>One frame: \<open>libavcodec_compress_tile\<close>\<close>

text \<open>A frame and what the collaborators do with it: its description, the messages
  waiting in the module's queue, whether the conversion and \<open>avcodec_send_frame\<close>
  succeed, the packets \<open>avcodec_receive_packet\<close> returns before \<open>EAGAIN\<close>, and the
  durations of the conversion and of the whole encoding.\<close>

record tile_in =
  tin_desc :: video_desc
  tin_msgs :: "string list"
  tin_conv_ok :: bool
  tin_send_ok :: bool
  tin_pkts :: "8 word list list"
  tin_dur_conv :: real
  tin_dur_total :: real

datatype tile_out = Tile_None | Tile_Data "8 word list" | Tile_Crash

text \<open>\<open>*(uint32_t *) data = extradata_size\<close> on a little-endian machine.\<close>

definition le32 :: "nat \<Rightarrow> 8 word list" where
  "le32 n = map (\<lambda>i. word_of_nat (n div 2 ^ (8 * i))) [0..<4]"

text \<open>The receive loop: each packet is appended after
  \<open>assert(pkt->size + data_len <= max_len - data_len)\<close>, where the left side is
  \<open>unsigned int\<close> and the right side \<open>size_t\<close> arithmetic.  None: the assertion fails.\<close>

fun append_packets :: "nat \<Rightarrow> 8 word list \<Rightarrow> 8 word list list \<Rightarrow> 8 word list option" where
  "append_packets max_len data [] = Some data"
| "append_packets max_len data (p # ps) =
     (if (int (length p) + int (length data)) mod 2 ^ 32 \<le> (int max_len - int (length data)) mod 2 ^ 64
      then append_packets max_len (data @ p) ps else None)"

definition max_len_of :: "video_desc \<Rightarrow> nat" where
  "max_len_of d = max (width d * height d * 4) 4096"

text \<open>
  After the messages, a description that differs from \<open>saved_desc\<close> (tile count
  aside) cleans up and reconfigures; a failed configuration gives no output.  Then
  the frame is converted, moved to the hardware frame when \<open>hwenc\<close>, sent and the
  packets collected behind the extradata block of HuffYUV/FFV1; the monitor runs; an
  empty result is no output; the original format is appended when requested.  A NULL
  conversion, hardware frame or context is dereferenced: \<open>Tile_Crash\<close>.  ProRes's
  codec tag is not modelled.
\<close>

definition encode_frame :: "lavc_env \<Rightarrow> pipe_io \<Rightarrow> lavc_state \<Rightarrow> tile_in \<Rightarrow> lavc_state \<times> tile_out" where
  "encode_frame env io s fin =
     (if conv_fmt s = None then (s, Tile_Crash)
      else if \<not> tin_conv_ok fin then (s, Tile_None)
      else if hwenc s \<and> \<not> hwframe s then (s, Tile_Crash)
      else case enc_ctx s of
        None \<Rightarrow> (s, Tile_Crash)
      | Some c \<Rightarrow>
          let cd = compressed_desc s;
              ed = extradata io c;
              data0 = (if libav_codec_has_extradata (color_spec cd) then le32 (length ed) @ ed else [])
          in if \<not> tin_send_ok fin then (s, Tile_None)
             else case append_packets (max_len_of cd) data0 (tin_pkts fin) of
               None \<Rightarrow> (s, Tile_Crash)
             | Some data \<Rightarrow>
                 (case check_duration env s c (tin_dur_conv fin) (tin_dur_total fin) of
                    None \<Rightarrow> (s, Tile_Crash)
                  | Some s1 \<Rightarrow>
                      if data = [] then (s1, Tile_None)
                      else (s1, Tile_Data (if store_orig_format s1
                                           then write_orig_format io (color_spec cd) (color_spec (tin_desc fin)) data
                                           else data))))"

definition libavcodec_compress_tile :: "lavc_env \<Rightarrow> pipe_io \<Rightarrow> lavc_state \<Rightarrow> tile_in \<Rightarrow> lavc_state \<times> tile_out" where
  "libavcodec_compress_tile env io s0 fin =
     (case libavcodec_check_messages env s0 (tin_msgs fin) of
        None \<Rightarrow> (s0, Tile_Crash)
      | Some s \<Rightarrow>
          if video_desc_eq_excl_tiles (tin_desc fin) (saved_desc s) then encode_frame env io s fin
          else case configure_with env io (cleanup s) (tin_desc fin) of
                 None \<Rightarrow> (s, Tile_Crash)
               | Some (s', False) \<Rightarrow> (s', Tile_None)
               | Some (s', True) \<Rightarrow> encode_frame env io s' fin)"

section \<open>Creation and destruction\<close>

datatype init_result = Init_Ok lavc_state | Init_NoErr | Init_Fail | Init_Abort

text \<open>\<open>libavcodec_compress_init\<close>: a fresh state configured by \<open>parse_fmt\<close>; on a
  non-zero result the module is destroyed and the result is \<open>INIT_NOERR\<close> (help shown)
  or NULL.  Setting up FFmpeg's logging is not modelled.\<close>

definition libavcodec_compress_init :: "lavc_env \<Rightarrow> string \<Rightarrow> init_result" where
  "libavcodec_compress_init env opts =
     (case parse_fmt env (init_state env) opts of
        Parse_Abort \<Rightarrow> Init_Abort
      | Parse_Ret r s \<Rightarrow> if r = 0 then Init_Ok s else if 0 < r then Init_NoErr else Init_Fail)"

definition libavcodec_compress_done :: "lavc_state \<Rightarrow> lavc_state" where
  "libavcodec_compress_done s = cleanup s"

end
