(* ===== verification/Lavc_Pipeline_Props.thy ===== *)
theory Lavc_Pipeline_Props
  imports Lavc_Pipeline Lavc_Tuner_Props
begin

text \<open>
  Properties of the encode pipeline (\<open>Lavc_Pipeline\<close>): the reconfiguration defects
  (a stale \<open>saved_desc\<close> after a failed configuration, messages parsed in place), the
  performance monitor (at most one report, and one report under sustained overload),
  the original-format byte (it decodes back) and the packet assembly of a tile (no
  overrun, and the assertion that rejects packets which fit).  The receiver's decoding
  of the format byte and a run of the monitor over many frames are reference
  definitions of this theory.
\<close>

unbundle bit_operations_syntax

section \<open>Reference definitions and demonstration inputs\<close>

definition fmt_word :: "nat \<Rightarrow> nat \<Rightarrow> nat \<Rightarrow> nat \<Rightarrow> 8 word" where
  "fmt_word k v h r = ucast (push_bit 4 (word_of_nat k :: 32 word) OR push_bit 2 (word_of_nat v) OR
                              push_bit 1 (word_of_nat h) OR word_of_nat r)"

definition orig_format_fields :: "8 word \<Rightarrow> nat \<times> nat \<times> bool \<times> bool" where
  "orig_format_fields b = (unat (drop_bit 4 b), unat (drop_bit 2 b AND 3), bit b 1, bit b 0)"

fun monitor_run :: "lavc_env \<Rightarrow> lavc_state \<Rightarrow> codec_ctx \<Rightarrow> (real \<times> real) list \<Rightarrow> lavc_state option" where
  "monitor_run env s c [] = Some s"
| "monitor_run env s c ((dc, dt) # ds) =
     (case check_duration env s c dc dt of None \<Rightarrow> None | Some s' \<Rightarrow> monitor_run env s' c ds)"

definition demo_io :: pipe_io where
  "demo_io = \<lparr>sws_init_ok = (\<lambda>_ _. True), extradata = (\<lambda>_. []),
     get_pixfmt_desc = (\<lambda>_. \<lparr>pd_depth = 8, pd_subsampling = 4220, pd_rgb = False\<rparr>),
     sei_prefix = (\<lambda>_. [0, 0, 1, 6])\<rparr>"

text \<open>A module configured for H.264 from UYVY 1080p30 with libx264 (the demonstration
  collaborators have libx264 but not libx264rgb).\<close>

definition demo_configured :: lavc_state where
  "demo_configured = (init_state demo_env)\<lparr>requested_codec_id := H264, saved_desc := demo_desc,
     enc_ctx := Some (demo_ctx ''libx264''), conv_fmt := Some AV_PIX_FMT_YUV422P,
     compressed_desc := demo_desc\<lparr>color_spec := H264\<rparr>\<rparr>"

section \<open>Properties\<close>

lemma enum_ok: "list_all (\<lambda>k. list_all (\<lambda>v. list_all (\<lambda>h. list_all (\<lambda>r.
    orig_format_fields (fmt_word k v h r) = (k, v, h = 1, r = 1)) [0..<2]) [0..<2]) [0..<4]) [0..<16]"
  by code_simp

lemma append_packets_Some: "append_packets m data ps = Some d' \<Longrightarrow> d' = data @ concat ps"
  by (induction m data ps rule: append_packets.induct) (auto split: if_splits)

text \<open>C21: the packets appended to a tile never overrun its buffer of \<open>max_len\<close>
  bytes (for buffers and packets below 2 GiB).\<close>

lemma append_packets_bound:
  assumes "append_packets m data ps = Some d'" and "length data \<le> m" and "m < 2 ^ 31"
    and "\<forall>p \<in> set ps. length p < 2 ^ 31"
  shows "length d' \<le> m"
  using assms
proof (induction m data ps rule: append_packets.induct)
  case (1 m data)
  then show ?case by simp
next
  case (2 m data p ps)
  have l: "(int (length p) + int (length data)) mod 2 ^ 32 = int (length p) + int (length data)"
    using "2.prems" by (intro mod_pos_pos_trivial) auto
  have r: "(int m - int (length data)) mod 2 ^ 64 = int m - int (length data)"
    using "2.prems" by (intro mod_pos_pos_trivial) auto
  have ok: "int (length p) + int (length data) \<le> int m - int (length data)"
    and rest: "append_packets m (data @ p) ps = Some d'"
    using "2.prems"(1) l r by (simp_all split: if_splits)
  show ?case using "2.IH" [OF _ rest] ok "2.prems" by (simp split: if_splits)
qed

text \<open>C22: the assertion of the receive loop counts the data already written twice: a
  packet that fits the buffer aborts the program once the tile is more than half full.\<close>

lemma append_packets_rejects_fitting:
  assumes "length data \<le> m" and "m < 2 ^ 31" and "length p < 2 ^ 31"
    and "length data + length p \<le> m" and "m < 2 * length data + length p"
  shows "append_packets m data (p # ps) = None"
proof -
  have l: "(int (length p) + int (length data)) mod 2 ^ 32 = int (length p) + int (length data)"
    using assms by (intro mod_pos_pos_trivial) auto
  have r: "(int m - int (length data)) mod 2 ^ 64 = int m - int (length data)"
    using assms by (intro mod_pos_pos_trivial) auto
  show ?thesis using assms l r by simp
qed

lemma fmt_word_fields:
  assumes "k < 16" "v < 4" "h < 2" "r < 2"
  shows "orig_format_fields (fmt_word k v h r) = (k, v, h = 1, r = 1)"
proof -
  have "k \<in> set [0..<16]" "v \<in> set [0..<4]" "h \<in> set [0..<2]" "r \<in> set [0..<2]"
    using assms by auto
  then show ?thesis using enum_ok unfolding list_all_iff by blast
qed

lemma word_of_int_small_eq_0:
  "0 \<le> b \<Longrightarrow> b < 10 \<Longrightarrow> (word_of_int b :: 32 word) = 0 \<longleftrightarrow> b = 0"
  by (auto simp: word_of_int_eq_0_iff take_bit_int_eq_self)

lemma orig_format_byte_fmt_word:
  assumes "8 \<le> pd_depth d" and "0 \<le> pd_subsampling d"
    and "1 \<le> pd_subsampling d div 100 mod 10"
  shows "orig_format_byte d =
           fmt_word (nat ((pd_depth d - 8) div 2)) (nat (pd_subsampling d div 100 mod 10 - 1))
                    (if pd_subsampling d div 10 mod 10 \<noteq> 0 then 1 else 0) (if pd_rgb d then 1 else 0)"
proof -
  have a: "(word_of_int (c_div (pd_depth d - 8) 2) :: 32 word) = word_of_nat (nat ((pd_depth d - 8) div 2))"
    using assms(1) by (simp add: of_nat_nat)
  have b: "(word_of_int (c_div (pd_subsampling d) 100 mod 10) :: 32 word) - 1 =
             word_of_nat (nat (pd_subsampling d div 100 mod 10 - 1))"
    using assms(2,3) by (simp add: of_nat_nat)
  have "0 \<le> pd_subsampling d div 10 mod 10" "pd_subsampling d div 10 mod 10 < 10" by simp_all
  then have "(word_of_int (pd_subsampling d div 10 mod 10) :: 32 word) = 0 \<longleftrightarrow>
               pd_subsampling d div 10 mod 10 = 0"
    by (rule word_of_int_small_eq_0)
  then have c: "(if (word_of_int (c_div (pd_subsampling d) 10 mod 10) :: 32 word) \<noteq> 0 then 1 else 0) =
                  (word_of_nat (if pd_subsampling d div 10 mod 10 \<noteq> 0 then 1 else 0) :: 32 word)"
    using assms(2) by simp
  have r: "(if pd_rgb d then 1 else 0 :: 32 word) = word_of_nat (if pd_rgb d then 1 else 0)"
    by simp
  show ?thesis
    unfolding orig_format_byte_def Let_def fmt_word_def a b c r ..
qed

text \<open>C20: the original-format byte of \<open>write_orig_format\<close> holds \<open>(depth - 8) / 2\<close> in
  bits 7..4, the digit \<open>a\<close> of the subsampling \<open>J:a:b\<close> minus one in bits 3..2, RGB
  in bit 0, and in bit 1 whether the digit \<open>b\<close> is non-zero, for every depth 8..38
  (even) and \<open>a\<close> in 1..4.  Bit 1 is therefore set for 4:4:4 and 4:2:2 and clear for
  4:2:0: it is set exactly when there is no vertical subsampling, the opposite of the
  comment at the assignment of \<open>subs_h\<close>.\<close>

lemma orig_format_bit_layout:
  assumes "8 \<le> pd_depth d" and "pd_depth d \<le> 38" and "even (pd_depth d)"
    and "0 \<le> pd_subsampling d"
    and "1 \<le> pd_subsampling d div 100 mod 10" and "pd_subsampling d div 100 mod 10 \<le> 4"
  shows "unat (drop_bit 4 (orig_format_byte d)) = nat ((pd_depth d - 8) div 2) \<and>
         unat (drop_bit 2 (orig_format_byte d) AND 3) = nat (pd_subsampling d div 100 mod 10 - 1) \<and>
         (bit (orig_format_byte d) 1 \<longleftrightarrow> pd_subsampling d div 10 mod 10 \<noteq> 0) \<and>
         (bit (orig_format_byte d) 0 \<longleftrightarrow> pd_rgb d)"
proof -
  let ?k = "nat ((pd_depth d - 8) div 2)" and ?v = "nat (pd_subsampling d div 100 mod 10 - 1)"
  let ?h = "if pd_subsampling d div 10 mod 10 \<noteq> 0 then 1 else (0::nat)" and ?r = "if pd_rgb d then 1 else (0::nat)"
  have b: "?k < 16" "?v < 4" "?h < 2" "?r < 2" using assms by auto
  have "orig_format_fields (orig_format_byte d) = (?k, ?v, ?h = 1, ?r = 1)"
    using orig_format_byte_fmt_word [OF assms(1,4,5)] fmt_word_fields [OF b] by simp
  then show ?thesis by (simp add: orig_format_fields_def)
qed

lemma monitor_run_append:
  "monitor_run env s c (xs @ ys) = (case monitor_run env s c xs of None \<Rightarrow> None | Some s' \<Rightarrow> monitor_run env s' c ys)"
  by (induction env s c xs rule: monitor_run.induct) (auto split: option.splits)

lemma check_duration_stopped: "10 * mov_window \<le> mov_avg_frames s \<Longrightarrow> check_duration env s c dc dt = Some s"
  by (simp add: check_duration_def)

lemma check_duration_step:
  assumes "check_duration env s c dc dt = Some s'" and "mov_avg_frames s < 10 * mov_window"
  shows "(mon_reports s' = mon_reports s \<and> mov_avg_frames s' = mov_avg_frames s + 1) \<or>
         (\<exists>r. mon_reports s' = mon_reports s @ [r] \<and> mov_avg_frames s' = LONG_MAX)"
  using assms by (auto simp: check_duration_def Let_def split: if_splits option.splits)

lemma LONG_MAX_stops: "10 * mov_window \<le> LONG_MAX"
  by (simp add: mov_window_def LONG_MAX_def)

lemma monitor_run_stopped:
  "10 * mov_window \<le> mov_avg_frames s \<Longrightarrow> monitor_run env s c ds = Some s"
  by (induction ds) (auto simp: check_duration_stopped)

text \<open>C18: whatever the durations, the performance monitor prints at most one report
  per configured context.\<close>

lemma monitor_at_most_once:
  assumes "monitor_run env s c ds = Some s'"
  shows "\<exists>rs. mon_reports s' = mon_reports s @ rs \<and> length rs \<le> 1"
  using assms
proof (induction ds arbitrary: s)
  case Nil
  then show ?case by simp
next
  case (Cons x ds)
  obtain dc dt where x: "x = (dc, dt)" by fastforce
  obtain s1 where s1: "check_duration env s c dc dt = Some s1" and r: "monitor_run env s1 c ds = Some s'"
    using Cons.prems x by (auto split: option.splits)
  show ?case
  proof (cases "10 * mov_window \<le> mov_avg_frames s")
    case True
    then show ?thesis using Cons.IH r s1 by (simp add: check_duration_stopped)
  next
    case False
    then consider "mon_reports s1 = mon_reports s" | r0 where "mon_reports s1 = mon_reports s @ [r0]"
        "mov_avg_frames s1 = LONG_MAX"
      using check_duration_step [OF s1] by fastforce
    then show ?thesis
    proof cases
      case 1
      then show ?thesis using Cons.IH [OF r] by simp
    next
      case 2
      then show ?thesis using r monitor_run_stopped [of s1] LONG_MAX_stops by auto
    qed
  qed
qed

lemma bernoulli_200: "(99 / 100 :: real) ^ 200 \<le> 1 / 2"
proof -
  define X :: real where "X = (1 + 1 / 99) ^ 200"
  define P :: real where "P = (99 / 100) ^ 200"
  have "1 + of_nat 200 * (1 / 99 :: real) \<le> (1 + 1 / 99) ^ 200"
    by (rule Bernoulli_inequality) simp
  then have x: "2 \<le> X" unfolding X_def by simp
  have "P * X = ((99 / 100) * (1 + 1 / 99)) ^ 200"
    unfolding P_def X_def by (rule power_mult_distrib [symmetric])
  also have "\<dots> = 1" by simp
  finally have px: "P * X = 1" .
  have "P = 1 / X" using px x by (simp add: eq_divide_eq mult.commute)
  then have "P \<le> 1 / 2" using x by (simp add: frac_le)
  then show ?thesis unfolding P_def .
qed

lemma monitor_warmup:
  assumes "mov_avg_frames s = 0" and "mov_avg_comp_duration s = 0" and "k < 200"
  shows "monitor_run env s c (replicate k (dc, d)) =
           Some (s\<lparr>mov_avg_comp_duration := d * (1 - (99 / 100) ^ k), mov_avg_frames := int k\<rparr>)"
  using assms(3)
proof (induction k)
  case 0
  then show ?case using assms by simp
next
  case (Suc k)
  have "replicate (Suc k) (dc, d) = replicate k (dc, d) @ [(dc, d)]"
    by (simp add: replicate_append_same)
  moreover have "(d * (1 - (99 / 100) ^ k) * 99 + d) / 100 = d * (1 - (99 / 100) ^ Suc k)"
    by (simp add: field_simps)
  ultimately show ?case using Suc
    by (simp add: monitor_run_append check_duration_def Let_def mov_window_def)
qed

text \<open>C19: under a sustained load of at least twice the frame budget, a freshly
  configured monitor prints exactly one report over any run of 200 frames or more.\<close>

lemma monitor_scenario_E:
  assumes "mov_avg_frames s = 0" and "mov_avg_comp_duration s = 0"
    and "0 < fps (compressed_desc s)" and "2 / fps (compressed_desc s) \<le> d"
    and "av_pix_fmt_desc_get (pix_fmt c) \<noteq> None" and "200 \<le> n"
  shows "\<exists>s'. monitor_run env s c (replicate n (dc, d)) = Some s' \<and>
              length (mon_reports s') = Suc (length (mon_reports s))"
proof -
  define Q where "Q = (99 / 100 :: real) ^ 199"
  define s199 where "s199 = s\<lparr>mov_avg_comp_duration := d * (1 - Q), mov_avg_frames := 199\<rparr>"
  obtain m where n: "n = Suc 199 + m" using assms(6) le_Suc_ex by fastforce
  have rep: "replicate n (dc, d) = replicate 199 (dc, d) @ [(dc, d)] @ replicate m (dc, d)"
    unfolding n replicate_add replicate_Suc replicate_append_same [symmetric] by simp
  have w: "monitor_run env s c (replicate 199 (dc, d)) = Some s199"
    using monitor_warmup [OF assms(1,2), of 199] unfolding s199_def Q_def by simp
  have q200: "99 / 100 * Q \<le> 1 / 2"
    using bernoulli_200 unfolding Q_def by (simp add: power_Suc [symmetric] del: power_Suc)
  have avg: "(d * (1 - Q) * 99 + d) / 100 = d * (1 - 99 / 100 * Q)"
    by (simp add: field_simps)
  have "0 < d" using assms(3,4) by (smt (verit) divide_pos_pos)
  then have "d * (99 / 100 * Q) \<le> d * (1 / 2)" using q200 by (intro mult_left_mono) simp_all
  then have "d / 2 \<le> d * (1 - 99 / 100 * Q)" by (simp add: algebra_simps)
  moreover have "1 / fps (compressed_desc s) \<le> d / 2" using assms(4) by simp
  ultimately have over: "over_budget (d * (1 - 99 / 100 * Q)) (fps (compressed_desc s))"
    using assms(3) by (simp add: over_budget_def)
  obtain pd where pd: "av_pix_fmt_desc_get (pix_fmt c) = Some pd" using assms(5) by blast
  obtain s200 where c200: "check_duration env s199 c dc d = Some s200"
    and r200: "length (mon_reports s200) = Suc (length (mon_reports s))"
    and f200: "mov_avg_frames s200 = LONG_MAX"
    using over pd by (simp add: check_duration_def Let_def mov_window_def avg s199_def)
  have "monitor_run env s200 c (replicate m (dc, d)) = Some s200"
    using f200 LONG_MAX_stops by (simp add: monitor_run_stopped)
  then show ?thesis using rep w c200 r200 by (simp add: monitor_run_append)
qed

lemma get_av_codec_cong:
  "backend s' = backend s \<Longrightarrow> requested_codec_id s' = requested_codec_id s \<Longrightarrow>
   get_av_codec env s' u b = get_av_codec env s u b"
  by (simp add: get_av_codec_def split: option.splits)

lemma initial_ug_codec_cong:
  "requested_codec_id s' = requested_codec_id s \<Longrightarrow> initial_ug_codec s' = initial_ug_codec s"
  by (simp add: initial_ug_codec_def)

text \<open>C17: a reconfiguration message with a wrong item is answered with an error, but
  the writes of the items before the wrong one, and of the wrong item itself, stay in
  the live request (the message is parsed in place, not on a copy), the cached
  description is cleared anyway, and the next message is handled from that state.\<close>

lemma check_messages_failure_keeps_writes:
  assumes "strtok_tokens CHR '':'' (replace_all ESCAPED_COLON DELDEL m) = its1 @ bad # its2"
    and "parse_items env s False its1 = Item_Ok s1 h1"
    and "parse_item env s1 bad = Item_Err s2"
  shows "libavcodec_check_messages env s (m # ms) =
           libavcodec_check_messages env (s2\<lparr>saved_desc := zero_desc, responses := responses s2 @ [False]\<rparr>) ms"
  using parse_items_err_split [OF assms(2,3)] assms(1) by (simp add: parse_fmt_def)

text \<open>C16: \<open>saved_desc\<close> survives a failed reconfiguration.  When a frame with a new
  description fails to configure (here: encoder selection fails), the context has been
  freed by \<open>cleanup\<close>, yet the next frame with the old description is not reconfigured
  and is encoded with the freed context: a NULL dereference.\<close>

lemma stale_saved_desc_crash:
  assumes "tin_msgs f1 = []" and "tin_msgs f2 = []"
    and "\<not> video_desc_eq_excl_tiles (tin_desc f1) (saved_desc s)"
    and "video_desc_eq_excl_tiles (tin_desc f2) (saved_desc s)"
    and "get_av_codec env s (initial_ug_codec s) (codec_is_a_rgb env (color_spec (tin_desc f1))) = Inl e"
    and "conv_fmt s \<noteq> None" and "tin_conv_ok f2" and "\<not> hwenc s"
  shows "\<exists>s1. libavcodec_compress_tile env io s f1 = (s1, Tile_None) \<and> saved_desc s1 = saved_desc s \<and>
              libavcodec_compress_tile env io s1 f2 = (s1, Tile_Crash)"
proof -
  let ?s1 = "(cleanup s)\<lparr>sws_fmt := None, params := (params (cleanup s))\<lparr>sp_desc := tin_desc f1\<rparr>\<rparr>"
  have g: "get_av_codec env ?s1 (initial_ug_codec ?s1) (codec_is_a_rgb env (color_spec (tin_desc f1))) = Inl e"
    using assms(5) get_av_codec_cong [of ?s1 s] initial_ug_codec_cong [of ?s1 s] by (simp add: cleanup_def)
  have t1: "libavcodec_compress_tile env io s f1 = (?s1, Tile_None)"
    using assms(1,3) g by (simp add: libavcodec_compress_tile_def configure_with_def Let_def)
  have t2: "libavcodec_compress_tile env io ?s1 f2 = (?s1, Tile_Crash)"
    using assms(2,4,6-8) by (simp add: libavcodec_compress_tile_def encode_frame_def cleanup_def)
  show ?thesis using t1 t2 by (auto simp: cleanup_def)
qed

lemma stale_saved_desc_crash_witness:
  "\<exists>s1. libavcodec_compress_tile demo_env demo_io demo_configured
           \<lparr>tin_desc = demo_desc\<lparr>color_spec := RGB\<rparr>, tin_msgs = [], tin_conv_ok = True, tin_send_ok = True,
            tin_pkts = [], tin_dur_conv = 0, tin_dur_total = 0\<rparr> = (s1, Tile_None) \<and>
         saved_desc s1 = saved_desc demo_configured \<and>
         libavcodec_compress_tile demo_env demo_io s1
           \<lparr>tin_desc = demo_desc, tin_msgs = [], tin_conv_ok = True, tin_send_ok = True,
            tin_pkts = [], tin_dur_conv = 0, tin_dur_total = 0\<rparr> = (s1, Tile_Crash)"
  by (rule stale_saved_desc_crash [where e = Prefered_Not_Found])
     (simp_all add: demo_configured_def init_state_def default_cfg_def demo_desc_def
        video_desc_eq_excl_tiles_def get_av_codec_def initial_ug_codec_def codec_params_def demo_encoder_def)

lemma check_messages_failure_keeps_writes_witness:
  "strtok_tokens CHR '':'' (replace_all ESCAPED_COLON DELDEL ''bitrate=1000:codec=XYZ'') =
     [''bitrate=1000''] @ ''codec=XYZ'' # [] \<and>
   parse_items demo_env demo_configured False [''bitrate=1000''] =
     Item_Ok (demo_configured\<lparr>requested_bitrate := 1000\<rparr>) False \<and>
   parse_item demo_env (demo_configured\<lparr>requested_bitrate := 1000\<rparr>) ''codec=XYZ'' =
     Item_Err (demo_configured\<lparr>requested_bitrate := 1000, requested_codec_id := VIDEO_CODEC_NONE\<rparr>) \<and>
   libavcodec_check_messages demo_env demo_configured [''bitrate=1000:codec=XYZ''] =
     Some (demo_configured\<lparr>requested_bitrate := 1000, requested_codec_id := VIDEO_CODEC_NONE,
                           saved_desc := zero_desc, responses := [False]\<rparr>)"
proof -
  have t: "strtok_tokens CHR '':'' (replace_all ESCAPED_COLON DELDEL ''bitrate=1000:codec=XYZ'') =
     [''bitrate=1000''] @ ''codec=XYZ'' # []"
    by (simp add: lavc_str ESCAPED_COLON_def strtok_tokens_def)
  have p: "parse_items demo_env demo_configured False [''bitrate=1000''] =
     Item_Ok (demo_configured\<lparr>requested_bitrate := 1000\<rparr>) False"
    by (simp add: parse_item_def lavc_str)
  have b: "parse_item demo_env (demo_configured\<lparr>requested_bitrate := 1000\<rparr>) ''codec=XYZ'' =
     Item_Err (demo_configured\<lparr>requested_bitrate := 1000, requested_codec_id := VIDEO_CODEC_NONE\<rparr>)"
    by (simp add: parse_item_def lavc_str demo_codec_from_name_def)
  show ?thesis
    using check_messages_failure_keeps_writes [OF t p b, of "[]"] t p b
    by (simp add: demo_configured_def init_state_def)
qed

lemma monitor_at_most_once_witness:
  "\<exists>s'. monitor_run demo_env demo_configured (demo_ctx ''mjpeg'') [(0, 1), (0, 1)] = Some s' \<and>
        (\<exists>rs. mon_reports s' = mon_reports demo_configured @ rs \<and> length rs \<le> 1)"
proof -
  have "monitor_run demo_env demo_configured (demo_ctx ''mjpeg'') [(0, 1), (0, 1)] \<noteq> None"
    by (simp add: check_duration_def Let_def mov_window_def demo_configured_def init_state_def)
  then obtain s' where e: "monitor_run demo_env demo_configured (demo_ctx ''mjpeg'') [(0, 1), (0, 1)] = Some s'"
    by blast
  show ?thesis using monitor_at_most_once [OF e] e by blast
qed

lemma monitor_scenario_E_witness:
  "\<exists>s'. monitor_run demo_env demo_configured (demo_ctx ''mjpeg'') (replicate 300 (0, 1 / 15)) = Some s' \<and>
        length (mon_reports s') = Suc (length (mon_reports demo_configured))"
  by (rule monitor_scenario_E)
     (simp_all add: demo_configured_def init_state_def demo_desc_def demo_ctx_def demo_alloc_def)

lemma orig_format_bit_layout_witness:
  "unat (drop_bit 4 (orig_format_byte \<lparr>pd_depth = 10, pd_subsampling = 4200, pd_rgb = False\<rparr>)) = 1 \<and>
   unat (drop_bit 2 (orig_format_byte \<lparr>pd_depth = 10, pd_subsampling = 4200, pd_rgb = False\<rparr>) AND 3) = 1 \<and>
   \<not> bit (orig_format_byte \<lparr>pd_depth = 10, pd_subsampling = 4200, pd_rgb = False\<rparr>) 1 \<and>
   \<not> bit (orig_format_byte \<lparr>pd_depth = 10, pd_subsampling = 4200, pd_rgb = False\<rparr>) 0"
  using orig_format_bit_layout [of "\<lparr>pd_depth = 10, pd_subsampling = 4200, pd_rgb = False\<rparr>"] by simp

lemma append_packets_bound_witness:
  "\<exists>d'. append_packets 4096 [] [[1, 2, 3], [4, 5]] = Some d' \<and> length d' \<le> 4096"
proof -
  have e: "append_packets 4096 [] [[1, 2, 3], [4, 5]] = Some [1, 2, 3, 4, 5]" by simp
  show ?thesis using append_packets_bound [OF e] e by simp
qed

lemma append_packets_rejects_fitting_witness:
  "append_packets 8 [0, 0, 0] [[1, 2, 3]] = None"
  by (rule append_packets_rejects_fitting) simp_all

end
