(* ===== verification/Lavc_Pipeline_Frame.thy ===== *)
theory Lavc_Pipeline_Frame
  imports Lavc_Pipeline_Props
begin

text \<open>
  What the stages of \<open>libavcodec_compress_tile\<close> leave alone.  The parser and the
  tuners are generic in the record extension and only touch the request's fields, so
  the pipeline's own fields pass through them unchanged; the trial-open loops keep any
  property the trial open keeps.  Together these show that \<open>hwenc\<close>, once set by a
  VA-API open, survives every later frame.
\<close>

section \<open>Definitions\<close>

text \<open>The property the trial-open loops carry: an aborted state (None) or one with
  \<open>hwenc\<close> set.\<close>

definition hw_kept :: "lavc_state option \<Rightarrow> bool" where
  "hw_kept so \<longleftrightarrow> (case so of None \<Rightarrow> True | Some s \<Rightarrow> hwenc s)"

text \<open>A 1080p frame with the configured description, converted and sent, whose
  encoder returns one packet.\<close>

definition demo_fin :: tile_in where
  "demo_fin = \<lparr>tin_desc = demo_desc, tin_msgs = [], tin_conv_ok = True, tin_send_ok = True,
     tin_pkts = [[1, 2, 3]], tin_dur_conv = 0, tin_dur_total = 0\<rparr>"

section \<open>Frame lemmas\<close>

lemma more_hwenc: "lavc_cfg.more s' = lavc_cfg.more s \<Longrightarrow> hwenc s' = hwenc (s :: lavc_state)"
  by (cases s, cases s') simp

lemma take_user_opt_more [simp]: "lavc_cfg.more (snd (take_user_opt s k)) = lavc_cfg.more s"
  by (simp add: take_user_opt_def split: option.splits)

lemma run_set_param_more:
  assumes "run_set_param f env s ctx = Some (s1, c, ex)"
  shows "lavc_cfg.more s1 = lavc_cfg.more s"
proof (cases f)
  case Setparam_h264_h265_av1
  then show ?thesis using assms setparam_h264_h265_av1_cfg [of env s ctx s1 c ex] by auto
qed (use assms in \<open>auto simp: setparam_default_def setparam_jpeg_def setparam_vp8_vp9_def Let_def\<close>)

lemma set_codec_ctx_params_more:
  "set_codec_ctx_params env s0 ctx0 pix desc ug = Some (s1, ctx', ok, ex) \<Longrightarrow>
     lavc_cfg.more s1 = lavc_cfg.more s0"
  by (auto dest!: set_codec_ctx_params_steps run_set_param_more)

lemma try_open_codec_hwenc:
  "try_open_codec env ug desc codec (Some s) pix = (Some s', r) \<Longrightarrow> hwenc s \<Longrightarrow> hwenc s'"
  by (auto simp: try_open_codec_def Let_def split: option.splits prod.splits if_splits
           dest!: set_codec_ctx_params_more more_hwenc)

lemma try_open_codec_hw_kept:
  assumes "hw_kept so"
  shows "hw_kept (fst (try_open_codec env ug desc codec so pix))"
proof (cases so)
  case (Some s)
  obtain so' r where t: "try_open_codec env ug desc codec so pix = (so', r)" by fastforce
  show ?thesis
  proof (cases so')
    case (Some s')
    then show ?thesis
      using t \<open>so = Some s\<close> assms try_open_codec_hwenc [of env ug desc codec s pix s' r]
      by (simp add: hw_kept_def)
  qed (simp add: t hw_kept_def)
qed (simp add: hw_kept_def try_open_codec_def)

lemma negotiate_loop_keeps:
  assumes "\<And>s f. P s \<Longrightarrow> P (fst (topen s f))" and "P s"
  shows "P (fst (negotiate_loop topen cf s it))"
  using assms
proof (induction topen cf s it rule: negotiate_loop.induct)
  case (1 topen cf s it)
  note step = "1.prems"(1) and ps = "1.prems"(2)
  obtain fo it' where g: "get_first_matching_pix_fmt it cf = (fo, it')" by fastforce
  show ?case
  proof (cases fo)
    case None
    with g ps show ?thesis by (simp add: negotiate_loop.simps [of _ _ s it])
  next
    case (Some f)
    obtain s' r where t: "topen s f = (s', r)" by fastforce
    have ps': "P s'" using step [OF ps, of f] t by simp
    show ?thesis
    proof (cases r)
      case None
      have "P (fst (negotiate_loop topen cf s' it'))"
        by (rule "1.IH" [OF g [symmetric] Some t [symmetric] None step ps'])
      with g Some t None show ?thesis by (simp add: negotiate_loop.simps [of _ _ s it])
    next
      case (Some f')
      with g \<open>fo = Some f\<close> t ps' show ?thesis by (simp add: negotiate_loop.simps [of _ _ s it])
    qed
  qed
qed

lemma fallback_loop_keeps:
  assumes "\<And>s f. P s \<Longrightarrow> P (fst (topen s f))" and "P s"
  shows "P (fst (fallback_loop topen s l))"
  using assms(2)
proof (induction l arbitrary: s)
  case (Cons p ps)
  obtain s' r where t: "topen s p = (s', r)" by fastforce
  have "P s'" using assms(1) [OF Cons.prems, of p] t by simp
  then show ?case using Cons.IH [of s'] Cons.IH [of s] Cons.prems t by (auto split: option.splits)
qed simp

lemma negotiate_pix_fmt_keeps:
  assumes "\<And>s f. P s \<Longrightarrow> P (fst (topen s f))" and "P s"
  shows "case negotiate_pix_fmt env topen prop codec desc s of
           Neg_Ok s' _ _ \<Rightarrow> P s' | Neg_Fail s' _ \<Rightarrow> P s' | Neg_Crash \<Rightarrow> True"
proof -
  let ?c = "apply_blacklist (fst (get_requested_pix_fmts env (color_spec desc) prop)) (codec_name codec)"
  obtain s1 r where n: "negotiate_loop topen (pix_fmts codec) s ?c = (s1, r)" by fastforce
  have p1: "P s1" using negotiate_loop_keeps [where P = P and topen = topen and s = s and cf = "pix_fmts codec" and it = ?c, OF assms] n
    by simp
  have p2: "fallback_loop topen s1 l = (x, y) \<Longrightarrow> P x" for l x y
    using fallback_loop_keeps [where P = P and topen = topen and s = s1 and l = l, OF assms(1) p1] by simp
  show ?thesis using n p1 p2
    by (auto simp: negotiate_pix_fmt_def Let_def split: prod.splits option.splits)
qed

lemma configure_swscale_hwenc [simp]: "hwenc (fst (configure_swscale env io s desc out)) = hwenc s"
  by (simp add: configure_swscale_def Let_def)

lemma configure_with_hwenc:
  assumes "configure_with env io s desc = Some (s', ok)" and "hwenc s"
  shows "hwenc s'"
proof -
  let ?s = "s\<lparr>sws_fmt := None, params := (params s)\<lparr>sp_desc := desc\<rparr>\<rparr>"
  show ?thesis
  proof (cases "get_av_codec env ?s (initial_ug_codec ?s) (codec_is_a_rgb env (color_spec desc))")
    case (Inl e)
    then have "s' = ?s" using assms(1) by (auto simp: configure_with_def)
    then show ?thesis using assms(2) by simp
  next
    case (Inr cu)
    obtain codec ug where cu: "cu = (codec, ug)" by fastforce
    have k: "case negotiate_pix_fmt env (try_open_codec env ug desc codec) (req_conv_prop ?s) codec desc (Some ?s) of
           Neg_Ok s' _ _ \<Rightarrow> hw_kept s' | Neg_Fail s' _ \<Rightarrow> hw_kept s' | Neg_Crash \<Rightarrow> True"
      using assms(2) by (intro negotiate_pix_fmt_keeps try_open_codec_hw_kept) (simp_all add: hw_kept_def)
    show ?thesis
      using assms k Inr cu
      by (auto simp: configure_with_def Let_def hw_kept_def prod.case_eq_if
               split: neg_result.splits option.splits if_splits bool.splits)
  qed
qed

lemma parse_item_more:
  "item_holds (\<lambda>s'. lavc_cfg.more s' = lavc_cfg.more s) (\<lambda>s'. lavc_cfg.more s' = lavc_cfg.more s)
     (parse_item env s it)"
  unfolding parse_item_def Let_def by (simp split: stoi_result.split)

lemma parse_items_more:
  "item_holds (\<lambda>s'. lavc_cfg.more s' = lavc_cfg.more s) (\<lambda>s'. lavc_cfg.more s' = lavc_cfg.more s)
     (parse_items env s h its)"
proof (induction its arbitrary: s h)
  case (Cons it its)
  show ?case
  proof (cases "parse_item env s it")
    case (Item_Ok s1 h1)
    with parse_item_more [of s env it] Cons.IH [of s1 "h \<or> h1"] show ?thesis
      by (simp add: item_holds_def split: item_res.splits)
  next
    case (Item_Err s1)
    with parse_item_more [of s env it] show ?thesis by simp
  qed simp
qed simp

lemma parse_fmt_more:
  "parse_fmt env s m = Parse_Ret r s' \<Longrightarrow> lavc_cfg.more s' = lavc_cfg.more s"
  using parse_items_more [of s env False "strtok_tokens CHR '':'' (replace_all ESCAPED_COLON DELDEL m)"]
  by (auto simp: parse_fmt_def item_holds_def Let_def split: item_res.splits if_splits)

lemma check_messages_hwenc:
  "libavcodec_check_messages env s ms = Some s' \<Longrightarrow> hwenc s' = hwenc s"
proof (induction env s ms rule: libavcodec_check_messages.induct)
  case (2 env s m ms)
  then show ?case
    by (auto split: parse_result.splits dest!: parse_fmt_more more_hwenc)
qed simp

lemma check_duration_hwenc: "check_duration env s c dc dt = Some s' \<Longrightarrow> hwenc s' = hwenc s"
  by (auto simp: check_duration_def Let_def split: if_splits option.splits)

lemma encode_frame_hwenc: "encode_frame env io s fin = (s', out) \<Longrightarrow> hwenc s' = hwenc s"
  by (auto simp: encode_frame_def Let_def split: if_splits option.splits dest: check_duration_hwenc)

lemma compress_tile_hwenc_kept:
  assumes "libavcodec_compress_tile env io s fin = (s', out)" and "hwenc s"
  shows "hwenc s'"
proof (cases "libavcodec_check_messages env s (tin_msgs fin)")
  case (Some s1)
  have h1: "hwenc s1" using check_messages_hwenc [OF Some] assms(2) by simp
  show ?thesis
  proof (cases "video_desc_eq_excl_tiles (tin_desc fin) (saved_desc s1)")
    case True
    then show ?thesis using assms(1) Some h1 encode_frame_hwenc [of env io s1 fin s' out]
      by (simp add: libavcodec_compress_tile_def)
  next
    case False
    have hc: "hwenc (cleanup s1)" using h1 by (simp add: cleanup_def)
    show ?thesis
    proof (cases "configure_with env io (cleanup s1) (tin_desc fin)")
      case None
      then show ?thesis using assms(1) Some False h1 by (simp add: libavcodec_compress_tile_def)
    next
      case (Some r)
      obtain s2 ok where r: "r = (s2, ok)" by fastforce
      have h2: "hwenc s2" using configure_with_hwenc [of env io "cleanup s1" "tin_desc fin" s2 ok] Some r hc by simp
      show ?thesis
        using assms(1) \<open>libavcodec_check_messages env s (tin_msgs fin) = Some s1\<close> False Some r h2
          encode_frame_hwenc [of env io s2 fin s' out]
        by (cases ok) (simp_all add: libavcodec_compress_tile_def)
    qed
  qed
qed (use assms in \<open>simp add: libavcodec_compress_tile_def\<close>)

text \<open>
  Claim C30: \<open>hwenc\<close> is never reset.  Once a VA-API encoder has been opened, every
  later frame keeps \<open>hwenc\<close> set, through reconfiguration messages, \<open>cleanup\<close> and
  reconfigurations to any other encoder; \<open>cleanup\<close> frees the hardware frame, so a
  configured state without it makes the next converted frame dereference the NULL
  \<open>hwframe\<close>.
\<close>

theorem hwenc_never_reset:
  assumes "libavcodec_compress_tile env io s fin = (s', out)" and "hwenc s"
  shows "hwenc s' \<and> (\<not> hwframe s' \<longrightarrow> conv_fmt s' \<noteq> None \<longrightarrow> tin_conv_ok fin2 \<longrightarrow>
           encode_frame env io s' fin2 = (s', Tile_Crash))"
  using compress_tile_hwenc_kept [OF assms] by (simp add: encode_frame_def)

lemma hwenc_never_reset_witness:
  "libavcodec_compress_tile demo_env demo_io (demo_configured\<lparr>hwenc := True\<rparr>) demo_fin =
     (demo_configured\<lparr>hwenc := True\<rparr>, Tile_Crash) \<and>
   hwenc (demo_configured\<lparr>hwenc := True\<rparr>) \<and>
   encode_frame demo_env demo_io (demo_configured\<lparr>hwenc := True\<rparr>) demo_fin =
     (demo_configured\<lparr>hwenc := True\<rparr>, Tile_Crash)"
proof -
  have c: "conv_fmt (demo_configured\<lparr>hwenc := True\<rparr>) \<noteq> None" "\<not> hwframe (demo_configured\<lparr>hwenc := True\<rparr>)"
    "saved_desc (demo_configured\<lparr>hwenc := True\<rparr>) = demo_desc"
    by (simp_all add: demo_configured_def init_state_def)
  have e: "video_desc_eq_excl_tiles demo_desc demo_desc"
    by (simp add: video_desc_eq_excl_tiles_def)
  have t: "libavcodec_compress_tile demo_env demo_io (demo_configured\<lparr>hwenc := True\<rparr>) demo_fin =
     (demo_configured\<lparr>hwenc := True\<rparr>, Tile_Crash)"
    using c e by (simp add: libavcodec_compress_tile_def demo_fin_def encode_frame_def)
  have h: "hwenc (demo_configured\<lparr>hwenc := True\<rparr>)" by simp
  from hwenc_never_reset [OF t h] c show ?thesis using t h by (simp add: demo_fin_def)
qed

end
