(* ===== verification/Audio_Common.thy ===== *)
theory Audio_Common
  imports Lavc_Prelude
begin

text \<open>
  What the two audio modules (\<open>audio/playback/coreaudio.cpp\<close> and
  \<open>audio/capture/sdl_mixer.c\<close>) share: the audio description and frame of
  \<open>audio/types.h\<close> and the ring buffer of \<open>utils/ring_buffer.h\<close>.  The ring buffer's
  code is not part of the sources modelled here, so it is an interface: a record of its
  three operations over a type variable \<open>'rb\<close> of ring states.  The modules' lemmas are
  stated for every ring; the list FIFO \<open>fifo_ring\<close> is one instance, used to run the
  modules on concrete inputs.
\<close>

section \<open>Audio description and frame\<close>

text \<open>\<open>struct audio_desc\<close> (the codec field aside) and \<open>struct audio_frame\<close>, which
  repeats the description's fields and adds the buffer, its fill and its capacity.\<close>

record audio_desc =
  bps :: int
  ch_count :: int
  sample_rate :: int

record audio_frame = audio_desc +
  data :: "8 word list"
  data_len :: int
  max_size :: int

section \<open>The ring buffer interface\<close>

text \<open>\<open>ring_buffer_init(size)\<close>, \<open>ring_buffer_write(ring, in, len)\<close> and
  \<open>ring_buffer_read(ring, out, max_len)\<close>; the read returns the bytes it copied out,
  whose number is the C function's return value.\<close>

record 'rb ring_iface =
  rb_init :: "int \<Rightarrow> 'rb"
  rb_write :: "'rb \<Rightarrow> 8 word list \<Rightarrow> 'rb"
  rb_read :: "'rb \<Rightarrow> int \<Rightarrow> 'rb \<times> 8 word list"

text \<open>A read that returns at most what was asked for.\<close>

definition read_within :: "'rb ring_iface \<Rightarrow> 'rb \<Rightarrow> int \<Rightarrow> bool" where
  "read_within R r n \<longleftrightarrow> int (length (snd (rb_read R r n))) \<le> max 0 n"

text \<open>An unbounded FIFO of bytes: writes append, reads take from the front.\<close>

definition fifo_ring :: "8 word list ring_iface" where
  "fifo_ring = \<lparr>rb_init = (\<lambda>_. []), rb_write = (\<lambda>r d. r @ d),
                rb_read = (\<lambda>r n. (drop (nat n) r, take (nat n) r))\<rparr>"

lemma fifo_ring_ops [simp]:
  "rb_init fifo_ring n = []"
  "rb_write fifo_ring r d = r @ d"
  "rb_read fifo_ring r n = (drop (nat n) r, take (nat n) r)"
  by (simp_all add: fifo_ring_def)

lemma fifo_read_within: "read_within fifo_ring r n"
  by (simp add: read_within_def)

end
