(* ===== verification/CoreAudio_Playback.thy ===== *)
theory CoreAudio_Playback
  imports Audio_Common
begin

text \<open>
  The CoreAudio playback driver \<open>audio/playback/coreaudio.cpp\<close>: \<open>audio_play_ca_init\<close>,
  \<open>audio_play_ca_reconfigure\<close>, the render callback \<open>theRenderProc\<close> that CoreAudio
  calls while the output unit runs, \<open>audio_play_ca_put_frame\<close> and
  \<open>audio_play_ca_done\<close>, and the device listing \<open>audio_play_ca_help\<close>.  The AUHAL output unit is modelled by what the driver does to
  it: its life-cycle phase, the current device, the stream format and whether the
  render callback is registered.  Each AudioUnit call's status code comes from a
  record \<open>ca_host\<close>, one per driver entry, so that every \<open>goto error\<close> is a branch of
  the model.  Time is the steady clock in nanoseconds; the epoch is 0.
\<close>

unbundle bit_operations_syntax

section \<open>The output unit\<close>

datatype au_phase = AU_Uninitialized | AU_Initialized | AU_Running

text \<open>The stream format the driver sets: sample rate, channels, bits per channel and
  bytes per frame.\<close>

record au_unit =
  au_phase :: au_phase
  au_device :: "int option"
  au_format :: "(int \<times> int \<times> int \<times> int) option"
  au_callback :: bool

text \<open>The status codes the AudioUnit and AudioHardware calls return in one entry of
  the driver (0 is \<open>noErr\<close>), and the default output device.\<close>

record ca_host =
  comp_found :: bool
  instance_new_rc :: int
  uninitialize_rc :: int
  default_device_rc :: int
  default_device :: int
  set_device_rc :: int
  stop_rc :: int
  get_format_rc :: int
  set_format_rc :: int
  set_callback_rc :: int
  initialize_rc :: int
  start_rc :: int

text \<open>\<open>AudioOutputUnitStop\<close> and \<open>AudioOutputUnitStart\<close>: a successful call moves a
  running unit to initialized and back.\<close>

definition au_stop :: "ca_host \<Rightarrow> au_unit \<Rightarrow> au_unit" where
  "au_stop h u =
     (if stop_rc h = 0 \<and> au_phase u = AU_Running then u\<lparr>au_phase := AU_Initialized\<rparr> else u)"

definition au_start :: "ca_host \<Rightarrow> au_unit \<Rightarrow> au_unit" where
  "au_start h u = (if start_rc h = 0 then u\<lparr>au_phase := AU_Running\<rparr> else u)"

section \<open>Driver state\<close>

text \<open>\<open>struct state_ca_playback\<close>; \<open>buffer\<close> is None for NULL.\<close>

record 'rb state_ca_playback =
  auHALComponentInstance :: au_unit
  desc :: audio_desc
  buffer :: "'rb option"
  audio_packet_size :: int
  last_audio_read :: int
  stopped :: bool

definition NO_DATA_STOP_SEC :: int where "NO_DATA_STOP_SEC = 2"

definition NS_IN_SEC :: int where "NS_IN_SEC = 1000000000"

section \<open>\<open>audio_play_ca_init\<close>\<close>

text \<open>\<open>new state_ca_playback()\<close> value-initialises every member: no ring buffer, packet
  size 0, \<open>last_audio_read\<close> the clock's epoch, not stopped.\<close>

definition ca_new_state :: "au_unit \<Rightarrow> 'rb state_ca_playback" where
  "ca_new_state u = \<lparr>auHALComponentInstance = u,
     desc = \<lparr>bps = 0, ch_count = 0, sample_rate = 0\<rparr>, buffer = None,
     audio_packet_size = 0, last_audio_read = 0, stopped = False\<rparr>"

datatype 'rb ca_init_result = CA_Init "'rb state_ca_playback" | CA_Help | CA_Null

text \<open>Find and open the HAL output unit, uninitialise it, pick the device (the number
  in the configuration, \<open>atoi\<close>, or the default output device) and make it current.
  \<open>help\<close> lists the devices (not modelled) and returns \<open>audio_init_state_ok\<close>.\<close>

definition audio_play_ca_init :: "ca_host \<Rightarrow> string option \<Rightarrow> 'rb ca_init_result" where
  "audio_play_ca_init h cfg =
     (let u0 = \<lparr>au_phase = AU_Uninitialized, au_device = None, au_format = None, au_callback = False\<rparr>;
          set_dev = (\<lambda>dev. if set_device_rc h \<noteq> 0 then CA_Null
                           else CA_Init (ca_new_state (u0\<lparr>au_device := Some dev\<rparr>)))
      in if \<not> comp_found h then CA_Null
         else if instance_new_rc h \<noteq> 0 then CA_Null
         else if uninitialize_rc h \<noteq> 0 then CA_Null
         else case cfg of
                Some c \<Rightarrow> if c = ''help'' then CA_Help else set_dev (c_atoi c)
              | None \<Rightarrow> if default_device_rc h \<noteq> 0 then CA_Null else set_dev (default_device h))"

section \<open>\<open>audio_play_ca_reconfigure\<close>\<close>

text \<open>
  The function runs in two parts, and the render thread can run between them.
  First (lines 119--124) the description is set and the old ring is destroyed and
  set to NULL, while the unit may still be running.  Then (lines 126--191) a new
  ring buffer of one second is allocated, the unit is stopped (unless the driver
  stopped it), uninitialised, given the new stream format and the render callback,
  initialised and started.  Each failing call returns FALSE at once, with what was
  done so far kept.  \<open>audio_packet_size\<close> is set before the format is handed to the
  unit.  The sizes are \<open>int\<close> products of small factors (bits, channels, rate); they
  are kept as integers.
\<close>

definition ca_reconf_destroy :: "'rb state_ca_playback \<Rightarrow> int \<Rightarrow> int \<Rightarrow> int \<Rightarrow> 'rb state_ca_playback" where
  "ca_reconf_destroy s0 quant_samples channels rate =
     s0\<lparr>desc := \<lparr>bps = c_div quant_samples 8, ch_count = channels, sample_rate = rate\<rparr>,
        buffer := None\<rparr>"

definition ca_reconf_rest :: "'rb ring_iface \<Rightarrow> ca_host \<Rightarrow> 'rb state_ca_playback \<Rightarrow>
    int \<Rightarrow> int \<Rightarrow> int \<Rightarrow> 'rb state_ca_playback \<times> bool" where
  "ca_reconf_rest R h s1 quant_samples channels rate =
     (let s = s1\<lparr>buffer := Some (rb_init R (c_div quant_samples 8 * channels * rate))\<rparr>;
          u = auHALComponentInstance s
      in if \<not> stopped s \<and> stop_rc h \<noteq> 0 then (s, False)
         else
           let u1 = (if stopped s then u else au_stop h u)
           in if uninitialize_rc h \<noteq> 0 then (s\<lparr>auHALComponentInstance := u1\<rparr>, False)
              else
                let u2 = u1\<lparr>au_phase := AU_Uninitialized\<rparr>
                in if get_format_rc h \<noteq> 0 then (s\<lparr>auHALComponentInstance := u2\<rparr>, False)
                   else
                     let aps = 1 * channels * c_div quant_samples 8;
                         s2 = s\<lparr>audio_packet_size := aps\<rparr>
                     in if set_format_rc h \<noteq> 0 then (s2\<lparr>auHALComponentInstance := u2\<rparr>, False)
                        else
                          let u3 = u2\<lparr>au_format := Some (rate, channels, quant_samples, aps)\<rparr>
                          in if set_callback_rc h \<noteq> 0 then (s2\<lparr>auHALComponentInstance := u3\<rparr>, False)
                             else
                               let u4 = u3\<lparr>au_callback := True\<rparr>
                               in if initialize_rc h \<noteq> 0 then (s2\<lparr>auHALComponentInstance := u4\<rparr>, False)
                                  else
                                    let u5 = u4\<lparr>au_phase := AU_Initialized\<rparr>
                                    in if start_rc h \<noteq> 0 then (s2\<lparr>auHALComponentInstance := u5\<rparr>, False)
                                       else (s2\<lparr>auHALComponentInstance := u5\<lparr>au_phase := AU_Running\<rparr>,
                                                stopped := False\<rparr>, True))"

definition audio_play_ca_reconfigure :: "'rb ring_iface \<Rightarrow> ca_host \<Rightarrow> 'rb state_ca_playback \<Rightarrow>
    int \<Rightarrow> int \<Rightarrow> int \<Rightarrow> 'rb state_ca_playback \<times> bool" where
  "audio_play_ca_reconfigure R h s0 quant_samples channels rate =
     ca_reconf_rest R h (ca_reconf_destroy s0 quant_samples channels rate) quant_samples channels rate"

section \<open>The render callback\<close>

text \<open>
  \<open>write_bytes = inNumFrames * audio_packet_size\<close>: a \<open>UInt32\<close> times an \<open>int\<close>,
  computed in 32-bit unsigned arithmetic and stored in an \<open>int\<close>.  A short read is an
  underflow; after more than \<open>NO_DATA_STOP_SEC\<close> whole seconds without a full read the
  unit is stopped and \<open>stopped\<close> set.  A full read records the time.  The bytes
  delivered are returned with the state; None is a read of the NULL ring.
\<close>

definition write_bytes_of :: "32 word \<Rightarrow> int \<Rightarrow> int" where
  "write_bytes_of frames aps = sint (frames * word_of_int aps)"

definition theRenderProc :: "'rb ring_iface \<Rightarrow> ca_host \<Rightarrow> 'rb state_ca_playback \<Rightarrow> int \<Rightarrow>
    32 word \<Rightarrow> ('rb state_ca_playback \<times> 8 word list) option" where
  "theRenderProc R h s now inNumFrames =
     (case buffer s of
        None \<Rightarrow> None
      | Some b \<Rightarrow>
          (let write_bytes = write_bytes_of inNumFrames (audio_packet_size s);
               (b', out) = rb_read R b write_bytes;
               s1 = s\<lparr>buffer := Some b'\<rparr>
           in if int (length out) < write_bytes then
                (if NO_DATA_STOP_SEC < c_div (now - last_audio_read s) NS_IN_SEC
                 then Some (s1\<lparr>auHALComponentInstance := au_stop h (auHALComponentInstance s),
                              stopped := True\<rparr>, out)
                 else Some (s1, out))
              else Some (s1\<lparr>last_audio_read := now\<rparr>, out)))"

section \<open>\<open>audio_play_ca_put_frame\<close> and \<open>audio_play_ca_done\<close>\<close>

text \<open>A stopped unit is started again (the status is not checked) and the frame is
  written to the ring; writing to the NULL ring is None.\<close>

definition audio_play_ca_put_frame :: "'rb ring_iface \<Rightarrow> ca_host \<Rightarrow> 'rb state_ca_playback \<Rightarrow>
    8 word list \<Rightarrow> 'rb state_ca_playback option" where
  "audio_play_ca_put_frame R h s frame =
     (let s1 = (if stopped s then s\<lparr>auHALComponentInstance := au_start h (auHALComponentInstance s),
                                    stopped := False\<rparr> else s)
      in case buffer s1 of
           None \<Rightarrow> None
         | Some b \<Rightarrow> Some (s1\<lparr>buffer := Some (rb_write R b frame)\<rparr>))"

text \<open>The unit after \<open>audio_play_ca_done\<close>: stopped unless the driver stopped it,
  then uninitialised (statuses ignored).\<close>

definition audio_play_ca_done :: "ca_host \<Rightarrow> 'rb state_ca_playback \<Rightarrow> au_unit" where
  "audio_play_ca_done h s =
     (let u = (if stopped s then auHALComponentInstance s else au_stop h (auHALComponentInstance s))
      in if uninitialize_rc h = 0 then u\<lparr>au_phase := AU_Uninitialized\<rparr> else u)"

section \<open>\<open>audio_play_ca_help\<close>\<close>

text \<open>The device listing.  \<open>AudioHardwareGetPropertyInfo\<close> gives the size of the
  device array, \<open>AudioHardwareGetProperty\<close> fills the \<open>malloc\<close>ed array, and for each of
  the \<open>size / sizeof(AudioDeviceID)\<close> devices \<open>AudioDeviceGetProperty\<close> asks for the
  name, None when it fails.  A line is printed text, or the line whose \<open>name\<close> is the
  uninitialised stack buffer (the status of the name query is never checked).  The
  result is the lines and whether \<open>dev_ids\<close> is left allocated.\<close>

record ca_help_host =
  devices_info_rc :: int
  devices_size :: nat
  devices_rc :: int
  device_ids :: "int list"
  device_name :: "int \<Rightarrow> string option"

datatype help_line = Help_Text string | Help_Uninit_Name int

definition ca_help_error :: help_line where
  "ca_help_error = Help_Text ''[CoreAudio] error obtaining device list.\<newline>''"

definition audio_play_ca_help :: "ca_help_host \<Rightarrow> help_line list \<times> bool" where
  "audio_play_ca_help h =
     (let l0 = Help_Text (CHR 0x09 # ''coreaudio : default CoreAudio output\<newline>'')
      in if devices_info_rc h \<noteq> 0 then ([l0, ca_help_error], False)
         else
           let dev_items = devices_size h div 4
           in if devices_rc h \<noteq> 0 then ([l0, ca_help_error], True)
              else (l0 # map (\<lambda>i. case device_name h i of
                                     Some n \<Rightarrow> Help_Text (CHR 0x09 # ''coreaudio:'' @ int_to_string i @ '' : '' @ n @ ''\<newline>'')
                                   | None \<Rightarrow> Help_Uninit_Name i)
                              (take dev_items (device_ids h)), False))"

section \<open>The driver as a state machine\<close>

text \<open>The driver's two threads: the audio thread calls reconfigure and put_frame
  one after the other, and CoreAudio's render thread calls the callback whenever
  the unit runs.  A system state is the driver state and the reconfiguration in
  progress, if any (its format, between the two parts of
  \<open>audio_play_ca_reconfigure\<close>).  A render call is atomic with respect to the audio
  thread's steps; one that would dereference the NULL ring (\<open>theRenderProc\<close> is
  None) has no successor.\<close>

type_synonym 'rb ca_sys = "'rb state_ca_playback \<times> (int \<times> int \<times> int) option"

datatype ca_event =
    Reconf_Begin int int int
  | Reconf_End ca_host
  | Render ca_host int "32 word"
  | Put_Frame ca_host "8 word list"

inductive ca_step :: "'rb ring_iface \<Rightarrow> 'rb ca_sys \<Rightarrow> ca_event \<Rightarrow> 'rb ca_sys \<Rightarrow> bool"
  for R where
  reconf_begin: "ca_step R (s, None) (Reconf_Begin q c r) (ca_reconf_destroy s q c r, Some (q, c, r))"
| reconf_end: "ca_reconf_rest R h s q c r = (s', ok) \<Longrightarrow> ca_step R (s, Some (q, c, r)) (Reconf_End h) (s', None)"
| render: "au_phase (auHALComponentInstance s) = AU_Running \<Longrightarrow>
           theRenderProc R h s now n = Some (s', out) \<Longrightarrow> ca_step R (s, p) (Render h now n) (s', p)"
| put: "audio_play_ca_put_frame R h s f = Some s' \<Longrightarrow> ca_step R (s, None) (Put_Frame h f) (s', None)"

inductive_cases ca_step_beginE: "ca_step R x (Reconf_Begin q c r) y"
inductive_cases ca_step_endE: "ca_step R x (Reconf_End h) y"
inductive_cases ca_step_renderE: "ca_step R x (Render h now n) y"
inductive_cases ca_step_putE: "ca_step R x (Put_Frame h f) y"

text \<open>The system states reachable from a successful \<open>audio_play_ca_init\<close>.\<close>

inductive ca_reach :: "'rb ring_iface \<Rightarrow> 'rb ca_sys \<Rightarrow> bool" for R where
  init: "audio_play_ca_init h cfg = CA_Init s \<Longrightarrow> ca_reach R (s, None)"
| step: "ca_reach R x \<Longrightarrow> ca_step R x e y \<Longrightarrow> ca_reach R y"

text \<open>A sequence of frames handed to the driver, each with its own host results.\<close>

fun put_frames :: "'rb ring_iface \<Rightarrow> 'rb state_ca_playback \<Rightarrow> (ca_host \<times> 8 word list) list \<Rightarrow>
    'rb state_ca_playback option" where
  "put_frames R s [] = Some s"
| "put_frames R s ((h, f) # fs) =
     (case audio_play_ca_put_frame R h s f of None \<Rightarrow> None | Some s' \<Rightarrow> put_frames R s' fs)"


section \<open>Demonstration inputs\<close>

text \<open>Host results where every call succeeds (device 73) and the state after init and a
  16-bit stereo 48 kHz reconfiguration on the list FIFO.\<close>

definition demo_host :: ca_host where
  "demo_host = \<lparr>comp_found = True, instance_new_rc = 0, uninitialize_rc = 0, default_device_rc = 0,
     default_device = 73, set_device_rc = 0, stop_rc = 0, get_format_rc = 0, set_format_rc = 0,
     set_callback_rc = 0, initialize_rc = 0, start_rc = 0\<rparr>"

definition demo_ca :: "8 word list state_ca_playback" where
  "demo_ca = fst (audio_play_ca_reconfigure fifo_ring demo_host
      (ca_new_state \<lparr>au_phase = AU_Uninitialized, au_device = Some 73, au_format = None, au_callback = False\<rparr>) 16 2 48000)"

section \<open>Properties\<close>

lemmas reconf_defs = audio_play_ca_reconfigure_def ca_reconf_rest_def ca_reconf_destroy_def

lemma au_stop_not_running: "stop_rc h = 0 \<Longrightarrow> au_phase (au_stop h u) \<noteq> AU_Running"
  by (simp add: au_stop_def)

lemma au_stop_frame [simp]:
  "au_device (au_stop h u) = au_device u" "au_format (au_stop h u) = au_format u"
  "au_callback (au_stop h u) = au_callback u"
  by (simp_all add: au_stop_def)

text \<open>a reconfiguration reports success exactly when every AudioUnit call it makes
  succeeds (the stop only when the driver had not stopped the unit)\<close>

lemma reconfigure_success:
  "snd (audio_play_ca_reconfigure R h s q c r) \<longleftrightarrow>
     (stopped s \<or> stop_rc h = 0) \<and> uninitialize_rc h = 0 \<and> get_format_rc h = 0 \<and> set_format_rc h = 0 \<and>
     set_callback_rc h = 0 \<and> initialize_rc h = 0 \<and> start_rc h = 0"
  by (simp add: reconf_defs Let_def)

text \<open>C25: a successful reconfiguration leaves the unit running with the requested format,
  the render callback registered, the device unchanged, bytes per frame \<open>channels
  * (bits / 8)\<close>, a fresh one-second ring buffer and \<open>stopped\<close> false\<close>

lemma reconfigure_ok_state:
  assumes "audio_play_ca_reconfigure R h s q c r = (s', True)"
  shows "au_phase (auHALComponentInstance s') = AU_Running \<and> \<not> stopped s' \<and>
         au_format (auHALComponentInstance s') = Some (r, c, q, c * c_div q 8) \<and>
         au_callback (auHALComponentInstance s') \<and>
         au_device (auHALComponentInstance s') = au_device (auHALComponentInstance s) \<and>
         audio_packet_size s' = c * c_div q 8 \<and>
         desc s' = \<lparr>bps = c_div q 8, ch_count = c, sample_rate = r\<rparr> \<and>
         buffer s' = Some (rb_init R (c_div q 8 * c * r)) \<and> last_audio_read s' = last_audio_read s"
  using assms by (auto simp: reconf_defs Let_def split: if_splits)

lemma reconfigure_ok_ring:
  "audio_play_ca_reconfigure R h s q c r = (s', True) \<Longrightarrow>
     buffer s' = Some (rb_init R (c_div q 8 * c * r)) \<and> audio_packet_size s' = c * c_div q 8 \<and>
     last_audio_read s' = last_audio_read s"
  by (auto simp: reconf_defs Let_def split: if_splits)

lemma reconfigure_fail_not_running:
  assumes "audio_play_ca_reconfigure R h s q c r = (s', False)" and "\<not> stopped s" and "stop_rc h = 0"
  shows "au_phase (auHALComponentInstance s') \<noteq> AU_Running \<and> \<not> stopped s'"
  using assms by (auto simp: reconf_defs Let_def au_stop_def split: if_splits)

lemma put_frame_not_stopped:
  "\<not> stopped s \<Longrightarrow> audio_play_ca_put_frame R h s f = Some s' \<Longrightarrow>
     auHALComponentInstance s' = auHALComponentInstance s \<and> \<not> stopped s'"
  by (auto simp: audio_play_ca_put_frame_def split: option.splits)

lemma put_frames_not_stopped:
  "\<not> stopped s \<Longrightarrow> put_frames R s fs = Some s' \<Longrightarrow>
     auHALComponentInstance s' = auHALComponentInstance s \<and> \<not> stopped s'"
proof (induction fs arbitrary: s)
  case Nil then show ?case by simp
next
  case (Cons hf fs)
  obtain h f where hf: "hf = (h, f)" by fastforce
  from Cons.prems hf obtain s1 where p: "audio_play_ca_put_frame R h s f = Some s1"
    and r: "put_frames R s1 fs = Some s'" by (auto split: option.splits)
  from put_frame_not_stopped [OF Cons.prems(1) p] Cons.IH [of s1] r show ?case by simp
qed

text \<open>C23: a reconfiguration that fails after the unit was stopped leaves \<open>stopped\<close> false with the unit not running, so no later frame restarts it: playback stays silent until the next successful reconfiguration\<close>

theorem reconfigure_failure_stalls:
  assumes "audio_play_ca_reconfigure R h s q c r = (s', False)" and "\<not> stopped s" and "stop_rc h = 0"
    and "put_frames R s' frames = Some s''"
  shows "au_phase (auHALComponentInstance s'') \<noteq> AU_Running \<and> \<not> stopped s''"
  using reconfigure_fail_not_running [OF assms(1-3)] put_frames_not_stopped [OF _ assms(4)] by simp

lemma reconfigure_failure_stalls_witness:
  "audio_play_ca_reconfigure fifo_ring (demo_host\<lparr>initialize_rc := -10851\<rparr>) demo_ca 24 2 48000 =
     (fst (audio_play_ca_reconfigure fifo_ring (demo_host\<lparr>initialize_rc := -10851\<rparr>) demo_ca 24 2 48000), False) \<and>
   \<not> stopped demo_ca \<and> stop_rc (demo_host\<lparr>initialize_rc := -10851\<rparr>) = 0 \<and>
   put_frames fifo_ring (fst (audio_play_ca_reconfigure fifo_ring (demo_host\<lparr>initialize_rc := -10851\<rparr>) demo_ca 24 2 48000))
      [(demo_host, [1, 2, 3, 4])] \<noteq> None \<and>
   au_phase (auHALComponentInstance (the (put_frames fifo_ring
      (fst (audio_play_ca_reconfigure fifo_ring (demo_host\<lparr>initialize_rc := -10851\<rparr>) demo_ca 24 2 48000))
      [(demo_host, [1, 2, 3, 4])]))) \<noteq> AU_Running"
proof -
  define h where "h = demo_host\<lparr>initialize_rc := -10851\<rparr>"
  define s' where "s' = fst (audio_play_ca_reconfigure fifo_ring h demo_ca 24 2 48000)"
  have r: "audio_play_ca_reconfigure fifo_ring h demo_ca 24 2 48000 = (s', False)"
    by (simp add: s'_def h_def demo_host_def demo_ca_def reconf_defs Let_def
        ca_new_state_def)
  have ns: "\<not> stopped demo_ca"
    by (simp add: demo_ca_def demo_host_def reconf_defs Let_def ca_new_state_def)
  have st: "stop_rc h = 0" by (simp add: h_def demo_host_def)
  have p: "put_frames fifo_ring s' [(demo_host, [1, 2, 3, 4])] \<noteq> None"
    by (simp add: s'_def h_def demo_host_def demo_ca_def reconf_defs Let_def
        ca_new_state_def audio_play_ca_put_frame_def)
  then obtain s'' where s'': "put_frames fifo_ring s' [(demo_host, [1, 2, 3, 4])] = Some s''" by blast
  show ?thesis
    using reconfigure_failure_stalls [OF r ns st s''] r ns st s'' unfolding h_def s'_def by simp
qed

lemma ca_init_state:
  "audio_play_ca_init h cfg = CA_Init s \<Longrightarrow>
     buffer s = None \<and> au_phase (auHALComponentInstance s) = AU_Uninitialized \<and> \<not> stopped s \<and>
     last_audio_read s = 0"
  by (auto simp: audio_play_ca_init_def ca_new_state_def Let_def split: if_splits option.splits)

lemma render_no_buffer: "buffer s = None \<Longrightarrow> theRenderProc R h s now n = None"
  by (simp add: theRenderProc_def)

lemma render_keeps_buffer: "theRenderProc R h s now n = Some (s', out) \<Longrightarrow> buffer s' \<noteq> None"
  by (auto simp: theRenderProc_def Let_def split: option.splits prod.splits if_splits)

lemma put_frame_buffer: "audio_play_ca_put_frame R h s f = Some s' \<Longrightarrow> buffer s' \<noteq> None"
  by (auto simp: audio_play_ca_put_frame_def Let_def split: option.splits)

lemma reconf_rest_buffer: "ca_reconf_rest R h s q c r = (s', ok) \<Longrightarrow> buffer s' \<noteq> None"
  by (auto simp: ca_reconf_rest_def Let_def split: if_splits)

text \<open>the two steps of a reconfiguration with no render call between them are the
  whole of \<open>audio_play_ca_reconfigure\<close>\<close>

lemma ca_reconf_begin_end:
  assumes "ca_step R (s, None) (Reconf_Begin q c r) x" and "ca_step R x (Reconf_End h) y"
  shows "y = (fst (audio_play_ca_reconfigure R h s q c r), None)"
  using assms by (auto elim!: ca_step_beginE ca_step_endE simp: audio_play_ca_reconfigure_def)

text \<open>outside a reconfiguration the ring exists whenever the unit may run: the NULL
  ring of a running unit is confined to the window between the two steps\<close>

lemma ca_reach_idle_buffer:
  "ca_reach R x \<Longrightarrow> snd x = None \<Longrightarrow> buffer (fst x) = None \<Longrightarrow>
     au_phase (auHALComponentInstance (fst x)) \<noteq> AU_Running"
proof (induction rule: ca_reach.induct)
  case (init h cfg s) then show ?case using ca_init_state [OF init.hyps] by simp
next
  case (step x e y)
  from step.hyps(2) step.prems step.IH show ?case
    by (cases rule: ca_step.cases) (auto dest: render_keeps_buffer put_frame_buffer reconf_rest_buffer)
qed

lemma demo_init:
  "audio_play_ca_init demo_host None =
     CA_Init (ca_new_state \<lparr>au_phase = AU_Uninitialized, au_device = Some 73, au_format = None, au_callback = False\<rparr>)"
  by (simp add: audio_play_ca_init_def demo_host_def)

text \<open>C24: \<open>audio_play_ca_reconfigure\<close> destroys the ring buffer and sets it to NULL
  (coreaudio.cpp:123--124) before it stops the unit (line 128), so after one successful
  reconfiguration a second one reaches a state in which the unit is still running and
  the ring is NULL: every render call there finds no ring (the C callback dereferences
  the NULL pointer)\<close>

theorem render_null_race:
  "\<exists>x. ca_reach R x \<and> au_phase (auHALComponentInstance (fst x)) = AU_Running \<and> buffer (fst x) = None \<and>
       (\<forall>h now n. theRenderProc R h (fst x) now n = None)"
proof -
  define s0 :: "'a state_ca_playback" where "s0 = ca_new_state
     \<lparr>au_phase = AU_Uninitialized, au_device = Some 73, au_format = None, au_callback = False\<rparr>"
  define s1 where "s1 = fst (ca_reconf_rest R demo_host (ca_reconf_destroy s0 16 2 48000) 16 2 48000)"
  have r0: "ca_reach R (s0, None)" using ca_reach.init [OF demo_init] unfolding s0_def .
  have r1: "ca_reach R (ca_reconf_destroy s0 16 2 48000, Some (16, 2, 48000))"
    by (rule ca_reach.step [OF r0 ca_step.reconf_begin])
  have r2: "ca_reach R (s1, None)"
    by (rule ca_reach.step [OF r1 ca_step.reconf_end]) (simp add: s1_def prod_eq_iff)
  have r3: "ca_reach R (ca_reconf_destroy s1 16 2 48000, Some (16, 2, 48000))"
    by (rule ca_reach.step [OF r2 ca_step.reconf_begin])
  have run: "au_phase (auHALComponentInstance (ca_reconf_destroy s1 16 2 48000)) = AU_Running"
    by (simp add: s1_def s0_def ca_reconf_rest_def ca_reconf_destroy_def demo_host_def ca_new_state_def Let_def)
  have nul: "buffer (ca_reconf_destroy s1 16 2 48000) = None"
    by (simp add: ca_reconf_destroy_def)
  show ?thesis using r3 run nul render_no_buffer by fastforce
qed

text \<open>the render callback stops the unit exactly on an underflow more than two whole
  seconds after the last full read, and records the time of every full read\<close>

theorem render_stop_rule:
  assumes "buffer s = Some b" and "rb_read R b (write_bytes_of n (audio_packet_size s)) = (b', out)"
    and "theRenderProc R h s now n = Some (s', out')"
  shows "out' = out \<and> buffer s' = Some b' \<and>
         stopped s' = (stopped s \<or> (int (length out) < write_bytes_of n (audio_packet_size s) \<and>
                                    NO_DATA_STOP_SEC < c_div (now - last_audio_read s) NS_IN_SEC)) \<and>
         last_audio_read s' = (if int (length out) < write_bytes_of n (audio_packet_size s)
                               then last_audio_read s else now)"
  using assms by (auto simp: theRenderProc_def Let_def split: if_splits)

text \<open>C26: \<open>last_audio_read\<close> starts at the clock epoch, so the first underflow after initialisation and reconfiguration stops the unit at once when the clock is past three seconds\<close>

theorem first_underflow_stops:
  assumes "audio_play_ca_init h cfg = CA_Init s0" and "audio_play_ca_reconfigure R h' s0 q c r = (s1, True)"
    and "rb_read R (rb_init R (c_div q 8 * c * r)) (write_bytes_of n (c * c_div q 8)) = (b', out)"
    and "int (length out) < write_bytes_of n (c * c_div q 8)" and "3 * NS_IN_SEC \<le> now"
  shows "\<exists>s2. theRenderProc R h'' s1 now n = Some (s2, out) \<and> stopped s2"
proof -
  have s0: "last_audio_read s0 = 0" using ca_init_state [OF assms(1)] by simp
  have s1: "buffer s1 = Some (rb_init R (c_div q 8 * c * r))" "audio_packet_size s1 = c * c_div q 8"
    "last_audio_read s1 = 0"
    using reconfigure_ok_ring [OF assms(2)] s0 by simp_all
  have "(3 * NS_IN_SEC) div NS_IN_SEC \<le> now div NS_IN_SEC"
    using assms(5) by (intro zdiv_mono1) (simp_all add: NS_IN_SEC_def)
  then have "NO_DATA_STOP_SEC < c_div now NS_IN_SEC"
    using assms(5) by (simp add: NO_DATA_STOP_SEC_def NS_IN_SEC_def)
  then show ?thesis using s1 assms(3,4) by (simp add: theRenderProc_def Let_def)
qed


lemma write_bytes_of_int: "write_bytes_of n aps = sint (word_of_int (int (unat n) * aps) :: 32 word)"
  unfolding write_bytes_of_def by (metis uint_nat wi_hom_mult word_of_int_uint)

lemma sint_word_of_int_32:
  "- (2 ^ 31) \<le> y \<Longrightarrow> y < 2 ^ 31 \<Longrightarrow> sint (word_of_int y :: 32 word) = y"
  by (simp add: sint_sbintrunc' signed_take_bit_int_eq_self)

text \<open>C27: the byte count the render callback asks the ring for is \<open>inNumFrames *
  audio_packet_size\<close> computed in 32 bits and read as a signed int: the product's low 32
  bits taken as a two's-complement value, which is the product itself below \<open>2^31\<close> and
  the product minus \<open>2^32\<close>, a negative count, from \<open>2^31\<close> to \<open>2^32\<close>\<close>

theorem write_bytes_exact:
  "write_bytes_of n aps = signed_take_bit 31 (int (unat n) * aps) \<and>
   (0 \<le> int (unat n) * aps \<and> int (unat n) * aps < 2 ^ 31 \<longrightarrow> write_bytes_of n aps = int (unat n) * aps) \<and>
   (2 ^ 31 \<le> int (unat n) * aps \<and> int (unat n) * aps < 2 ^ 32 \<longrightarrow>
      write_bytes_of n aps = int (unat n) * aps - 2 ^ 32)"
proof (intro conjI impI)
  let ?x = "int (unat n) * aps"
  show "write_bytes_of n aps = signed_take_bit 31 ?x"
    unfolding write_bytes_of_int sint_sbintrunc' by simp
  show "write_bytes_of n aps = ?x" if "0 \<le> ?x \<and> ?x < 2 ^ 31"
    using that unfolding write_bytes_of_int by (intro sint_word_of_int_32) simp_all
  show "write_bytes_of n aps = ?x - 2 ^ 32" if "2 ^ 31 \<le> ?x \<and> ?x < 2 ^ 32"
  proof -
    have "(word_of_int ?x :: 32 word) = word_of_int (?x - 2 ^ 32)"
      by (simp add: wi_hom_syms(2) [symmetric])
    then have "write_bytes_of n aps = sint (word_of_int (?x - 2 ^ 32) :: 32 word)"
      unfolding write_bytes_of_int by (rule arg_cong)
    also have "\<dots> = ?x - 2 ^ 32" using that by (intro sint_word_of_int_32) simp_all
    finally show ?thesis .
  qed
qed

theorem write_bytes_exact_witness:
  "write_bytes_of 512 4 = 2048 \<and> write_bytes_of (2 ^ 29) 4 = - (2 ^ 31)"
  using write_bytes_exact [of 512 4] write_bytes_exact [of "2 ^ 29" 4] by simp

lemma reconfigure_ok_state_witness:
  "audio_play_ca_reconfigure fifo_ring demo_host
      (ca_new_state \<lparr>au_phase = AU_Uninitialized, au_device = Some 73, au_format = None, au_callback = False\<rparr>) 16 2 48000
     = (demo_ca, True) \<and>
   au_phase (auHALComponentInstance demo_ca) = AU_Running \<and> audio_packet_size demo_ca = 4"
proof -
  have r: "audio_play_ca_reconfigure fifo_ring demo_host
      (ca_new_state \<lparr>au_phase = AU_Uninitialized, au_device = Some 73, au_format = None, au_callback = False\<rparr>) 16 2 48000
     = (demo_ca, True)"
    by (simp add: demo_ca_def demo_host_def reconf_defs Let_def)
  show ?thesis using reconfigure_ok_state [OF r] r by simp
qed

lemma render_stop_rule_witness:
  "buffer demo_ca = Some [] \<and> rb_read fifo_ring [] (write_bytes_of 512 (audio_packet_size demo_ca)) = ([], []) \<and>
   theRenderProc fifo_ring demo_host demo_ca 5000000000 512 = Some (fst (the (theRenderProc fifo_ring demo_host demo_ca 5000000000 512)), []) \<and>
   stopped (fst (the (theRenderProc fifo_ring demo_host demo_ca 5000000000 512)))"
proof -
  have b: "buffer demo_ca = Some []" "audio_packet_size demo_ca = 4" "last_audio_read demo_ca = 0" "\<not> stopped demo_ca"
    by (simp_all add: demo_ca_def demo_host_def reconf_defs Let_def ca_new_state_def)
  have w: "write_bytes_of 512 4 = 2048" by (simp add: write_bytes_of_def)
  have rd: "rb_read fifo_ring [] (write_bytes_of 512 (audio_packet_size demo_ca)) = ([], [])" by simp
  have t: "theRenderProc fifo_ring demo_host demo_ca 5000000000 512 =
             Some (fst (the (theRenderProc fifo_ring demo_host demo_ca 5000000000 512)), [])"
    using b w by (simp add: theRenderProc_def Let_def)
  show ?thesis
    using render_stop_rule [OF b(1) rd t] b w rd t
    by (simp add: c_div_def NO_DATA_STOP_SEC_def NS_IN_SEC_def)
qed

lemma first_underflow_stops_witness:
  "audio_play_ca_init demo_host None =
     (CA_Init (ca_new_state \<lparr>au_phase = AU_Uninitialized, au_device = Some 73, au_format = None, au_callback = False\<rparr>)
       :: 8 word list ca_init_result) \<and>
   audio_play_ca_reconfigure fifo_ring demo_host
      (ca_new_state \<lparr>au_phase = AU_Uninitialized, au_device = Some 73, au_format = None, au_callback = False\<rparr>) 16 2 48000
     = (demo_ca, True) \<and>
   (\<exists>s2. theRenderProc fifo_ring demo_host demo_ca 5000000000 512 = Some (s2, []) \<and> stopped s2)"
proof -
  have i: "audio_play_ca_init demo_host None =
     (CA_Init (ca_new_state \<lparr>au_phase = AU_Uninitialized, au_device = Some 73, au_format = None, au_callback = False\<rparr>)
       :: 8 word list ca_init_result)"
    by (simp add: audio_play_ca_init_def demo_host_def)
  have r: "audio_play_ca_reconfigure fifo_ring demo_host
      (ca_new_state \<lparr>au_phase = AU_Uninitialized, au_device = Some 73, au_format = None, au_callback = False\<rparr>) 16 2 48000
     = (demo_ca, True)"
    by (simp add: demo_ca_def demo_host_def reconf_defs Let_def)
  have rd: "rb_read fifo_ring (rb_init fifo_ring (c_div 16 8 * 2 * 48000)) (write_bytes_of 512 (2 * c_div 16 8)) = ([], [])"
    by simp
  have u: "int (length ([] :: 8 word list)) < write_bytes_of 512 (2 * c_div 16 8)"
    by (simp add: write_bytes_of_def c_div_def)
  have n: "3 * NS_IN_SEC \<le> 5000000000" by (simp add: NS_IN_SEC_def)
  show ?thesis using first_underflow_stops [OF i r rd u n, where h''=demo_host] i r by simp
qed

lemma audio_play_ca_help_leak:
  "snd (audio_play_ca_help h) \<longleftrightarrow> devices_info_rc h = 0 \<and> devices_rc h \<noteq> 0"
  by (simp add: audio_play_ca_help_def Let_def)

lemma audio_play_ca_help_uninit:
  assumes "devices_info_rc h = 0" and "devices_rc h = 0"
    and "i \<in> set (take (devices_size h div 4) (device_ids h))" and "device_name h i = None"
  shows "Help_Uninit_Name i \<in> set (fst (audio_play_ca_help h))"
  using assms by (force simp: audio_play_ca_help_def Let_def)

end
