(* ===== verification/SDL_Mixer_Capture.thy ===== *)
theory SDL_Mixer_Capture
  imports Audio_Common
begin

text \<open>
  The SDL_mixer audio capture \<open>audio/capture/sdl_mixer.c\<close>: it plays a music file (or
  the bundled MIDI song) through SDL_mixer and captures the mix in a post-mix effect
  that writes into a ring buffer; \<open>read\<close> drains the ring into the audio frame.  The
  model has \<open>parse_opts\<close>, \<open>audio_cap_sdl_mixer_init\<close> with each \<open>goto error\<close> and the
  \<open>UG_ASSERT\<close> on the sample width, the effect callback and
  \<open>audio_cap_sdl_mixer_read\<close>, and the helpers \<open>load_song1\<close> and
  \<open>try_open_soundfont\<close>, probe, and \<open>done\<close> as the resources it releases.  What SDL
  and the file system answer is a record \<open>sdl_env\<close> (\<open>sdl_fs\<close> for the helpers);
  the ring is the interface of \<open>Audio_Common\<close>.
\<close>

section \<open>Constants and state\<close>

definition DEFAULT_SDL_MIXER_BPS :: int where "DEFAULT_SDL_MIXER_BPS = 2"

definition MIX_MAX_VOLUME :: int where "MIX_MAX_VOLUME = 128"

definition DEFAULT_MIX_MAX_VOLUME :: int where "DEFAULT_MIX_MAX_VOLUME = MIX_MAX_VOLUME div 4"

definition SDL_MIXER_SAMPLE_RATE :: int where "SDL_MIXER_SAMPLE_RATE = 48000"

definition DEFAULT_AUDIO_CAPTURE_CHANNELS :: int where "DEFAULT_AUDIO_CAPTURE_CHANNELS = 1"

text \<open>\<open>struct state_sdl_mixer_capture\<close>.  The ring is allocated on the success path
  only, so a state the module hands out always has one.\<close>

record 'rb state_sdl_mixer_capture =
  audio :: audio_frame
  sdl_mixer_buf :: 'rb
  volume :: int
  req_filename :: "string option"

text \<open>The options before the ring exists: \<open>calloc\<close> and the default volume.\<close>

record sdl_opts =
  opt_volume :: int
  opt_req_filename :: "string option"

section \<open>\<open>parse_opts\<close>\<close>

text \<open>The \<open>strtok_r\<close> loop over the colon-separated items: \<open>help\<close> returns 1 at once,
  \<open>file=\<close> and \<open>volume=\<close> (prefixes, case-sensitive) store the text after the first
  \<open>=\<close> (\<open>atoi\<close> for the volume, no range check), anything else returns -1.\<close>

fun parse_opts_items :: "sdl_opts \<Rightarrow> string list \<Rightarrow> int \<times> sdl_opts" where
  "parse_opts_items s [] = (0, s)"
| "parse_opts_items s (item # items) =
     (if item = ''help'' then (1, s)
      else if starts_with ''file='' item then
        parse_opts_items (s\<lparr>opt_req_filename := Some (after_char CHR ''='' item)\<rparr>) items
      else if starts_with ''volume='' item then
        parse_opts_items (s\<lparr>opt_volume := c_atoi (after_char CHR ''='' item)\<rparr>) items
      else (-1, s))"

text \<open>The two option prefixes the parser knows.\<close>

definition known_item :: "string \<Rightarrow> bool" where
  "known_item t \<longleftrightarrow> starts_with ''file='' t \<or> starts_with ''volume='' t"

definition parse_opts :: "sdl_opts \<Rightarrow> string \<Rightarrow> int \<times> sdl_opts" where
  "parse_opts s cfg = parse_opts_items s (strtok_tokens CHR '':'' cfg)"

section \<open>\<open>audio_cap_sdl_mixer_init\<close>\<close>

datatype sdl_format = AUDIO_S8 | AUDIO_S16LSB | AUDIO_S32LSB

text \<open>What the environment answers: the global \<open>audio_capture_bps\<close> and
  \<open>audio_capture_channels\<close> (0 when not given), \<open>Mix_OpenAudio\<close>, the temporary file
  \<open>load_song1\<close> writes the bundled song to (None when it fails), \<open>Mix_LoadMUS\<close> of a
  file, \<open>Mix_RegisterEffect\<close> and \<open>Mix_PlayMusic\<close>.\<close>

record sdl_env =
  audio_capture_bps :: int
  audio_capture_channels :: int
  open_audio_ok :: "sdl_format \<Rightarrow> int \<Rightarrow> bool"
  song1_file :: "string option"
  load_mus_ok :: "string \<Rightarrow> bool"
  register_effect_ok :: bool
  play_music_ok :: bool

datatype 'rb sdl_init_result =
    SDL_Init "'rb state_sdl_mixer_capture" | SDL_NoErr | SDL_Null | SDL_Abort

text \<open>The format switch; \<open>UG_ASSERT(0 && ...)\<close> for any other width aborts.\<close>

definition sdl_audio_format :: "int \<Rightarrow> sdl_format option" where
  "sdl_audio_format b =
     (if b = 1 then Some AUDIO_S8 else if b = 2 then Some AUDIO_S16LSB
      else if b = 4 then Some AUDIO_S32LSB else None)"

definition audio_cap_sdl_mixer_init :: "sdl_env \<Rightarrow> 'rb ring_iface \<Rightarrow> string \<Rightarrow> 'rb sdl_init_result" where
  "audio_cap_sdl_mixer_init env R cfg =
     (let (ret, opts) = parse_opts \<lparr>opt_volume = DEFAULT_MIX_MAX_VOLUME, opt_req_filename = None\<rparr> cfg
      in if ret \<noteq> 0 then (if ret < 0 then SDL_Null else SDL_NoErr)
         else
           let b = (if audio_capture_bps env \<noteq> 0 then audio_capture_bps env else DEFAULT_SDL_MIXER_BPS);
               ch = (if 0 < audio_capture_channels env then audio_capture_channels env
                     else DEFAULT_AUDIO_CAPTURE_CHANNELS)
           in case sdl_audio_format b of
                None \<Rightarrow> SDL_Abort
              | Some fmt \<Rightarrow>
                  if \<not> open_audio_ok env fmt ch then SDL_Null
                  else
                    let filename = (case opt_req_filename opts of Some f \<Rightarrow> Some f | None \<Rightarrow> song1_file env)
                    in case filename of
                         None \<Rightarrow> SDL_Null
                       | Some f \<Rightarrow>
                           if \<not> load_mus_ok env f then SDL_Null
                           else
                             let len = ch * b * SDL_MIXER_SAMPLE_RATE
                             in if \<not> register_effect_ok env then SDL_Null
                                else if \<not> play_music_ok env then SDL_Null
                                else SDL_Init \<lparr>audio = \<lparr>bps = b, ch_count = ch,
                                         sample_rate = SDL_MIXER_SAMPLE_RATE, data = [], data_len = len,
                                         max_size = len\<rparr>,
                                       sdl_mixer_buf = rb_init R len, volume = opt_volume opts,
                                       req_filename = opt_req_filename opts\<rparr>)"

section \<open>Capture: the effect callback and \<open>read\<close>\<close>

text \<open>The post-mix effect: the mixed stream goes into the ring and is zeroed so that
  nothing is played on the computer's output.\<close>

definition sdl_mixer_audio_callback :: "'rb ring_iface \<Rightarrow> 'rb state_sdl_mixer_capture \<Rightarrow> 8 word list \<Rightarrow>
    'rb state_sdl_mixer_capture \<times> 8 word list" where
  "sdl_mixer_audio_callback R s stream =
     (s\<lparr>sdl_mixer_buf := rb_write R (sdl_mixer_buf s) stream\<rparr>, replicate (length stream) 0)"

text \<open>\<open>read\<close> moves up to \<open>max_size\<close> bytes from the ring into the frame; an empty
  read returns NULL.\<close>

definition audio_cap_sdl_mixer_read :: "'rb ring_iface \<Rightarrow> 'rb state_sdl_mixer_capture \<Rightarrow>
    'rb state_sdl_mixer_capture \<times> audio_frame option" where
  "audio_cap_sdl_mixer_read R s =
     (let (b', d) = rb_read R (sdl_mixer_buf s) (max_size (audio s));
          s' = s\<lparr>sdl_mixer_buf := b', audio := (audio s)\<lparr>data := d, data_len := int (length d)\<rparr>\<rparr>
      in if data_len (audio s') = 0 then (s', None) else (s', Some (audio s')))"


section \<open>\<open>load_song1\<close>, \<open>try_open_soundfont\<close>, probe and done\<close>

text \<open>What the file system and the process environment answer: the file
  \<open>get_temp_file\<close> creates (None when \<open>fopen\<close> fails), whether \<open>fwrite\<close> of the
  bundled song succeeds, \<open>getenv("SDL_SOUNDFONT")\<close>, \<open>get_install_root()\<close> and which
  paths \<open>fopen(path, "r")\<close> opens.\<close>

record sdl_fs =
  temp_file :: "string option"
  song_write_ok :: bool
  sdl_soundfont_env :: "string option"
  install_root :: string
  file_readable :: "string \<Rightarrow> bool"

text \<open>\<open>load_song1\<close> on the set of existing files: the bundled song goes into a new
  temporary file, which is unlinked again when the write fails.\<close>

definition load_song1 :: "sdl_fs \<Rightarrow> string set \<Rightarrow> string option \<times> string set" where
  "load_song1 fs files =
     (case temp_file fs of
        None \<Rightarrow> (None, files)
      | Some fn \<Rightarrow> if song_write_ok fs then (Some fn, insert fn files) else (None, files - {fn}))"

text \<open>\<open>strncpy(dst, src, n)\<close>: the text of \<open>dst\<close> is the first \<open>n\<close> characters of
  \<open>src\<close> (padded with NULs when shorter).\<close>

definition c_strncpy :: "string \<Rightarrow> nat \<Rightarrow> string" where
  "c_strncpy src n = take n src"

text \<open>\<open>try_open_soundfont\<close>: the path given to \<open>Mix_SetSoundFonts\<close>, None when the
  variable is set or the default sound font cannot be opened.  \<open>path\<close> is a VLA of
  \<open>strlen(root) + strlen(suffix) + 1\<close> bytes filled by \<open>strncpy\<close> and \<open>strncat\<close>.\<close>

definition SOUNDFONT_SUFFIX :: string where
  "SOUNDFONT_SUFFIX = ''/share/soundfonts/default.sf2''"

definition try_open_soundfont :: "sdl_fs \<Rightarrow> string option" where
  "try_open_soundfont fs =
     (if sdl_soundfont_env fs \<noteq> None then None
      else
        let root = install_root fs;
            len = length root + length SOUNDFONT_SUFFIX + 1;
            p1 = c_strncpy root (len - 1);
            path = p1 @ take (len - length p1 - 1) SOUNDFONT_SUFFIX
        in if file_readable fs path then Some path else None)"

text \<open>\<open>audio_cap_sdl_mixer_probe\<close>: one device.\<close>

record sdl_device_info =
  sdl_dev :: string
  sdl_dev_name :: string

definition audio_cap_sdl_mixer_probe :: "sdl_device_info list" where
  "audio_cap_sdl_mixer_probe = [\<lparr>sdl_dev = ''sdl_mixer'', sdl_dev_name = ''Sample midi song''\<rparr>]"

text \<open>The resources a capture state owns: the opened audio device, the frame
  buffer, the \<open>strdup\<close>ed file name, the state itself, the ring and the
  \<open>Mix_Music\<close>.  A successfully initialised state owns all of them (the file name
  only when one was given); \<open>done\<close> halts the music and releases the audio device,
  the frame buffer, the file name and the state.\<close>

datatype sdl_resource = Res_Audio_Device | Res_Frame_Data | Res_Filename | Res_State | Res_Ring | Res_Music

definition sdl_init_resources :: "'rb state_sdl_mixer_capture \<Rightarrow> sdl_resource set" where
  "sdl_init_resources s =
     {Res_Audio_Device, Res_State, Res_Music, Res_Frame_Data, Res_Ring} \<union>
     (if req_filename s \<noteq> None then {Res_Filename} else {})"

definition audio_cap_sdl_mixer_done :: "sdl_resource set \<Rightarrow> sdl_resource set" where
  "audio_cap_sdl_mixer_done held = held - {Res_Audio_Device, Res_Frame_Data, Res_Filename, Res_State}"

section \<open>Demonstration inputs\<close>

text \<open>A host where every SDL call succeeds, with two channels, and the state
  \<open>volume=64\<close> initialises on the list FIFO.\<close>

definition demo_sdl_env :: sdl_env where
  "demo_sdl_env = \<lparr>audio_capture_bps = 0, audio_capture_channels = 2, open_audio_ok = (\<lambda>_ _. True),
     song1_file = Some ''/tmp/song1.mid'', load_mus_ok = (\<lambda>_. True), register_effect_ok = True,
     play_music_ok = True\<rparr>"

definition demo_sdl_state :: "8 word list state_sdl_mixer_capture" where
  "demo_sdl_state = \<lparr>audio = \<lparr>bps = 2, ch_count = 2, sample_rate = 48000, data = [], data_len = 192000,
     max_size = 192000\<rparr>, sdl_mixer_buf = [], volume = 64, req_filename = None\<rparr>"

section \<open>Properties\<close>

lemma sdl_audio_format_Some: "sdl_audio_format b \<noteq> None \<longleftrightarrow> b \<in> {1, 2, 4}"
  by (simp add: sdl_audio_format_def)

lemma sdl_init_ok_cases:
  assumes "audio_cap_sdl_mixer_init env R cfg = SDL_Init s"
  obtains opts fmt f where
    "parse_opts \<lparr>opt_volume = DEFAULT_MIX_MAX_VOLUME, opt_req_filename = None\<rparr> cfg = (0, opts)"
    "sdl_audio_format (bps (audio s)) = Some fmt"
    "bps (audio s) = (if audio_capture_bps env \<noteq> 0 then audio_capture_bps env else DEFAULT_SDL_MIXER_BPS)"
    "ch_count (audio s) = (if 0 < audio_capture_channels env then audio_capture_channels env
                           else DEFAULT_AUDIO_CAPTURE_CHANNELS)"
    "sample_rate (audio s) = SDL_MIXER_SAMPLE_RATE"
    "data_len (audio s) = ch_count (audio s) * bps (audio s) * SDL_MIXER_SAMPLE_RATE"
    "max_size (audio s) = data_len (audio s)"
    "sdl_mixer_buf s = rb_init R (data_len (audio s))"
    "volume s = opt_volume opts" "req_filename s = opt_req_filename opts"
  using assms
  by (auto simp: audio_cap_sdl_mixer_init_def Let_def split: prod.splits if_splits option.splits)

text \<open>C28: the audio frame of a successfully initialised capture is
  well-formed: 1, 2 or 4 bytes per sample, at least one channel, 48 kHz, and a buffer of
  one second, \<open>max_size = data_len = ch_count * bps * 48000 > 0\<close>\<close>

theorem sdl_init_frame_type:
  assumes "audio_cap_sdl_mixer_init env R cfg = SDL_Init s"
  shows "bps (audio s) \<in> {1, 2, 4} \<and> 1 \<le> ch_count (audio s) \<and> sample_rate (audio s) = 48000 \<and>
         max_size (audio s) = data_len (audio s) \<and>
         data_len (audio s) = ch_count (audio s) * bps (audio s) * 48000 \<and> 0 < data_len (audio s)"
proof -
  from sdl_init_ok_cases [OF assms] obtain opts fmt where
    f: "sdl_audio_format (bps (audio s)) = Some fmt"
    and c: "ch_count (audio s) = (if 0 < audio_capture_channels env then audio_capture_channels env
                           else DEFAULT_AUDIO_CAPTURE_CHANNELS)"
    and r: "sample_rate (audio s) = SDL_MIXER_SAMPLE_RATE"
    and l: "data_len (audio s) = ch_count (audio s) * bps (audio s) * SDL_MIXER_SAMPLE_RATE"
    and m: "max_size (audio s) = data_len (audio s)" by metis
  have b: "bps (audio s) \<in> {1, 2, 4}" using f sdl_audio_format_Some by blast
  have ch: "1 \<le> ch_count (audio s)" using c by (simp add: DEFAULT_AUDIO_CAPTURE_CHANNELS_def)
  have "0 < ch_count (audio s) * bps (audio s) * 48000" using b ch by auto
  then show ?thesis using b ch r l m by (simp add: SDL_MIXER_SAMPLE_RATE_def)
qed

lemma demo_sdl_init:
  "audio_cap_sdl_mixer_init demo_sdl_env fifo_ring ''volume=64'' = SDL_Init demo_sdl_state"
  by (simp add: audio_cap_sdl_mixer_init_def parse_opts_def demo_sdl_env_def strtok_tokens_def lavc_str
        sdl_audio_format_def DEFAULT_SDL_MIXER_BPS_def demo_sdl_state_def SDL_MIXER_SAMPLE_RATE_def
        after_char_def)

lemma sdl_init_frame_type_witness:
  "audio_cap_sdl_mixer_init demo_sdl_env fifo_ring ''volume=64'' = SDL_Init demo_sdl_state \<and>
   data_len (audio demo_sdl_state) = 2 * 2 * 48000"
  using sdl_init_frame_type [OF demo_sdl_init] demo_sdl_init by (simp add: demo_sdl_state_def)

lemma parse_opts_items_ret:
  "fst (parse_opts_items s ts) =
     (case dropWhile (\<lambda>t. t \<noteq> ''help'' \<and> known_item t) ts of
        [] \<Rightarrow> 0 | t # _ \<Rightarrow> if t = ''help'' then 1 else -1)"
  by (induction s ts rule: parse_opts_items.induct) (auto simp: known_item_def)

text \<open>\<open>parse_opts\<close> decides by the first item that is not a \<open>file=\<close> or
  \<open>volume=\<close> option: none gives 0, \<open>help\<close> gives 1 and anything else -1, so a wrong item
  after \<open>help\<close> is never reported\<close>

theorem parse_opts_ret:
  "fst (parse_opts s cfg) =
     (case dropWhile (\<lambda>t. t \<noteq> ''help'' \<and> known_item t) (strtok_tokens CHR '':'' cfg) of
        [] \<Rightarrow> 0 | t # _ \<Rightarrow> if t = ''help'' then 1 else -1)"
  by (simp add: parse_opts_def parse_opts_items_ret)

text \<open>\<open>read\<close> hands out exactly the bytes the ring gives for \<open>max_size\<close>,
  with \<open>data_len\<close> their number, and NULL when there are none; with a ring that reads
  within its bound the frame never exceeds \<open>max_size\<close>\<close>

theorem sdl_read_frame:
  assumes "rb_read R (sdl_mixer_buf s) (max_size (audio s)) = (b', d)"
    and "read_within R (sdl_mixer_buf s) (max_size (audio s))"
  shows "audio_cap_sdl_mixer_read R s =
           (s\<lparr>sdl_mixer_buf := b', audio := (audio s)\<lparr>data := d, data_len := int (length d)\<rparr>\<rparr>,
            if d = [] then None else Some ((audio s)\<lparr>data := d, data_len := int (length d)\<rparr>)) \<and>
         int (length d) \<le> max 0 (max_size (audio s))"
  using assms by (simp add: audio_cap_sdl_mixer_read_def read_within_def)

lemma sdl_read_frame_witness:
  "rb_read fifo_ring [1, 2, 3] 192000 = ([], [1, 2, 3]) \<and>
   audio_cap_sdl_mixer_read fifo_ring (demo_sdl_state\<lparr>sdl_mixer_buf := [1, 2, 3]\<rparr>) =
     (demo_sdl_state\<lparr>audio := (audio demo_sdl_state)\<lparr>data := [1, 2, 3], data_len := 3\<rparr>\<rparr>,
      Some ((audio demo_sdl_state)\<lparr>data := [1, 2, 3], data_len := 3\<rparr>))"
proof -
  have m: "max_size (audio (demo_sdl_state\<lparr>sdl_mixer_buf := [1, 2, 3]\<rparr>)) = 192000"
    "sdl_mixer_buf (demo_sdl_state\<lparr>sdl_mixer_buf := [1, 2, 3]\<rparr>) = [1, 2, 3]"
    by (simp_all add: demo_sdl_state_def)
  have r: "rb_read fifo_ring (sdl_mixer_buf (demo_sdl_state\<lparr>sdl_mixer_buf := [1, 2, 3]\<rparr>))
             (max_size (audio (demo_sdl_state\<lparr>sdl_mixer_buf := [1, 2, 3]\<rparr>))) = ([], [1, 2, 3])"
    unfolding m by simp
  show ?thesis
    using sdl_read_frame [OF r fifo_read_within] by (simp add: demo_sdl_state_def)
qed

lemma load_song1_no_stale_file:
  "load_song1 fs files = (None, files') \<Longrightarrow> files' \<subseteq> files"
  by (auto simp: load_song1_def split: option.splits if_splits)

lemma try_open_soundfont_path:
  "try_open_soundfont fs =
     (if sdl_soundfont_env fs \<noteq> None then None
      else if file_readable fs (install_root fs @ SOUNDFONT_SUFFIX) then Some (install_root fs @ SOUNDFONT_SUFFIX)
      else None)"
proof -
  have "length SOUNDFONT_SUFFIX > 0" by (simp add: SOUNDFONT_SUFFIX_def)
  then have "c_strncpy (install_root fs) (length (install_root fs) + length SOUNDFONT_SUFFIX + 1 - 1) = install_root fs"
    by (simp add: c_strncpy_def)
  then show ?thesis by (simp add: try_open_soundfont_def Let_def)
qed

lemma sdl_done_leaks:
  "audio_cap_sdl_mixer_done (sdl_init_resources s) = {Res_Ring, Res_Music}"
  by (auto simp: audio_cap_sdl_mixer_done_def sdl_init_resources_def)

end
