(* ===== verification/HDStation_Capture.thy ===== *)
theory HDStation_Capture
  imports Lavc_Prelude
begin

text \<open>
  The DVS HDstation capture \<open>ultragrid/src/video_capture/hdstation.c\<close>.  A grab thread
  (\<open>vidcap_hdstation_grab_thread\<close>, the worker) DMAs each video frame from the card's
  FIFO into one of two buffers, alternating, and hands the buffer to the caller of
  \<open>vidcap_hdstation_grab\<close> (the boss) through a mutex, two condition variables and
  the flags \<open>work_to_do\<close>, \<open>boss_waiting\<close>, \<open>worker_waiting\<close>.

  The two threads are program counters over one shared state; \<open>hd_next\<close> makes one
  thread take one step.  Code between a lock and the next unlock or wait is one step
  (only the lock holder reads or writes the shared fields there); \<open>pthread_cond_wait\<close>
  is three steps: release and sleep, wake (by a signal inside the other thread's
  step, or spuriously), and reacquire.  \<open>vidcap_hdstation_done\<close> is a boss step that
  frees the state; a worker step on a freed state is a use after free
  (\<open>WP_Crash\<close>).  Buffers are named by their index in \<open>bufs\<close>.

  \<open>settings_init\<close>, \<open>set_xy_size\<close>, \<open>vidcap_hdstation_probe\<close> and
  \<open>vidcap_hdstation_init\<close> are modelled with the DVS SDK's answers in \<open>dvs_env\<close> and
  the module's open handles and heap blocks in \<open>dvs_world\<close>; the globals
  \<open>hd_size_x\<close>, \<open>hd_size_y\<close>, \<open>hd_color_bpp\<close>, \<open>hd_video_mode\<close> are \<open>hd_globals\<close>.

  The lemmas prove the hand-over invariant \<open>hd_inv\<close> on every reachable state
  before \<open>done\<close> (one lemma per transition, collected in \<open>inv_boss\<close> and
  \<open>inv_worker\<close>), and from it mutual exclusion, deadlock freedom and the NULL first
  frame; a concrete schedule shows the overwritten buffer, a case analysis on the
  worker's program counter the use after free after \<open>done\<close>, and init's error
  paths the leaked handle.
\<close>

unbundle bit_operations_syntax

section \<open>Globals, SDK answers and resources\<close>

record hd_globals =
  hd_size_x :: int
  hd_size_y :: int
  hd_color_bpp :: int
  hd_video_mode :: int

text \<open>What the DVS SDK and the C library answer during one \<open>init\<close>: \<open>malloc\<close>,
  \<open>sv_open\<close>, the status of \<open>sv_videomode\<close> per mode, \<open>sv_black\<close>, \<open>sv_fifo_init\<close>,
  \<open>sv_fifo_start\<close>, \<open>sv_status\<close> (the raster size, None on error), \<open>pthread_create\<close>,
  and the SDK's flag values \<open>SV_MODE_NBIT_8B | SV_MODE_COLOR_YUV422 |
  SV_MODE_ACTIVE_STREAMER\<close> and \<open>SV_MODE_AUDIO_NOAUDIO\<close>.\<close>

record dvs_env =
  malloc_ok :: bool
  sv_open_ok :: bool
  videomode_rc :: "int \<Rightarrow> int"
  black_rc :: int
  fifo_init_rc :: int
  fifo_start_rc :: int
  sv_status_size :: "(int \<times> int) option"
  thread_create_ok :: bool
  stream_flags :: int
  noaudio_flag :: int

definition SV_OK :: int where "SV_OK = 0"

text \<open>Open \<open>sv_handle\<close>s, heap blocks of the module not freed, and grab threads
  running.\<close>

record dvs_world =
  open_handles :: nat
  live_blocks :: nat
  grab_threads :: nat

section \<open>The state and the two threads\<close>

datatype hd_thread = Boss | Worker

text \<open>\<open>struct vidcap_hdstation_state\<close>: the mode, the buffer size, the lock's owner,
  the flags, the buffer the worker last handed over (\<open>tmp_buffer\<close>), the one the
  boss handed out (\<open>rtp_buffer\<close>), the address of the current DMA buffer
  (\<open>dma_buffer->dma.addr\<close>, None while \<open>dma_buffer\<close> is NULL) and \<open>bufs_index\<close>.\<close>

record vidcap_hdstation_state =
  mode :: int
  buffer_size :: int
  lock_owner :: "hd_thread option"
  boss_waiting :: bool
  worker_waiting :: bool
  work_to_do :: bool
  tmp_buffer :: "nat option"
  rtp_buffer :: "nat option"
  dma_addr :: "nat option"
  bufs_index :: nat

text \<open>Where each thread is: the boss is outside \<open>grab\<close> (holding the frame it
  returned) or at a line of \<open>grab\<close>, or has called \<open>done\<close>; the worker is at the top of
  its loop, waiting for the lock, at the \<open>while\<close> test, in \<open>pthread_cond_wait\<close>, woken,
  at the hand-over, or has touched freed memory.  \<open>grabs\<close> and \<open>takes\<close> count the
  completed hand-overs of each side.\<close>

datatype boss_pc = BP_Idle | BP_Check | BP_Wait | BP_Woken | BP_Give | BP_Done

datatype worker_pc = WP_Dma | WP_Lock | WP_Check | WP_Wait | WP_Woken | WP_Take | WP_Crash

record hd_sys = vidcap_hdstation_state +
  bpc :: boss_pc
  wpc :: worker_pc
  freed :: bool
  grabs :: nat
  takes :: nat

datatype hd_event =
    B_Lock | B_Check | B_Wake | B_Reacq | B_Give | B_Done
  | W_Dma | W_Dma_Fail | W_Lock | W_Check | W_Wake | W_Reacq | W_Take

definition spurious :: "hd_event \<Rightarrow> bool" where
  "spurious e \<longleftrightarrow> e = B_Wake \<or> e = W_Wake"

section \<open>The grab thread\<close>

text \<open>
  One pass of the worker's loop.  \<open>W_Dma\<close>: \<open>sv_fifo_vsyncwait\<close>, a successful
  \<open>sv_fifo_getbuffer\<close>, the next buffer index and the DMA address, \<open>sv_fifo_putbuffer\<close>;
  \<open>W_Dma_Fail\<close>: \<open>getbuffer\<close> fails and the loop restarts with \<open>dma_buffer\<close> NULL.
  Then the lock, the \<open>while (!work_to_do)\<close> wait, and the hand-over: \<open>tmp_buffer\<close>
  takes the DMA address, \<open>work_to_do\<close> is cleared, the boss is signalled when it
  waits, and the lock is released.  Every access to \<open>*s\<close> after \<open>done\<close> crashes.
\<close>

definition worker_step :: "hd_event \<Rightarrow> hd_sys \<Rightarrow> hd_sys option" where
  "worker_step e s =
     (case (e, wpc s) of
        (W_Dma, WP_Dma) \<Rightarrow>
          if freed s then Some (s\<lparr>wpc := WP_Crash\<rparr>)
          else let i = (bufs_index s + 1) mod 2
               in Some (s\<lparr>bufs_index := i, dma_addr := Some i, wpc := WP_Lock\<rparr>)
      | (W_Dma_Fail, WP_Dma) \<Rightarrow>
          if freed s then None else Some (s\<lparr>dma_addr := None\<rparr>)
      | (W_Lock, WP_Lock) \<Rightarrow>
          if lock_owner s \<noteq> None then None
          else if freed s then Some (s\<lparr>wpc := WP_Crash\<rparr>)
          else Some (s\<lparr>lock_owner := Some Worker, wpc := WP_Check\<rparr>)
      | (W_Check, WP_Check) \<Rightarrow>
          if freed s then Some (s\<lparr>wpc := WP_Crash\<rparr>)
          else if \<not> work_to_do s
          then Some (s\<lparr>worker_waiting := True, lock_owner := None, wpc := WP_Wait\<rparr>)
          else Some (s\<lparr>wpc := WP_Take\<rparr>)
      | (W_Wake, WP_Wait) \<Rightarrow> Some (s\<lparr>wpc := WP_Woken\<rparr>)
      | (W_Reacq, WP_Woken) \<Rightarrow>
          if lock_owner s \<noteq> None then None
          else if freed s then Some (s\<lparr>wpc := WP_Crash\<rparr>)
          else Some (s\<lparr>lock_owner := Some Worker, worker_waiting := False, wpc := WP_Check\<rparr>)
      | (W_Take, WP_Take) \<Rightarrow>
          if freed s then Some (s\<lparr>wpc := WP_Crash\<rparr>)
          else (case dma_addr s of
                  None \<Rightarrow> Some (s\<lparr>wpc := WP_Crash\<rparr>)
                | Some a \<Rightarrow>
                    Some (s\<lparr>tmp_buffer := Some a, work_to_do := False,
                            bpc := (if boss_waiting s \<and> bpc s = BP_Wait then BP_Woken else bpc s),
                            lock_owner := None, wpc := WP_Dma, takes := Suc (takes s)\<rparr>))
      | _ \<Rightarrow> None)"

section \<open>\<open>vidcap_hdstation_grab\<close> and \<open>vidcap_hdstation_done\<close>\<close>

text \<open>
  The boss: lock, \<open>while (work_to_do)\<close> wait, then hand the last filled buffer out
  (\<open>rtp_buffer = tmp_buffer\<close>), set \<open>work_to_do\<close>, signal a waiting worker, unlock.
  \<open>done\<close> frees the FIFO, closes the handle and frees the state; the grab thread is
  neither stopped nor joined.
\<close>

definition boss_step :: "hd_event \<Rightarrow> hd_sys \<Rightarrow> hd_sys option" where
  "boss_step e s =
     (case (e, bpc s) of
        (B_Lock, BP_Idle) \<Rightarrow>
          if lock_owner s \<noteq> None \<or> freed s then None
          else Some (s\<lparr>lock_owner := Some Boss, bpc := BP_Check\<rparr>)
      | (B_Check, BP_Check) \<Rightarrow>
          if work_to_do s then Some (s\<lparr>boss_waiting := True, lock_owner := None, bpc := BP_Wait\<rparr>)
          else Some (s\<lparr>bpc := BP_Give\<rparr>)
      | (B_Wake, BP_Wait) \<Rightarrow> Some (s\<lparr>bpc := BP_Woken\<rparr>)
      | (B_Reacq, BP_Woken) \<Rightarrow>
          if lock_owner s \<noteq> None then None
          else Some (s\<lparr>lock_owner := Some Boss, boss_waiting := False, bpc := BP_Check\<rparr>)
      | (B_Give, BP_Give) \<Rightarrow>
          Some (s\<lparr>rtp_buffer := tmp_buffer s, work_to_do := True,
                  wpc := (if worker_waiting s \<and> wpc s = WP_Wait then WP_Woken else wpc s),
                  lock_owner := None, bpc := BP_Idle, grabs := Suc (grabs s)\<rparr>)
      | (B_Done, BP_Idle) \<Rightarrow>
          if freed s then None else Some (s\<lparr>freed := True, bpc := BP_Done\<rparr>)
      | _ \<Rightarrow> None)"

definition hd_next :: "hd_event \<Rightarrow> hd_sys \<Rightarrow> hd_sys option" where
  "hd_next e s =
     (if e \<in> {B_Lock, B_Check, B_Wake, B_Reacq, B_Give, B_Done} then boss_step e s else worker_step e s)"

fun hd_run :: "hd_sys \<Rightarrow> hd_event list \<Rightarrow> hd_sys option" where
  "hd_run s [] = Some s"
| "hd_run s (e # es) = (case hd_next e s of None \<Rightarrow> None | Some s' \<Rightarrow> hd_run s' es)"

text \<open>The frame \<open>grab\<close> returns after its hand-over: none while \<open>rtp_buffer\<close> is
  NULL, else the buffer with the global raster size (\<open>malloc\<close> of the frame is
  assumed to succeed).\<close>

record hd_frame =
  frame_width :: int
  frame_height :: int
  frame_buffer :: nat
  frame_data_len :: int

definition hd_grab_frame :: "hd_globals \<Rightarrow> hd_sys \<Rightarrow> hd_frame option" where
  "hd_grab_frame g s =
     (case rtp_buffer s of
        None \<Rightarrow> None
      | Some b \<Rightarrow> Some \<lparr>frame_width = hd_size_x g, frame_height = hd_size_y g, frame_buffer = b,
                        frame_data_len = hd_size_x g * hd_size_y g * hd_color_bpp g\<rparr>)"

section \<open>\<open>settings_init\<close>, \<open>set_xy_size\<close>, probe and init\<close>

text \<open>\<open>help\<close> prints the rasters and returns 0; otherwise the first \<open>strtok\<close> token is
  the mode (\<open>atoi\<close>), the second the colour mode: 8 sets \<open>hd_color_bpp = 2\<close>, 10 sets
  3, anything else (or a missing token) returns 0.  The result is the return value,
  the mode written to the state and the globals.\<close>

definition settings_init :: "hd_globals \<Rightarrow> int \<Rightarrow> string \<Rightarrow> int \<times> int \<times> hd_globals" where
  "settings_init g m fmt =
     (if fmt = ''help'' then (0, m, g)
      else case strtok_tokens CHR '':'' fmt of
             [] \<Rightarrow> (0, m, g)
           | [t1] \<Rightarrow> (0, c_atoi t1, g)
           | t1 # t2 # _ \<Rightarrow>
               (if c_atoi t2 = 8 then (1, c_atoi t1, g\<lparr>hd_color_bpp := 2\<rparr>)
                else if c_atoi t2 = 10 then (1, c_atoi t1, g\<lparr>hd_color_bpp := 3\<rparr>)
                else (0, c_atoi t1, g)))"

definition set_xy_size :: "dvs_env \<Rightarrow> hd_globals \<Rightarrow> hd_globals" where
  "set_xy_size env g =
     (case sv_status_size env of
        None \<Rightarrow> g
      | Some (x, y) \<Rightarrow> g\<lparr>hd_size_x := x, hd_size_y := y\<rparr>)"

text \<open>\<open>hdstation_help\<close>: \<open>sv_raster_status(sv, -1, ...)\<close> gives the number of rasters,
  then raster \<open>i\<close> is queried and printed while every query succeeds; the result is
  the lines and the last status (\<open>settings_init\<close> ignores it).\<close>

record dvs_rasters =
  raster_count_rc :: int
  nrasters :: nat
  raster_rc :: "nat \<Rightarrow> int"
  raster_desc :: "nat \<Rightarrow> int \<times> string"

fun help_rasters :: "dvs_rasters \<Rightarrow> nat list \<Rightarrow> string list \<times> int" where
  "help_rasters r [] = ([], SV_OK)"
| "help_rasters r (i # is) =
     (if raster_rc r i \<noteq> SV_OK then ([], raster_rc r i)
      else let (ls, res) = help_rasters r is;
               (svind, nm) = raster_desc r i
           in ((''mode:'' @ int_to_string svind @ ''  SV_MODE__'' @ nm @ ''\<newline>'') # ls, res))"

definition hdstation_help :: "dvs_rasters \<Rightarrow> string list \<times> int" where
  "hdstation_help r =
     (let l0 = ''set -g  mode:colormode(8|10) \<newline>''
      in if raster_count_rc r \<noteq> SV_OK then ([l0], raster_count_rc r)
         else let (ls, res) = help_rasters r [0..<nrasters r] in (l0 # ls, res))"

record vidcap_type =
  vt_name :: string
  vt_width :: int
  vt_height :: int

definition vidcap_hdstation_probe :: "dvs_env \<Rightarrow> hd_globals \<Rightarrow> vidcap_type option" where
  "vidcap_hdstation_probe env g =
     (if \<not> sv_open_ok env then None
      else if videomode_rc env (hd_video_mode g OR noaudio_flag env) \<noteq> SV_OK then None
      else if \<not> malloc_ok env then None
      else Some \<lparr>vt_name = ''hdtv'', vt_width = hd_size_x g, vt_height = hd_size_y g\<rparr>)"

text \<open>The state the grab thread starts on.\<close>

definition hd_start :: "int \<Rightarrow> int \<Rightarrow> hd_sys" where
  "hd_start m bsz = \<lparr>mode = m, buffer_size = bsz, lock_owner = None, boss_waiting = False,
     worker_waiting = False, work_to_do = False, tmp_buffer = None, rtp_buffer = None,
     dma_addr = None, bufs_index = 0, bpc = BP_Idle, wpc = WP_Dma, freed = False,
     grabs = 0, takes = 0\<rparr>"

datatype hd_init_result = HD_Init hd_sys | HD_Null

text \<open>
  \<open>vidcap_hdstation_init\<close>: allocate the state, open the card, parse the settings,
  set the video mode (\<open>hd_video_mode\<close> is written before the call), black, FIFO
  init and start, read the raster size, allocate the two buffers and start the grab
  thread.  Every failure after \<open>sv_open\<close> frees the state but never closes the handle;
  a failing \<open>pthread_create\<close> returns NULL without freeing anything.
\<close>

definition vidcap_hdstation_init :: "dvs_env \<Rightarrow> hd_globals \<Rightarrow> dvs_world \<Rightarrow> string \<Rightarrow>
    hd_init_result \<times> hd_globals \<times> dvs_world" where
  "vidcap_hdstation_init env g w fmt =
     (if \<not> malloc_ok env then (HD_Null, g, w)
      else if \<not> sv_open_ok env then (HD_Null, g, w)
      else
        let w1 = w\<lparr>open_handles := Suc (open_handles w)\<rparr>;
            (ret, m, g1) = settings_init g 0 fmt
        in if ret = 0 then (HD_Null, g1, w1)
           else
             let g2 = g1\<lparr>hd_video_mode := m OR stream_flags env\<rparr>
             in if videomode_rc env (hd_video_mode g2 OR noaudio_flag env) \<noteq> SV_OK then (HD_Null, g2, w1)
                else if black_rc env \<noteq> SV_OK then (HD_Null, g2, w1)
                else if fifo_init_rc env \<noteq> SV_OK then (HD_Null, g2, w1)
                else if fifo_start_rc env \<noteq> SV_OK then (HD_Null, g2, w1)
                else
                  let g3 = set_xy_size env g2;
                      bsz = hd_color_bpp g3 * hd_size_x g3 * hd_size_y g3;
                      w2 = w1\<lparr>live_blocks := live_blocks w1 + 3\<rparr>
                  in if \<not> thread_create_ok env then (HD_Null, g3, w2)
                     else (HD_Init (hd_start m bsz), g3, w2\<lparr>grab_threads := Suc (grab_threads w2)\<rparr>))"

text \<open>\<open>vidcap_hdstation_done\<close> on the resources: the handle is closed and the state
  freed; the two buffers and the thread are left.\<close>

definition vidcap_hdstation_done_world :: "dvs_world \<Rightarrow> dvs_world" where
  "vidcap_hdstation_done_world w =
     w\<lparr>open_handles := open_handles w - 1, live_blocks := live_blocks w - 1\<rparr>"

section \<open>Reachable states\<close>

inductive hd_reach :: "hd_sys \<Rightarrow> bool" where
  start: "hd_reach (hd_start m bsz)"
| step: "hd_reach s \<Longrightarrow> hd_next e s = Some s' \<Longrightarrow> hd_reach s'"

section \<open>The hand-over invariant\<close>

text \<open>\<open>hd_inv\<close> ties the mutex owner, the waiting flags and \<open>work_to_do\<close> to the two
  program counters: a thread owns \<open>s->lock\<close> exactly between its \<open>pthread_mutex_lock\<close>
  (or the reacquisition in \<open>pthread_cond_wait\<close>) and its unlock; the boss waits only
  while a frame is pending and the worker only while none is; every hand-over of
  the boss is matched by one of the worker, except possibly the last; \<open>tmp_buffer\<close>
  is set from the worker's first hand-over on and \<open>rtp_buffer\<close> from the boss's
  second one on.\<close>

definition hd_inv :: "hd_sys \<Rightarrow> bool" where
  "hd_inv s \<longleftrightarrow>
     (lock_owner s = Some Boss \<longleftrightarrow> bpc s = BP_Check \<or> bpc s = BP_Give) \<and>
     (lock_owner s = Some Worker \<longleftrightarrow> wpc s = WP_Check \<or> wpc s = WP_Take) \<and>
     (boss_waiting s \<longleftrightarrow> bpc s = BP_Wait \<or> bpc s = BP_Woken) \<and>
     (worker_waiting s \<longleftrightarrow> wpc s = WP_Wait \<or> wpc s = WP_Woken) \<and>
     (bpc s = BP_Wait \<longrightarrow> work_to_do s) \<and> (bpc s = BP_Give \<longrightarrow> \<not> work_to_do s) \<and>
     (wpc s = WP_Wait \<longrightarrow> \<not> work_to_do s) \<and> (wpc s = WP_Take \<longrightarrow> work_to_do s) \<and>
     grabs s = takes s + (if work_to_do s then 1 else 0) \<and>
     (tmp_buffer s = None \<longleftrightarrow> takes s = 0) \<and>
     (rtp_buffer s = None \<longleftrightarrow> grabs s \<le> 1) \<and>
     (wpc s \<noteq> WP_Dma \<longrightarrow> dma_addr s \<noteq> None) \<and>
     bpc s \<noteq> BP_Done \<and> wpc s \<noteq> WP_Crash"

text \<open>A schedule of the two threads from \<open>hd_start\<close>: two hand-overs of each, after
  which the caller of \<open>grab\<close> holds buffer 1 and the worker's next DMA goes to
  buffer \<open>(0 + 1) mod 2 = 1\<close>.\<close>

definition hd_race_trace :: "hd_event list" where
  "hd_race_trace = [W_Dma, W_Lock, W_Check, B_Lock, B_Check, B_Give, W_Reacq, W_Check, W_Take,
                    W_Dma, W_Lock, W_Check, B_Lock, B_Check, B_Give, W_Reacq, W_Check, W_Take]"

definition hd_race_state :: hd_sys where
  "hd_race_state = (hd_start 0 0)\<lparr>worker_waiting := False, work_to_do := False, tmp_buffer := Some 0,
     rtp_buffer := Some 1, dma_addr := Some 0, bufs_index := 0, grabs := 2, takes := 2\<rparr>"

text \<open>A DVS board whose every call succeeds, with a 1920x1080 raster.\<close>

definition demo_dvs_env :: dvs_env where
  "demo_dvs_env = \<lparr>malloc_ok = True, sv_open_ok = True, videomode_rc = (\<lambda>_. 0), black_rc = 0,
     fifo_init_rc = 0, fifo_start_rc = 0, sv_status_size = Some (1920, 1080), thread_create_ok = True,
     stream_flags = 0, noaudio_flag = 0\<rparr>"

definition demo_hd_globals :: hd_globals where
  "demo_hd_globals = \<lparr>hd_size_x = 0, hd_size_y = 0, hd_color_bpp = 2, hd_video_mode = 0\<rparr>"

subsection \<open>Each transition keeps the invariant\<close>


lemma inv_b_lock:
  "hd_inv s \<Longrightarrow> bpc s = BP_Idle \<Longrightarrow> lock_owner s = None \<Longrightarrow>
     hd_inv (s\<lparr>lock_owner := Some Boss, bpc := BP_Check\<rparr>)"
  unfolding hd_inv_def by auto

lemma inv_b_wait:
  "hd_inv s \<Longrightarrow> bpc s = BP_Check \<Longrightarrow> work_to_do s \<Longrightarrow>
     hd_inv (s\<lparr>boss_waiting := True, lock_owner := None, bpc := BP_Wait\<rparr>)"
  unfolding hd_inv_def by auto

lemma inv_b_give_ready:
  "hd_inv s \<Longrightarrow> bpc s = BP_Check \<Longrightarrow> \<not> work_to_do s \<Longrightarrow> hd_inv (s\<lparr>bpc := BP_Give\<rparr>)"
  unfolding hd_inv_def by auto

lemma inv_b_wake: "hd_inv s \<Longrightarrow> bpc s = BP_Wait \<Longrightarrow> hd_inv (s\<lparr>bpc := BP_Woken\<rparr>)"
  unfolding hd_inv_def by auto

lemma inv_b_reacq:
  "hd_inv s \<Longrightarrow> bpc s = BP_Woken \<Longrightarrow> lock_owner s = None \<Longrightarrow>
     hd_inv (s\<lparr>lock_owner := Some Boss, boss_waiting := False, bpc := BP_Check\<rparr>)"
  unfolding hd_inv_def by auto

lemma inv_b_give:
  "hd_inv s \<Longrightarrow> bpc s = BP_Give \<Longrightarrow>
     hd_inv (s\<lparr>rtp_buffer := tmp_buffer s, work_to_do := True,
                  wpc := (if worker_waiting s \<and> wpc s = WP_Wait then WP_Woken else wpc s),
                  lock_owner := None, bpc := BP_Idle, grabs := Suc (grabs s)\<rparr>)"
  unfolding hd_inv_def by (cases "wpc s") auto

lemma inv_w_dma:
  "hd_inv s \<Longrightarrow> wpc s = WP_Dma \<Longrightarrow>
     hd_inv (s\<lparr>bufs_index := i, dma_addr := Some i, wpc := WP_Lock\<rparr>)"
  unfolding hd_inv_def by auto

lemma inv_w_dma_fail: "hd_inv s \<Longrightarrow> wpc s = WP_Dma \<Longrightarrow> hd_inv (s\<lparr>dma_addr := None\<rparr>)"
  unfolding hd_inv_def by auto

lemma inv_w_lock:
  "hd_inv s \<Longrightarrow> wpc s = WP_Lock \<Longrightarrow> lock_owner s = None \<Longrightarrow>
     hd_inv (s\<lparr>lock_owner := Some Worker, wpc := WP_Check\<rparr>)"
  unfolding hd_inv_def by auto

lemma inv_w_wait:
  "hd_inv s \<Longrightarrow> wpc s = WP_Check \<Longrightarrow> \<not> work_to_do s \<Longrightarrow>
     hd_inv (s\<lparr>worker_waiting := True, lock_owner := None, wpc := WP_Wait\<rparr>)"
  unfolding hd_inv_def by auto

lemma inv_w_take_ready:
  "hd_inv s \<Longrightarrow> wpc s = WP_Check \<Longrightarrow> work_to_do s \<Longrightarrow> hd_inv (s\<lparr>wpc := WP_Take\<rparr>)"
  unfolding hd_inv_def by auto

lemma inv_w_wake: "hd_inv s \<Longrightarrow> wpc s = WP_Wait \<Longrightarrow> hd_inv (s\<lparr>wpc := WP_Woken\<rparr>)"
  unfolding hd_inv_def by auto

lemma inv_w_reacq:
  "hd_inv s \<Longrightarrow> wpc s = WP_Woken \<Longrightarrow> lock_owner s = None \<Longrightarrow>
     hd_inv (s\<lparr>lock_owner := Some Worker, worker_waiting := False, wpc := WP_Check\<rparr>)"
  unfolding hd_inv_def by auto

lemma inv_w_take:
  "hd_inv s \<Longrightarrow> wpc s = WP_Take \<Longrightarrow>
     hd_inv (s\<lparr>tmp_buffer := Some a, work_to_do := False,
               bpc := (if boss_waiting s \<and> bpc s = BP_Wait then BP_Woken else bpc s),
               lock_owner := None, wpc := WP_Dma, takes := Suc (takes s)\<rparr>)"
  unfolding hd_inv_def by (cases "bpc s") auto

lemma inv_b_give_split:
  "hd_inv s \<Longrightarrow> bpc s = BP_Give \<Longrightarrow> worker_waiting s \<Longrightarrow> wpc s = WP_Wait \<Longrightarrow>
     hd_inv (s\<lparr>rtp_buffer := tmp_buffer s, work_to_do := True, wpc := WP_Woken,
               lock_owner := None, bpc := BP_Idle, grabs := Suc (grabs s)\<rparr>)"
  "hd_inv s \<Longrightarrow> bpc s = BP_Give \<Longrightarrow> \<not> (worker_waiting s \<and> wpc s = WP_Wait) \<Longrightarrow>
     hd_inv (s\<lparr>rtp_buffer := tmp_buffer s, work_to_do := True,
               lock_owner := None, bpc := BP_Idle, grabs := Suc (grabs s)\<rparr>)"
  unfolding hd_inv_def by auto

lemma inv_w_take_split:
  "hd_inv s \<Longrightarrow> wpc s = WP_Take \<Longrightarrow> boss_waiting s \<Longrightarrow> bpc s = BP_Wait \<Longrightarrow>
     hd_inv (s\<lparr>tmp_buffer := Some a, work_to_do := False, bpc := BP_Woken,
               lock_owner := None, wpc := WP_Dma, takes := Suc (takes s)\<rparr>)"
  "hd_inv s \<Longrightarrow> wpc s = WP_Take \<Longrightarrow> \<not> (boss_waiting s \<and> bpc s = BP_Wait) \<Longrightarrow>
     hd_inv (s\<lparr>tmp_buffer := Some a, work_to_do := False,
               lock_owner := None, wpc := WP_Dma, takes := Suc (takes s)\<rparr>)"
  unfolding hd_inv_def by auto

lemmas inv_boss = inv_b_lock inv_b_wait inv_b_give_ready inv_b_wake inv_b_reacq inv_b_give_split
lemmas inv_worker = inv_w_dma inv_w_dma_fail inv_w_lock inv_w_wait inv_w_take_ready inv_w_wake inv_w_reacq
  inv_w_take_split

lemma boss_step_inv:
  "hd_inv s \<Longrightarrow> boss_step e s = Some s' \<Longrightarrow> \<not> freed s' \<Longrightarrow> hd_inv s'"
  unfolding boss_step_def
  by (cases e; cases "bpc s"; auto simp: inv_boss split: if_splits)

lemma inv_dma_some: "hd_inv s \<Longrightarrow> wpc s = WP_Take \<Longrightarrow> \<exists>a. dma_addr s = Some a"
  unfolding hd_inv_def by auto

lemma worker_step_inv:
  "hd_inv s \<Longrightarrow> worker_step e s = Some s' \<Longrightarrow> \<not> freed s' \<Longrightarrow> hd_inv s'"
  unfolding worker_step_def Let_def
  by (cases e; cases "wpc s"; auto simp: inv_worker split: if_splits option.splits dest: inv_dma_some)
lemma hd_start_inv: "hd_inv (hd_start m bsz)"
  by (simp add: hd_inv_def hd_start_def)

lemma boss_step_freed: "boss_step e s = Some s' \<Longrightarrow> freed s \<Longrightarrow> freed s'"
  unfolding boss_step_def by (cases e; cases "bpc s"; auto split: if_splits)

lemma worker_step_freed: "worker_step e s = Some s' \<Longrightarrow> freed s' = freed s"
  unfolding worker_step_def Let_def by (cases e; cases "wpc s"; auto split: if_splits option.splits)

lemma hd_next_freed: "hd_next e s = Some s' \<Longrightarrow> freed s \<Longrightarrow> freed s'"
  by (auto simp: hd_next_def dest: boss_step_freed worker_step_freed split: if_splits)

lemma hd_next_inv: "hd_inv s \<Longrightarrow> hd_next e s = Some s' \<Longrightarrow> \<not> freed s' \<Longrightarrow> hd_inv s'"
  by (auto simp: hd_next_def split: if_splits intro: boss_step_inv worker_step_inv)

lemma hd_reach_inv: "hd_reach s \<Longrightarrow> \<not> freed s \<Longrightarrow> hd_inv s"
proof (induction rule: hd_reach.induct)
  case (start m bsz)
  show ?case by (rule hd_start_inv)
next
  case (step s e s')
  have "\<not> freed s" using step.prems step.hyps(2) hd_next_freed by blast
  with step.IH step.hyps(2) step.prems show ?case by (blast intro: hd_next_inv)
qed

lemma hd_inv_lock_free:
  assumes "hd_inv s" and "bpc s \<noteq> BP_Check" "bpc s \<noteq> BP_Give" and "wpc s \<noteq> WP_Check" "wpc s \<noteq> WP_Take"
  shows "lock_owner s = None"
proof (cases "lock_owner s")
  case (Some t)
  then show ?thesis using assms by (cases t) (auto simp: hd_inv_def)
qed simp

lemma hd_inv_progress:
  assumes "hd_inv s" and "\<not> freed s"
  shows "\<exists>e s'. \<not> spurious e \<and> hd_next e s = Some s'"
proof (cases "wpc s")
  case WP_Dma
  then show ?thesis using assms
    by (intro exI [of _ W_Dma]) (simp add: hd_next_def worker_step_def spurious_def Let_def)
next
  case WP_Check
  then show ?thesis using assms
    by (intro exI [of _ W_Check]) (simp add: hd_next_def worker_step_def spurious_def)
next
  case WP_Take
  then show ?thesis using assms inv_dma_some [of s]
    by (intro exI [of _ W_Take]) (auto simp: hd_next_def worker_step_def spurious_def)
next
  case WP_Crash
  then show ?thesis using assms by (simp add: hd_inv_def)
next
  case WP_Lock
  show ?thesis
  proof (cases "lock_owner s")
    case None
    then show ?thesis using assms WP_Lock
      by (intro exI [of _ W_Lock]) (simp add: hd_next_def worker_step_def spurious_def)
  next
    case (Some t)
    then have "bpc s = BP_Check \<or> bpc s = BP_Give" using assms WP_Lock by (cases t) (auto simp: hd_inv_def)
    then show ?thesis
      by (elim disjE; intro exI [of _ B_Check] exI [of _ B_Give])
         (auto simp: hd_next_def boss_step_def spurious_def)
  qed
next
  case WP_Woken
  show ?thesis
  proof (cases "lock_owner s")
    case None
    then show ?thesis using assms WP_Woken
      by (intro exI [of _ W_Reacq]) (simp add: hd_next_def worker_step_def spurious_def)
  next
    case (Some t)
    then have "bpc s = BP_Check \<or> bpc s = BP_Give" using assms WP_Woken by (cases t) (auto simp: hd_inv_def)
    then show ?thesis
      by (elim disjE; intro exI [of _ B_Check] exI [of _ B_Give])
         (auto simp: hd_next_def boss_step_def spurious_def)
  qed
next
  case WP_Wait
  then have nw: "\<not> work_to_do s" "lock_owner s \<noteq> Some Worker" using assms(1) by (auto simp: hd_inv_def)
  show ?thesis
  proof (cases "bpc s")
    case BP_Idle
    then have "lock_owner s = None" using assms(1) WP_Wait by (intro hd_inv_lock_free) simp_all
    then show ?thesis using BP_Idle assms(2)
      by (intro exI [of _ B_Lock]) (simp add: hd_next_def boss_step_def spurious_def)
  next
    case BP_Woken
    then have "lock_owner s = None" using assms(1) WP_Wait by (intro hd_inv_lock_free) simp_all
    then show ?thesis using BP_Woken
      by (intro exI [of _ B_Reacq]) (simp add: hd_next_def boss_step_def spurious_def)
  qed (use assms nw in \<open>auto simp: hd_inv_def hd_next_def boss_step_def spurious_def\<close>)
qed

lemma hd_run_reach: "hd_reach s \<Longrightarrow> hd_run s es = Some s' \<Longrightarrow> hd_reach s'"
proof (induction es arbitrary: s)
  case (Cons e es)
  then show ?case by (auto split: option.splits intro: hd_reach.step)
qed simp

lemma hd_race_reach: "hd_reach hd_race_state"
proof -
  have "hd_run (hd_start 0 0) hd_race_trace = Some hd_race_state"
    by (simp add: hd_race_trace_def hd_race_state_def hd_start_def hd_next_def boss_step_def worker_step_def)
  then show ?thesis by (rule hd_run_reach [OF hd_reach.start])
qed

lemma hd_race_state_free: "\<not> freed hd_race_state"
  by (simp add: hd_race_state_def hd_start_def)

subsection \<open>Properties of the capture thread and \<open>grab\<close>\<close>

text \<open>C31: in every reachable state before \<open>done\<close>, the boss (\<open>grab\<close>) and the
  grab thread are never both inside the critical section of \<open>s->lock\<close>, and the
  number of frames \<open>grab\<close> has handed over exceeds the number the thread has taken
  by at most one.\<close>

theorem hd_mutual_exclusion:
  assumes "hd_reach s" and "\<not> freed s"
  shows "\<not> ((bpc s = BP_Check \<or> bpc s = BP_Give) \<and> (wpc s = WP_Check \<or> wpc s = WP_Take)) \<and>
         takes s \<le> grabs s \<and> grabs s \<le> Suc (takes s)"
proof -
  have i: "hd_inv s" by (rule hd_reach_inv [OF assms])
  have b: "lock_owner s = Some Boss \<longleftrightarrow> bpc s = BP_Check \<or> bpc s = BP_Give"
    and w: "lock_owner s = Some Worker \<longleftrightarrow> wpc s = WP_Check \<or> wpc s = WP_Take"
    and g: "grabs s = takes s + (if work_to_do s then 1 else 0)"
    using i unfolding hd_inv_def by blast+
  have "\<not> ((bpc s = BP_Check \<or> bpc s = BP_Give) \<and> (wpc s = WP_Check \<or> wpc s = WP_Take))"
    using b w by auto
  moreover have "takes s \<le> grabs s \<and> grabs s \<le> Suc (takes s)" using g by simp
  ultimately show ?thesis by blast
qed

lemma hd_mutual_exclusion_witness:
  "hd_reach hd_race_state \<and> \<not> freed hd_race_state \<and>
   \<not> ((bpc hd_race_state = BP_Check \<or> bpc hd_race_state = BP_Give) \<and>
      (wpc hd_race_state = WP_Check \<or> wpc hd_race_state = WP_Take)) \<and>
   takes hd_race_state \<le> grabs hd_race_state \<and> grabs hd_race_state \<le> Suc (takes hd_race_state)"
  using hd_mutual_exclusion [OF hd_race_reach hd_race_state_free] hd_race_reach hd_race_state_free by simp

text \<open>C32: the two threads never deadlock: in every reachable state before
  \<open>done\<close>, some thread can take a step that is not a spurious wake-up.  Every signal is
  sent under the lock after the flag it announces is set, and each
  \<open>pthread_cond_wait\<close> sits in a \<open>while\<close> loop that re-checks its flag, so no wake-up
  is lost.\<close>

theorem hd_no_deadlock:
  assumes "hd_reach s" and "\<not> freed s"
  shows "\<exists>e s'. \<not> spurious e \<and> hd_next e s = Some s'"
  using hd_inv_progress [OF hd_reach_inv [OF assms] assms(2)] .


lemma hd_no_deadlock_witness:
  "hd_reach hd_race_state \<and> \<not> freed hd_race_state \<and>
   (\<exists>e s'. \<not> spurious e \<and> hd_next e hd_race_state = Some s')"
  using hd_no_deadlock [OF hd_race_reach hd_race_state_free] hd_race_reach hd_race_state_free by simp

text \<open>C33: the frame \<open>grab\<close> returns after a hand-over is NULL exactly on the
  first call: the buffer it hands out is the one the thread took at the previous
  hand-over.\<close>

theorem grab_first_null:
  assumes "hd_reach s" and "\<not> freed s" and "boss_step B_Give s = Some s'"
  shows "hd_grab_frame g s' = None \<longleftrightarrow> grabs s = 0"
proof -
  have i: "hd_inv s" by (rule hd_reach_inv [OF assms(1,2)])
  have b: "bpc s = BP_Give" "rtp_buffer s' = tmp_buffer s"
    using assms(3) by (auto simp: boss_step_def split: boss_pc.splits)
  show ?thesis using i b by (auto simp: hd_inv_def hd_grab_frame_def split: option.splits)
qed

lemma grab_first_null_witness:
  "hd_reach ((hd_start 0 0)\<lparr>lock_owner := Some Boss, bpc := BP_Give\<rparr>) \<and>
   \<not> freed ((hd_start 0 0)\<lparr>lock_owner := Some Boss, bpc := BP_Give\<rparr>) \<and>
   boss_step B_Give ((hd_start 0 0)\<lparr>lock_owner := Some Boss, bpc := BP_Give\<rparr>) =
     Some ((hd_start 0 0)\<lparr>work_to_do := True, grabs := 1\<rparr>) \<and>
   hd_grab_frame demo_hd_globals ((hd_start 0 0)\<lparr>work_to_do := True, grabs := 1\<rparr>) = None"
proof -
  let ?s = "(hd_start 0 0)\<lparr>lock_owner := Some Boss, bpc := BP_Give\<rparr>"
  have r: "hd_reach ?s"
  proof (rule hd_run_reach [OF hd_reach.start])
    show "hd_run (hd_start 0 0) [B_Lock, B_Check] = Some ?s"
      by (simp add: hd_start_def hd_next_def boss_step_def)
  qed
  have n: "\<not> freed ?s" by (simp add: hd_start_def)
  have g: "boss_step B_Give ?s = Some ((hd_start 0 0)\<lparr>work_to_do := True, grabs := 1\<rparr>)"
    by (simp add: hd_start_def boss_step_def)
  show ?thesis using grab_first_null [OF r n g, of demo_hd_globals] r n g by (simp add: hd_start_def)
qed

text \<open>C34: two buffers are not enough.  There is a reachable state in which the
  caller of \<open>grab\<close> still holds the frame it was given (\<open>rtp_buffer\<close>) while the
  grab thread starts its next DMA transfer into that very buffer: \<open>grab\<close> returns
  without waiting for the caller to release the frame.\<close>

theorem hd_buffer_overwritten:
  "\<exists>s s'. hd_reach s \<and> \<not> freed s \<and> bpc s = BP_Idle \<and> rtp_buffer s \<noteq> None \<and>
          hd_next W_Dma s = Some s' \<and> dma_addr s' = rtp_buffer s"
proof (intro exI conjI)
  show "hd_next W_Dma hd_race_state = Some (hd_race_state\<lparr>bufs_index := 1, dma_addr := Some 1, wpc := WP_Lock\<rparr>)"
    by (simp add: hd_race_state_def hd_start_def hd_next_def worker_step_def)
qed (simp_all add: hd_race_reach hd_race_state_free, simp_all add: hd_race_state_def hd_start_def)

text \<open>C35: \<open>vidcap_hdstation_done\<close> frees the state while the grab thread, which it
  neither stops nor joins, still runs: from any reachable state, after \<open>done\<close> the
  thread dereferences the freed state within at most two of its own steps.\<close>

theorem hd_done_use_after_free:
  assumes "hd_reach s" and "\<not> freed s" and "hd_next B_Done s = Some s'"
  shows "\<exists>es s''. length es \<le> 2 \<and> hd_run s' es = Some s'' \<and> wpc s'' = WP_Crash"
proof -
  have i: "hd_inv s" by (rule hd_reach_inv [OF assms(1,2)])
  have s': "bpc s = BP_Idle" "s' = s\<lparr>freed := True, bpc := BP_Done\<rparr>"
    using assms(3) by (auto simp: hd_next_def boss_step_def split: boss_pc.splits if_splits)
  have lf: "wpc s \<noteq> WP_Check \<Longrightarrow> wpc s \<noteq> WP_Take \<Longrightarrow> lock_owner s = None"
    using i s'(1) by (intro hd_inv_lock_free) simp_all
  show ?thesis
  proof (cases "wpc s")
    case WP_Dma
    then show ?thesis using s' by (intro exI [of _ "[W_Dma]"]) (simp add: hd_next_def worker_step_def)
  next
    case WP_Lock
    then show ?thesis using s' lf by (intro exI [of _ "[W_Lock]"]) (simp add: hd_next_def worker_step_def)
  next
    case WP_Check
    then show ?thesis using s' by (intro exI [of _ "[W_Check]"]) (simp add: hd_next_def worker_step_def)
  next
    case WP_Take
    then show ?thesis using s' by (intro exI [of _ "[W_Take]"]) (simp add: hd_next_def worker_step_def)
  next
    case WP_Wait
    then show ?thesis using s' lf
      by (intro exI [of _ "[W_Wake, W_Reacq]"]) (simp add: hd_next_def worker_step_def)
  next
    case WP_Woken
    then show ?thesis using s' lf by (intro exI [of _ "[W_Reacq]"]) (simp add: hd_next_def worker_step_def)
  next
    case WP_Crash
    then show ?thesis using i by (simp add: hd_inv_def)
  qed
qed

lemma hd_done_use_after_free_witness:
  "hd_reach (hd_start 0 0) \<and> \<not> freed (hd_start 0 0) \<and>
   hd_next B_Done (hd_start 0 0) = Some ((hd_start 0 0)\<lparr>freed := True, bpc := BP_Done\<rparr>) \<and>
   (\<exists>es s''. length es \<le> 2 \<and> hd_run ((hd_start 0 0)\<lparr>freed := True, bpc := BP_Done\<rparr>) es = Some s'' \<and>
             wpc s'' = WP_Crash)"
proof -
  have r: "hd_reach (hd_start 0 0)" by (rule hd_reach.start)
  have n: "\<not> freed (hd_start 0 0)" by (simp add: hd_start_def)
  have d: "hd_next B_Done (hd_start 0 0) = Some ((hd_start 0 0)\<lparr>freed := True, bpc := BP_Done\<rparr>)"
    by (simp add: hd_next_def boss_step_def hd_start_def)
  show ?thesis using hd_done_use_after_free [OF r n d] r n d by blast
qed

text \<open>C36: every failure of \<open>vidcap_hdstation_init\<close> after \<open>sv_open\<close> succeeded
  returns NULL with the board handle still open (no \<open>sv_close\<close> on any error path).\<close>

theorem hdstation_init_leaks_handle:
  assumes "malloc_ok env" and "sv_open_ok env" and "vidcap_hdstation_init env g w fmt = (HD_Null, g', w')"
  shows "open_handles w' = Suc (open_handles w)"
  using assms by (auto simp: vidcap_hdstation_init_def Let_def split: prod.splits if_splits)

lemma hdstation_init_leaks_handle_witness:
  "vidcap_hdstation_init demo_dvs_env demo_hd_globals \<lparr>open_handles = 0, live_blocks = 0, grab_threads = 0\<rparr> ''60:12'' =
     (HD_Null, demo_hd_globals, \<lparr>open_handles = 1, live_blocks = 0, grab_threads = 0\<rparr>) \<and>
   open_handles \<lparr>open_handles = 1, live_blocks = 0, grab_threads = 0\<rparr> = Suc 0"
proof -
  have i: "vidcap_hdstation_init demo_dvs_env demo_hd_globals \<lparr>open_handles = 0, live_blocks = 0, grab_threads = 0\<rparr> ''60:12'' =
     (HD_Null, demo_hd_globals, \<lparr>open_handles = 1, live_blocks = 0, grab_threads = 0\<rparr>)"
    by (simp add: vidcap_hdstation_init_def demo_dvs_env_def demo_hd_globals_def settings_init_def
        strtok_tokens_def lavc_str)
  show ?thesis using hdstation_init_leaks_handle [OF _ _ i] i by (simp add: demo_dvs_env_def)
qed

lemma help_rasters_ok:
  "snd (help_rasters r is) = SV_OK \<longleftrightarrow> (\<forall>i\<in>set is. raster_rc r i = SV_OK)"
  by (induction r "is" rule: help_rasters.induct) (auto simp: split_beta)

lemma hdstation_help_ok:
  "snd (hdstation_help r) = SV_OK \<longleftrightarrow> raster_count_rc r = SV_OK \<and> (\<forall>i < nrasters r. raster_rc r i = SV_OK)"
  using help_rasters_ok [of r "[0..<nrasters r]"] by (auto simp: hdstation_help_def Let_def split_beta)

end
