(* ===== verification/Lavc_Common_Util.thy ===== *)
theory Lavc_Common_Util
  imports Lavc_Pipeline
begin

text \<open>
  The rest of \<open>src/src/libavcodec/lavc_common.c\<close>: the error printers
  \<open>print_libav_error\<close> and \<open>printf_libav_error\<close>, FFmpeg's log callback
  \<open>av_log_ug_callback\<close> with its \<open>static\<close> flag \<open>nl_presented\<close> (explicit state passing;
  \<open>av_log_run\<close> is a sequence of FFmpeg log calls), \<open>av_pixfmt_get_desc\<close>, the decoder
  drain \<open>lavd_flush\<close> and \<open>print_decoder_error\<close>.  A log call is its output: the
  level and the text handed to UltraGrid's logger (the format string after the
  prefix is added; the \<open>printf\<close> expansion of its arguments is not modelled).  The
  drain loop asks the decoder for frames until it answers with an error code; the
  decoder is the sequence of its answers (\<open>nat \<Rightarrow> int\<close>), and the loop is a
  \<open>partial_function (option)\<close>, None when the decoder never stops returning frames.
\<close>

section \<open>Constants\<close>

text \<open>UltraGrid's log levels (\<open>debug.h\<close>), Linux \<open>errno\<close> values and FFmpeg's
  error codes (\<open>AVERROR(e) = -e\<close>, \<open>AVERROR_EOF = -MKTAG('E','O','F',' ')\<close>).\<close>


definition LOG_LEVEL_ERROR :: int where "LOG_LEVEL_ERROR = 1"
definition LOG_LEVEL_WARNING :: int where "LOG_LEVEL_WARNING = 2"
definition LOG_LEVEL_VERBOSE :: int where "LOG_LEVEL_VERBOSE = 6"

definition EAGAIN :: int where "EAGAIN = 11"
definition EINVAL :: int where "EINVAL = 22"
definition AVERROR :: "int \<Rightarrow> int" where "AVERROR e = - e"
definition AVERROR_EOF :: int where "AVERROR_EOF = - 541478725"

text \<open>\<open>snprintf\<close>/\<open>vsnprintf\<close>/\<open>av_strerror\<close> into a buffer of \<open>n\<close> bytes keep at most
  \<open>n - 1\<close> characters.\<close>

definition c_snprintf :: "nat \<Rightarrow> string \<Rightarrow> string" where
  "c_snprintf n s = take (n - 1) s"

section \<open>Error printers\<close>

text \<open>\<open>print_libav_error\<close>: \<open>log_msg(verbosity, "%s: %s\n", msg, errbuf)\<close> with FFmpeg's
  text for \<open>rc\<close> in a 1024-byte buffer; \<open>printf_libav_error\<close> first formats the
  message into 1024 bytes (\<open>message\<close> is the \<open>vsnprintf\<close> expansion).\<close>

definition print_libav_error :: "(int \<Rightarrow> string) \<Rightarrow> int \<Rightarrow> string \<Rightarrow> int \<Rightarrow> int \<times> string" where
  "print_libav_error av_strerror verbosity msg rc =
     (verbosity, msg @ '': '' @ c_snprintf 1024 (av_strerror rc) @ ''\<newline>'')"

definition printf_libav_error :: "(int \<Rightarrow> string) \<Rightarrow> int \<Rightarrow> int \<Rightarrow> string \<Rightarrow> int \<times> string" where
  "printf_libav_error av_strerror verbosity rc message =
     print_libav_error av_strerror verbosity (c_snprintf 1024 message) rc"

section \<open>The FFmpeg log callback\<close>

text \<open>What one call of \<open>av_log_ug_callback\<close> does: nothing (level above
  \<open>log_level\<close>, or filtered), print a line, or read \<open>fmt[-1]\<close> out of bounds (an
  empty format when no prefix is added).  A message is the callback's arguments:
  the module name (\<open>item_name\<close> of the \<open>AVClass\<close>, None without one), the \<open>%p\<close> text
  of \<open>avcl\<close>, the FFmpeg level and the format.\<close>

datatype log_out = Log_Skip | Log_Print int string | Log_Oob_Read

record av_log_msg =
  msg_module :: "string option"
  msg_avcl :: string
  msg_level :: int
  msg_fmt :: string

definition lavc_prefix :: "av_log_msg \<Rightarrow> string" where
  "lavc_prefix m = (case msg_module m of
       Some name \<Rightarrow> ''[lavc '' @ name @ '' @ '' @ msg_avcl m @ ''] ''
     | None \<Rightarrow> ''[lavc] '')"

text \<open>The callback (lines 161--187): the level check, the filter, the
  \<open>[lavc name @ ptr] \<close> or \<open>[lavc] \<close> prefix when the previous line was finished,
  \<open>snprintf\<close> into \<open>new_fmt[1024]\<close>, and \<open>nl_presented\<close> from the last character.  The
  mutex only makes the call atomic.\<close>

definition av_log_ug_callback :: "int \<Rightarrow> bool \<Rightarrow> av_log_msg \<Rightarrow> log_out \<times> bool" where
  "av_log_ug_callback log_level nl_presented m =
     (let level = av_to_uv_log (msg_level m)
      in if level > log_level then (Log_Skip, nl_presented)
         else if av_log_filter (msg_module m) (msg_fmt m) then (Log_Skip, nl_presented)
         else let fmt = (if nl_presented then c_snprintf 1024 (lavc_prefix m @ msg_fmt m) else msg_fmt m)
              in if fmt = [] then (Log_Oob_Read, nl_presented)
                 else (Log_Print level fmt, last fmt = CHR ''\<newline>''))"

fun av_log_run :: "int \<Rightarrow> bool \<Rightarrow> av_log_msg list \<Rightarrow> log_out list \<times> bool" where
  "av_log_run log_level nl [] = ([], nl)"
| "av_log_run log_level nl (m # ms) =
     (let (o1, nl1) = av_log_ug_callback log_level nl m;
          (os, nl2) = av_log_run log_level nl1 ms
      in (o1 # os, nl2))"

section \<open>Pixel-format description and the decoder helpers\<close>

text \<open>\<open>av_pixfmt_get_desc\<close>: depth of the first component, RGB flag and subsampling
  (the descriptor is dereferenced unchecked; None for a format without one).\<close>

definition av_pixfmt_get_desc :: "av_pixfmt \<Rightarrow> pixfmt_desc option" where
  "av_pixfmt_get_desc pixfmt =
     (case av_pix_fmt_desc_get pixfmt of
        None \<Rightarrow> None
      | Some avd \<Rightarrow> Some \<lparr>pd_depth = int (comp0_depth avd), pd_subsampling = av_pixfmt_get_subsampling pixfmt,
                          pd_rgb = flag_rgb avd\<rparr>)"

text \<open>The \<open>do ... while\<close> loop of \<open>lavd_flush\<close>: call \<open>avcodec_receive_frame\<close> (its
  \<open>i\<close>-th answer) while it returns a frame; the result is the number of frames
  drained and the code that ended the loop.\<close>

partial_function (option) lavd_receive_loop :: "(nat \<Rightarrow> int) \<Rightarrow> nat \<Rightarrow> (nat \<times> int) option" where
  "lavd_receive_loop avcodec_receive_frame i =
     (let ret = avcodec_receive_frame i
      in if ret \<ge> 0 \<and> ret \<noteq> AVERROR_EOF \<and> ret \<noteq> AVERROR EAGAIN
         then lavd_receive_loop avcodec_receive_frame (Suc i)
         else Some (i, ret))"

text \<open>\<open>lavd_flush\<close>: send the NULL packet, drain, and the codes logged as
  warnings (\<open>send_rc\<close> when it is not 0, the final code when it is neither EOF nor
  EAGAIN).\<close>

definition lavd_flush :: "int \<Rightarrow> (nat \<Rightarrow> int) \<Rightarrow> (nat \<times> int list) option" where
  "lavd_flush send_rc avcodec_receive_frame =
     (case lavd_receive_loop avcodec_receive_frame 0 of
        None \<Rightarrow> None
      | Some (n, ret) \<Rightarrow>
          Some (n, (if send_rc \<noteq> 0 then [send_rc] else []) @
                   (if ret < 0 \<and> ret \<noteq> AVERROR_EOF \<and> ret \<noteq> AVERROR EAGAIN then [ret] else [])))"

text \<open>\<open>print_decoder_error\<close>: the line logged for a decoder return code.\<close>

definition print_decoder_error :: "(int \<Rightarrow> string) \<Rightarrow> string \<Rightarrow> int \<Rightarrow> (int \<times> string) option" where
  "print_decoder_error av_strerror mod_name rc =
     (if rc = 0 then None
      else if rc = EAGAIN then Some (LOG_LEVEL_VERBOSE, mod_name @ '' No frame returned - needs more input data.\<newline>'')
      else if rc = EINVAL then Some (LOG_LEVEL_ERROR, mod_name @ '' Decoder in invalid state!\<newline>'')
      else Some (LOG_LEVEL_WARNING, mod_name @ '' Error while decoding frame (rc == '' @ int_to_string rc @ ''): ''
                                    @ c_snprintf 1024 (av_strerror rc) @ ''.\<newline>''))"

text \<open>A 1100-character FFmpeg message ending in a newline, and a short one.\<close>

definition demo_long_msg :: av_log_msg where
  "demo_long_msg = \<lparr>msg_module = None, msg_avcl = [], msg_level = 32,
                    msg_fmt = replicate 1100 (CHR ''a'') @ ''\<newline>''\<rparr>"

definition demo_next_msg :: av_log_msg where
  "demo_next_msg = \<lparr>msg_module = None, msg_avcl = [], msg_level = 32, msg_fmt = ''next\<newline>''\<rparr>"

section \<open>Properties\<close>

lemma last_take_Suc: "n < length xs \<Longrightarrow> last (take (Suc n) xs) = xs ! n"
  by (simp add: take_Suc_conv_app_nth)

lemma lavd_guard: "ret \<ge> 0 \<and> ret \<noteq> AVERROR_EOF \<and> ret \<noteq> AVERROR EAGAIN \<longleftrightarrow> ret \<ge> 0"
  by (auto simp: AVERROR_EOF_def AVERROR_def EAGAIN_def)

lemma lavd_receive_loop_Some:
  "lavd_receive_loop recv k = Some y \<Longrightarrow>
   k \<le> fst y \<and> snd y = recv (fst y) \<and> snd y < 0 \<and> (\<forall>j. k \<le> j \<and> j < fst y \<longrightarrow> recv j \<ge> 0)"
proof (induction rule: lavd_receive_loop.raw_induct[rotated 1, consumes 1])
  case (1 loop rv k y)
  show ?case
  proof (cases "rv k \<ge> 0")
    case True
    obtain a b where y: "y = (a, b)" by (cases y)
    have "loop rv (Suc k) = Some (a, b)" using 1(2) True y by (simp add: lavd_guard Let_def)
    then have ih: "Suc k \<le> a \<and> b = rv a \<and> b < 0 \<and> (\<forall>j. Suc k \<le> j \<and> j < a \<longrightarrow> rv j \<ge> 0)"
      using 1(1) by fastforce
    have "\<forall>j. k \<le> j \<and> j < a \<longrightarrow> rv j \<ge> 0"
    proof (intro allI impI)
      fix j assume "k \<le> j \<and> j < a"
      then show "rv j \<ge> 0" using ih True by (cases "j = k") auto
    qed
    then show ?thesis using ih y by simp
  next
    case False
    then show ?thesis using 1(2) by (auto simp: lavd_guard Let_def)
  qed
qed

lemma lavd_receive_loop_first:
  "recv (k + d) < 0 \<Longrightarrow> (\<forall>j. k \<le> j \<and> j < k + d \<longrightarrow> recv j \<ge> 0) \<Longrightarrow>
   lavd_receive_loop recv k = Some (k + d, recv (k + d))"
proof (induction d arbitrary: k)
  case 0
  then show ?case by (subst lavd_receive_loop.simps) (simp add: lavd_guard)
next
  case (Suc d)
  have "recv k \<ge> 0" using Suc.prems(2) by simp
  moreover have "lavd_receive_loop recv (Suc k) = Some (Suc k + d, recv (Suc k + d))"
    using Suc.prems by (intro Suc.IH) auto
  ultimately show ?case by (subst lavd_receive_loop.simps) (simp add: lavd_guard)
qed

text \<open>C37: \<open>lavd_flush\<close> returns exactly when the decoder eventually answers
  \<open>avcodec_receive_frame\<close> with a negative code; a decoder that keeps returning frames
  keeps it in the loop for ever.\<close>

theorem lavd_flush_returns:
  "(\<exists>y. lavd_flush send_rc recv = Some y) \<longleftrightarrow> (\<exists>i. recv i < 0)"
proof
  assume "\<exists>y. lavd_flush send_rc recv = Some y"
  then obtain n r where "lavd_receive_loop recv 0 = Some (n, r)"
    by (auto simp: lavd_flush_def split: option.splits)
  then show "\<exists>i. recv i < 0" using lavd_receive_loop_Some [of recv 0 "(n, r)"] by auto
next
  assume "\<exists>i. recv i < 0"
  then have "\<exists>i. recv i < 0 \<and> (\<forall>j<i. recv j \<ge> 0)"
    using exists_least_iff [of "\<lambda>i. recv i < 0"] by (auto simp: not_less)
  then obtain i where "recv i < 0" "\<forall>j<i. recv j \<ge> 0" by blast
  then have "lavd_receive_loop recv 0 = Some (i, recv i)"
    using lavd_receive_loop_first [of recv 0 i] by simp
  then show "\<exists>y. lavd_flush send_rc recv = Some y" by (simp add: lavd_flush_def)
qed

lemma lavd_flush_result:
  assumes "recv i < 0" and "\<forall>j<i. recv j \<ge> 0"
  shows "lavd_flush send_rc recv =
           Some (i, (if send_rc \<noteq> 0 then [send_rc] else []) @
                    (if recv i \<noteq> AVERROR_EOF \<and> recv i \<noteq> AVERROR EAGAIN then [recv i] else []))"
  using assms lavd_receive_loop_first [of recv 0 i] by (simp add: lavd_flush_def)

lemma av_log_skip_keeps:
  "av_log_ug_callback ll nl m = (Log_Skip, nl') \<Longrightarrow> nl' = nl"
  by (auto simp: av_log_ug_callback_def Let_def split: if_splits)

lemma av_log_print_prefixed:
  assumes "av_to_uv_log (msg_level m) \<le> ll" and "\<not> av_log_filter (msg_module m) (msg_fmt m)"
    and "length (lavc_prefix m @ msg_fmt m) \<le> 1023"
  shows "av_log_ug_callback ll True m =
           (Log_Print (av_to_uv_log (msg_level m)) (lavc_prefix m @ msg_fmt m),
            last (lavc_prefix m @ msg_fmt m) = CHR ''\<newline>'')"
  using assms by (auto simp: av_log_ug_callback_def c_snprintf_def lavc_prefix_def split: option.splits)

text \<open>C38: a log line longer than the 1023 characters of \<open>new_fmt\<close> is cut,
  and since its final newline is cut with it, \<open>nl_presented\<close> becomes false and the
  next FFmpeg message is printed without its \<open>[lavc]\<close> prefix on the same line.\<close>

theorem av_log_long_line_glued:
  assumes "av_to_uv_log (msg_level m1) \<le> ll" and "\<not> av_log_filter (msg_module m1) (msg_fmt m1)"
    and "1023 < length (lavc_prefix m1 @ msg_fmt m1)"
    and "(lavc_prefix m1 @ msg_fmt m1) ! 1022 \<noteq> CHR ''\<newline>''"
    and "av_to_uv_log (msg_level m2) \<le> ll" and "\<not> av_log_filter (msg_module m2) (msg_fmt m2)"
    and "msg_fmt m2 \<noteq> []"
  shows "av_log_run ll True [m1, m2] =
           ([Log_Print (av_to_uv_log (msg_level m1)) (take 1023 (lavc_prefix m1 @ msg_fmt m1)),
             Log_Print (av_to_uv_log (msg_level m2)) (msg_fmt m2)],
            last (msg_fmt m2) = CHR ''\<newline>'')"
proof -
  have ne: "lavc_prefix m1 \<noteq> []" by (simp add: lavc_prefix_def split: option.splits)
  have "last (take (Suc 1022) (lavc_prefix m1 @ msg_fmt m1)) = (lavc_prefix m1 @ msg_fmt m1) ! 1022"
    using assms(3) by (intro last_take_Suc) simp
  then show ?thesis using assms ne by (simp add: av_log_ug_callback_def c_snprintf_def Let_def)
qed

lemma av_log_long_line_glued_witness:
  "av_to_uv_log (msg_level demo_long_msg) \<le> 5 \<and> \<not> av_log_filter (msg_module demo_long_msg) (msg_fmt demo_long_msg) \<and>
   1023 < length (lavc_prefix demo_long_msg @ msg_fmt demo_long_msg) \<and>
   (lavc_prefix demo_long_msg @ msg_fmt demo_long_msg) ! 1022 \<noteq> CHR ''\<newline>'' \<and>
   av_to_uv_log (msg_level demo_next_msg) \<le> 5 \<and> \<not> av_log_filter (msg_module demo_next_msg) (msg_fmt demo_next_msg) \<and>
   msg_fmt demo_next_msg \<noteq> [] \<and>
   av_log_run 5 True [demo_long_msg, demo_next_msg] =
     ([Log_Print 5 (take 1023 (lavc_prefix demo_long_msg @ msg_fmt demo_long_msg)), Log_Print 5 ''next\<newline>''], True)"
proof -
  have h: "av_to_uv_log (msg_level demo_long_msg) \<le> 5" "\<not> av_log_filter (msg_module demo_long_msg) (msg_fmt demo_long_msg)"
    "1023 < length (lavc_prefix demo_long_msg @ msg_fmt demo_long_msg)"
    "(lavc_prefix demo_long_msg @ msg_fmt demo_long_msg) ! 1022 \<noteq> CHR ''\<newline>''"
    "av_to_uv_log (msg_level demo_next_msg) \<le> 5" "\<not> av_log_filter (msg_module demo_next_msg) (msg_fmt demo_next_msg)"
    "msg_fmt demo_next_msg \<noteq> []"
    by (simp_all add: demo_long_msg_def demo_next_msg_def av_to_uv_log_def c_div_def av_log_filter_def
        lavc_prefix_def nth_append)
  have "av_to_uv_log 32 = 5" by (simp add: av_to_uv_log_def c_div_def)
  then show ?thesis using av_log_long_line_glued [OF h] h by (simp add: demo_next_msg_def demo_long_msg_def)
qed

lemma av_pixfmt_get_desc_total:
  "\<exists>d. av_pixfmt_get_desc f = Some d \<and> pd_subsampling d \<in> {4440, 4220, 4200}"
  by (cases f) (simp_all add: av_pixfmt_get_desc_def av_pixfmt_get_subsampling_def mk_pix_desc_def)

lemma print_decoder_error_averror_eagain:
  "print_decoder_error av_strerror mod_name (AVERROR EAGAIN) =
     Some (LOG_LEVEL_WARNING, mod_name @ '' Error while decoding frame (rc == '' @ int_to_string (- 11) @ ''): ''
                              @ c_snprintf 1024 (av_strerror (- 11)) @ ''.\<newline>'')"
  by (simp add: print_decoder_error_def AVERROR_def EAGAIN_def EINVAL_def)

lemma lavd_flush_example:
  "lavd_flush 0 (\<lambda>i. if i < 3 then 0 else AVERROR_EOF) = Some (3, [])"
  using lavd_flush_result [of "\<lambda>i. if i < 3 then 0 else AVERROR_EOF" 3 0]
  by (simp add: AVERROR_EOF_def AVERROR_def EAGAIN_def)

end
