(* ===== verification/Lavc_Module_Info.thy ===== *)
theory Lavc_Module_Info
  imports Lavc_Registry "HOL-Library.Word"
begin

text \<open>
  The registry queries of \<open>src/src/video_compress/libavcodec.cpp\<close> that describe the
  module: \<open>get_codec_encoders_decoders\<close> (a walk over FFmpeg's codec list,
  \<open>av_codec_iterate\<close>), \<open>get_codec_details\<close> (a chain of bounded \<open>strncat\<close> calls into
  a caller's buffer), the codec list of \<open>usage()\<close>, \<open>get_libavcodec_module_info\<close> and
  the verbose pixel-format log lines.  FFmpeg's codec list is a list of
  \<open>av_codec_entry\<close>; \<open>size_t\<close> is a 64-bit word, so \<open>buflen - strlen(buf) - 1\<close> wraps as
  in C.  The lemmas show that the \<open>strncat\<close> chain writes exactly the first
  \<open>buflen - 1\<close> characters of the untruncated text (so the terminating NUL always
  fits), that the loops equal their filter/map references, and that the \<open>usage()\<close>
  line fits its 1024-byte buffer.
\<close>

section \<open>FFmpeg's codec list\<close>

text \<open>One \<open>AVCodec\<close> of \<open>av_codec_iterate\<close>: name, codec id and whether it encodes
  and decodes.\<close>


record av_codec_entry =
  ent_name :: string
  ent_id :: av_codec_id
  ent_is_encoder :: bool
  ent_is_decoder :: bool

text \<open>\<open>struct codec_encoders_decoders\<close> and the \<open>av_codec_iterate\<close> loop of
  \<open>get_codec_encoders_decoders\<close> (the libavcodec > 58.9.100 branch).\<close>

record codec_encoders_decoders =
  encoders :: "string list"
  decoders :: "string list"

fun codec_iterate_loop :: "av_codec_id \<Rightarrow> av_codec_entry list \<Rightarrow> codec_encoders_decoders \<Rightarrow> codec_encoders_decoders" where
  "codec_iterate_loop cid [] res = res"
| "codec_iterate_loop cid (c # cs) res =
     (let res1 = (if ent_is_encoder c \<and> ent_id c = cid then res\<lparr>encoders := encoders res @ [ent_name c]\<rparr> else res);
          res2 = (if ent_is_decoder c \<and> ent_id c = cid then res1\<lparr>decoders := decoders res1 @ [ent_name c]\<rparr> else res1)
      in codec_iterate_loop cid cs res2)"

definition get_codec_encoders_decoders :: "av_codec_entry list \<Rightarrow> av_codec_id \<Rightarrow> codec_encoders_decoders" where
  "get_codec_encoders_decoders reg cid = codec_iterate_loop cid reg \<lparr>encoders = [], decoders = []\<rparr>"

section \<open>\<open>get_codec_details\<close>\<close>

text \<open>\<open>strncat(dst, src, n)\<close> appends at most \<open>n\<close> characters; each call of
  \<open>get_codec_details\<close> passes \<open>buflen - strlen(buf) - 1\<close> computed in \<open>size_t\<close>.\<close>

type_synonym size_t = "64 word"

definition c_strncat :: "string \<Rightarrow> string \<Rightarrow> nat \<Rightarrow> string" where
  "c_strncat dst src n = dst @ take n src"

definition strncat_buf :: "size_t \<Rightarrow> string \<Rightarrow> string \<Rightarrow> string" where
  "strncat_buf buflen buf src = c_strncat buf src (unat (buflen - of_nat (length buf) - 1))"

fun strncat_names :: "size_t \<Rightarrow> string \<Rightarrow> string list \<Rightarrow> string" where
  "strncat_names buflen buf [] = buf"
| "strncat_names buflen buf (n # ns) = strncat_names buflen (strncat_buf buflen (strncat_buf buflen buf '' '') n) ns"

text \<open>The terminal escapes of \<open>utils/color_out.h\<close>.\<close>

definition TERM_BOLD :: string where "TERM_BOLD = [CHR 0x1B, CHR ''['', CHR ''1'', CHR ''m'']"
definition TERM_RESET :: string where "TERM_RESET = [CHR 0x1B, CHR ''['', CHR ''0'', CHR ''m'']"

text \<open>\<open>get_codec_details\<close>: \<open>assert(buflen > 0)\<close> (None), an empty string when the
  codec has no coder, else " (", the encoders, "; " between the groups, the
  decoders and ")".\<close>

definition get_codec_details :: "av_codec_entry list \<Rightarrow> av_codec_id \<Rightarrow> size_t \<Rightarrow> string option" where
  "get_codec_details reg cid buflen =
     (let info = get_codec_encoders_decoders reg cid
      in if buflen = 0 then None
         else if encoders info = [] \<and> decoders info = [] then Some []
         else
           let b1 = strncat_buf buflen [] '' ('';
               b2 = (if encoders info \<noteq> []
                     then strncat_names buflen (strncat_buf buflen b1 (TERM_BOLD @ ''encoders:'' @ TERM_RESET)) (encoders info)
                     else b1);
               b3 = (if decoders info \<noteq> []
                     then strncat_names buflen
                            (strncat_buf buflen (if encoders info \<noteq> [] then strncat_buf buflen b2 ''; '' else b2)
                               (TERM_BOLD @ ''decoders:'' @ TERM_RESET))
                            (decoders info)
                     else b2)
           in Some (strncat_buf buflen b3 '')''))"

text \<open>What a buffer of \<open>buflen\<close> bytes can hold of a text, and the text the
  \<open>strncat\<close> chain would write into an unbounded buffer.\<close>

definition buf_trunc :: "size_t \<Rightarrow> string \<Rightarrow> string" where
  "buf_trunc buflen s = take (unat buflen - 1) s"

definition codec_details_full :: "codec_encoders_decoders \<Rightarrow> string" where
  "codec_details_full info =
     (if encoders info = [] \<and> decoders info = [] then []
      else '' ('' @
           (if encoders info \<noteq> [] then TERM_BOLD @ ''encoders:'' @ TERM_RESET @ concat (map (\<lambda>e. CHR '' '' # e) (encoders info)) else []) @
           (if decoders info \<noteq> []
            then (if encoders info \<noteq> [] then ''; '' else []) @ TERM_BOLD @ ''decoders:'' @ TERM_RESET @
                 concat (map (\<lambda>d. CHR '' '' # d) (decoders info))
            else []) @ '')'')"

section \<open>\<open>get_libavcodec_module_info\<close> and \<open>usage()\<close>\<close>

text \<open>\<open>std::map<codec_t, codec_params_t>\<close> iterates its keys in the order of the
  \<open>codec_t\<close> enumeration.\<close>

definition all_codecs :: "codec_t list" where
  "all_codecs = [VIDEO_CODEC_NONE, H264, H265, MJPG, J2K, VP8, VP9, HFYU, FFV1, AV1, PRORES,
                 UYVY, YUYV, V210, RGB, RGBA, R10k, R12L, I420]"

definition codec_params_keys :: "codec_t list" where
  "codec_params_keys = filter (\<lambda>c. codec_params c \<noteq> None) all_codecs"

text \<open>\<open>module_option\<close>, \<open>encoder\<close>, \<open>codec\<close> and \<open>compress_module_info\<close> of
  \<open>compress_module_info.h\<close>.\<close>

record module_option =
  mo_display_name :: string
  mo_display_desc :: string
  mo_key :: string
  mo_opt_str :: string
  mo_is_boolean :: bool

record encoder_opt =
  enc_display :: string
  enc_opt :: string

record codec_info =
  ci_name :: string
  ci_priority :: int
  ci_encoders :: "encoder_opt list"

record compress_module_info =
  cmi_name :: string
  cmi_opts :: "module_option list"
  cmi_codecs :: "codec_info list"

text \<open>The five options \<open>get_libavcodec_module_info\<close> lists.\<close>

definition libavcodec_module_opts :: "module_option list" where
  "libavcodec_module_opts =
     [\<lparr>mo_display_name = ''Bitrate'', mo_display_desc = ''Bitrate'', mo_key = ''quality'',
       mo_opt_str = '':bitrate='', mo_is_boolean = False\<rparr>,
      \<lparr>mo_display_name = ''Crf'', mo_display_desc = ''specifies CRF factor (only for libx264/libx265)'',
       mo_key = ''crf'', mo_opt_str = '':crf='', mo_is_boolean = False\<rparr>,
      \<lparr>mo_display_name = ''Disable intra refresh'',
       mo_display_desc = ''Do not use Periodic Intra Refresh (H.264/H.265)'',
       mo_key = ''disable_intra_refresh'', mo_opt_str = '':disable_intra_refresh'', mo_is_boolean = True\<rparr>,
      \<lparr>mo_display_name = ''Subsampling'',
       mo_display_desc = ''may be one of 444, 422, or 420, default 420 for progresive, 422 for interlaced'',
       mo_key = ''subsampling'', mo_opt_str = '':subsampling='', mo_is_boolean = False\<rparr>,
      \<lparr>mo_display_name = ''Lavc opt'',
       mo_display_desc = ''arbitrary option to be passed directly to libavcodec (eg. preset=veryfast), eventual colons must be backslash-escaped (eg. for x264opts)'',
       mo_key = ''lavc_opt'', mo_opt_str = '':'', mo_is_boolean = False\<rparr>]"

text \<open>The loop over \<open>codec_params\<close>: codecs FFmpeg has no id or no encoder for are
  skipped; each other gets its priority, the "default" encoder and one entry per
  encoder of its id.\<close>

fun module_codecs_loop :: "lavc_env \<Rightarrow> av_codec_entry list \<Rightarrow> (codec_t \<Rightarrow> string) \<Rightarrow> codec_t list \<Rightarrow>
    codec_info list \<Rightarrow> codec_info list" where
  "module_codecs_loop env reg get_codec_name [] acc = acc"
| "module_codecs_loop env reg get_codec_name (c # cs) acc =
     (let avID = get_ug_to_av_codec c
      in if avID = AV_CODEC_ID_NONE then module_codecs_loop env reg get_codec_name cs acc
         else if avcodec_find_encoder env avID = None then module_codecs_loop env reg get_codec_name cs acc
         else
           let nm = get_codec_name c;
               coders = get_codec_encoders_decoders reg avID;
               info = \<lparr>ci_name = nm,
                       ci_priority = (case codec_params c of Some p \<Rightarrow> capabilities_priority p | None \<Rightarrow> 0),
                       ci_encoders = \<lparr>enc_display = ''default'', enc_opt = '':codec='' @ nm\<rparr> #
                         map (\<lambda>e. \<lparr>enc_display = e, enc_opt = '':encoder='' @ e\<rparr>) (encoders coders)\<rparr>
           in module_codecs_loop env reg get_codec_name cs (acc @ [info]))"

definition get_libavcodec_module_info :: "lavc_env \<Rightarrow> av_codec_entry list \<Rightarrow> (codec_t \<Rightarrow> string) \<Rightarrow>
    compress_module_info" where
  "get_libavcodec_module_info env reg get_codec_name =
     \<lparr>cmi_name = ''libavcodec'', cmi_opts = libavcodec_module_opts,
      cmi_codecs = module_codecs_loop env reg get_codec_name codec_params_keys []\<rparr>"

text \<open>The codec list of \<open>usage()\<close>: for every \<open>codec_params\<close> key FFmpeg knows,
  \<open>avail[1024]\<close> holds "available" or "not available" followed by the details written
  into the rest of the buffer.\<close>

definition usage_avail :: "lavc_env \<Rightarrow> av_codec_entry list \<Rightarrow> av_codec_id \<Rightarrow> string" where
  "usage_avail env reg avID =
     (let a = (if avcodec_find_encoder env avID \<noteq> None then ''available'' else ''not available'')
      in case get_codec_details reg avID (1024 - of_nat (length a)) of
           None \<Rightarrow> a
         | Some d \<Rightarrow> a @ d)"

fun usage_codec_lines :: "lavc_env \<Rightarrow> av_codec_entry list \<Rightarrow> (codec_t \<Rightarrow> string) \<Rightarrow> codec_t list \<Rightarrow> string list" where
  "usage_codec_lines env reg gn [] = []"
| "usage_codec_lines env reg gn (c # cs) =
     (let avID = get_ug_to_av_codec c
      in if avID = AV_CODEC_ID_NONE then usage_codec_lines env reg gn cs
         else (CHR 0x09 # gn c @ '' - '' @ usage_avail env reg avID @ ''\<newline>'') # usage_codec_lines env reg gn cs)"

text \<open>The verbose log lines of \<open>print_codec_supp_pix_fmts\<close> and \<open>print_pix_fmts\<close>
  (\<open>SBOLD\<close> markup left out).\<close>

definition print_codec_supp_pix_fmts :: "(av_pixfmt \<Rightarrow> string) \<Rightarrow> av_pixfmt list option \<Rightarrow> string" where
  "print_codec_supp_pix_fmts av_get_pix_fmt_name first =
     ''[lavc] Codec supported pixel formats:'' @
     (case first of None \<Rightarrow> '' (none)'' | Some fs \<Rightarrow> concat (map (\<lambda>f. CHR '' '' # av_get_pix_fmt_name f) fs)) @
     ''\<newline>''"

definition print_pix_fmts :: "(av_pixfmt \<Rightarrow> string) \<Rightarrow> av_pixfmt list \<Rightarrow> av_pixfmt list option \<Rightarrow> string list" where
  "print_pix_fmts av_get_pix_fmt_name req_pix_fmts first =
     [print_codec_supp_pix_fmts av_get_pix_fmt_name first,
      ''[lavc] Supported pixel formats:'' @ concat (map (\<lambda>f. CHR '' '' # av_get_pix_fmt_name f) req_pix_fmts) @
      ''\<newline>'']"

section \<open>\<open>show_encoder_help\<close>\<close>

text \<open>An entry of an encoder's \<open>priv_class->option\<close> table: name, help text (NULL
  is None), \<open>offset\<close> (0 for the named constants of an option), type and default.
  \<open>std::to_string\<close> of a \<open>double\<close> is a parameter.\<close>

datatype av_opt_type =
    AV_OPT_TYPE_FLOAT | AV_OPT_TYPE_DOUBLE | AV_OPT_TYPE_CONST | AV_OPT_TYPE_INT64
  | AV_OPT_TYPE_INT | AV_OPT_TYPE_BOOL | AV_OPT_TYPE_STRING | AV_OPT_TYPE_OTHER

record av_option =
  opt_name :: string
  opt_help :: "string option"
  opt_offset :: int
  opt_type :: av_opt_type
  opt_default_dbl :: real
  opt_default_i64 :: int
  opt_default_str :: "string option"

text \<open>The default shown after an option that has storage (\<open>offset != 0\<close>).\<close>

definition help_default_val :: "(real \<Rightarrow> string) \<Rightarrow> av_option \<Rightarrow> string" where
  "help_default_val to_string_dbl opt =
     (if opt_offset opt = 0 then []
      else
        let dv = (if opt_type opt = AV_OPT_TYPE_FLOAT \<or> opt_type opt = AV_OPT_TYPE_DOUBLE
                  then to_string_dbl (opt_default_dbl opt) @ ''F''
                  else if opt_type opt \<in> {AV_OPT_TYPE_CONST, AV_OPT_TYPE_INT64, AV_OPT_TYPE_INT, AV_OPT_TYPE_BOOL}
                  then int_to_string (opt_default_i64 opt)
                  else (case (opt_type opt, opt_default_str opt) of
                          (AV_OPT_TYPE_STRING, Some d) \<Rightarrow> CHR 0x22 # d @ [CHR 0x22]
                        | _ \<Rightarrow> []))
        in if dv = [] then [] else '', default '' @ dv)"

definition help_option_line :: "(real \<Rightarrow> string) \<Rightarrow> av_option \<Rightarrow> string" where
  "help_option_line to_string_dbl opt =
     (if opt_offset opt = 0 then [CHR 0x09, CHR 0x09, CHR ''*'', CHR '' ''] else [CHR 0x09, CHR ''-'', CHR '' '']) @
     opt_name opt @
     (case opt_help opt of Some h \<Rightarrow> if h \<noteq> [] then '' - '' @ h else [] | None \<Rightarrow> []) @
     help_default_val to_string_dbl opt @ ''\<newline>''"

text \<open>The encoder (or, failing that, the decoder) of the name and its option table
  (None when \<open>priv_class->option\<close> is NULL).\<close>

record help_env =
  find_encoder_opts :: "string \<Rightarrow> av_option list option option"
  find_decoder_opts :: "string \<Rightarrow> av_option list option option"
  to_string_dbl :: "real \<Rightarrow> string"

definition show_encoder_help :: "help_env \<Rightarrow> string \<Rightarrow> string list" where
  "show_encoder_help env name =
     (let hdr = ''Options for '' @ name @ '':\<newline>'';
          codec = (case find_encoder_opts env name of Some c \<Rightarrow> Some c | None \<Rightarrow> find_decoder_opts env name)
      in case codec of
           None \<Rightarrow> [hdr, ''[lavc] Unable to find encoder '' @ name @ ''!\<newline>'']
         | Some None \<Rightarrow> [hdr]
         | Some (Some opts) \<Rightarrow>
             hdr # map (help_option_line (to_string_dbl env)) opts @
             (if name = ''libx264'' \<or> name = ''libx265''
              then [''(options for '' @ drop 3 name @ ''-params should be actually separated by '' @
                    [CHR 0x27, CHR 0x5C, CHR '':'', CHR 0x27] @ '', not '' @ [CHR 0x27, CHR '':'', CHR 0x27] @
                    '' as indicated above)\<newline>'']
              else []) @
             (if name = ''hevc_qsv'' \<or> name = ''h264_qsv''
              then [''\<newline>'' @ [CHR 0x09] @ ''- rc - [UltraGrid specific] rate control mode: cbr, cqp, icq, qvbr or vbr\<newline>'']
              else []))"

section \<open>Properties\<close>

lemma codec_iterate_loop_filter:
  "codec_iterate_loop cid cs res =
     \<lparr>encoders = encoders res @ map ent_name (filter (\<lambda>c. ent_is_encoder c \<and> ent_id c = cid) cs),
      decoders = decoders res @ map ent_name (filter (\<lambda>c. ent_is_decoder c \<and> ent_id c = cid) cs)\<rparr>"
  by (induction cid cs res rule: codec_iterate_loop.induct) (simp_all add: Let_def)

lemma strncat_count:
  fixes w :: size_t
  assumes "n < unat w"
  shows "unat (w - of_nat n - 1) = unat w - n - 1"
proof -
  have l: "unat (of_nat n :: size_t) = n"
    using assms by (metis le_unat_uoi less_imp_le)
  have lt: "of_nat n < w" using assms l by (metis word_less_nat_alt)
  have s: "unat (w - of_nat n) = unat w - n"
    using lt l by (metis unat_sub less_imp_le)
  have "w - of_nat n \<noteq> 0" using lt by (metis eq_iff_diff_eq_0 less_irrefl)
  then show ?thesis using s by (metis unat_minus_one diff_diff_left)
qed

lemma strncat_buf_take:
  assumes "0 < unat buflen"
  shows "strncat_buf buflen (take (unat buflen - 1) a) b = take (unat buflen - 1) (a @ b)"
proof -
  have "length (take (unat buflen - 1) a) < unat buflen" using assms by simp
  then have "unat (buflen - of_nat (length (take (unat buflen - 1) a)) - 1) =
             unat buflen - 1 - length (take (unat buflen - 1) a)"
    by (simp add: strncat_count)
  then show ?thesis
    by (cases "length a \<le> unat buflen - 1") (simp_all add: strncat_buf_def c_strncat_def take_append min_def)
qed

lemma strncat_buf_trunc:
  "0 < unat buflen \<Longrightarrow> strncat_buf buflen (buf_trunc buflen a) b = buf_trunc buflen (a @ b)"
  unfolding buf_trunc_def by (rule strncat_buf_take)

lemma buf_trunc_Nil [simp]: "buf_trunc buflen [] = []"
  by (simp add: buf_trunc_def)

lemma strncat_buf_Nil:
  "0 < unat buflen \<Longrightarrow> strncat_buf buflen [] b = buf_trunc buflen b"
  using strncat_buf_take [of buflen "[]" b] by (simp add: buf_trunc_def)

lemma strncat_names_trunc:
  "0 < unat buflen \<Longrightarrow>
   strncat_names buflen (buf_trunc buflen a) ns = buf_trunc buflen (a @ concat (map (\<lambda>n. CHR '' '' # n) ns))"
proof (induction ns arbitrary: a)
  case (Cons n ns)
  then show ?case by (simp add: strncat_buf_trunc)
qed simp

theorem get_codec_details_trunc:
  "get_codec_details reg cid buflen =
     (if buflen = 0 then None
      else Some (buf_trunc buflen (codec_details_full (get_codec_encoders_decoders reg cid))))"
proof (cases "buflen = 0")
  case False
  then have p: "0 < unat buflen" by (simp add: unat_gt_0)
  show ?thesis
    using False p by (simp add: get_codec_details_def codec_details_full_def Let_def strncat_buf_Nil
        strncat_buf_trunc strncat_names_trunc)
qed (simp add: get_codec_details_def)


lemma get_codec_details_bound:
  assumes "get_codec_details reg cid buflen = Some d"
  shows "length d < unat buflen"
proof -
  have "buflen \<noteq> 0" using assms by (auto simp: get_codec_details_trunc split: if_splits)
  then have "0 < unat buflen" by (simp add: unat_gt_0)
  moreover have "length d \<le> unat buflen - 1"
    using assms by (auto simp: get_codec_details_trunc buf_trunc_def split: if_splits)
  ultimately show ?thesis by arith
qed

lemma module_codecs_loop_filter:
  "module_codecs_loop env reg gn cs acc =
     acc @ map (\<lambda>c. \<lparr>ci_name = gn c,
                      ci_priority = (case codec_params c of Some p \<Rightarrow> capabilities_priority p | None \<Rightarrow> 0),
                      ci_encoders = \<lparr>enc_display = ''default'', enc_opt = '':codec='' @ gn c\<rparr> #
                        map (\<lambda>e. \<lparr>enc_display = e, enc_opt = '':encoder='' @ e\<rparr>)
                          (encoders (get_codec_encoders_decoders reg (get_ug_to_av_codec c)))\<rparr>)
             (filter (\<lambda>c. get_ug_to_av_codec c \<noteq> AV_CODEC_ID_NONE \<and>
                          avcodec_find_encoder env (get_ug_to_av_codec c) \<noteq> None) cs)"
  by (induction env reg gn cs acc rule: module_codecs_loop.induct) (simp_all add: Let_def)

lemma usage_avail_fits:
  "length (usage_avail env reg avID) < 1024"
proof -
  define a where "a = (if avcodec_find_encoder env avID \<noteq> None then ''available'' else ''not available'')"
  have la: "length a \<le> 13" by (simp add: a_def)
  have k: "unat (1024 :: size_t) = 1024" by simp
  have l: "unat (of_nat (length a) :: size_t) = length a"
    using la k le_unat_uoi [of "length a" "1024 :: size_t"] by simp
  have u: "unat (1024 - of_nat (length a) :: size_t) = 1024 - length a"
    using la k l by (subst unat_sub) (simp_all add: word_le_nat_alt)
  have e: "usage_avail env reg avID =
            (case get_codec_details reg avID (1024 - of_nat (length a)) of None \<Rightarrow> a | Some d \<Rightarrow> a @ d)"
    unfolding usage_avail_def Let_def a_def by (rule refl)
  show ?thesis
  proof (cases "get_codec_details reg avID (1024 - of_nat (length a))")
    case (Some d)
    then have "length d < 1024 - length a" using get_codec_details_bound [OF Some] u by simp
    then show ?thesis using Some e by simp
  qed (use e la in simp)
qed


text \<open>C39: the availability text \<open>usage()\<close> prints for a codec is \<open>available\<close> or
  \<open>not available\<close> followed by the untruncated codec details (encoders and decoders
  with their separators) cut to the room left in the 1024-byte buffer: the chain of
  bounded \<open>strncat\<close> calls on \<open>size_t\<close> lengths in \<open>get_codec_details\<close> never wraps and
  loses nothing but the tail.\<close>

theorem usage_avail_trunc:
  "usage_avail env reg avID =
     (if avcodec_find_encoder env avID \<noteq> None then ''available'' else ''not available'') @
       take (1023 - length (if avcodec_find_encoder env avID \<noteq> None then ''available'' else ''not available''))
         (codec_details_full (get_codec_encoders_decoders reg avID))"
proof -
  define a where "a = (if avcodec_find_encoder env avID \<noteq> None then ''available'' else ''not available'')"
  have la: "length a \<le> 13" by (simp add: a_def)
  have k: "unat (1024 :: size_t) = 1024" by simp
  have l: "unat (of_nat (length a) :: size_t) = length a"
    using la k le_unat_uoi [of "length a" "1024 :: size_t"] by simp
  have u: "unat (1024 - of_nat (length a) :: size_t) = 1024 - length a"
    using la k l by (subst unat_sub) (simp_all add: word_le_nat_alt)
  have nz: "(1024 - of_nat (length a) :: size_t) \<noteq> 0"
  proof
    assume "(1024 - of_nat (length a) :: size_t) = 0"
    then show False using u la by simp
  qed
  have e: "usage_avail env reg avID =
            (case get_codec_details reg avID (1024 - of_nat (length a)) of None \<Rightarrow> a | Some d \<Rightarrow> a @ d)"
    unfolding usage_avail_def Let_def a_def by (rule refl)
  show ?thesis
    unfolding e a_def [symmetric] get_codec_details_trunc using nz u by (simp add: buf_trunc_def)
qed


lemma help_default_val_offset:
  "help_default_val f opt \<noteq> [] \<Longrightarrow> opt_offset opt \<noteq> 0"
  by (simp add: help_default_val_def split: if_splits)

end
