(* ===== verification/Lavc_Vaapi.thy ===== *)
theory Lavc_Vaapi
  imports Lavc_Common
begin

text \<open>
  \<open>vaapi_init\<close> of \<open>src/src/video_compress/libavcodec.cpp\<close> (built with
  \<open>HWACC_VAAPI\<close>): it creates a VA-API device context and a hardware frame pool for
  the codec context.  The helpers \<open>create_hw_device_ctx\<close> and \<open>create_hw_frame_ctx\<close>
  are collaborators given by their return codes; a buffer reference is alive from
  its creation until \<open>av_buffer_unref\<close>, and the frame pool handed to the codec
  context is owned by it.  The lemmas show the pool size and that every path
  releases the references it does not hand over.
\<close>

unbundle bit_operations_syntax

definition FF_THREAD_FRAME :: int where "FF_THREAD_FRAME = 1"

text \<open>The return codes of the two helpers (negative on failure); the frame pool
  helper is asked with the pool size.\<close>

record hw_env =
  hw_device_rc :: int
  hw_frames_rc :: "int \<Rightarrow> int"

datatype hw_ref = Device_Ref | Frames_Ref

text \<open>The outcome: the return code, the pool size asked for (when the device
  context exists), whether \<open>s->hw_frames_ctx\<close> was set, and the references still held
  by the function's locals after it returns.\<close>

record vaapi_result =
  va_ret :: int
  va_pool_size :: "int option"
  va_ctx_frames :: bool
  va_leaked :: "hw_ref set"

text \<open>\<open>av_buffer_unref\<close> drops a reference (a NULL one is ignored).\<close>

definition av_buffer_unref :: "hw_ref \<Rightarrow> hw_ref set \<Rightarrow> hw_ref set" where
  "av_buffer_unref r held = held - {r}"

text \<open>The \<open>fail:\<close> label: unref the frame pool and the device.\<close>

definition vaapi_fail :: "int \<Rightarrow> int option \<Rightarrow> hw_ref set \<Rightarrow> vaapi_result" where
  "vaapi_fail ret pool held =
     \<lparr>va_ret = ret, va_pool_size = pool, va_ctx_frames = False,
      va_leaked = av_buffer_unref Device_Ref (av_buffer_unref Frames_Ref held)\<rparr>"

definition vaapi_init :: "hw_env \<Rightarrow> int \<Rightarrow> codec_ctx \<Rightarrow> vaapi_result" where
  "vaapi_init env active_thread_type s =
     (let pool_size0 = 20
      in if hw_device_rc env < 0 then vaapi_fail (hw_device_rc env) None {}
         else
           let held0 = {Device_Ref};
               pool_size = (if active_thread_type AND FF_THREAD_FRAME \<noteq> 0
                            then pool_size0 + thread_count s else pool_size0);
               ret = hw_frames_rc env pool_size
           in if ret < 0 then vaapi_fail ret (Some pool_size) held0
              else
                let held1 = insert Frames_Ref held0;
                    held2 = held1 - {Frames_Ref}
                in \<lparr>va_ret = 0, va_pool_size = Some pool_size, va_ctx_frames = True,
                    va_leaked = av_buffer_unref Device_Ref held2\<rparr>)"

lemma vaapi_init_no_leak: "va_leaked (vaapi_init env att s) = {}"
  by (auto simp: vaapi_init_def vaapi_fail_def av_buffer_unref_def Let_def)

lemma vaapi_init_ret:
  "va_ret (vaapi_init env att s) = 0 \<longleftrightarrow> va_ctx_frames (vaapi_init env att s)"
  by (simp add: vaapi_init_def vaapi_fail_def Let_def)

lemma vaapi_init_pool_unopened:
  "hw_device_rc env \<ge> 0 \<Longrightarrow> va_pool_size (vaapi_init env 0 s) = Some 20"
  by (simp add: vaapi_init_def vaapi_fail_def Let_def)

end
