(* ===== verification/Spec2Isabelle.thy ===== *)
theory Spec2Isabelle
  imports Lavc_Negotiate Lavc_Tuner_Props Lavc_Pipeline_Frame CoreAudio_Playback SDL_Mixer_Capture
    HDStation_Capture Lavc_Common_Util Lavc_Module_Info Lavc_Vaapi
begin

text \<open>
  A shallow embedding of UltraGrid's libavcodec video compression module
  (\<open>src/src/video_compress/libavcodec.cpp\<close> with the helpers of
  \<open>src/src/libavcodec/lavc_common.c\<close>), of two audio drivers,
  \<open>src/src/audio/playback/coreaudio.cpp\<close> and \<open>src/src/audio/capture/sdl_mixer.c\<close>,
  and of the DVS HDstation video capture \<open>src/ultragrid/src/video_capture/hdstation.c\<close>.

  \<^bold>\<open>The compression module.\<close>  A user configuration string (\<open>-c lavc:...\<close>) is
  parsed into a request; on each frame whose description changed, the module selects
  an encoder, negotiates the pixel format by trial-opening the encoder, tunes the
  codec context for the encoder family and sets up the conversion; then it encodes
  the frame, appends the packets to the output tile, watches the encoding time and
  applies reconfiguration messages.  The theories follow that order:

  \<^item> \<open>Lavc_Prelude\<close>: the C/C++ library primitives the code calls (\<open>strstr\<close>,
    \<open>strtok_r\<close>, \<open>atoi\<close>, \<open>stoi\<close>, \<open>toupper\<close>, truncating division and conversion, the
    \<open>double\<close> with NaN) and an ordered map for \<open>std::map<string,string>\<close>, written
    out executably; the collection \<open>lavc_str\<close> evaluates them.
  \<^item> \<open>Lavc_Common\<close>: the codec tables and queries of \<open>lavc_common.c\<close>
    (\<open>get_av_to_ug_codec\<close>, \<open>get_ug_to_av_codec\<close>, the log-level maps,
    \<open>pixfmt_has_420_subsampling\<close>), the UltraGrid codec and video description types,
    the FFmpeg context \<open>codec_ctx\<close>, and \<open>lavc_env\<close>: a record of everything FFmpeg
    and the rest of UltraGrid answer (encoders, pixel-format descriptors, option
    acceptance, the conversion registry), with \<open>demo_env\<close> a concrete instance.
  \<^item> \<open>Lavc_Options\<close>: \<open>struct state_video_compress_libav\<close>'s request fields
    (\<open>lavc_cfg\<close>, an extensible record) and \<open>parse_fmt\<close>, item by item in the order of
    its if-chain (\<open>parse_item\<close>, \<open>parse_items\<close>).
  \<^item> \<open>Lavc_Registry\<close>: the \<open>codec_params\<close> table with its function pointers as
    datatypes, the preset resolvers and \<open>get_av_codec\<close> with one error value per
    NULL return.
  \<^item> \<open>Lavc_Negotiate\<close>: \<open>get_requested_pix_fmts\<close>, \<open>apply_blacklist\<close>,
    \<open>get_first_matching_pix_fmt\<close> and both trial-open loops of \<open>configure_with\<close>,
    generic in the trial open (a function on any state type).
  \<^item> \<open>Lavc_Tuner\<close>: \<open>set_codec_ctx_params\<close> and every \<open>setparam_*\<close>/\<open>configure_*\<close>
    tuner, the quality policy, \<open>set_codec_thread_mode\<close>; \<open>exit_uv\<close>, assertions and
    uncaught exceptions are values.  \<open>Lavc_Tuner_Props\<close> holds its properties.
  \<^item> \<open>Lavc_Pipeline\<close>: the module state (\<open>lavc_state\<close> extends \<open>lavc_cfg\<close>),
    \<open>try_open_codec\<close> (the trial open the negotiation is instantiated with),
    \<open>configure_swscale\<close>, \<open>configure_with\<close>, \<open>cleanup\<close>, the monitor \<open>check_duration\<close>,
    \<open>write_orig_format\<close>, \<open>libavcodec_check_messages\<close>, the receive loop
    \<open>append_packets\<close>, \<open>encode_frame\<close>, \<open>libavcodec_compress_tile\<close>, init and done.
    The per-frame collaborator results (conversion, send, packets, durations) are a
    record \<open>tile_in\<close>; a NULL dereference or failed assertion is \<open>Tile_Crash\<close>.
    \<open>Lavc_Pipeline_Props\<close> and \<open>Lavc_Pipeline_Frame\<close> hold its properties.
  \<^item> \<open>Lavc_Common_Util\<close>: the rest of \<open>lavc_common.c\<close>, shared with the decoders: the
    error printers, FFmpeg's log callback \<open>av_log_ug_callback\<close> with its \<open>static\<close>
    \<open>nl_presented\<close> passed explicitly, \<open>av_pixfmt_get_desc\<close>, \<open>print_decoder_error\<close>
    and the drain \<open>lavd_flush\<close>, whose receive loop is a \<open>partial_function (option)\<close>
    over the decoder's answers.
  \<^item> \<open>Lavc_Module_Info\<close>: the module's self-description: the walk over FFmpeg's
    codec list, \<open>get_codec_details\<close> (bounded \<open>strncat\<close> calls with \<open>size_t\<close> as a
    64-bit word), the codec list of \<open>usage()\<close>, \<open>get_libavcodec_module_info\<close> and the
    pixel-format log lines.
  \<^item> \<open>Lavc_Vaapi\<close>: \<open>vaapi_init\<close> (the VA-API frame pool of a context), with the
    buffer references it holds at each step; the pipeline takes its outcome as the
    environment's \<open>vaapi_init_ok\<close>.

  \<^bold>\<open>The audio drivers.\<close>  \<open>Audio_Common\<close> has \<open>audio_desc\<close>, \<open>audio_frame\<close> and the
  ring buffer as an interface record over a type variable (its code is not among
  the modelled sources); the driver lemmas hold for every ring, and the list FIFO
  \<open>fifo_ring\<close> runs them on inputs.  \<open>CoreAudio_Playback\<close> models the driver
  against the AUHAL output unit (phase, device, format, callback) with the status of
  each AudioUnit call in a record \<open>ca_host\<close>.  \<open>audio_play_ca_reconfigure\<close> is the
  composition of its two parts, \<open>ca_reconf_destroy\<close> (the description set and the
  ring destroyed and set to NULL, lines 119--124) and \<open>ca_reconf_rest\<close> (the new
  ring and the AudioUnit calls, lines 126--191).  The step relation \<open>ca_step\<close> has
  each part as a step of the audio thread, \<open>put_frame\<close> as another, and the render
  callback, CoreAudio's thread, as a step allowed whenever the unit runs, also
  between the two parts; \<open>ca_reach\<close> is the set of states reachable from a
  successful init.  The render call in the window between the parts finds the
  ring NULL (\<open>render_null_race\<close>), and outside the window it never does.  \<open>SDL_Mixer_Capture\<close> models
  \<open>parse_opts\<close>, init with each error exit and the sample-width assertion, the
  effect callback, read, \<open>load_song1\<close>, \<open>try_open_soundfont\<close>, probe and the resources
  \<open>done\<close> releases; \<open>CoreAudio_Playback\<close> also has the device listing
  \<open>audio_play_ca_help\<close> with its error exits.

  \<^bold>\<open>The HDstation capture.\<close>  \<open>HDStation_Capture\<close> models
  \<open>vidcap_hdstation_grab_thread\<close> (the worker) and \<open>vidcap_hdstation_grab\<close> with
  \<open>vidcap_hdstation_done\<close> (the boss) as two program counters over
  \<open>struct vidcap_hdstation_state\<close>: \<open>worker_step\<close> and \<open>boss_step\<close> are one step of
  each thread, where code between a lock and the next unlock or wait is atomic and
  \<open>pthread_cond_wait\<close> is release, wake (signalled or spurious) and reacquire;
  \<open>hd_next\<close> interleaves them and \<open>hd_reach\<close> is the set of states reachable from the
  state \<open>init\<close> starts the thread on.  \<open>done\<close> marks the state freed, and a worker
  step on a freed state is the use after free \<open>WP_Crash\<close>.  \<open>settings_init\<close>,
  \<open>set_xy_size\<close>, probe and init are functions of the DVS SDK's answers
  (\<open>dvs_env\<close>) and of the handles and heap blocks the module owns (\<open>dvs_world\<close>).
  The invariant \<open>hd_inv\<close> (lock owner, waiting flags and \<open>work_to_do\<close> against the
  program counters, hand-over counts) holds in every reachable state before
  \<open>done\<close>; from it follow mutual exclusion, deadlock freedom and the NULL first
  frame.  A concrete schedule (\<open>hd_race_trace\<close>) reaches a state where the next DMA
  overwrites the frame the caller holds.

  \<^bold>\<open>What is proved.\<close>  For each component: functional behaviour of the
  operations on their branches, error paths as values (the parser's partial writes,
  encoder selection's early failure, QSV rate-control errors, the CoreAudio error
  chain), invariants (the parser keeps the request well-formed, the thread type is
  supported, the monitor reports at most once, \<open>hwenc\<close> is never reset, outside
  a reconfiguration no NULL ring is read in a reachable CoreAudio state),
  refinement of the negotiation by a \<open>find\<close>-based reference, termination of the trial loops with a bound on the trial opens, mutual exclusion
  and deadlock freedom of the HDstation hand-over, the bit layout of
  the original-format byte, the 32- and 64-bit bounds of the receive loop's
  assertion, the two's-complement wrap of the render callback's byte count, the
  render call that finds the ring NULL during a reconfiguration, and liveness of the monitor
  under sustained load.  For the rest of \<open>lavc_common.c\<close>: \<open>lavd_flush\<close> returns
  exactly when the decoder eventually answers with an error, and a log line longer
  than the callback's buffer glues the next message to it.  For the module's
  self-description: the bounded \<open>strncat\<close> chain of \<open>get_codec_details\<close> equals the
  untruncated text cut to \<open>buflen - 1\<close> characters, and the availability text of
  \<open>usage()\<close> is that text cut to the room left in its 1024-byte buffer.  For the HDstation capture: the hand-over invariant, mutual exclusion,
  deadlock freedom and the NULL first frame, and, as reachable behaviour, the
  overwritten buffer, the use after free after \<open>done\<close> and the handle leaked by
  init.  Several theorems state code behaviour that differs from the spec or from
  the code's own intent (listed as findings of the manifest).

  \<^bold>\<open>Bounds and fuel.\<close>  No definition uses fuel: every loop of the code but one is
  structural recursion over a list (tokens, candidates, packets, messages, frames),
  and the trial-open loop is a \<open>function\<close> whose measure is the length of the
  candidate suffix.  The exception is \<open>lavd_flush\<close>'s receive loop, which ends only
  when the decoder answers with an error: it is a \<open>partial_function (option)\<close>, and
  its termination is proved as such (it returns iff some answer is negative).  Machine integers are kept at their width where the code can
  wrap: the 32-bit \<open>width * height\<close> of the bitrate estimate, the 8-bit original
  format byte computed in 32 bits, the \<open>unsigned\<close>/\<open>size_t\<close> sides of the receive
  assertion and the \<open>UInt32\<close> product of the render callback.  Sizes that are products
  of small factors (audio ring sizes) are integers.  The grab thread's endless
  \<open>while (1)\<close> loop is not a function at all: it is the step relation \<open>hd_next\<close>, and
  a run is a finite schedule of events (\<open>hd_run\<close>), so properties of every run are
  stated over \<open>hd_reach\<close>.

  \<^bold>\<open>Not modelled.\<close>  The fixed text of \<open>usage()\<close>, \<open>show_encoder_help\<close>
  (FFmpeg's option table printed) and module registration (\<open>REGISTER_MODULE\<close>,
  \<open>libavcodec_info\<close>) are output or registration only; FFmpeg, SDL, CoreAudio and the ring buffer are collaborators given by their
  results; the drain loop of \<open>cleanup\<close>, logging, timing output and ProRes's codec tag
  are not modelled.  In \<open>hdstation.c\<close> the DVS
  calls inside the grab thread (\<open>sv_fifo_vsyncwait\<close>, \<open>sv_fifo_getbuffer\<close>,
  \<open>sv_fifo_putbuffer\<close>) are given by their outcome (a DMA into the next buffer, or a
  failed \<open>getbuffer\<close>), and the sizes of the frame are not checked against
  \<open>int\<close> overflow.  \<open>src/src/video_display/sage.h\<close> declares the SAGE display
  interface's prototypes and \<open>src/src/config_msvc.h\<close> holds preprocessor macros
  for the MSVC build: neither contains a statement to translate.  In
  \<open>lavc_common.c\<close> the \<open>printf\<close> expansion of log arguments is not modelled (a
  message is its format string).
\<close>

end
